(* ===== verification/Prelude.thy ===== *)
theory Prelude
  imports Main "HOL-Library.AList" "HOL-Library.Multiset"
begin

text \<open>
  The shared ground of the development: Go errors, the outcome of a Go call (a value, a panic,
  or blocking for ever), the state-passing monad every stateful function is written in, Go's
  slice indexing, \<open>range\<close> loops and randomised map iteration, the processes' common state
  (the environment and the log of executed commands), the parameter \<open>host\<close> that stands for
  everything outside the repository, and the small calculus the component proofs use:
  \<open>wpe\<close> (weakest preconditions), \<open>emits\<close> (which commands a function may run) and
  \<open>keeps\<close> (which parts of the state it leaves alone).
\<close>

named_theorems wpe_simps "weakest-precondition equations of the Go monad"
named_theorems emits_intros "introduction rules for emits"
named_theorems keeps_intros "introduction rules for keeps"
named_theorems go_eval "equations that run a Go computation on a given state"

section \<open>Errors and outcomes\<close>

text \<open>
  A Go error value. \<open>Errorf\<close> is what \<open>fmt.Errorf\<close> and \<open>errors.New\<close> build,
  \<open>StatusError\<close> is the API server's error with its HTTP code, \<open>NotExistErr\<close> the path
  error of a missing file, \<open>OtherErr\<close> any error
  of another dynamic type; the string is what \<open>Error()\<close> returns. \<open>nil\<close> is
  \<open>None\<close> of \<open>goerr option\<close>, and \<open>reflect.DeepEqual\<close> on errors is equality.
\<close>

datatype goerr = Errorf string | StatusError int string | NotExistErr string | OtherErr string

fun Error :: "goerr \<Rightarrow> string" where
  "Error (Errorf m) = m"
| "Error (StatusError c m) = m"
| "Error (NotExistErr m) = m"
| "Error (OtherErr m) = m"

text \<open>\<open>errors.IsNotFound\<close> of the API machinery: the reason behind HTTP code 404.\<close>

fun IsNotFound :: "goerr \<Rightarrow> bool" where
  "IsNotFound (StatusError c m) = (c = 404)"
| "IsNotFound _ = False"

text \<open>\<open>os.IsNotExist\<close>.\<close>

fun IsNotExist :: "goerr \<Rightarrow> bool" where
  "IsNotExist (NotExistErr m) = True"
| "IsNotExist _ = False"

datatype 'a outcome = Returns 'a | Panics string | Blocks

fun returned :: "'a outcome \<Rightarrow> bool" where
  "returned (Returns x) = True"
| "returned _ = False"

section \<open>The monad\<close>

type_synonym ('s, 'a) go = "'s \<Rightarrow> 'a outcome \<times> 's"

definition ret :: "'a \<Rightarrow> ('s, 'a) go" where
  "ret x = (\<lambda>s. (Returns x, s))"

definition panic :: "string \<Rightarrow> ('s, 'a) go" where
  "panic m = (\<lambda>s. (Panics m, s))"

definition block_forever :: "('s, 'a) go" where
  "block_forever = (\<lambda>s. (Blocks, s))"

definition bnd :: "('s, 'a) go \<Rightarrow> ('a \<Rightarrow> ('s, 'b) go) \<Rightarrow> ('s, 'b) go" where
  "bnd m f = (\<lambda>s. case m s of (r, s') \<Rightarrow>
     (case r of Returns x \<Rightarrow> f x s' | Panics e \<Rightarrow> (Panics e, s') | Blocks \<Rightarrow> (Blocks, s')))"

definition gets :: "('s \<Rightarrow> 'a) \<Rightarrow> ('s, 'a) go" where
  "gets f = (\<lambda>s. (Returns (f s), s))"

definition modify :: "('s \<Rightarrow> 's) \<Rightarrow> ('s, unit) go" where
  "modify f = (\<lambda>s. (Returns (), f s))"

text \<open>\<open>xs[i]\<close>: Go panics when the index is out of range.\<close>

definition index :: "'a list \<Rightarrow> nat \<Rightarrow> ('s, 'a) go" where
  "index xs i = (if i < length xs then ret (xs ! i) else panic ''index out of range'')"

text \<open>
  A \<open>for _, x := range xs\<close> loop. The body gets the loop's accumulator and answers
  \<open>Inl r\<close> for a \<open>return r\<close> out of the loop, \<open>Inr a\<close> to go on.
\<close>

fun for_range :: "'x list \<Rightarrow> 'a \<Rightarrow> ('x \<Rightarrow> 'a \<Rightarrow> ('s, 'r + 'a) go) \<Rightarrow> ('s, 'r + 'a) go" where
  "for_range [] a body = ret (Inr a)"
| "for_range (x # xs) a body =
     bnd (body x a) (\<lambda>r. case r of Inl v \<Rightarrow> ret (Inl v) | Inr a' \<Rightarrow> for_range xs a' body)"

lemma bnd_ret_left [simp]: "bnd (ret x) f = f x"
  by (simp add: bnd_def ret_def)

lemma bnd_ret_right [simp]: "bnd m ret = m"
  by (auto simp: bnd_def ret_def fun_eq_iff split: prod.splits outcome.splits)

lemma bnd_assoc: "bnd (bnd m f) g = bnd m (\<lambda>x. bnd (f x) g)"
  by (auto simp: bnd_def fun_eq_iff split: prod.splits outcome.splits)

lemma bnd_panic [simp]: "bnd (panic e) f = panic e"
  by (simp add: bnd_def panic_def)

lemma bnd_block [simp]: "bnd block_forever f = block_forever"
  by (simp add: bnd_def block_forever_def)

text \<open>
  The \<open>id\<close> keeps the simplifier from reading the equations as equations between functions.
\<close>

lemma ret_apply [simp, go_eval]: "ret x s = (Returns x, id s)"
  by (simp add: ret_def)

lemma panic_apply [simp, go_eval]: "panic e s = (Panics e, id s)"
  by (simp add: panic_def)

lemma block_apply [simp, go_eval]: "block_forever s = (Blocks, id s)"
  by (simp add: block_forever_def)

lemma gets_apply [simp, go_eval]: "gets f s = (Returns (f s), s)"
  by (simp add: gets_def)

lemma modify_apply [simp, go_eval]: "modify f s = (Returns (), f s)"
  by (simp add: modify_def)

lemma bnd_Returns [simp]: "m s = (Returns x, s') \<Longrightarrow> bnd m f s = f x s'"
  by (simp add: bnd_def)

lemma bnd_Panics [simp]: "m s = (Panics e, s') \<Longrightarrow> bnd m f s = (Panics e, s')"
  by (simp add: bnd_def)

lemma bnd_Blocks [simp]: "m s = (Blocks, s') \<Longrightarrow> bnd m f s = (Blocks, s')"
  by (simp add: bnd_def)

lemma bnd_ReturnsE:
  assumes "bnd m f s = (Returns y, t)"
  obtains x s' where "m s = (Returns x, s')" and "f x s' = (Returns y, t)"
  using assms by (auto simp: bnd_def split: prod.splits outcome.splits)

lemma bnd_cong_at:
  assumes "\<And>x t. m s = (Returns x, t) \<Longrightarrow> f x t = g x t"
  shows "bnd m f s = bnd m g s"
  using assms by (simp add: bnd_def split: prod.splits outcome.splits)

lemma index_in [simp]: "i < length xs \<Longrightarrow> index xs i = ret (xs ! i)"
  by (simp add: index_def)

lemma index_out [simp]: "length xs \<le> i \<Longrightarrow> index xs i = panic ''index out of range''"
  by (simp add: index_def)

section \<open>The environment\<close>

text \<open>
  Every process has an environment \<open>world\<close> of an arbitrary type (the OVN databases, the
  kernel, the API server, the clock) and the sequence of commands it has executed, which
  \<open>run\<close> of \<open>internal/pkg/ovn/utils.go\<close> logs one by one.
\<close>

record 'w gstate =
  world :: 'w
  execlog :: "(string \<times> string list) list"

record Link =
  LinkName :: string
  LinkAlias :: string

text \<open>
  What the OVN package calls outside the repository, as functions on the environment:
  running a command to completion (standard output, standard error, error), searching the
  path, reading a variable, sleeping (time passes: the environment may change), a source of
  random numbers, the arbitrary order Go iterates a map in, and the netlink queries.
\<close>

record 'w host =
  h_run :: "string \<Rightarrow> string list \<Rightarrow> 'w \<Rightarrow> (string \<times> string \<times> goerr option) \<times> 'w"
  h_LookPath :: "string \<Rightarrow> 'w \<Rightarrow> (string \<times> goerr option) \<times> 'w"
  h_Getenv :: "string \<Rightarrow> 'w \<Rightarrow> string \<times> 'w"
  h_Sleep :: "nat \<Rightarrow> 'w \<Rightarrow> unit \<times> 'w"
  h_Rand :: "'w \<Rightarrow> nat \<times> 'w"
  h_Order :: "'w \<Rightarrow> nat list \<times> 'w"
  h_LinkByName :: "string \<Rightarrow> 'w \<Rightarrow> (Link option \<times> goerr option) \<times> 'w"
  h_LinkList :: "'w \<Rightarrow> (Link list \<times> goerr option) \<times> 'w"

text \<open>
  A host with a fixed answer to every command, for evaluating the model on examples.
\<close>

definition canned_host :: "(string \<times> string list \<Rightarrow> string \<times> string \<times> goerr option) \<Rightarrow> 'w host" where
  "canned_host f = \<lparr>
     h_run = (\<lambda>p args w. (f (p, args), w)),
     h_LookPath = (\<lambda>p w. ((''/usr/bin/'' @ p, None), w)),
     h_Getenv = (\<lambda>v w. ([], w)),
     h_Sleep = (\<lambda>n w. ((), w)),
     h_Rand = (\<lambda>w. (7, w)),
     h_Order = (\<lambda>w. ([], w)),
     h_LinkByName = (\<lambda>n w. ((None, Some (OtherErr ''Link not found'')), w)),
     h_LinkList = (\<lambda>w. (([], None), w))\<rparr>"

definition ext :: "('w \<Rightarrow> 'a \<times> 'w) \<Rightarrow> (('w, 'z) gstate_scheme, 'a) go" where
  "ext f = (\<lambda>s. case f (world s) of (x, w) \<Rightarrow> (Returns x, s\<lparr>world := w\<rparr>))"

lemma unit_world: "(s :: (unit, 'z) gstate_scheme)\<lparr>world := ()\<rparr> = s"
  by (cases s) simp

text \<open>\<open>rand.Intn(n)\<close>: a number below \<open>n\<close>, whatever the seed.\<close>

definition Intn :: "('w, 'h) host_scheme \<Rightarrow> nat \<Rightarrow> (('w, 'z) gstate_scheme, nat) go" where
  "Intn H n = bnd (ext (h_Rand H)) (\<lambda>r. ret (r mod n))"

definition Sleep :: "('w, 'h) host_scheme \<Rightarrow> nat \<Rightarrow> (('w, 'z) gstate_scheme, unit) go" where
  "Sleep H n = ext (h_Sleep H n)"

definition Getenv :: "('w, 'h) host_scheme \<Rightarrow> string \<Rightarrow> (('w, 'z) gstate_scheme, string) go" where
  "Getenv H v = ext (h_Getenv H v)"

text \<open>
  Go iterates a map in an unspecified order. A map that is iterated is an association list
  with distinct keys; \<open>permute\<close> reorders it by a list of choices, and every order is the
  result of some choices (\<open>permute_surj\<close>).
\<close>

fun permute :: "nat list \<Rightarrow> 'a list \<Rightarrow> 'a list" where
  "permute [] xs = xs"
| "permute (c # cs) [] = []"
| "permute (c # cs) (x # xs) =
     (let i = c mod Suc (length xs) in
      (x # xs) ! i # permute cs (take i (x # xs) @ drop (Suc i) (x # xs)))"

definition map_range :: "('w, 'h) host_scheme \<Rightarrow> 'a list \<Rightarrow> (('w, 'z) gstate_scheme, 'a list) go" where
  "map_range H m = bnd (ext (h_Order H)) (\<lambda>cs. ret (permute cs m))"

lemma mset_take_nth_drop:
  assumes "i < length xs"
  shows "mset xs = add_mset (xs ! i) (mset (take i xs @ drop (Suc i) xs))"
proof -
  have "mset xs = mset (take i xs @ xs ! i # drop (Suc i) xs)"
    using id_take_nth_drop [OF assms] by simp
  then show ?thesis by simp
qed

lemma mset_permute: "mset (permute cs xs) = mset xs"
proof (induction cs xs rule: permute.induct)
  case (3 c cs x xs)
  let ?i = "c mod Suc (length xs)"
  have "?i < length (x # xs)" by simp
  from mset_take_nth_drop [OF this] show ?case
    using 3 [OF refl] by (simp add: Let_def)
qed simp_all

lemma set_permute [simp]: "set (permute cs xs) = set xs"
  using mset_permute by (metis mset_eq_setD)

lemma length_permute [simp]: "length (permute cs xs) = length xs"
  using mset_permute by (metis size_mset)

lemma distinct_permute [simp]: "distinct (permute cs xs) = distinct xs"
  using mset_permute by (metis mset_eq_imp_distinct_iff)

lemma permute_surj: "mset ys = mset xs \<Longrightarrow> \<exists>cs. permute cs xs = ys"
proof (induction ys arbitrary: xs)
  case Nil
  then have "permute [] xs = []" by simp
  then show ?case by blast
next
  case (Cons y ys)
  then have "y \<in> set xs" by (metis list.set_intros(1) mset_eq_setD)
  then obtain i where i: "i < length xs" "xs ! i = y" by (auto simp: in_set_conv_nth)
  from mset_take_nth_drop [OF i(1)] Cons.prems i(2)
  have "mset ys = mset (take i xs @ drop (Suc i) xs)" by simp
  from Cons.IH [OF this] obtain cs where "permute cs (take i xs @ drop (Suc i) xs) = ys" ..
  moreover from i(1) obtain x xs' where "xs = x # xs'" by (cases xs) auto
  ultimately have "permute (i # cs) xs = y # ys" using i by (simp add: Let_def)
  then show ?case ..
qed

lemma map_of_permute:
  assumes "distinct (map fst m)"
  shows "map_of (permute cs m) = map_of m"
proof -
  have "mset (map fst (permute cs m)) = mset (map fst m)" by (simp add: mset_permute)
  with assms have "distinct (map fst (permute cs m))" by (metis mset_eq_imp_distinct_iff)
  with assms show ?thesis by (intro map_of_inject_set [THEN iffD2]) simp_all
qed

lemma ext_eval [go_eval]: "ext f s = (Returns (fst (f (world s))), s\<lparr>world := snd (f (world s))\<rparr>)"
  by (simp add: ext_def split: prod.splits)

section \<open>Weakest preconditions\<close>

text \<open>
  \<open>wpe m Q E s\<close>: started in \<open>s\<close>, the computation \<open>m\<close> either returns a value
  and a state that satisfy \<open>Q\<close>, or it panics or blocks in a state that satisfies \<open>E\<close>.
  With \<open>E = (\<lambda>_. False)\<close> it is total correctness.
\<close>

definition wpe :: "('s, 'a) go \<Rightarrow> ('a \<Rightarrow> 's \<Rightarrow> bool) \<Rightarrow> ('s \<Rightarrow> bool) \<Rightarrow> 's \<Rightarrow> bool" where
  "wpe m Q E s \<longleftrightarrow> (case m s of (r, s') \<Rightarrow> (case r of Returns x \<Rightarrow> Q x s' | _ \<Rightarrow> E s'))"

lemma wpe_ret [wpe_simps]: "wpe (ret x) Q E s = Q x s"
  by (simp add: wpe_def)

lemma wpe_panic [wpe_simps]: "wpe (panic e) Q E s = E s"
  by (simp add: wpe_def)

lemma wpe_block [wpe_simps]: "wpe block_forever Q E s = E s"
  by (simp add: wpe_def)

lemma wpe_gets [wpe_simps]: "wpe (gets f) Q E s = Q (f s) s"
  by (simp add: wpe_def)

lemma wpe_modify [wpe_simps]: "wpe (modify f) Q E s = Q () (f s)"
  by (simp add: wpe_def)

lemma wpe_bnd [wpe_simps]: "wpe (bnd m f) Q E s = wpe m (\<lambda>x s'. wpe (f x) Q E s') E s"
  by (auto simp: wpe_def bnd_def split: prod.splits outcome.splits)

lemma wpe_index [wpe_simps]:
  "wpe (index xs i) Q E s = (if i < length xs then Q (xs ! i) s else E s)"
  by (simp add: index_def wpe_simps)

lemma wpe_if [wpe_simps]: "wpe (if b then m else n) Q E s = (if b then wpe m Q E s else wpe n Q E s)"
  by simp

lemma wpe_Let [wpe_simps]: "wpe (let x = t in m x) Q E s = (let x = t in wpe (m x) Q E s)"
  by simp

lemma wpe_case_option [wpe_simps]:
  "wpe (case x of None \<Rightarrow> m | Some y \<Rightarrow> n y) Q E s =
   (case x of None \<Rightarrow> wpe m Q E s | Some y \<Rightarrow> wpe (n y) Q E s)"
  by (simp split: option.splits)

lemma wpe_case_sum [wpe_simps]:
  "wpe (case x of Inl a \<Rightarrow> m a | Inr b \<Rightarrow> n b) Q E s =
   (case x of Inl a \<Rightarrow> wpe (m a) Q E s | Inr b \<Rightarrow> wpe (n b) Q E s)"
  by (simp split: sum.splits)

lemma wpe_case_prod [wpe_simps]:
  "wpe (case p of (a, b) \<Rightarrow> m a b) Q E s = (case p of (a, b) \<Rightarrow> wpe (m a b) Q E s)"
  by (simp split: prod.splits)

lemma wpe_mono:
  assumes "wpe m Q E s" and "\<And>x s'. Q x s' \<Longrightarrow> Q' x s'" and "\<And>s'. E s' \<Longrightarrow> E' s'"
  shows "wpe m Q' E' s"
  using assms by (auto simp: wpe_def split: prod.splits outcome.splits)

lemma wpe_total: "wpe m Q (\<lambda>_. False) s \<Longrightarrow> \<exists>x s'. m s = (Returns x, s') \<and> Q x s'"
  by (auto simp: wpe_def split: prod.splits outcome.splits)

text \<open>An invariant of the body is an invariant of the loop.\<close>

lemma wpe_for_range:
  assumes init: "I a s"
    and step: "\<And>x a s. x \<in> set xs \<Longrightarrow> I a s \<Longrightarrow>
      wpe (body x a) (\<lambda>r s'. case r of Inl v \<Rightarrow> R v s' | Inr a' \<Rightarrow> I a' s') E s"
  shows "wpe (for_range xs a body) (\<lambda>r s'. case r of Inl v \<Rightarrow> R v s' | Inr a' \<Rightarrow> I a' s') E s"
  using assms
proof (induction xs arbitrary: a s)
  case Nil
  from Nil.prems(1) show ?case by (simp only: for_range.simps wpe_ret sum.case)
next
  case (Cons x xs)
  have body: "wpe (body x a) (\<lambda>r s'. case r of Inl v \<Rightarrow> R v s' | Inr a' \<Rightarrow> I a' s') E s"
    using Cons.prems by simp
  have rest: "wpe (for_range xs a' body)
      (\<lambda>r s'. case r of Inl v \<Rightarrow> R v s' | Inr a' \<Rightarrow> I a' s') E s'" if "I a' s'" for a' s'
    by (rule Cons.IH [OF that]) (rule Cons.prems(2), simp_all)
  show ?case
    unfolding for_range.simps wpe_bnd
  proof (rule wpe_mono [OF body])
    fix r s'
    assume "case r of Inl v \<Rightarrow> R v s' | Inr a' \<Rightarrow> I a' s'"
    then show "wpe (case r of Inl v \<Rightarrow> ret (Inl v) | Inr a' \<Rightarrow> for_range xs a' body)
        (\<lambda>r s'. case r of Inl v \<Rightarrow> R v s' | Inr a' \<Rightarrow> I a' s') E s'"
      by (cases r) (simp_all add: wpe_ret rest)
  qed
qed

section \<open>Commands emitted, state kept\<close>

text \<open>
  \<open>emits P m\<close>: whatever the state and the environment, \<open>m\<close> only appends commands that
  satisfy \<open>P\<close> to the log, also when it panics. \<open>keeps f m\<close>: \<open>m\<close> leaves the
  component \<open>f\<close> of the state as it was.
\<close>

definition emits :: "(string \<times> string list \<Rightarrow> bool) \<Rightarrow> (('w, 'z) gstate_scheme, 'a) go \<Rightarrow> bool" where
  "emits P m \<longleftrightarrow> (\<forall>s. \<exists>cs. execlog (snd (m s)) = execlog s @ cs \<and> list_all P cs)"

definition keeps :: "('s \<Rightarrow> 'b) \<Rightarrow> ('s, 'a) go \<Rightarrow> bool" where
  "keeps f m \<longleftrightarrow> (\<forall>s. f (snd (m s)) = f s)"

lemma emits_ret [emits_intros]: "emits P (ret x)"
  by (simp add: emits_def)

lemma emits_panic [emits_intros]: "emits P (panic e)"
  by (simp add: emits_def)

lemma emits_block [emits_intros]: "emits P block_forever"
  by (simp add: emits_def)

lemma emits_gets [emits_intros]: "emits P (gets f)"
  by (simp add: emits_def)

lemma emits_modify [emits_intros]: "(\<And>s. execlog (f s) = execlog s) \<Longrightarrow> emits P (modify f)"
  by (simp add: emits_def)

lemma emits_index [emits_intros]: "emits P (index xs i)"
  by (simp add: index_def emits_intros)

lemma emits_ext [emits_intros]: "emits P (ext f)"
  by (simp add: emits_def ext_eval)

lemma emits_bnd [emits_intros]:
  assumes m: "emits P m" and f: "\<And>x. emits P (f x)"
  shows "emits P (bnd m f)"
  unfolding emits_def
proof
  fix s
  obtain r s' where ms: "m s = (r, s')" by fastforce
  from m ms obtain cs where cs: "execlog s' = execlog s @ cs" "list_all P cs"
    by (metis emits_def snd_conv)
  show "\<exists>cs. execlog (snd (bnd m f s)) = execlog s @ cs \<and> list_all P cs"
  proof (cases r)
    case (Returns x)
    from f [of x] obtain ds where "execlog (snd (f x s')) = execlog s' @ ds" "list_all P ds"
      by (metis emits_def)
    with ms cs Returns show ?thesis by simp
  qed (use ms cs in auto)
qed

lemma emits_if [emits_intros]: "(b \<Longrightarrow> emits P m) \<Longrightarrow> (\<not> b \<Longrightarrow> emits P n) \<Longrightarrow> emits P (if b then m else n)"
  by simp

lemma emits_Let [emits_intros]: "(\<And>x. x = t \<Longrightarrow> emits P (m x)) \<Longrightarrow> emits P (let x = t in m x)"
  by simp

lemma emits_option [emits_intros]:
  "(x = None \<Longrightarrow> emits P m) \<Longrightarrow> (\<And>y. x = Some y \<Longrightarrow> emits P (n y)) \<Longrightarrow>
   emits P (case x of None \<Rightarrow> m | Some y \<Rightarrow> n y)"
  by (simp split: option.splits)

lemma emits_sum [emits_intros]:
  "(\<And>y. x = Inl y \<Longrightarrow> emits P (m y)) \<Longrightarrow> (\<And>y. x = Inr y \<Longrightarrow> emits P (n y)) \<Longrightarrow>
   emits P (case x of Inl y \<Rightarrow> m y | Inr y \<Rightarrow> n y)"
  by (simp split: sum.splits)

lemma emits_prod [emits_intros]:
  "(\<And>a b. p = (a, b) \<Longrightarrow> emits P (m a b)) \<Longrightarrow> emits P (case p of (a, b) \<Rightarrow> m a b)"
  by (simp split: prod.splits)

lemma emits_for_range [emits_intros]:
  "(\<And>x a. x \<in> set xs \<Longrightarrow> emits P (body x a)) \<Longrightarrow> emits P (for_range xs a body)"
  by (induction xs arbitrary: a) (auto intro!: emits_intros)

lemma emits_mono: "emits P m \<Longrightarrow> (\<And>c. P c \<Longrightarrow> Q c) \<Longrightarrow> emits Q m"
  unfolding emits_def by (metis list.pred_mono_strong)

lemma emits_log: "emits P m \<Longrightarrow> \<exists>cs. execlog (snd (m s)) = execlog s @ cs \<and> list_all P cs"
  by (simp add: emits_def)

lemma keeps_ret [keeps_intros]: "keeps f (ret x)"
  by (simp add: keeps_def)

lemma keeps_panic [keeps_intros]: "keeps f (panic e)"
  by (simp add: keeps_def)

lemma keeps_block [keeps_intros]: "keeps f block_forever"
  by (simp add: keeps_def)

lemma keeps_gets [keeps_intros]: "keeps f (gets g)"
  by (simp add: keeps_def)

lemma keeps_modify [keeps_intros]: "(\<And>s. f (g s) = f s) \<Longrightarrow> keeps f (modify g)"
  by (simp add: keeps_def)

lemma keeps_index [keeps_intros]: "keeps f (index xs i)"
  by (simp add: index_def keeps_intros)

lemma keeps_ext [keeps_intros]: "(\<And>s w. f (s\<lparr>world := w\<rparr>) = f s) \<Longrightarrow> keeps f (ext g)"
  by (simp add: keeps_def ext_eval)

lemma keeps_bnd [keeps_intros]:
  "keeps f m \<Longrightarrow> (\<And>x. keeps f (g x)) \<Longrightarrow> keeps f (bnd m g)"
  unfolding keeps_def
  by (auto simp: bnd_def split: prod.splits outcome.splits) (metis snd_conv)+

lemma keeps_if [keeps_intros]: "(b \<Longrightarrow> keeps f m) \<Longrightarrow> (\<not> b \<Longrightarrow> keeps f n) \<Longrightarrow> keeps f (if b then m else n)"
  by simp

lemma keeps_Let [keeps_intros]: "(\<And>x. x = t \<Longrightarrow> keeps f (m x)) \<Longrightarrow> keeps f (let x = t in m x)"
  by simp

lemma keeps_option [keeps_intros]:
  "(x = None \<Longrightarrow> keeps f m) \<Longrightarrow> (\<And>y. x = Some y \<Longrightarrow> keeps f (n y)) \<Longrightarrow>
   keeps f (case x of None \<Rightarrow> m | Some y \<Rightarrow> n y)"
  by (simp split: option.splits)

lemma keeps_sum [keeps_intros]:
  "(\<And>y. x = Inl y \<Longrightarrow> keeps f (m y)) \<Longrightarrow> (\<And>y. x = Inr y \<Longrightarrow> keeps f (n y)) \<Longrightarrow>
   keeps f (case x of Inl y \<Rightarrow> m y | Inr y \<Rightarrow> n y)"
  by (simp split: sum.splits)

lemma keeps_prod [keeps_intros]:
  "(\<And>a b. p = (a, b) \<Longrightarrow> keeps f (m a b)) \<Longrightarrow> keeps f (case p of (a, b) \<Rightarrow> m a b)"
  by (simp split: prod.splits)

lemma keeps_for_range [keeps_intros]:
  "(\<And>x a. x \<in> set xs \<Longrightarrow> keeps f (body x a)) \<Longrightarrow> keeps f (for_range xs a body)"
  by (induction xs arbitrary: a) (auto intro!: keeps_intros)

lemma emits_Intn [emits_intros]: "emits P (Intn H n)"
  by (auto simp: Intn_def intro!: emits_intros)

lemma emits_Sleep [emits_intros]: "emits P (Sleep H n)"
  by (auto simp: Sleep_def intro!: emits_intros)

lemma emits_Getenv [emits_intros]: "emits P (Getenv H n)"
  by (auto simp: Getenv_def intro!: emits_intros)

lemma emits_map_range [emits_intros]: "emits P (map_range H m)"
  by (auto simp: map_range_def intro!: emits_intros)

lemma wpe_ext [wpe_simps]:
  "wpe (ext f) Q E s = (case f (world s) of (x, w) \<Rightarrow> Q x (s\<lparr>world := w\<rparr>))"
  by (simp add: wpe_def ext_def split: prod.splits)

lemma index0_eval [go_eval]:
  "index [] i = panic ''index out of range''"
  "index (x # xs) 0 = ret x"
  by simp_all

end
