(* ===== verification/GoStrings.thy ===== *)
theory GoStrings
  imports Prelude
begin

text \<open>
  Go's \<open>strings\<close> and \<open>strconv\<close> functions as the repository uses them, on byte
  strings. The separators, cut sets and patterns of the source are non-empty ASCII strings, so
  white space and letter case are the ASCII ones. The lemmas relate splitting, joining,
  trimming and searching; the component proofs go through them.
\<close>

section \<open>Definitions\<close>

fun split_by :: "(char \<Rightarrow> bool) \<Rightarrow> string \<Rightarrow> string list" where
  "split_by p [] = [[]]"
| "split_by p (x # xs) =
     (if p x then [] # split_by p xs
      else case split_by p xs of [] \<Rightarrow> [[x]] | y # ys \<Rightarrow> (x # y) # ys)"

text \<open>\<open>strings.Split(s, sep)\<close> for a separator of one character.\<close>

definition Split :: "string \<Rightarrow> char \<Rightarrow> string list" where
  "Split s c = split_by (\<lambda>x. x = c) s"

definition is_space :: "char \<Rightarrow> bool" where
  "is_space c \<longleftrightarrow> c \<in> {CHR 0x09, CHR 0x0A, CHR 0x0B, CHR 0x0C, CHR 0x0D, CHR '' ''}"

definition Fields :: "string \<Rightarrow> string list" where
  "Fields s = filter (\<lambda>w. w \<noteq> []) (split_by is_space s)"

definition trim_left :: "(char \<Rightarrow> bool) \<Rightarrow> string \<Rightarrow> string" where
  "trim_left p s = dropWhile p s"

definition trim_right :: "(char \<Rightarrow> bool) \<Rightarrow> string \<Rightarrow> string" where
  "trim_right p s = rev (dropWhile p (rev s))"

definition TrimLeft :: "string \<Rightarrow> char \<Rightarrow> string" where
  "TrimLeft s c = trim_left (\<lambda>x. x = c) s"

definition TrimRight :: "string \<Rightarrow> char \<Rightarrow> string" where
  "TrimRight s c = trim_right (\<lambda>x. x = c) s"

definition Trim :: "string \<Rightarrow> char \<Rightarrow> string" where
  "Trim s c = TrimRight (TrimLeft s c) c"

definition TrimSpace :: "string \<Rightarrow> string" where
  "TrimSpace s = trim_right is_space (trim_left is_space s)"

definition HasPrefix :: "string \<Rightarrow> string \<Rightarrow> bool" where
  "HasPrefix s p \<longleftrightarrow> take (length p) s = p"

definition TrimPrefix :: "string \<Rightarrow> string \<Rightarrow> string" where
  "TrimPrefix s p = (if HasPrefix s p then drop (length p) s else s)"

fun Contains :: "string \<Rightarrow> string \<Rightarrow> bool" where
  "Contains [] p = (p = [])"
| "Contains (x # xs) p = (HasPrefix (x # xs) p \<or> Contains xs p)"

text \<open>\<open>strings.Replace(s, old, new, -1)\<close> for a non-empty \<open>old\<close>.\<close>

fun ReplaceAll :: "string \<Rightarrow> string \<Rightarrow> string \<Rightarrow> string" where
  "ReplaceAll [] old new = []"
| "ReplaceAll (x # xs) old new =
     (if HasPrefix (x # xs) old then new @ ReplaceAll (drop (length old - 1) xs) old new
      else x # ReplaceAll xs old new)"

fun Join :: "string list \<Rightarrow> string \<Rightarrow> string" where
  "Join [] sep = []"
| "Join [x] sep = x"
| "Join (x # y # zs) sep = x @ sep @ Join (y # zs) sep"

fun Index :: "string \<Rightarrow> char \<Rightarrow> nat option" where
  "Index [] c = None"
| "Index (x # xs) c = (if x = c then Some 0 else map_option Suc (Index xs c))"

definition upper_letters :: string where
  "upper_letters = ''ABCDEFGHIJKLMNOPQRSTUVWXYZ''"

definition lower_letters :: string where
  "lower_letters = ''abcdefghijklmnopqrstuvwxyz''"

definition lower_char :: "char \<Rightarrow> char" where
  "lower_char c = (case map_of (zip upper_letters lower_letters) c of None \<Rightarrow> c | Some d \<Rightarrow> d)"

definition ToLower :: "string \<Rightarrow> string" where
  "ToLower s = map lower_char s"

definition EqualFold :: "string \<Rightarrow> string \<Rightarrow> bool" where
  "EqualFold s t \<longleftrightarrow> ToLower s = ToLower t"

definition hexdigit :: "nat \<Rightarrow> char" where
  "hexdigit n = ''0123456789abcdef'' ! n"

fun Itoa :: "nat \<Rightarrow> string" where
  "Itoa n = (if n < 10 then [hexdigit n] else Itoa (n div 10) @ [hexdigit (n mod 10)])"

text \<open>\<open>%02x\<close> of a byte.\<close>

definition hex02 :: "nat \<Rightarrow> string" where
  "hex02 n = [hexdigit (n div 16 mod 16), hexdigit (n mod 16)]"

declare Itoa.simps [simp del]

section \<open>Splitting and joining\<close>

lemma split_by_nonempty [simp]: "split_by p s \<noteq> []"
  by (induction s) (auto split: list.splits)

lemma Split_nonempty [simp]: "Split s c \<noteq> []"
  by (simp add: Split_def)

lemma Split_length_pos: "0 < length (Split s c)"
  by simp

lemma split_by_none: "\<forall>x\<in>set s. \<not> p x \<Longrightarrow> split_by p s = [s]"
  by (induction s) auto

lemma split_by_append:
  "\<forall>x\<in>set a. \<not> p x \<Longrightarrow> p c \<Longrightarrow> split_by p (a @ c # b) = a # split_by p b"
  by (induction a) auto

lemma Split_none: "c \<notin> set s \<Longrightarrow> Split s c = [s]"
  unfolding Split_def by (rule split_by_none) auto

lemma Split_append: "c \<notin> set a \<Longrightarrow> Split (a @ c # b) c = a # Split b c"
  unfolding Split_def by (rule split_by_append) auto

lemma Split_two: "c \<notin> set a \<Longrightarrow> c \<notin> set b \<Longrightarrow> Split (a @ c # b) c = [a, b]"
  by (simp add: Split_append Split_none)

lemma Split_parts: "w \<in> set (Split s c) \<Longrightarrow> c \<notin> set w"
  unfolding Split_def
  by (induction s arbitrary: w) (auto split: if_splits list.splits)

lemma Join_Cons: "xs \<noteq> [] \<Longrightarrow> Join (x # xs) sep = x @ sep @ Join xs sep"
  by (cases xs) auto

lemma Join_Split: "Join (Split s c) [c] = s"
  unfolding Split_def
proof (induction s)
  case (Cons x xs)
  obtain y ys where ys: "split_by (\<lambda>x. x = c) xs = y # ys"
    by (meson neq_Nil_conv split_by_nonempty)
  with Cons show ?case by (cases ys) (auto simp: Join_Cons)
qed simp

lemma Split_Join:
  assumes "xs \<noteq> []" and "\<forall>x\<in>set xs. c \<notin> set x"
  shows "Split (Join xs [c]) c = xs"
  using assms
proof (induction xs)
  case (Cons x xs)
  then show ?case by (cases xs) (auto simp: Split_none Split_append)
qed simp

lemma length_Split: "length (Split s c) = Suc (length (filter (\<lambda>x. x = c) s))"
  unfolding Split_def by (induction s) (auto split: list.splits)

lemma Fields_nonempty: "w \<in> set (Fields s) \<Longrightarrow> w \<noteq> []"
  by (simp add: Fields_def)

lemma split_by_parts: "w \<in> set (split_by p s) \<Longrightarrow> \<forall>x\<in>set w. \<not> p x"
  by (induction s arbitrary: w) (fastforce split: if_splits list.splits)+

lemma Fields_parts: "w \<in> set (Fields s) \<Longrightarrow> \<forall>x\<in>set w. \<not> is_space x"
  unfolding Fields_def using split_by_parts by auto

lemma Fields_two:
  assumes "a \<noteq> []" "b \<noteq> []" "\<forall>x\<in>set a. \<not> is_space x" "\<forall>x\<in>set b. \<not> is_space x"
  shows "Fields (a @ CHR '' '' # b) = [a, b]"
proof -
  have "is_space CHR '' ''" by (simp add: is_space_def)
  with assms show ?thesis
    by (simp add: Fields_def split_by_append split_by_none)
qed

section \<open>Searching, trimming, replacing\<close>

lemma HasPrefix_iff: "HasPrefix s p \<longleftrightarrow> (\<exists>b. s = p @ b)"
proof
  assume "HasPrefix s p"
  then have "s = p @ drop (length p) s"
    by (metis HasPrefix_def append_take_drop_id)
  then show "\<exists>b. s = p @ b" ..
qed (auto simp: HasPrefix_def)

lemma Contains_iff: "Contains s p \<longleftrightarrow> (\<exists>a b. s = a @ p @ b)"
proof (induction s)
  case (Cons x xs)
  have "(\<exists>a b. x # xs = a @ p @ b) \<longleftrightarrow> (\<exists>b. x # xs = p @ b) \<or> (\<exists>a b. xs = a @ p @ b)"
    by (metis (no_types, opaque_lifting) append_Cons append_Nil list.exhaust_sel list.inject)
  with Cons show ?case by (simp add: HasPrefix_iff)
qed simp

lemma Contains_refl: "Contains s s"
  by (metis Contains_iff append_Nil append_Nil2)

lemma Contains_append: "Contains (a @ p @ b) p"
  by (auto simp: Contains_iff)

lemma TrimLeft_none: "s = [] \<or> hd s \<noteq> c \<Longrightarrow> TrimLeft s c = s"
  by (cases s) (auto simp: TrimLeft_def trim_left_def)

lemma TrimRight_none: "s = [] \<or> last s \<noteq> c \<Longrightarrow> TrimRight s c = s"
  by (cases s rule: rev_cases) (auto simp: TrimRight_def trim_right_def)

lemma Trim_none: "s = [] \<or> hd s \<noteq> c \<and> last s \<noteq> c \<Longrightarrow> Trim s c = s"
  by (auto simp: Trim_def TrimLeft_none TrimRight_none)

lemma Trim_absent: "c \<notin> set s \<Longrightarrow> Trim s c = s"
  by (cases "s = []") (auto intro!: Trim_none)

lemma dropWhile_none: "\<forall>x\<in>set s. \<not> p x \<Longrightarrow> dropWhile p s = s"
  by (cases s) auto

lemma TrimSpace_none: "\<forall>x\<in>set s. \<not> is_space x \<Longrightarrow> TrimSpace s = s"
  by (simp add: TrimSpace_def trim_left_def trim_right_def dropWhile_none)

lemma TrimPrefix_prefix [simp]: "TrimPrefix (p @ s) p = s"
  by (simp add: TrimPrefix_def HasPrefix_def)

lemma ReplaceAll_absent: "old \<noteq> [] \<Longrightarrow> hd old \<notin> set s \<Longrightarrow> ReplaceAll s old new = s"
proof (induction s)
  case (Cons x xs)
  then have "\<not> HasPrefix (x # xs) old"
    by (cases old) (auto simp: HasPrefix_def)
  with Cons show ?case by simp
qed simp

lemma HasPrefix_append [simp]: "HasPrefix (p @ s) p"
  by (simp add: HasPrefix_def)

lemma ReplaceAll_prefix:
  "p \<noteq> [] \<Longrightarrow> ReplaceAll (p @ s) p new = new @ ReplaceAll s p new"
  by (cases p) (auto simp: HasPrefix_def)

lemma Index_Some: "Index s c = Some i \<Longrightarrow> i < length s \<and> s ! i = c \<and> c \<notin> set (take i s)"
  by (induction s arbitrary: i) (auto split: if_splits simp: less_Suc_eq_0_disj)

lemma Index_append: "c \<notin> set a \<Longrightarrow> Index (a @ c # b) c = Some (length a)"
  by (induction a) auto

section \<open>Letter case\<close>

lemma EqualFold_refl [simp]: "EqualFold s s"
  by (simp add: EqualFold_def)

lemma EqualFold_sym: "EqualFold s t \<Longrightarrow> EqualFold t s"
  by (simp add: EqualFold_def)

lemma EqualFold_trans: "EqualFold s t \<Longrightarrow> EqualFold t u \<Longrightarrow> EqualFold s u"
  by (simp add: EqualFold_def)

lemma ToLower_append [simp]: "ToLower (a @ b) = ToLower a @ ToLower b"
  by (simp add: ToLower_def)

section \<open>Decimal numerals\<close>

definition digit_val :: "char \<Rightarrow> nat option" where
  "digit_val c = map_of (zip ''0123456789'' [0..<10]) c"

definition is_digit :: "char \<Rightarrow> bool" where
  "is_digit c \<longleftrightarrow> digit_val c \<noteq> None"

lemma digit_val_hexdigit: "n < 10 \<Longrightarrow> digit_val (hexdigit n) = Some n"
proof -
  have "\<forall>n\<in>set [0..<10]. digit_val (hexdigit n) = Some n" by code_simp
  then show "n < 10 \<Longrightarrow> digit_val (hexdigit n) = Some n" by simp
qed

lemma is_digit_hexdigit [simp]: "n < 10 \<Longrightarrow> is_digit (hexdigit n)"
  by (simp add: is_digit_def digit_val_hexdigit)

lemma Itoa_digits: "\<forall>c\<in>set (Itoa n). is_digit c"
proof (induction n rule: Itoa.induct)
  case (1 n)
  then show ?case by (subst Itoa.simps) auto
qed

lemma Itoa_nonempty [simp]: "Itoa n \<noteq> []"
  by (subst Itoa.simps) simp

end
