(* ===== verification/OvnExec.thy ===== *)
theory OvnExec
  imports GoStrings
begin

text \<open>
  \<open>internal/pkg/ovn/utils.go\<close>: the helper that runs \<open>ovn-nbctl\<close>, \<open>ovs-vsctl\<close>
  and \<open>ip\<close>, with the bounded retry on a refused connection, and the state of the package
  \<open>ovn\<close> (the globals \<open>runner\<close>, \<open>ovnConf\<close> and \<open>ovnCtl\<close>). The lemmas say
  how often and with which arguments a command runs, that these functions return whenever
  \<open>SetExec\<close> has been called, and what they leave alone.
\<close>

section \<open>State\<close>

record execHelper =
  nbctlPath :: string
  vsctlPath :: string
  ipPath :: string
  hostIP :: string
  hostPort :: string

record OVNNetworkConf =
  conf_Subnet :: string
  conf_GatewayIP :: string
  conf_ExcludeIPs :: string

record Controller =
  gatewayCache :: "string \<rightharpoonup> string"

record 'w ovn_state = "'w gstate" +
  runner :: "execHelper option"
  ovnConf :: "OVNNetworkConf option"
  ovnCtl :: "Controller option"

section \<open>Operations\<close>

definition ovsCommandTimeout :: nat where
  "ovsCommandTimeout = 15"

definition ovnNbctlCommand :: string where
  "ovnNbctlCommand = ''ovn-nbctl''"

definition ovsVsctlCommand :: string where
  "ovsVsctlCommand = ''ovs-vsctl''"

definition ipCommand :: string where
  "ipCommand = ''ip''"

definition nil_deref :: string where
  "nil_deref = ''nil pointer dereference''"

definition set_runner :: "(execHelper \<Rightarrow> execHelper) \<Rightarrow> (('w, 'z) ovn_state_scheme, unit) go" where
  "set_runner f = modify (\<lambda>s. s\<lparr>runner := map_option f (runner s)\<rparr>)"

definition SetExec :: "('w, 'h) host_scheme \<Rightarrow> (('w, 'z) ovn_state_scheme, goerr option) go" where
  "SetExec H =
     bnd (modify (\<lambda>s. s\<lparr>runner := Some \<lparr>nbctlPath = [], vsctlPath = [], ipPath = [], hostIP = [], hostPort = []\<rparr>\<rparr>)) (\<lambda>_.
     bnd (ext (h_LookPath H ovnNbctlCommand)) (\<lambda>(p, err).
     bnd (set_runner (nbctlPath_update (\<lambda>_. p))) (\<lambda>_.
     if err \<noteq> None then ret err else
     bnd (ext (h_LookPath H ovsVsctlCommand)) (\<lambda>(p, err).
     bnd (set_runner (vsctlPath_update (\<lambda>_. p))) (\<lambda>_.
     if err \<noteq> None then ret err else
     bnd (ext (h_LookPath H ipCommand)) (\<lambda>(p, err).
     bnd (set_runner (ipPath_update (\<lambda>_. p))) (\<lambda>_.
     if err \<noteq> None then ret err else
     bnd (Getenv H ''OVN_NB_TCP_SERVICE_HOST'') (\<lambda>ip.
     bnd (set_runner (\<lambda>r. r\<lparr>hostIP := ip, hostPort := ''6641''\<rparr>)) (\<lambda>_.
     ret None)))))))))"

text \<open>
  \<open>run\<close> logs the command and runs it; without a helper, \<open>runner.exec\<close> is a nil
  pointer dereference.
\<close>

definition run :: "('w, 'h) host_scheme \<Rightarrow> string \<Rightarrow> string list \<Rightarrow>
    (('w, 'z) ovn_state_scheme, string \<times> string \<times> goerr option) go" where
  "run H cmdPath args =
     bnd (gets runner) (\<lambda>r.
     if r = None then panic nil_deref else
     bnd (modify (\<lambda>s. s\<lparr>execlog := execlog s @ [(cmdPath, args)]\<rparr>)) (\<lambda>_.
     ext (h_run H cmdPath args)))"

definition refused :: "string \<Rightarrow> bool" where
  "refused stderr \<longleftrightarrow> Contains stderr ''Connection refused''"

text \<open>The loop of \<open>runOVNretry\<close>, on the retries left.\<close>

fun retry_loop :: "('w, 'h) host_scheme \<Rightarrow> string \<Rightarrow> string list \<Rightarrow> nat \<Rightarrow>
    (('w, 'z) ovn_state_scheme, string \<times> string \<times> goerr option) go" where
  "retry_loop H cmdPath args retriesLeft =
     bnd (run H cmdPath args) (\<lambda>(stdout, stderr, err).
     if err = None then ret (stdout, stderr, err)
     else if refused stderr then
       (case retriesLeft of
          0 \<Rightarrow> ret (stdout, stderr, err)
        | Suc n \<Rightarrow> bnd (Sleep H 2) (\<lambda>_. retry_loop H cmdPath args n))
     else ret (stdout, stderr, err))"

declare retry_loop.simps [simp del]

definition runOVNretry :: "('w, 'h) host_scheme \<Rightarrow> string \<Rightarrow> string list \<Rightarrow>
    (('w, 'z) ovn_state_scheme, string \<times> string \<times> goerr option) go" where
  "runOVNretry H cmdPath args = retry_loop H cmdPath args 200"

definition nbctl_args :: "execHelper \<Rightarrow> nat \<Rightarrow> string list \<Rightarrow> string list" where
  "nbctl_args r timeout args =
     (if hostIP r \<noteq> [] then [''--db=tcp:'' @ hostIP r @ '':'' @ hostPort r] else []) @
     [''--timeout='' @ Itoa timeout] @ args"

definition unquote :: "string \<Rightarrow> string" where
  "unquote s = Trim (TrimSpace s) CHR 0x22"

definition RunOVNNbctlWithTimeout :: "('w, 'h) host_scheme \<Rightarrow> nat \<Rightarrow> string list \<Rightarrow>
    (('w, 'z) ovn_state_scheme, string \<times> string \<times> goerr option) go" where
  "RunOVNNbctlWithTimeout H timeout args =
     bnd (gets runner) (\<lambda>r. case r of
       None \<Rightarrow> panic nil_deref
     | Some r \<Rightarrow>
         bnd (runOVNretry H (nbctlPath r) (nbctl_args r timeout args)) (\<lambda>(stdout, stderr, err).
         ret (unquote stdout, stderr, err)))"

definition RunOVNNbctl :: "('w, 'h) host_scheme \<Rightarrow> string list \<Rightarrow>
    (('w, 'z) ovn_state_scheme, string \<times> string \<times> goerr option) go" where
  "RunOVNNbctl H args = RunOVNNbctlWithTimeout H ovsCommandTimeout args"

definition RunIP :: "('w, 'h) host_scheme \<Rightarrow> string list \<Rightarrow>
    (('w, 'z) ovn_state_scheme, string \<times> string \<times> goerr option) go" where
  "RunIP H args =
     bnd (gets runner) (\<lambda>r. case r of
       None \<Rightarrow> panic nil_deref
     | Some r \<Rightarrow>
         bnd (run H (ipPath r) args) (\<lambda>(stdout, stderr, err).
         ret (TrimSpace stdout, stderr, err)))"

definition RunOVSVsctl :: "('w, 'h) host_scheme \<Rightarrow> string list \<Rightarrow>
    (('w, 'z) ovn_state_scheme, string \<times> string \<times> goerr option) go" where
  "RunOVSVsctl H args =
     bnd (gets runner) (\<lambda>r. case r of
       None \<Rightarrow> panic nil_deref
     | Some r \<Rightarrow>
         bnd (run H (vsctlPath r) ([''--timeout='' @ Itoa ovsCommandTimeout] @ args)) (\<lambda>(stdout, stderr, err).
         ret (unquote stdout, stderr, err)))"

text \<open>A helper as \<open>SetExec\<close> leaves it, for examples.\<close>

definition demo_runner :: execHelper where
  "demo_runner = \<lparr>nbctlPath = ''/usr/bin/ovn-nbctl'', vsctlPath = ''/usr/bin/ovs-vsctl'', ipPath = ''/usr/bin/ip'',
     hostIP = ''10.0.0.1'', hostPort = ''6641''\<rparr>"

section \<open>What a run does to the state\<close>

text \<open>
  \<open>after s w cs\<close> is the state \<open>s\<close> with the environment \<open>w\<close> and the commands
  \<open>cs\<close> appended to the log: the only change the functions of this theory make once the
  helper is set.
\<close>

definition after :: "('w, 'z) ovn_state_scheme \<Rightarrow> 'w \<Rightarrow> (string \<times> string list) list \<Rightarrow> ('w, 'z) ovn_state_scheme" where
  "after s w cs = s\<lparr>world := w, execlog := execlog s @ cs\<rparr>"

lemma after_simps [simp]:
  "runner (after s w cs) = runner s"
  "ovnConf (after s w cs) = ovnConf s"
  "ovnCtl (after s w cs) = ovnCtl s"
  "ovn_state.more (after s w cs) = ovn_state.more s"
  "execlog (after s w cs) = execlog s @ cs"
  "world (after s w cs) = w"
  by (simp_all add: after_def)

lemma after_after [simp]: "after (after s w cs) w' ds = after s w' (cs @ ds)"
  by (simp add: after_def)

lemma after_world_update [simp]: "after s w cs\<lparr>world := w'\<rparr> = after s w' cs"
  by (simp add: after_def)

text \<open>
  The type-specific instance lets a proof drop the general equation, which would spell out
  every string literal of an argument list.
\<close>

lemma cmds_append [simp]:
  "((c :: string \<times> string list) # cs) @ ds = c # (cs @ ds)"
  "((a :: string) # as) @ bs = a # (as @ bs)"
  by simp_all

lemma after_id [simp]: "after s (world s) [] = s"
  by (simp add: after_def)

lemma run_eval:
  assumes "runner s = Some R"
  shows "run H p args s =
    (Returns (fst (h_run H p args (world s))), after s (snd (h_run H p args (world s))) [(p, args)])"
  using assms by (simp add: run_def bnd_def ext_eval after_def)

lemma run_nil: "runner s = None \<Longrightarrow> run H p args s = (Panics nil_deref, s)"
  by (simp add: run_def bnd_def)

lemma h_run_cases:
  obtains out se err w where "h_run H p args v = ((out, se, err), w)"
  by (cases "h_run H p args v") auto

lemma retry_loop_spec:
  assumes "runner s = Some R"
  shows "\<exists>k out se err w.
    retry_loop H p args n s = (Returns (out, se, err), after s w (replicate (Suc k) (p, args))) \<and>
    k \<le> n \<and> (err = None \<or> \<not> refused se \<or> k = n)"
  using assms
proof (induction n arbitrary: s)
  case 0
  obtain out se err w where r: "h_run H p args (world s) = ((out, se, err), w)" by (rule h_run_cases)
  then show ?case
    using 0 by (subst retry_loop.simps) (auto simp: bnd_def run_eval)
next
  case (Suc n)
  obtain out se err w where r: "h_run H p args (world s) = ((out, se, err), w)" by (rule h_run_cases)
  show ?case
  proof (cases "err \<noteq> None \<and> refused se")
    case False
    with Suc.prems r show ?thesis
      by (subst retry_loop.simps) (auto simp: bnd_def run_eval intro!: exI [of _ 0])
  next
    case True
    let ?w = "snd (h_Sleep H 2 w)"
    let ?s = "after s ?w [(p, args)]"
    from Suc.prems have "runner ?s = Some R" by simp
    from Suc.IH [OF this] obtain k out' se' err' w' where
      IH: "retry_loop H p args n ?s = (Returns (out', se', err'), after ?s w' (replicate (Suc k) (p, args)))"
      "k \<le> n" "err' = None \<or> \<not> refused se' \<or> k = n" by blast
    have "retry_loop H p args (Suc n) s = retry_loop H p args n ?s"
      using Suc.prems r True
      by (subst retry_loop.simps) (auto simp: bnd_def run_eval Sleep_def ext_eval)
    with IH show ?thesis by (auto intro!: exI [of _ "Suc k"])
  qed
qed

lemma retry_loop_once:
  assumes "runner s = Some R"
    and "h_run H p args (world s) = ((out, se, err), w)"
    and "err = None \<or> \<not> refused se"
  shows "retry_loop H p args n s = (Returns (out, se, err), after s w [(p, args)])"
  using assms by (subst retry_loop.simps) (auto simp: bnd_def run_eval)

text \<open>
  The three front ends, given the helper: one result, and a log extended by copies of one
  command.
\<close>

definition nbctl_cmd :: "execHelper \<Rightarrow> string list \<Rightarrow> string \<times> string list" where
  "nbctl_cmd R args = (nbctlPath R, nbctl_args R ovsCommandTimeout args)"

definition vsctl_cmd :: "execHelper \<Rightarrow> string list \<Rightarrow> string \<times> string list" where
  "vsctl_cmd R args = (vsctlPath R, [''--timeout='' @ Itoa ovsCommandTimeout] @ args)"

definition ip_cmd :: "execHelper \<Rightarrow> string list \<Rightarrow> string \<times> string list" where
  "ip_cmd R args = (ipPath R, args)"

abbreviation h_exec :: "('w, 'h) host_scheme \<Rightarrow> string \<times> string list \<Rightarrow> 'w \<Rightarrow> (string \<times> string \<times> goerr option) \<times> 'w" where
  "h_exec H c \<equiv> h_run H (fst c) (snd c)"

lemma RunOVNNbctl_spec:
  assumes "runner s = Some R"
  shows "\<exists>k out se err w.
    RunOVNNbctl H args s = (Returns (out, se, err), after s w (replicate (Suc k) (nbctl_cmd R args))) \<and>
    k \<le> 200 \<and> (err = None \<or> \<not> refused se \<or> k = 200)"
proof -
  from retry_loop_spec [OF assms] obtain k out se err w where
    r: "retry_loop H (nbctlPath R) (nbctl_args R ovsCommandTimeout args) 200 s =
      (Returns (out, se, err), after s w (replicate (Suc k) (nbctl_cmd R args)))"
      "k \<le> 200" "err = None \<or> \<not> refused se \<or> k = 200"
    unfolding nbctl_cmd_def by metis
  then have "RunOVNNbctl H args s =
      (Returns (unquote out, se, err), after s w (replicate (Suc k) (nbctl_cmd R args)))"
    using assms by (simp add: RunOVNNbctl_def RunOVNNbctlWithTimeout_def runOVNretry_def bnd_def)
  with r show ?thesis by blast
qed

lemma RunOVNNbctl_once:
  assumes "runner s = Some R"
    and "h_exec H (nbctl_cmd R args) (world s) = ((out, se, err), w)"
    and "err = None \<or> \<not> refused se"
  shows "RunOVNNbctl H args s = (Returns (unquote out, se, err), after s w [nbctl_cmd R args])"
  using retry_loop_once [OF assms(1) assms(2) [unfolded nbctl_cmd_def fst_conv snd_conv] assms(3)] assms(1)
  by (simp add: RunOVNNbctl_def RunOVNNbctlWithTimeout_def runOVNretry_def bnd_def nbctl_cmd_def)

lemma RunOVNNbctl_nil: "runner s = None \<Longrightarrow> RunOVNNbctl H args s = (Panics nil_deref, s)"
  by (simp add: RunOVNNbctl_def RunOVNNbctlWithTimeout_def bnd_def)

lemma RunIP_eval:
  assumes "runner s = Some R" and "h_exec H (ip_cmd R args) (world s) = ((out, se, err), w)"
  shows "RunIP H args s = (Returns (TrimSpace out, se, err), after s w [ip_cmd R args])"
  using assms by (simp add: RunIP_def bnd_def run_eval ip_cmd_def)

lemma RunOVSVsctl_eval:
  assumes "runner s = Some R"
    and "h_exec H (vsctl_cmd R args) (world s) = ((out, se, err), w)"
  shows "RunOVSVsctl H args s = (Returns (unquote out, se, err), after s w [vsctl_cmd R args])"
  using assms by (simp add: RunOVSVsctl_def bnd_def run_eval vsctl_cmd_def)

text \<open>Weakest preconditions: enough to follow a caller without looking at the environment.\<close>

lemma wpe_RunOVNNbctl:
  assumes "runner s \<noteq> None" and "\<And>r w cs. Q r (after s w cs)"
  shows "wpe (RunOVNNbctl H args) Q E s"
  using RunOVNNbctl_spec [where s = s and H = H and args = args] assms by (fastforce simp: wpe_def)

lemma wpe_RunIP:
  assumes "runner s \<noteq> None" and "\<And>r w cs. Q r (after s w cs)"
  shows "wpe (RunIP H args) Q E s"
proof -
  from assms obtain R where R: "runner s = Some R" by blast
  obtain out se err w where "h_exec H (ip_cmd R args) (world s) = ((out, se, err), w)" by (rule h_run_cases)
  from RunIP_eval [OF R this] show ?thesis using assms by (simp add: wpe_def)
qed

lemma wpe_RunOVSVsctl:
  assumes "runner s \<noteq> None" and "\<And>r w cs. Q r (after s w cs)"
  shows "wpe (RunOVSVsctl H args) Q E s"
proof -
  from assms obtain R where R: "runner s = Some R" by blast
  obtain out se err w where "h_exec H (vsctl_cmd R args) (world s) = ((out, se, err), w)"
    by (rule h_run_cases)
  from RunOVSVsctl_eval [OF R this] show ?thesis using assms by (simp add: wpe_def)
qed

text \<open>
  A host that never refuses a connection: then \<open>ovn-nbctl\<close> runs exactly once per call.
\<close>

definition reliable :: "('w, 'h) host_scheme \<Rightarrow> bool" where
  "reliable H \<longleftrightarrow> (\<forall>p args w out se err w'. h_run H p args w = ((out, se, err), w') \<longrightarrow> err = None \<or> \<not> refused se)"

lemma reliable_canned: "(\<And>c. snd (snd (f c)) = None) \<Longrightarrow> reliable (canned_host f)"
  unfolding reliable_def canned_host_def by (metis host.select_convs(1) fst_conv snd_conv)

lemma RunOVNNbctl_reliable:
  assumes "runner s = Some R" and "reliable H"
  shows "\<exists>out se err w. RunOVNNbctl H args s = (Returns (out, se, err), after s w [nbctl_cmd R args])"
proof -
  obtain out se err w where r: "h_exec H (nbctl_cmd R args) (world s) = ((out, se, err), w)" by (rule h_run_cases)
  with assms(2) have "err = None \<or> \<not> refused se" unfolding reliable_def by blast
  from RunOVNNbctl_once [OF assms(1) r this] show ?thesis by blast
qed

lemma wpe_RunOVNNbctl_reliable:
  assumes "runner s = Some R" and "reliable H"
    and "\<And>out se err w. Q (out, se, err) (after s w [nbctl_cmd R args])"
  shows "wpe (RunOVNNbctl H args) Q E s"
  using RunOVNNbctl_reliable [OF assms(1,2), of args] assms(3) by (auto simp: wpe_def)

section \<open>Functions that always return\<close>

text \<open>
  \<open>total_run m\<close>: once the helper is set, \<open>m\<close> returns, and all it does to the state
  is to let the environment change and to run commands.
\<close>

named_theorems total_intros "introduction rules for total_run"

definition total_run :: "(('w, 'z) ovn_state_scheme, 'a) go \<Rightarrow> bool" where
  "total_run m \<longleftrightarrow> (\<forall>s. runner s \<noteq> None \<longrightarrow> (\<exists>x w cs. m s = (Returns x, after s w cs)))"

lemma total_runD: "total_run m \<Longrightarrow> runner s \<noteq> None \<Longrightarrow> \<exists>x w cs. m s = (Returns x, after s w cs)"
  by (simp add: total_run_def)

lemma wpe_total_run:
  "total_run m \<Longrightarrow> runner s \<noteq> None \<Longrightarrow> (\<And>x w cs. Q x (after s w cs)) \<Longrightarrow> wpe m Q E s"
  unfolding wpe_def by (drule (1) total_runD) auto

lemma total_ret [total_intros]: "total_run (ret x)"
  unfolding total_run_def ret_def by (metis after_id)

lemma total_ext [total_intros]: "total_run (ext f)"
  unfolding total_run_def
proof (intro allI impI)
  fix s :: "('a, 'b) ovn_state_scheme"
  have "ext f s = (Returns (fst (f (world s))), after s (snd (f (world s))) [])"
    by (simp add: ext_eval after_def)
  then show "\<exists>x w cs. ext f s = (Returns x, after s w cs)" by blast
qed

lemma total_bnd [total_intros]:
  assumes "total_run m" and "\<And>x. total_run (f x)"
  shows "total_run (bnd m f)"
  unfolding total_run_def
proof (intro allI impI)
  fix s :: "('a, 'b) ovn_state_scheme"
  assume s: "runner s \<noteq> None"
  from total_runD [OF assms(1) s] obtain x w cs where m: "m s = (Returns x, after s w cs)" by blast
  have "runner (after s w cs) \<noteq> None" using s by simp
  from total_runD [OF assms(2) this] obtain y w' cs' where
    "f x (after s w cs) = (Returns y, after (after s w cs) w' cs')" by blast
  with m show "\<exists>x w cs. bnd m f s = (Returns x, after s w cs)" by auto
qed

lemma total_if [total_intros]: "(b \<Longrightarrow> total_run m) \<Longrightarrow> (\<not> b \<Longrightarrow> total_run n) \<Longrightarrow> total_run (if b then m else n)"
  by simp

lemma total_Let [total_intros]: "(\<And>x. x = t \<Longrightarrow> total_run (m x)) \<Longrightarrow> total_run (let x = t in m x)"
  by simp

lemma total_option [total_intros]:
  "(x = None \<Longrightarrow> total_run m) \<Longrightarrow> (\<And>y. x = Some y \<Longrightarrow> total_run (n y)) \<Longrightarrow>
   total_run (case x of None \<Rightarrow> m | Some y \<Rightarrow> n y)"
  by (simp split: option.splits)

lemma total_sum [total_intros]:
  "(\<And>y. x = Inl y \<Longrightarrow> total_run (m y)) \<Longrightarrow> (\<And>y. x = Inr y \<Longrightarrow> total_run (n y)) \<Longrightarrow>
   total_run (case x of Inl y \<Rightarrow> m y | Inr y \<Rightarrow> n y)"
  by (simp split: sum.splits)

lemma total_prod [total_intros]:
  "(\<And>a b. p = (a, b) \<Longrightarrow> total_run (m a b)) \<Longrightarrow> total_run (case p of (a, b) \<Rightarrow> m a b)"
  by (simp split: prod.splits)

lemma total_for_range [total_intros]:
  "(\<And>x a. x \<in> set xs \<Longrightarrow> total_run (body x a)) \<Longrightarrow> total_run (for_range xs a body)"
  by (induction xs arbitrary: a) (auto intro!: total_intros)

lemma total_RunOVNNbctl [total_intros]: "total_run (RunOVNNbctl H args)"
  unfolding total_run_def using RunOVNNbctl_spec by blast

lemma total_RunIP [total_intros]: "total_run (RunIP H args)"
  unfolding total_run_def
proof (intro allI impI)
  fix s :: "('a, 'b) ovn_state_scheme"
  assume "runner s \<noteq> None"
  then obtain R where R: "runner s = Some R" by blast
  obtain out se err w where "h_exec H (ip_cmd R args) (world s) = ((out, se, err), w)" by (rule h_run_cases)
  from RunIP_eval [OF R this] show "\<exists>x w cs. RunIP H args s = (Returns x, after s w cs)" by blast
qed

lemma total_RunOVSVsctl [total_intros]: "total_run (RunOVSVsctl H args)"
  unfolding total_run_def
proof (intro allI impI)
  fix s :: "('a, 'b) ovn_state_scheme"
  assume "runner s \<noteq> None"
  then obtain R where R: "runner s = Some R" by blast
  obtain out se err w where "h_exec H (vsctl_cmd R args) (world s) = ((out, se, err), w)" by (rule h_run_cases)
  from RunOVSVsctl_eval [OF R this] show "\<exists>x w cs. RunOVSVsctl H args s = (Returns x, after s w cs)" by blast
qed

lemma total_Sleep [total_intros]: "total_run (Sleep H n)"
  by (simp add: Sleep_def total_intros)

lemma total_Intn [total_intros]: "total_run (Intn H n)"
  unfolding Intn_def by (intro total_intros)

lemma total_map_range [total_intros]: "total_run (map_range H m)"
  unfolding map_range_def by (intro total_intros)

section \<open>Bounded retries\<close>

text \<open>
  C25. Once the helper is set, a call of \<open>ovn-nbctl\<close> returns: the command runs at most 201
  times, always with the same arguments, and unless it ran 201 times the last run succeeded or
  failed for another reason than a refused connection. Nothing else of the state changes.
\<close>

theorem RunOVNNbctl_bounded:
  assumes "runner s = Some R"
  shows "\<exists>k out se err w.
    RunOVNNbctl H args s = (Returns (out, se, err), after s w (replicate (Suc k) (nbctl_cmd R args))) \<and>
    k \<le> 200 \<and> (err = None \<or> \<not> refused se \<or> k = 200)"
  using RunOVNNbctl_spec [OF assms] .

definition demo_state :: "unit ovn_state" where
  "demo_state = \<lparr>world = (), execlog = [], runner = Some demo_runner, ovnConf = None,
     ovnCtl = Some \<lparr>gatewayCache = Map.empty\<rparr>\<rparr>"

lemma demo_state_simps [simp]:
  "runner demo_state = Some demo_runner" "world demo_state = ()" "execlog demo_state = []"
  "ovnCtl demo_state = Some \<lparr>gatewayCache = Map.empty\<rparr>"
  by (simp_all add: demo_state_def)

theorem RunOVNNbctl_bounded_witness:
  "\<exists>k out se err w.
    RunOVNNbctl (canned_host (\<lambda>_. ([], ''Connection refused'', Some (OtherErr ''exit status 1'')))) [''show''] demo_state =
      (Returns (out, se, err), after demo_state w (replicate (Suc k) (nbctl_cmd demo_runner [''show'']))) \<and>
    k \<le> 200 \<and> (err = None \<or> \<not> refused se \<or> k = 200)"
  by (rule RunOVNNbctl_bounded) simp

section \<open>Commands\<close>

lemma emits_run [emits_intros]: "P (p, args) \<Longrightarrow> emits P (run H p args)"
  unfolding emits_def
proof
  fix s :: "('a, 'b) ovn_state_scheme"
  assume "P (p, args)"
  then show "\<exists>cs. execlog (snd (run H p args s)) = execlog s @ cs \<and> list_all P cs"
    by (cases "runner s") (auto simp: run_nil run_eval)
qed

lemma emits_retry_loop: "P (p, args) \<Longrightarrow> emits P (retry_loop H p args n)"
  by (induction n; subst retry_loop.simps) (auto intro!: emits_intros)

lemma nbctl_args_suffix: "\<exists>pre. nbctl_args r n args = pre @ args"
  by (simp add: nbctl_args_def)

lemma emits_RunOVNNbctl [emits_intros]:
  assumes "\<And>p pre. P (p, pre @ args)"
  shows "emits P (RunOVNNbctl H args)"
proof -
  have "P (p, nbctl_args r n args)" for p r n
    using assms nbctl_args_suffix by metis
  then show ?thesis
    by (auto simp: RunOVNNbctl_def RunOVNNbctlWithTimeout_def runOVNretry_def
        intro!: emits_intros emits_retry_loop)
qed

lemma emits_RunIP [emits_intros]:
  assumes "\<And>p. P (p, args)"
  shows "emits P (RunIP H args)"
  using assms by (auto simp: RunIP_def intro!: emits_intros)

lemma emits_RunOVSVsctl [emits_intros]:
  assumes "\<And>p pre. P (p, pre @ args)"
  shows "emits P (RunOVSVsctl H args)"
  using assms [of _ "[_]"] by (auto simp: RunOVSVsctl_def intro!: emits_intros)

section \<open>Values and commands\<close>

text \<open>
  \<open>yields Q m\<close>: when \<open>m\<close> returns \<open>x\<close>, it has run commands \<open>cs\<close> with \<open>Q x cs\<close>.
  It says of a call that returns what \<open>emits\<close> says of every call, together with its value.
\<close>

definition yields :: "('a \<Rightarrow> (string \<times> string list) list \<Rightarrow> bool) \<Rightarrow> (('w, 'z) gstate_scheme, 'a) go \<Rightarrow> bool" where
  "yields Q m \<longleftrightarrow> (\<forall>s x s'. m s = (Returns x, s') \<longrightarrow> (\<exists>cs. execlog s' = execlog s @ cs \<and> Q x cs))"

lemma yieldsI:
  assumes "\<And>s x s'. m s = (Returns x, s') \<Longrightarrow> \<exists>cs. execlog s' = execlog s @ cs \<and> Q x cs"
  shows "yields Q m"
  using assms by (auto simp: yields_def)

lemma yields_mono: "yields P m \<Longrightarrow> (\<And>x cs. P x cs \<Longrightarrow> Q x cs) \<Longrightarrow> yields Q m"
  unfolding yields_def by blast

lemma yields_ret: "Q x [] \<Longrightarrow> yields Q (ret x)"
  by (auto simp: yields_def)

lemma yields_bnd:
  assumes "yields P m" and "\<And>x cs. P x cs \<Longrightarrow> yields (\<lambda>y ds. Q y (cs @ ds)) (f x)"
  shows "yields Q (bnd m f)"
proof (rule yieldsI)
  fix s y s'
  assume "bnd m f s = (Returns y, s')"
  then obtain x t where m: "m s = (Returns x, t)" and f: "f x t = (Returns y, s')" by (rule bnd_ReturnsE)
  from m assms(1) obtain cs where cs: "execlog t = execlog s @ cs" "P x cs" unfolding yields_def by blast
  from f assms(2) [OF cs(2)] obtain ds where "execlog s' = execlog t @ ds" "Q y (cs @ ds)" unfolding yields_def by blast
  with cs show "\<exists>cs. execlog s' = execlog s @ cs \<and> Q y cs" by auto
qed

lemma yields_if: "(b \<Longrightarrow> yields Q m) \<Longrightarrow> (\<not> b \<Longrightarrow> yields Q n) \<Longrightarrow> yields Q (if b then m else n)"
  by simp

lemma yields_emits: "emits (\<lambda>_. True) m \<Longrightarrow> (\<And>x cs. Q x cs) \<Longrightarrow> yields Q m"
  unfolding emits_def yields_def by (metis snd_conv)

lemma yields_RunOVNNbctl: "yields (\<lambda>r cs. \<exists>R k. cs = replicate (Suc k) (nbctl_cmd R args)) (RunOVNNbctl H args)"
proof (rule yieldsI)
  fix s x s'
  assume run: "RunOVNNbctl H args s = (Returns x, s')"
  then obtain R where "runner s = Some R" using RunOVNNbctl_nil [of s H args] by (cases "runner s") auto
  from RunOVNNbctl_spec [OF this, of H args] run obtain k w where "s' = after s w (replicate (Suc k) (nbctl_cmd R args))" by auto
  then have "execlog s' = execlog s @ replicate (Suc k) (nbctl_cmd R args)" by simp
  then show "\<exists>cs. execlog s' = execlog s @ cs \<and> (\<exists>R k. cs = replicate (Suc k) (nbctl_cmd R args))" by blast
qed

lemma yields_for_range:
  fixes body :: "'x \<Rightarrow> 'b \<Rightarrow> (('w, 'z) gstate_scheme, 'c + 'b) go"
  assumes "\<And>x a cs. x \<in> set xs \<Longrightarrow> I a cs \<Longrightarrow> yields (\<lambda>r ds. \<forall>a'. r = Inr a' \<longrightarrow> I a' (cs @ ds)) (body x a)" and "I a cs"
  shows "yields (\<lambda>r ds. \<forall>a'. r = Inr a' \<longrightarrow> I a' (cs @ ds)) (for_range xs a body)"
  using assms
proof (induction xs arbitrary: a cs)
  case Nil
  then show ?case by (auto intro!: yields_ret simp del: ret_apply)
next
  case (Cons x xs)
  show ?case
    unfolding for_range.simps
  proof (rule yields_bnd)
    show "yields (\<lambda>r ds. \<forall>a'. r = Inr a' \<longrightarrow> I a' (cs @ ds)) (body x a)" using Cons.prems by simp
    fix r :: "'c + 'b" and ds
    assume r: "\<forall>a'. r = Inr a' \<longrightarrow> I a' (cs @ ds)"
    show "yields (\<lambda>r es. \<forall>a'. r = Inr a' \<longrightarrow> I a' (cs @ ds @ es)) (case r of Inl v \<Rightarrow> ret (Inl v) | Inr a' \<Rightarrow> for_range xs a' body)"
    proof (cases r)
      case (Inr a')
      with r Cons.IH [of a' "cs @ ds"] Cons.prems(1) show ?thesis by simp
    qed (auto intro!: yields_ret simp del: ret_apply)
  qed
qed

lemma yields_silent: "emits (\<lambda>_. False) m \<Longrightarrow> yields (\<lambda>_ cs. cs = []) m"
proof (rule yieldsI)
  fix s x s'
  assume "emits (\<lambda>_. False) m" and "m s = (Returns x, s')"
  with emits_log [of "\<lambda>_. False" m s] obtain cs where "execlog s' = execlog s @ cs" "list_all (\<lambda>_. False) cs" by auto
  then show "\<exists>cs. execlog s' = execlog s @ cs \<and> cs = []" by (cases cs) auto
qed

lemma yields_after_silent:
  assumes "emits (\<lambda>_. False) m" and "\<And>x. yields Q (f x)"
  shows "yields Q (bnd m f)"
proof (rule yields_bnd [OF yields_silent [OF assms(1)]])
  fix x and cs :: "(string \<times> string list) list"
  assume "cs = []"
  with assms(2) [of x] show "yields (\<lambda>y ds. Q y (cs @ ds)) (f x)" by simp
qed

lemma yields_RunIP: "yields (\<lambda>r cs. map snd cs = [args]) (RunIP H args)"
proof (rule yieldsI)
  fix s x s'
  assume run: "RunIP H args s = (Returns x, s')"
  then obtain R where R: "runner s = Some R" by (cases "runner s") (auto simp: RunIP_def bnd_def)
  obtain out se err w where "h_exec H (ip_cmd R args) (world s) = ((out, se, err), w)" by (rule h_run_cases)
  from RunIP_eval [OF R this] run show "\<exists>cs. execlog s' = execlog s @ cs \<and> map snd cs = [args]" by (auto simp: ip_cmd_def)
qed

section \<open>Frame\<close>

text \<open>
  The frame of the package: whatever part of a process's state does not depend on the
  environment and the log is left alone by everything that only runs commands. The locale fixes
  such a part; it is extended with every function of the package and interpreted for the
  agent's store and for the notification server.
\<close>

locale env_frame =
  fixes view :: "('w, 'z) ovn_state_scheme \<Rightarrow> 'b"
  assumes view_world: "view (s\<lparr>world := w\<rparr>) = view s"
    and view_log: "view (s\<lparr>execlog := l\<rparr>) = view s"
begin

lemma keeps_run [keeps_intros]: "keeps view (run H p args)"
  by (auto simp: run_def view_world view_log intro!: keeps_intros)

lemma keeps_ext_view [keeps_intros]: "keeps view (ext g)"
  by (simp add: view_world keeps_ext)

lemma keeps_retry_loop [keeps_intros]: "keeps view (retry_loop H p args n)"
proof (induction n)
  case 0
  show ?case by (subst retry_loop.simps) (auto intro!: keeps_intros)
next
  case (Suc n)
  then show ?case by (subst retry_loop.simps) (auto simp: Sleep_def intro!: keeps_intros)
qed

lemma keeps_RunOVNNbctl [keeps_intros]: "keeps view (RunOVNNbctl H args)"
  by (auto simp: RunOVNNbctl_def RunOVNNbctlWithTimeout_def runOVNretry_def intro!: keeps_intros)

lemma keeps_RunIP [keeps_intros]: "keeps view (RunIP H args)"
  by (auto simp: RunIP_def intro!: keeps_intros)

lemma keeps_RunOVSVsctl [keeps_intros]: "keeps view (RunOVSVsctl H args)"
  by (auto simp: RunOVSVsctl_def intro!: keeps_intros)

lemma keeps_Sleep [keeps_intros]: "keeps view (Sleep H n)"
  by (auto simp: Sleep_def intro!: keeps_intros)

lemma keeps_Getenv [keeps_intros]: "keeps view (Getenv H v)"
  by (auto simp: Getenv_def intro!: keeps_intros)

lemma keeps_Intn [keeps_intros]: "keeps view (Intn H n)"
  by (auto simp: Intn_def intro!: keeps_intros)

lemma keeps_map_range [keeps_intros]: "keeps view (map_range H m)"
  by (auto simp: map_range_def intro!: keeps_intros)

end

end
