(* ===== verification/GoNet.thy ===== *)
theory GoNet
  imports GoStrings "HOL-Library.Word"
begin

text \<open>
  The part of Go's \<open>net\<close> package the repository uses: parsing and printing IP addresses
  and CIDR blocks, masks, and the 4-byte and 16-byte forms of an IPv4 address, as in Go 1.14
  (the toolchain of the repository's time). An address is a byte slice; \<open>nil\<close> is the
  empty slice. The lemmas are the round trips between addresses and their text.
\<close>

unbundle bit_operations_syntax

section \<open>Definitions\<close>

type_synonym byte = "8 word"
type_synonym IP = "byte list"

fun dtoi_aux :: "nat \<Rightarrow> string \<Rightarrow> (nat \<times> string) option" where
  "dtoi_aux n [] = Some (n, [])"
| "dtoi_aux n (c # cs) =
     (case digit_val c of
        None \<Rightarrow> Some (n, c # cs)
      | Some d \<Rightarrow> if 16777215 \<le> n * 10 + d then None else dtoi_aux (n * 10 + d) cs)"

text \<open>\<open>dtoi\<close>: a decimal number below \<open>0xFFFFFF\<close> and the rest of the string.\<close>

definition dtoi :: "string \<Rightarrow> (nat \<times> string) option" where
  "dtoi s = (case s of [] \<Rightarrow> None | c # _ \<Rightarrow> if is_digit c then dtoi_aux 0 s else None)"

definition hex_val :: "char \<Rightarrow> nat option" where
  "hex_val c = map_of (zip ''0123456789abcdefABCDEF'' ([0..<16] @ [10..<16])) c"

fun xtoi_aux :: "nat \<Rightarrow> string \<Rightarrow> (nat \<times> string) option" where
  "xtoi_aux n [] = Some (n, [])"
| "xtoi_aux n (c # cs) =
     (case hex_val c of
        None \<Rightarrow> Some (n, c # cs)
      | Some d \<Rightarrow> if 16777215 \<le> n * 16 + d then None else xtoi_aux (n * 16 + d) cs)"

definition xtoi :: "string \<Rightarrow> (nat \<times> string) option" where
  "xtoi s = (case s of [] \<Rightarrow> None | c # _ \<Rightarrow> if hex_val c \<noteq> None then xtoi_aux 0 s else None)"

definition v4InV6Prefix :: IP where
  "v4InV6Prefix = [0, 0, 0, 0, 0, 0, 0, 0, 0, 0, 255, 255]"

text \<open>The loop of \<open>parseIPv4\<close>: \<open>k\<close> octets to go; all but the first follow a dot.\<close>

fun parse_octets :: "nat \<Rightarrow> bool \<Rightarrow> string \<Rightarrow> IP option" where
  "parse_octets 0 first s = (if s = [] then Some [] else None)"
| "parse_octets (Suc k) first s =
     (if s = [] then None
      else if \<not> first \<and> hd s \<noteq> CHR ''.'' then None
      else case dtoi (if first then s else tl s) of
          None \<Rightarrow> None
        | Some (n, rest) \<Rightarrow>
            if 255 < n then None
            else map_option (\<lambda>p. of_nat n # p) (parse_octets k False rest))"

definition parseIPv4 :: "string \<Rightarrow> IP option" where
  "parseIPv4 s = map_option (\<lambda>p. v4InV6Prefix @ p) (parse_octets 4 True s)"

fun v6_loop :: "nat \<Rightarrow> string \<Rightarrow> IP \<Rightarrow> nat option \<Rightarrow> (string \<times> IP \<times> nat option) option" where
  "v6_loop 0 s acc e = Some (s, acc, e)"
| "v6_loop (Suc k) s acc e =
     (case xtoi s of
        None \<Rightarrow> None
      | Some (n, rest) \<Rightarrow>
          if 65535 < n then None
          else if rest \<noteq> [] \<and> hd rest = CHR ''.'' then
            (if e = None \<and> length acc \<noteq> 12 then None
             else if 16 < length acc + 4 then None
             else case parseIPv4 s of None \<Rightarrow> None | Some p \<Rightarrow> Some ([], acc @ drop 12 p, e))
          else
            (let acc' = acc @ [of_nat (n div 256), of_nat (n mod 256)] in
             if rest = [] then Some ([], acc', e)
             else if hd rest \<noteq> CHR '':'' \<or> length rest = 1 then None
             else if hd (tl rest) = CHR '':'' then
               (if e \<noteq> None then None
                else if tl (tl rest) = [] then Some ([], acc', Some (length acc'))
                else v6_loop k (tl (tl rest)) acc' (Some (length acc')))
             else v6_loop k (tl rest) acc' e))"

definition v6_finish :: "string \<times> IP \<times> nat option \<Rightarrow> IP option" where
  "v6_finish r = (case r of (s, acc, e) \<Rightarrow>
     if s \<noteq> [] then None
     else if length acc < 16 then
       (case e of None \<Rightarrow> None
        | Some j \<Rightarrow> Some (take j acc @ replicate (16 - length acc) 0 @ drop j acc))
     else if e \<noteq> None then None
     else Some acc)"

definition parseIPv6 :: "string \<Rightarrow> IP option" where
  "parseIPv6 s =
     (if HasPrefix s ''::'' then
        (if drop 2 s = [] then Some (replicate 16 0)
         else case v6_loop 8 (drop 2 s) [] (Some 0) of None \<Rightarrow> None | Some r \<Rightarrow> v6_finish r)
      else case v6_loop 8 s [] None of None \<Rightarrow> None | Some r \<Rightarrow> v6_finish r)"

fun first_sep :: "string \<Rightarrow> char option" where
  "first_sep [] = None"
| "first_sep (c # cs) = (if c = CHR ''.'' \<or> c = CHR '':'' then Some c else first_sep cs)"

text \<open>\<open>net.ParseIP\<close>; the empty slice is \<open>nil\<close>.\<close>

definition ParseIP :: "string \<Rightarrow> IP" where
  "ParseIP s =
     (case first_sep s of
        None \<Rightarrow> []
      | Some c \<Rightarrow> (case (if c = CHR ''.'' then parseIPv4 s else parseIPv6 s) of
                     None \<Rightarrow> [] | Some ip \<Rightarrow> ip))"

fun CIDRMask :: "nat \<Rightarrow> nat \<Rightarrow> IP" where
  "CIDRMask n 0 = []"
| "CIDRMask n (Suc k) =
     (if 8 \<le> n then 255 # CIDRMask (n - 8) k else NOT (drop_bit n 255) # CIDRMask 0 k)"

definition To4 :: "IP \<Rightarrow> IP" where
  "To4 ip = (if length ip = 4 then ip
             else if length ip = 16 \<and> take 12 ip = v4InV6Prefix then drop 12 ip
             else [])"

definition To16 :: "IP \<Rightarrow> IP" where
  "To16 ip = (if length ip = 4 then v4InV6Prefix @ ip else if length ip = 16 then ip else [])"

definition Mask :: "IP \<Rightarrow> IP \<Rightarrow> IP" where
  "Mask ip m =
     (let m' = (if length m = 16 \<and> length ip = 4 \<and> take 12 m = replicate 12 255 then drop 12 m else m);
          ip' = (if length m' = 4 \<and> length ip = 16 \<and> take 12 ip = v4InV6Prefix then drop 12 ip else ip)
      in if length ip' \<noteq> length m' then [] else map2 (AND) ip' m')"

record IPNet =
  net_IP :: IP
  net_Mask :: IP

definition cidr_error :: "string \<Rightarrow> goerr" where
  "cidr_error s = OtherErr (''invalid CIDR address: '' @ s)"

text \<open>\<open>net.ParseCIDR\<close>: the address, the network it is in, or an error.\<close>

definition ParseCIDR :: "string \<Rightarrow> goerr + IP \<times> IPNet" where
  "ParseCIDR s =
     (case Index s CHR ''/'' of
        None \<Rightarrow> Inl (cidr_error s)
      | Some i \<Rightarrow>
          (let addr = take i s; mask = drop (Suc i) s;
               p4 = parseIPv4 addr;
               iplen = (if p4 \<noteq> None then 4 else 16);
               ip = (if p4 \<noteq> None then p4 else parseIPv6 addr)
           in case (ip, dtoi mask) of
                (Some ip, Some (n, [])) \<Rightarrow>
                  if 8 * iplen < n then Inl (cidr_error s)
                  else Inr (ip, \<lparr>net_IP = Mask ip (CIDRMask n iplen), net_Mask = CIDRMask n iplen\<rparr>)
              | _ \<Rightarrow> Inl (cidr_error s)))"

definition byte_ones :: "byte \<Rightarrow> nat option" where
  "byte_ones v = find (\<lambda>k. v = NOT (drop_bit k 255)) [0..<8]"

fun simpleMaskLength :: "IP \<Rightarrow> nat option" where
  "simpleMaskLength [] = Some 0"
| "simpleMaskLength (v # vs) =
     (if v = 255 then map_option (\<lambda>n. n + 8) (simpleMaskLength vs)
      else case byte_ones v of
          None \<Rightarrow> None
        | Some k \<Rightarrow> if \<forall>x\<in>set vs. x = 0 then Some k else None)"

text \<open>The first result of \<open>IPMask.Size\<close>.\<close>

definition mask_ones :: "IP \<Rightarrow> nat" where
  "mask_ones m = (case simpleMaskLength m of None \<Rightarrow> 0 | Some n \<Rightarrow> n)"

definition hexString :: "IP \<Rightarrow> string" where
  "hexString b = concat (map (\<lambda>x. hex02 (unat x)) b)"

fun strip_zeros :: "string \<Rightarrow> string" where
  "strip_zeros [] = []"
| "strip_zeros [c] = [c]"
| "strip_zeros (c # d # cs) = (if c = CHR ''0'' then strip_zeros (d # cs) else c # d # cs)"

definition group_hex :: "nat \<Rightarrow> string" where
  "group_hex g = strip_zeros (hex02 (g div 256) @ hex02 (g mod 256))"

fun groups :: "IP \<Rightarrow> nat list" where
  "groups (a # b # r) = (unat a * 256 + unat b) # groups r"
| "groups _ = []"

fun longest_run :: "nat \<Rightarrow> nat list \<Rightarrow> nat \<times> nat \<Rightarrow> nat \<times> nat" where
  "longest_run i [] best = best"
| "longest_run i (g # gs) best =
     (let r = length (takeWhile (\<lambda>x. x = 0) (g # gs)) in
      longest_run (Suc i) gs (if snd best < r then (i, r) else best))"

definition v6_String :: "IP \<Rightarrow> string" where
  "v6_String ip =
     (let gs = groups ip; best = longest_run 0 gs (0, 0) in
      if snd best \<le> 1 then Join (map group_hex gs) '':''
      else Join (map group_hex (take (fst best) gs)) '':'' @ ''::'' @
           Join (map group_hex (drop (fst best + snd best) gs)) '':'')"

definition dotted :: "IP \<Rightarrow> string" where
  "dotted ip = Join (map (\<lambda>b. Itoa (unat b)) ip) ''.''"

text \<open>\<open>IP.String\<close>.\<close>

definition IP_String :: "IP \<Rightarrow> string" where
  "IP_String ip =
     (if ip = [] then ''<nil>''
      else if To4 ip \<noteq> [] then dotted (To4 ip)
      else if length ip \<noteq> 16 then ''?'' @ hexString ip
      else v6_String ip)"

section \<open>Numerals\<close>

lemma dtoi_aux_append:
  assumes "\<forall>c\<in>set ds. is_digit c"
    and "dtoi_aux n ds = Some (m, [])"
    and "rest = [] \<or> \<not> is_digit (hd rest)"
  shows "dtoi_aux n (ds @ rest) = Some (m, rest)"
  using assms
proof (induction ds arbitrary: n)
  case Nil
  then show ?case by (cases rest) (auto simp: is_digit_def split: option.splits)
next
  case (Cons c ds)
  then show ?case by (auto simp: is_digit_def split: option.splits if_splits)
qed

lemma dtoi_aux_snoc:
  assumes "\<forall>c\<in>set ds. is_digit c" and "dtoi_aux n ds = Some (m, [])"
    and "digit_val c = Some d" and "m * 10 + d < 16777215"
  shows "dtoi_aux n (ds @ [c]) = Some (m * 10 + d, [])"
  using assms
proof (induction ds arbitrary: n)
  case (Cons a ds)
  then show ?case by (auto simp: is_digit_def split: option.splits if_splits)
qed simp

lemma dtoi_aux_Itoa: "n < 16777215 \<Longrightarrow> dtoi_aux 0 (Itoa n) = Some (n, [])"
proof (induction n rule: Itoa.induct)
  case (1 n)
  show ?case
  proof (cases "n < 10")
    case True
    with 1 show ?thesis by (subst Itoa.simps) (simp add: digit_val_hexdigit)
  next
    case False
    with 1 have "dtoi_aux 0 (Itoa (n div 10)) = Some (n div 10, [])" by simp
    with 1 have "dtoi_aux 0 (Itoa (n div 10) @ [hexdigit (n mod 10)]) = Some (n div 10 * 10 + n mod 10, [])"
      by (intro dtoi_aux_snoc) (simp_all add: Itoa_digits digit_val_hexdigit)
    with False show ?thesis by (subst Itoa.simps) simp
  qed
qed

lemma dtoi_Itoa:
  assumes "n < 16777215" and "rest = [] \<or> \<not> is_digit (hd rest)"
  shows "dtoi (Itoa n @ rest) = Some (n, rest)"
proof -
  obtain c cs where c: "Itoa n = c # cs" by (meson Itoa_nonempty neq_Nil_conv)
  moreover have "is_digit c" using Itoa_digits [of n] c by simp
  moreover have "dtoi_aux 0 (Itoa n @ rest) = Some (n, rest)"
    using assms by (intro dtoi_aux_append) (simp_all add: dtoi_aux_Itoa Itoa_digits)
  ultimately show ?thesis by (simp add: dtoi_def)
qed

lemma not_digit_dot [simp]: "\<not> is_digit CHR ''.''"
  by (simp add: is_digit_def digit_val_def upt_rec)

lemma not_digit_slash [simp]: "\<not> is_digit CHR ''/''"
  by (simp add: is_digit_def digit_val_def upt_rec)

lemma not_digit_colon [simp]: "\<not> is_digit CHR '':''"
  by (simp add: is_digit_def digit_val_def upt_rec)

lemma not_digit_space_chars:
  "\<not> is_digit CHR 0x20" "\<not> is_digit CHR 0x09" "\<not> is_digit CHR 0x0A" "\<not> is_digit CHR 0x0B"
  "\<not> is_digit CHR 0x0C" "\<not> is_digit CHR 0x0D"
  by (simp_all add: is_digit_def digit_val_def upt_rec)

lemma not_digit_space: "is_space c \<Longrightarrow> \<not> is_digit c"
  unfolding is_space_def by (elim insertE emptyE; simp add: not_digit_space_chars)

lemma not_digit_quote [simp]: "\<not> is_digit CHR 0x22"
  by (simp add: is_digit_def digit_val_def upt_rec)

section \<open>Dotted addresses\<close>

lemma dotted4: "dotted [a, b, c, d] =
    Itoa (unat a) @ ''.'' @ Itoa (unat b) @ ''.'' @ Itoa (unat c) @ ''.'' @ Itoa (unat d)"
  by (simp add: dotted_def)

lemma byte_small: "unat (b :: byte) < 16777215" "unat (b :: byte) \<le> 255"
  using unsigned_less [of b, where ?'a = nat] by simp_all

lemma Itoa_hd_digit [simp]: "is_digit (hd (Itoa n))"
  using Itoa_digits [of n] by (metis Itoa_nonempty hd_in_set)

lemma length4: "length (ip :: 'a list) = 4 \<longleftrightarrow> (\<exists>a b c d. ip = [a, b, c, d])"
  by (auto simp: length_Suc_conv numeral_eq_Suc)

lemma parse_octets_dotted:
  assumes "length ip = 4"
  shows "parse_octets 4 True (dotted ip) = Some ip"
proof -
  from assms obtain a b c d where ip: "ip = [a, b, c, d]" by (auto simp: length4)
  note Iv = dtoi_Itoa [OF byte_small(1)]
  have "parse_octets (Suc (Suc (Suc (Suc 0)))) True (dotted [a, b, c, d]) = Some [a, b, c, d]"
    unfolding dotted4
    using byte_small(2) [of a] byte_small(2) [of b] byte_small(2) [of c] byte_small(2) [of d]
    by (simp add: Iv dtoi_Itoa [OF byte_small(1), of "[]", simplified] Let_def)
  with ip show ?thesis by (simp add: eval_nat_numeral)
qed

lemma dotted_chars:
  assumes "x \<in> set (dotted ip)"
  shows "is_digit x \<or> x = CHR ''.''"
proof -
  have "x \<in> set (Join xs ''.'') \<Longrightarrow> (\<exists>w\<in>set xs. x \<in> set w) \<or> x = CHR ''.''" for xs
    by (induction xs "''.''" rule: Join.induct) auto
  with assms show ?thesis
    unfolding dotted_def using Itoa_digits by fastforce
qed

lemma first_sep_digits: "\<forall>x\<in>set ds. is_digit x \<Longrightarrow> first_sep (ds @ CHR ''.'' # r) = Some CHR ''.''"
proof (induction ds)
  case (Cons x ds)
  then have "x \<noteq> CHR ''.''" "x \<noteq> CHR '':''" by auto
  with Cons show ?case by simp
qed simp

lemma ParseIP_dotted:
  assumes "length ip = 4"
  shows "ParseIP (dotted ip) = v4InV6Prefix @ ip"
proof -
  from assms obtain a b c d where ip: "ip = [a, b, c, d]" by (auto simp: length4)
  have "first_sep (dotted ip) = Some CHR ''.''"
    unfolding ip dotted4 using first_sep_digits [OF Itoa_digits] by simp
  with assms show ?thesis
    by (simp add: ParseIP_def parseIPv4_def parse_octets_dotted)
qed

lemma To4_length: "length ip = 4 \<Longrightarrow> To4 ip = ip"
  by (simp add: To4_def)

lemma To4_mapped: "length ip = 4 \<Longrightarrow> To4 (v4InV6Prefix @ ip) = ip"
  by (simp add: To4_def v4InV6Prefix_def)

lemma IP_String_4: "length ip = 4 \<Longrightarrow> IP_String ip = dotted ip"
  by (auto simp: IP_String_def To4_length)

lemma IP_String_mapped: "length ip = 4 \<Longrightarrow> IP_String (v4InV6Prefix @ ip) = dotted ip"
  by (auto simp: IP_String_def To4_mapped)

section \<open>Masks and CIDR blocks\<close>

lemma length_CIDRMask [simp]: "length (CIDRMask n k) = k"
  by (induction n k rule: CIDRMask.induct) auto

lemma CIDRMask_0: "CIDRMask 0 k = replicate k 0"
  by (induction k) simp_all

lemma byte_ones_prefix: "k < 8 \<Longrightarrow> byte_ones (NOT (drop_bit k 255)) = Some k"
proof -
  assume "k < 8"
  then have "k = 0 \<or> k = 1 \<or> k = 2 \<or> k = 3 \<or> k = 4 \<or> k = 5 \<or> k = 6 \<or> k = 7" by arith
  then show ?thesis by (elim disjE) (simp_all add: byte_ones_def upt_rec)
qed

lemma not_full_prefix: "k < 8 \<Longrightarrow> NOT (drop_bit k (255 :: byte)) \<noteq> 255"
proof -
  assume "k < 8"
  then have "k = 0 \<or> k = 1 \<or> k = 2 \<or> k = 3 \<or> k = 4 \<or> k = 5 \<or> k = 6 \<or> k = 7" by arith
  then show ?thesis by (elim disjE) simp_all
qed

lemma simpleMaskLength_CIDRMask: "n \<le> 8 * k \<Longrightarrow> simpleMaskLength (CIDRMask n k) = Some n"
  by (induction n k rule: CIDRMask.induct)
    (auto simp: CIDRMask_0 byte_ones_prefix not_full_prefix)

lemma mask_ones_CIDRMask: "n \<le> 8 * k \<Longrightarrow> mask_ones (CIDRMask n k) = n"
  by (simp add: mask_ones_def simpleMaskLength_CIDRMask)

lemma length_Mask4:
  "length ip = 4 \<Longrightarrow> length m = 4 \<Longrightarrow> length (Mask (v4InV6Prefix @ ip) m) = 4"
  by (simp add: Mask_def v4InV6Prefix_def)

lemma Mask4: "length ip = 4 \<Longrightarrow> length m = 4 \<Longrightarrow> Mask (v4InV6Prefix @ ip) m = map2 (AND) ip m"
  by (simp add: Mask_def v4InV6Prefix_def)

lemma slash_notin_dotted: "CHR ''/'' \<notin> set (dotted ip)"
  using dotted_chars by fastforce

lemma ParseCIDR_dotted:
  assumes "length ip = 4" and "n \<le> 32"
  shows "ParseCIDR (dotted ip @ ''/'' @ Itoa n) =
    Inr (v4InV6Prefix @ ip, \<lparr>net_IP = map2 (AND) ip (CIDRMask n 4), net_Mask = CIDRMask n 4\<rparr>)"
proof -
  have "dtoi (Itoa n) = Some (n, [])"
    using dtoi_Itoa [of n "[]"] assms(2) by simp
  then show ?thesis
    using assms
    by (simp add: ParseCIDR_def Index_append slash_notin_dotted parseIPv4_def
        parse_octets_dotted Mask4 Let_def)
qed

section \<open>Characters of printed addresses\<close>

definition hex_chars :: "char set" where
  "hex_chars = set ''0123456789abcdef''"

lemma hex_val_hexdigit [simp]: "n < 16 \<Longrightarrow> hex_val (hexdigit n) = Some n"
proof -
  have "\<forall>n\<in>set [0..<16]. hex_val (hexdigit n) = Some n" by code_simp
  then show "n < 16 \<Longrightarrow> hex_val (hexdigit n) = Some n" by simp
qed

lemma hexdigit_chars: "n < 16 \<Longrightarrow> hexdigit n \<in> hex_chars"
  unfolding hexdigit_def hex_chars_def by (rule nth_mem) simp

lemma set_hexString: "set (hexString b) \<subseteq> hex_chars"
  by (auto simp: hexString_def hex02_def intro!: hexdigit_chars)

lemma set_Join: "set (Join xs sep) \<subseteq> \<Union> (set (map set xs)) \<union> set sep"
  by (induction xs sep rule: Join.induct) auto

lemma set_strip_zeros: "set (strip_zeros s) \<subseteq> set s"
  by (induction s rule: strip_zeros.induct) auto

lemma set_group_hex: "set (group_hex g) \<subseteq> hex_chars"
proof -
  have "set (hex02 (g div 256) @ hex02 (g mod 256)) \<subseteq> hex_chars"
    by (auto simp: hex02_def intro!: hexdigit_chars)
  then show ?thesis unfolding group_hex_def by (rule order_trans [OF set_strip_zeros])
qed

lemma set_Join_group_hex: "set (Join (map group_hex gs) '':'') \<subseteq> hex_chars \<union> {CHR '':''}"
  using set_Join [of "map group_hex gs" "'':''"] set_group_hex by fastforce

lemma slash_notin_IP_String: "CHR ''/'' \<notin> set (IP_String ip)"
proof -
  have hex: "CHR ''/'' \<notin> hex_chars" by (simp add: hex_chars_def)
  have "CHR ''/'' \<notin> set (Join (map group_hex gs) '':'')" for gs
    using set_Join_group_hex [of gs] hex by auto
  moreover have "CHR ''/'' \<notin> set (hexString ip)" using set_hexString hex by blast
  ultimately show ?thesis
    by (simp add: IP_String_def v6_String_def slash_notin_dotted Let_def)
qed

end
