(* ===== verification/OvnCommon.thy ===== *)
theory OvnCommon
  imports OvnExec GoNet
begin

text \<open>
  \<open>internal/pkg/ovn/common.go\<close>: VLAN links, provider bridges and the bridge mapping kept
  in the Open vSwitch database, the cluster router, logical switches with their gateway
  address, address arithmetic and the address lookup used by service chaining.
\<close>

section \<open>VLAN links\<close>

definition CreateVlan :: "('w, 'h) host_scheme \<Rightarrow> string \<Rightarrow> string \<Rightarrow> string \<Rightarrow>
    (('w, 'z) ovn_state_scheme, goerr option) go" where
  "CreateVlan H vlanID interfaceName logicalInterfaceName =
     (if interfaceName = [] \<or> vlanID = [] \<or> logicalInterfaceName = [] then
        ret (Some (Errorf (''CreateVlan invalid parameters: '' @ interfaceName @ '' '' @ vlanID @ '' '' @ logicalInterfaceName)))
      else
      bnd (ext (h_LinkByName H logicalInterfaceName)) (\<lambda>(_, err).
      if err = None then ret None else
      bnd (RunIP H [''link'', ''add'', ''link'', interfaceName, ''name'', logicalInterfaceName, ''type'', ''vlan'', ''id'', vlanID]) (\<lambda>(_, _, err).
      if err \<noteq> None then ret err else
      bnd (RunIP H [''link'', ''set'', logicalInterfaceName, ''alias'', ''nfn-'' @ logicalInterfaceName]) (\<lambda>(_, _, err).
      if err \<noteq> None then ret err else
      bnd (RunIP H [''link'', ''set'', ''dev'', logicalInterfaceName, ''up'']) (\<lambda>(_, _, err).
      if err \<noteq> None then ret err else ret None)))))"

definition DeleteVlan :: "('w, 'h) host_scheme \<Rightarrow> string \<Rightarrow> (('w, 'z) ovn_state_scheme, goerr option) go" where
  "DeleteVlan H logicalInterfaceName =
     (if logicalInterfaceName = [] then ret (Some (Errorf ''DeleteVlan invalid parameters''))
      else
      bnd (RunIP H [''link'', ''del'', ''dev'', logicalInterfaceName]) (\<lambda>(_, _, err).
      if err \<noteq> None then ret err else ret None))"

text \<open>An error of \<open>LinkList\<close> is ignored; its links are then whatever it returned.\<close>

definition GetVlan :: "('w, 'h) host_scheme \<Rightarrow> (('w, 'z) ovn_state_scheme, string list) go" where
  "GetVlan H =
     bnd (ext (h_LinkList H)) (\<lambda>(links, _).
     ret (map LinkName (filter (\<lambda>l. Contains (LinkAlias l) ''nfn-'') links)))"

section \<open>Provider bridges and the bridge mapping\<close>

text \<open>
  The body of the loop that turns the comma-separated mapping into a map: \<open>l[1]\<close> panics
  when a label has no colon (\<open>strings.Split\<close> never returns an empty slice, so the length
  check before it never fires).
\<close>

fun parse_mapping :: "string list \<Rightarrow> (string \<times> string) list \<Rightarrow>
    ('s, (string \<times> string) list option) go" where
  "parse_mapping [] mm = ret (Some mm)"
| "parse_mapping (label # rest) mm =
     (let l = Split label CHR '':'' in
      if length l = 0 then ret None
      else bnd (index l 0) (\<lambda>k. bnd (index l 1) (\<lambda>v.
           parse_mapping rest (AList.update (TrimSpace k) (TrimSpace v) mm))))"

definition print_mapping :: "(string \<times> string) list \<Rightarrow> string" where
  "print_mapping kvs = butlast (concat (map (\<lambda>(k, v). k @ '':'' @ v @ '','') kvs))"

text \<open>The end of \<open>updateOvnBridgeMapping\<close>: print the map and store the text.\<close>

definition write_mapping :: "('w, 'h) host_scheme \<Rightarrow> (string \<times> string) list \<Rightarrow>
    (('w, 'z) ovn_state_scheme, goerr option) go" where
  "write_mapping H mm =
     bnd (map_range H mm) (\<lambda>kvs.
     bnd (if kvs = [] then panic ''slice bounds out of range'' else ret (print_mapping kvs)) (\<lambda>mapping.
     bnd (RunOVSVsctl H [''set'', ''open'', ''.'', ''external-ids:ovn-bridge-mappings='' @ mapping]) (\<lambda>(_, _, err).
     if err \<noteq> None then ret err else ret None)))"

definition updateOvnBridgeMapping :: "('w, 'h) host_scheme \<Rightarrow> string \<Rightarrow> string \<Rightarrow> string \<Rightarrow>
    (('w, 'z) ovn_state_scheme, goerr option) go" where
  "updateOvnBridgeMapping H brName nwName action =
     bnd (RunOVSVsctl H [''get'', ''open'', ''.'', ''external-ids:ovn-bridge-mappings'']) (\<lambda>(stdout, stderr, err).
     if err \<noteq> None \<and> \<not> Contains stderr ''no key'' then ret err else
     bnd (if 0 < length stdout then parse_mapping (Split stdout CHR '','') [] else ret (Some [])) (\<lambda>mm.
     case mm of None \<Rightarrow> ret None | Some mm \<Rightarrow>
     (if action = ''add'' then write_mapping H (AList.update nwName brName mm)
      else if action = ''delete'' then
        (let mm' = AList.delete nwName mm in
         if length mm' = 0 then
           bnd (RunOVSVsctl H [''remove'', ''open'', ''.'', ''external-ids'', ''ovn-bridge-mappings'']) (\<lambda>(_, _, err).
           if err \<noteq> None then ret err else ret None)
         else write_mapping H mm')
      else ret (Some (Errorf (''Invalid action '' @ action))))))"

definition CreatePnBridge :: "('w, 'h) host_scheme \<Rightarrow> string \<Rightarrow> string \<Rightarrow> string \<Rightarrow>
    (('w, 'z) ovn_state_scheme, goerr option) go" where
  "CreatePnBridge H nwName brName intfName =
     (if nwName = [] \<or> brName = [] \<or> intfName = [] then ret (Some (Errorf ''CreatePnBridge invalid parameters''))
      else
      bnd (RunOVSVsctl H [''--may-exist'', ''add-br'', brName]) (\<lambda>(_, _, err).
      if err \<noteq> None then ret err else
      bnd (RunOVSVsctl H [''--may-exist'', ''add-port'', brName, intfName]) (\<lambda>(_, _, err).
      if err \<noteq> None then ret err else
      bnd (RunOVSVsctl H [''set'', ''bridge'', brName, ''external_ids:nfn='' @ nwName]) (\<lambda>(_, _, err).
      if err \<noteq> None then ret err else
      bnd (updateOvnBridgeMapping H brName nwName ''add'') (\<lambda>_. ret None)))))"

definition DeletePnBridge :: "('w, 'h) host_scheme \<Rightarrow> string \<Rightarrow> string \<Rightarrow>
    (('w, 'z) ovn_state_scheme, goerr option) go" where
  "DeletePnBridge H nwName brName =
     (if nwName = [] \<or> brName = [] then ret (Some (Errorf ''DeletePnBridge invalid parameters''))
      else
      bnd (RunOVSVsctl H [''--if-exist'', ''del-br'', brName]) (\<lambda>(_, _, err).
      if err \<noteq> None then ret err else
      bnd (updateOvnBridgeMapping H brName nwName ''delete'') (\<lambda>_. ret None)))"

text \<open>\<open>GetPnBridge\<close>: an empty external ID is only logged.\<close>

definition GetPnBridge :: "('w, 'h) host_scheme \<Rightarrow> string \<Rightarrow> (('w, 'z) ovn_state_scheme, string list) go" where
  "GetPnBridge H externalID =
     bnd (RunOVSVsctl H [''list-br'']) (\<lambda>(stdout, _, err).
     if err \<noteq> None then ret [] else
     bnd (for_range (Split stdout CHR 0x0A) [] (\<lambda>name brList.
       bnd (RunOVSVsctl H [''get'', ''bridge'', name, ''external_ids:'' @ externalID]) (\<lambda>(stdout, _, err).
       ret (Inr (if err \<noteq> None \<or> stdout = [] then brList else brList @ [name]))))) (\<lambda>r.
     case r of Inl u \<Rightarrow> ret u | Inr brList \<Rightarrow> ret brList))"

section \<open>Addresses\<close>

text \<open>\<open>big.Int\<close> from and to big-endian bytes; \<open>Bytes()\<close> has no leading zero byte.\<close>

definition SetBytes :: "IP \<Rightarrow> nat" where
  "SetBytes bs = foldl (\<lambda>acc b. acc * 256 + unat b) 0 bs"

fun Bytes :: "nat \<Rightarrow> IP" where
  "Bytes n = (if n = 0 then [] else Bytes (n div 256) @ [of_nat (n mod 256)])"

declare Bytes.simps [simp del]

definition ipToInt :: "IP \<Rightarrow> nat" where
  "ipToInt ip = (if To4 ip \<noteq> [] then SetBytes (To4 ip) else SetBytes (To16 ip))"

definition intToIP :: "nat \<Rightarrow> IP" where
  "intToIP i = Bytes i"

definition NextIP :: "IP \<Rightarrow> IP" where
  "NextIP ip = intToIP (ipToInt ip + 1)"

section \<open>MAC addresses\<close>

definition generateMac :: "('w, 'h) host_scheme \<Rightarrow> (('w, 'z) gstate_scheme, string) go" where
  "generateMac H =
     bnd (Intn H 255) (\<lambda>a. bnd (Intn H 255) (\<lambda>b. bnd (Intn H 255) (\<lambda>c.
     ret (''00:00:00:'' @ hex02 a @ '':'' @ hex02 b @ '':'' @ hex02 c))))"

section \<open>The cluster router\<close>

definition setupDistributedRouter :: "('w, 'h) host_scheme \<Rightarrow> string \<Rightarrow>
    (('w, 'z) ovn_state_scheme, goerr option) go" where
  "setupDistributedRouter H name =
     bnd (RunOVNNbctl H [''--'', ''--may-exist'', ''lr-add'', name, ''--'', ''set'', ''logical_router'', name, ''external_ids:ovn4nfv-cluster-router=yes'']) (\<lambda>(_, _, err).
     if err \<noteq> None then ret err else
     bnd (RunOVNNbctl H [''--may-exist'', ''ls-add'', ''ovn4nfv-join'']) (\<lambda>(_, _, err).
     if err \<noteq> None then ret err else
     bnd (RunOVNNbctl H [''--if-exist'', ''get'', ''logical_router_port'', ''rtoj-'' @ name, ''mac'']) (\<lambda>(routerMac, _, err).
     if err \<noteq> None then ret err else
     bnd (if routerMac = [] then
            bnd (generateMac H) (\<lambda>mac.
            bnd (RunOVNNbctl H [''--'', ''--may-exist'', ''lrp-add'', name, ''rtoj-'' @ name, mac, ''100.64.1.1/24'', ''--'', ''set'', ''logical_router_port'', ''rtoj-'' @ name, ''external_ids:connect_to_ovn4nfvjoin=yes'']) (\<lambda>(_, _, err).
            ret (mac, err)))
          else ret (routerMac, None)) (\<lambda>(routerMac, err).
     if err \<noteq> None then ret err else
     bnd (RunOVNNbctl H [''--'', ''--may-exist'', ''lsp-add'', ''ovn4nfv-join'', ''jtor-'' @ name, ''--'', ''set'', ''logical_switch_port'', ''jtor-'' @ name, ''type=router'', ''options:router-port=rtoj-'' @ name, ''addresses='' @ [CHR 0x22] @ routerMac @ [CHR 0x22]]) (\<lambda>(_, _, err).
     if err \<noteq> None then ret err else ret None)))))"

section \<open>Logical switches\<close>

definition LS_exists :: goerr where
  "LS_exists = Errorf ''LS exists''"

text \<open>The gateway of \<open>createOvnLS\<close>: the given address if it parses, else the first one.\<close>

definition gateway_ip :: "string \<Rightarrow> IP" where
  "gateway_ip gatewayIP =
     (if gatewayIP = [] then []
      else case ParseCIDR gatewayIP of Inr (ip, _) \<Rightarrow> ip | Inl _ \<Rightarrow> ParseIP gatewayIP)"

definition gateway_mask :: "IPNet \<Rightarrow> string \<Rightarrow> string" where
  "gateway_mask cidr gatewayIP =
     (let n = mask_ones (net_Mask cidr); gwIP = gateway_ip gatewayIP in
      if gwIP = [] then IP_String (NextIP (net_IP cidr)) @ ''/'' @ Itoa n
      else IP_String gwIP @ ''/'' @ Itoa n)"

definition createOvnLS :: "('w, 'h) host_scheme \<Rightarrow> string \<Rightarrow> string \<Rightarrow> string \<Rightarrow> string \<Rightarrow>
    (('w, 'z) ovn_state_scheme, string \<times> goerr option) go" where
  "createOvnLS H name subnet gatewayIP excludeIps =
     bnd (RunOVNNbctl H [''--data=bare'', ''--no-heading'', ''--columns=name'', ''find'', ''logical_switch'', ''name='' @ name]) (\<lambda>(output, _, err).
     if err \<noteq> None then ret ([], err)
     else if name = output then ret ([], Some LS_exists)
     else case ParseCIDR subnet of
       Inl e \<Rightarrow> ret ([], Some e)
     | Inr (_, cidr) \<Rightarrow>
         (let gatewayIPMask = gateway_mask cidr gatewayIP in
          bnd (if excludeIps \<noteq> [] then
                 RunOVNNbctl H [''--wait=hv'', ''--'', ''--may-exist'', ''ls-add'', name, ''--'', ''set'', ''logical_switch'', name, ''other-config:subnet='' @ subnet, ''external-ids:gateway_ip='' @ gatewayIPMask, ''other-config:exclude_ips='' @ excludeIps]
               else
                 RunOVNNbctl H [''--wait=hv'', ''--'', ''--may-exist'', ''ls-add'', name, ''--'', ''set'', ''logical_switch'', name, ''other-config:subnet='' @ subnet, ''external-ids:gateway_ip='' @ gatewayIPMask]) (\<lambda>(_, _, err).
          ret (gatewayIPMask, err))))"

definition GetNetworkSubnet :: "('w, 'h) host_scheme \<Rightarrow> string \<Rightarrow> (('w, 'z) ovn_state_scheme, string \<times> goerr option) go" where
  "GetNetworkSubnet H nw =
     bnd (RunOVNNbctl H [''--if-exists'', ''get'', ''logical_switch'', nw, ''other_config:subnet'']) (\<lambda>(stdout, _, err).
     if err \<noteq> None then ret ([], err) else ret (stdout, None))"

definition not_found :: goerr where
  "not_found = Errorf ''IPAdress Not Found''"

text \<open>The search loop of \<open>GetIPAdressForPod\<close> over the lines of \<open>lsp-list\<close>.\<close>

fun find_port_ip :: "('w, 'h) host_scheme \<Rightarrow> string \<Rightarrow> string list \<Rightarrow>
    (('w, 'z) ovn_state_scheme, string \<times> goerr option) go" where
  "find_port_ip H name [] = ret ([], Some (Errorf (''IPAdress Not Found '' @ name)))"
| "find_port_ip H name (l # ls) =
     (let pn = Fields l in
      if length pn < 2 then ret ([], Some not_found)
      else if Contains (pn ! 1) name then
        (let s = ReplaceAll (ReplaceAll (pn ! 1) ''('' []) '')'' [] in
         bnd (RunOVNNbctl H [''get'', ''logical_switch_port'', s, ''dynamic_addresses'']) (\<lambda>(dna, _, err).
         if err \<noteq> None then ret ([], err)
         else (let ipAddr = Fields dna in
               if length ipAddr < 2 then ret ([], Some not_found) else ret (ipAddr ! 1, None))))
      else find_port_ip H name ls)"

definition GetIPAdressForPod :: "('w, 'h) host_scheme \<Rightarrow> string \<Rightarrow> string \<Rightarrow>
    (('w, 'z) ovn_state_scheme, string \<times> goerr option) go" where
  "GetIPAdressForPod H nw name =
     bnd (RunOVNNbctl H [''--data=bare'', ''--no-heading'', ''--columns=name'', ''find'', ''logical_switch'', ''name='' @ nw]) (\<lambda>(_, _, err).
     if err \<noteq> None then ret ([], err) else
     bnd (RunOVNNbctl H [''lsp-list'', nw]) (\<lambda>(stdout, _, err).
     if err \<noteq> None then ret ([], err)
     else (let ll = Split stdout CHR 0x0A in
           if length ll = 0 then ret ([], Some not_found) else find_port_ip H name ll)))"

section \<open>Functions that always return\<close>

lemma total_CreateVlan [total_intros]: "total_run (CreateVlan H i p l)"
  unfolding CreateVlan_def by (intro total_intros)

lemma total_DeleteVlan [total_intros]: "total_run (DeleteVlan H l)"
  unfolding DeleteVlan_def by (intro total_intros)

lemma total_GetVlan [total_intros]: "total_run (GetVlan H)"
  unfolding GetVlan_def by (intro total_intros)

lemma total_GetPnBridge [total_intros]: "total_run (GetPnBridge H e)"
  unfolding GetPnBridge_def by (intro total_intros)

lemma total_generateMac [total_intros]: "total_run (generateMac H)"
  unfolding generateMac_def by (intro total_intros)

lemma total_setupDistributedRouter [total_intros]: "total_run (setupDistributedRouter H name)"
  unfolding setupDistributedRouter_def by (intro total_intros)

lemma total_createOvnLS [total_intros]: "total_run (createOvnLS H name subnet gw ex)"
  unfolding createOvnLS_def by (intro total_intros)

lemma total_GetNetworkSubnet [total_intros]: "total_run (GetNetworkSubnet H nw)"
  unfolding GetNetworkSubnet_def by (intro total_intros)

lemma total_find_port_ip [total_intros]: "total_run (find_port_ip H name ls)"
proof (induction ls)
  case Nil
  show ?case unfolding find_port_ip.simps by (rule total_ret)
next
  case (Cons l ls)
  then show ?case unfolding find_port_ip.simps by (intro total_intros)
qed

lemma total_GetIPAdressForPod [total_intros]: "total_run (GetIPAdressForPod H nw name)"
  unfolding GetIPAdressForPod_def by (intro total_intros)

context env_frame
begin

lemma keeps_CreateVlan [keeps_intros]: "keeps view (CreateVlan H i p l)"
  unfolding CreateVlan_def by (intro keeps_intros)

lemma keeps_DeleteVlan [keeps_intros]: "keeps view (DeleteVlan H l)"
  unfolding DeleteVlan_def by (intro keeps_intros)

lemma keeps_GetVlan [keeps_intros]: "keeps view (GetVlan H)"
  unfolding GetVlan_def by (intro keeps_intros)

lemma keeps_parse_mapping [keeps_intros]: "keeps view (parse_mapping ls mm)"
proof (induction ls arbitrary: mm)
  case Nil
  show ?case unfolding parse_mapping.simps by (intro keeps_intros)
next
  case (Cons l ls)
  then show ?case unfolding parse_mapping.simps by (intro keeps_intros)
qed

lemma keeps_write_mapping [keeps_intros]: "keeps view (write_mapping H mm)"
  unfolding write_mapping_def by (intro keeps_intros)

lemma keeps_updateOvnBridgeMapping [keeps_intros]: "keeps view (updateOvnBridgeMapping H b n a)"
  unfolding updateOvnBridgeMapping_def by (intro keeps_intros)

lemma keeps_CreatePnBridge [keeps_intros]: "keeps view (CreatePnBridge H n b i)"
  unfolding CreatePnBridge_def by (intro keeps_intros)

lemma keeps_DeletePnBridge [keeps_intros]: "keeps view (DeletePnBridge H n b)"
  unfolding DeletePnBridge_def by (intro keeps_intros)

lemma keeps_GetPnBridge [keeps_intros]: "keeps view (GetPnBridge H e)"
  unfolding GetPnBridge_def by (intro keeps_intros)

lemma keeps_generateMac [keeps_intros]: "keeps view (generateMac H)"
  unfolding generateMac_def by (intro keeps_intros)

lemma keeps_createOvnLS [keeps_intros]: "keeps view (createOvnLS H n sn g e)"
  unfolding createOvnLS_def by (intro keeps_intros)

end

section \<open>Address arithmetic\<close>

lemma SetBytes_Nil [simp]: "SetBytes [] = 0"
  by (simp add: SetBytes_def)

lemma SetBytes_snoc [simp]: "SetBytes (bs @ [b]) = SetBytes bs * 256 + unat b"
  by (simp add: SetBytes_def)

lemma SetBytes_bound: "SetBytes bs < 256 ^ length bs"
proof (induction bs rule: rev_induct)
  case (snoc b bs)
  with byte_small(2) [of b] show ?case by simp
qed simp

lemma Bytes_0 [simp]: "Bytes 0 = []"
  by (subst Bytes.simps) simp

lemma Bytes_pos: "0 < n \<Longrightarrow> Bytes n = Bytes (n div 256) @ [of_nat (n mod 256)]"
  by (subst Bytes.simps) simp

lemma unat_of_nat_byte [simp]: "n < 256 \<Longrightarrow> unat (of_nat n :: byte) = n"
  by (simp add: unat_of_nat)

lemma SetBytes_Bytes [simp]: "SetBytes (Bytes n) = n"
proof (induction n rule: Bytes.induct)
  case (1 n)
  then show ?case by (cases "n = 0") (simp_all add: Bytes_pos [of n])
qed

lemma length_Bytes_le: "n < 256 ^ k \<Longrightarrow> length (Bytes n) \<le> k"
proof (induction k arbitrary: n)
  case (Suc k)
  show ?case
  proof (cases "n = 0")
    case False
    from Suc.prems have "n div 256 < 256 ^ k" by (simp add: div_less_iff_less_mult mult.commute)
    with Suc.IH False show ?thesis by (simp add: Bytes_pos)
  qed simp
qed simp

lemma length_Bytes_gt: "256 ^ k \<le> n \<Longrightarrow> k < length (Bytes n)"
proof (induction k arbitrary: n)
  case 0
  then show ?case by (simp add: Bytes_pos)
next
  case (Suc k)
  then have "256 ^ k \<le> n div 256" by (simp add: less_eq_div_iff_mult_less_eq mult.commute)
  with Suc.IH [OF this] Suc.prems show ?case
    by (subst Bytes_pos) (auto intro: gr0I)
qed

lemma Bytes_SetBytes: "Bytes (SetBytes bs) = dropWhile (\<lambda>b. b = 0) bs"
proof (induction bs rule: rev_induct)
  case (snoc b bs)
  show ?case
  proof (cases "SetBytes bs * 256 + unat b = 0")
    case True
    then have "b = 0" "Bytes (SetBytes bs) = []" by (simp_all add: unat_eq_zero)
    moreover from this(2) snoc have "dropWhile (\<lambda>b. b = 0) bs = []" by simp
    then have "\<forall>x\<in>set bs. x = 0" by (simp only: dropWhile_eq_Nil_conv)
    ultimately show ?thesis using True by (simp only: dropWhile_eq_Nil_conv SetBytes_snoc Bytes_0) simp
  next
    case False
    from byte_small(2) [of b]
    have "(SetBytes bs * 256 + unat b) div 256 = SetBytes bs" "(SetBytes bs * 256 + unat b) mod 256 = unat b"
      by simp_all
    with False have eq: "Bytes (SetBytes (bs @ [b])) = dropWhile (\<lambda>b. b = 0) bs @ [b]"
      by (simp add: Bytes_pos snoc)
    show ?thesis
    proof (cases "dropWhile (\<lambda>b. b = 0) bs = []")
      case True
      with snoc have "SetBytes bs = 0" by (metis SetBytes_Bytes SetBytes_Nil)
      with False have "b \<noteq> 0" by auto
      with eq True show ?thesis by (simp add: dropWhile_append)
    next
      case False
      with eq show ?thesis by (simp add: dropWhile_append)
    qed
  qed
qed simp

lemma ipToInt_4: "length ip = 4 \<Longrightarrow> ipToInt ip = SetBytes ip"
  by (auto simp: ipToInt_def To4_length)

lemma SetBytes_NextIP: "SetBytes (NextIP ip) = ipToInt ip + 1"
  by (simp add: NextIP_def intToIP_def)

lemma length_NextIP: "length (NextIP ip) = 4 \<longleftrightarrow> 2 ^ 24 \<le> ipToInt ip + 1 \<and> ipToInt ip + 1 < 2 ^ 32"
proof
  assume l: "length (NextIP ip) = 4"
  show "2 ^ 24 \<le> ipToInt ip + 1 \<and> ipToInt ip + 1 < 2 ^ 32"
  proof (intro conjI)
    show "ipToInt ip + 1 < 2 ^ 32" using SetBytes_bound [of "NextIP ip"] l by (simp add: SetBytes_NextIP)
    show "2 ^ 24 \<le> ipToInt ip + 1"
    proof (rule ccontr)
      assume "\<not> 2 ^ 24 \<le> ipToInt ip + 1"
      then have "length (Bytes (ipToInt ip + 1)) \<le> 3" by (intro length_Bytes_le) simp
      with l show False by (simp add: NextIP_def intToIP_def)
    qed
  qed
next
  assume "2 ^ 24 \<le> ipToInt ip + 1 \<and> ipToInt ip + 1 < 2 ^ 32"
  then show "length (NextIP ip) = 4"
    using length_Bytes_le [of "ipToInt ip + 1" 4] length_Bytes_gt [of 3 "ipToInt ip + 1"]
    by (simp add: NextIP_def intToIP_def)
qed

text \<open>
  C29. \<open>NextIP\<close> adds one to an IPv4 address. The result is again a four-byte address
  exactly when the first byte of the sum is neither dropped (an address below 1.0.0.0) nor
  overflowed (255.255.255.255), and its big-endian value is the old value plus one.
\<close>

theorem NextIP_correct:
  assumes "length ip = 4"
  shows "SetBytes (NextIP ip) = SetBytes ip + 1 \<and>
    (length (NextIP ip) = 4 \<longleftrightarrow> 2 ^ 24 \<le> SetBytes ip + 1 \<and> SetBytes ip + 1 < 2 ^ 32)"
  using assms length_NextIP [of ip] by (simp add: SetBytes_NextIP ipToInt_4)

theorem NextIP_correct_witness:
  "length [10, 233, 64, 255 :: byte] = 4 \<and> NextIP [10, 233, 64, 255] = [10, 233, 65, 0]"
proof -
  have len: "length [10, 233, 64, 255 :: byte] = 4" by simp
  from NextIP_correct [OF len] have "SetBytes (NextIP [10, 233, 64, 255]) = SetBytes [10, 233, 65, 0]"
    by (simp add: SetBytes_def)
  moreover have "NextIP [10, 233, 64, 255] = Bytes (SetBytes (NextIP [10, 233, 64, 255]))"
    by (simp add: NextIP_def intToIP_def)
  ultimately show ?thesis by (simp add: Bytes_SetBytes)
qed

section \<open>The bridge mapping\<close>

text \<open>
  The text kept under \<open>ovn-bridge-mappings\<close> stands for a map from network to bridge
  names: \<open>mapping_of\<close> reads it the way \<open>updateOvnBridgeMapping\<close> does.
\<close>

definition mapping_of :: "string \<Rightarrow> (string \<rightharpoonup> string) option" where
  "mapping_of t =
     (case parse_mapping (if t = [] then [] else Split t CHR '','') [] () of
        (Returns (Some mm), _) \<Rightarrow> Some (map_of mm) | _ \<Rightarrow> None)"

definition clean :: "string \<Rightarrow> bool" where
  "clean s \<longleftrightarrow> (\<forall>x\<in>set s. \<not> is_space x \<and> x \<noteq> CHR '','' \<and> x \<noteq> CHR '':'' \<and> x \<noteq> CHR 0x22)"

definition clean_mapping :: "(string \<times> string) list \<Rightarrow> bool" where
  "clean_mapping kvs \<longleftrightarrow> distinct (map fst kvs) \<and> (\<forall>(k, v)\<in>set kvs. clean k \<and> clean v)"

definition label :: "string \<times> string \<Rightarrow> string" where
  "label kv = fst kv @ '':'' @ snd kv"

lemma print_mapping_Join: "kvs \<noteq> [] \<Longrightarrow> print_mapping kvs = Join (map label kvs) '',''"
proof (induction kvs)
  case (Cons kv kvs)
  have "concat (map (\<lambda>(k, v). k @ '':'' @ v @ '','') kvs) = [] \<longleftrightarrow> kvs = []"
    by (cases kvs) (auto split: prod.splits)
  with Cons show ?case
    by (cases kvs) (auto simp: print_mapping_def label_def butlast_append split: prod.splits)
qed simp

lemma clean_label:
  "clean k \<Longrightarrow> clean v \<Longrightarrow> CHR '','' \<notin> set (label (k, v))"
  by (auto simp: clean_def label_def)

lemma parse_mapping_labels:
  assumes "\<forall>(k, v)\<in>set kvs. clean k \<and> clean v"
  shows "parse_mapping (map label kvs) mm = ret (Some (fold (\<lambda>(k, v). AList.update k v) kvs mm))"
  using assms
proof (induction kvs arbitrary: mm)
  case (Cons kv kvs)
  obtain k v where kv: "kv = (k, v)" by fastforce
  from Cons.prems kv have k: "clean k" and v: "clean v" by auto
  from k v have "Split (label (k, v)) CHR '':'' = [k, v]"
    unfolding label_def by (auto simp: clean_def intro!: Split_two)
  moreover from k v have "TrimSpace k = k" "TrimSpace v = v"
    by (auto simp: clean_def intro!: TrimSpace_none)
  ultimately show ?case using Cons kv by (simp add: Let_def)
qed simp

lemma distinct_fold_update:
  "distinct (map fst mm) \<Longrightarrow> distinct (map fst (fold (\<lambda>(k, v). AList.update k v) kvs mm))"
  by (induction kvs arbitrary: mm) (auto simp: distinct_update)

lemma map_of_fold_update:
  "map_of (fold (\<lambda>(k, v). AList.update k v) kvs mm) = map_of mm ++ map_of (rev kvs)"
  by (induction kvs arbitrary: mm) (auto simp: update_conv' fun_eq_iff map_add_def split: option.splits)

lemma map_of_rev_distinct: "distinct (map fst kvs) \<Longrightarrow> map_of (rev kvs) = map_of kvs"
  by (intro map_of_inject_set [THEN iffD2]) (simp_all add: rev_map [symmetric])

lemma label_nonempty: "label kv \<noteq> []"
  by (simp add: label_def)

lemma Join_nonempty: "xs \<noteq> [] \<Longrightarrow> hd xs \<noteq> [] \<Longrightarrow> Join xs sep \<noteq> []"
  by (induction xs sep rule: Join.induct) auto

lemma print_mapping_nonempty: "kvs \<noteq> [] \<Longrightarrow> print_mapping kvs \<noteq> []"
  by (simp add: print_mapping_Join Join_nonempty label_nonempty hd_map)

lemma Split_print_mapping:
  assumes "clean_mapping kvs" and "kvs \<noteq> []"
  shows "Split (print_mapping kvs) CHR '','' = map label kvs"
  unfolding print_mapping_Join [OF assms(2)]
  by (rule Split_Join) (use assms clean_label in \<open>auto simp: clean_mapping_def\<close>)

lemma mapping_of_print:
  assumes "clean_mapping kvs"
  shows "mapping_of (print_mapping kvs) = Some (map_of kvs)"
proof (cases "kvs = []")
  case True
  then show ?thesis by (simp add: mapping_of_def print_mapping_def)
next
  case False
  with assms have "parse_mapping (Split (print_mapping kvs) CHR '','') [] () =
      (Returns (Some (fold (\<lambda>(k, v). AList.update k v) kvs [])), ())"
    by (simp add: Split_print_mapping parse_mapping_labels clean_mapping_def)
  with False assms show ?thesis
    by (simp add: mapping_of_def print_mapping_nonempty map_of_fold_update map_of_rev_distinct clean_mapping_def)
qed

lemma in_set_Join: "x \<in> set (Join xs sep) \<Longrightarrow> (\<exists>w\<in>set xs. x \<in> set w) \<or> x \<in> set sep"
  by (induction xs sep rule: Join.induct) auto

lemma unquote_clean:
  assumes "\<forall>x\<in>set s. \<not> is_space x \<and> x \<noteq> CHR 0x22"
  shows "unquote s = s"
proof -
  from assms have "TrimSpace s = s" by (intro TrimSpace_none) blast
  moreover from assms have "Trim s CHR 0x22 = s" by (intro Trim_absent) blast
  ultimately show ?thesis by (simp add: unquote_def)
qed

lemma unquote_print_mapping:
  assumes "clean_mapping kvs"
  shows "unquote (print_mapping kvs) = print_mapping kvs"
proof (cases "kvs = []")
  case False
  then show ?thesis
    using assms
    by (intro unquote_clean)
      (fastforce simp: print_mapping_Join clean_mapping_def clean_def label_def is_space_def dest!: in_set_Join)
qed (simp add: print_mapping_def unquote_clean)

lemma clean_mapping_permute:
  assumes "clean_mapping kvs"
  shows "clean_mapping (permute cs kvs)"
proof -
  have "mset (map fst (permute cs kvs)) = mset (map fst kvs)" by (simp add: mset_permute)
  with assms have "distinct (map fst (permute cs kvs))"
    unfolding clean_mapping_def by (metis mset_eq_imp_distinct_iff)
  with assms show ?thesis by (simp add: clean_mapping_def)
qed

lemma set_update: "set (AList.update k v al) \<subseteq> insert (k, v) (set al)"
  by (induction al) auto

lemma clean_mapping_update:
  "clean_mapping al \<Longrightarrow> clean k \<Longrightarrow> clean v \<Longrightarrow> clean_mapping (AList.update k v al)"
  using set_update [of k v al] by (auto simp: clean_mapping_def distinct_update)

lemma clean_mapping_delete: "clean_mapping al \<Longrightarrow> clean_mapping (AList.delete k al)"
  by (auto simp: clean_mapping_def AList.delete_eq distinct_map_filter)

lemma clean_mapping_fold:
  "clean_mapping mm \<Longrightarrow> \<forall>(k, v)\<in>set kvs. clean k \<and> clean v \<Longrightarrow>
   clean_mapping (fold (\<lambda>(k, v). AList.update k v) kvs mm)"
  by (induction kvs arbitrary: mm) (auto simp: clean_mapping_update)

definition parsed :: "(string \<times> string) list \<Rightarrow> (string \<times> string) list" where
  "parsed kvs = fold (\<lambda>(k, v). AList.update k v) kvs []"

lemma read_mapping:
  assumes "clean_mapping kvs"
  shows "(if 0 < length (print_mapping kvs) then parse_mapping (Split (print_mapping kvs) CHR '','') []
      else ret (Some [])) = ret (Some (parsed kvs))"
proof (cases "kvs = []")
  case False
  with assms show ?thesis
    by (simp add: print_mapping_nonempty Split_print_mapping parse_mapping_labels clean_mapping_def parsed_def)
qed (simp add: print_mapping_def parsed_def)

lemma clean_parsed: "clean_mapping kvs \<Longrightarrow> clean_mapping (parsed kvs)"
  unfolding parsed_def by (rule clean_mapping_fold) (simp_all add: clean_mapping_def)

lemma map_of_parsed: "clean_mapping kvs \<Longrightarrow> map_of (parsed kvs) = map_of kvs"
  by (simp add: parsed_def map_of_fold_update map_of_rev_distinct clean_mapping_def)

definition get_mapping_cmd :: "execHelper \<Rightarrow> string \<times> string list" where
  "get_mapping_cmd R = vsctl_cmd R [''get'', ''open'', ''.'', ''external-ids:ovn-bridge-mappings'']"

definition set_mapping_cmd :: "execHelper \<Rightarrow> string \<Rightarrow> string \<times> string list" where
  "set_mapping_cmd R t = vsctl_cmd R [''set'', ''open'', ''.'', ''external-ids:ovn-bridge-mappings='' @ t]"

definition remove_mapping_cmd :: "execHelper \<Rightarrow> string \<times> string list" where
  "remove_mapping_cmd R = vsctl_cmd R [''remove'', ''open'', ''.'', ''external-ids'', ''ovn-bridge-mappings'']"

lemma RunOVSVsctl_some:
  assumes "runner s = Some R"
  obtains out se err w where "RunOVSVsctl H args s = (Returns (out, se, err), after s w [vsctl_cmd R args])"
  using h_run_cases RunOVSVsctl_eval [OF assms] by metis

lemma write_mapping_eval:
  assumes R: "runner s = Some R" and mm: "clean_mapping mm" "mm \<noteq> []"
  shows "\<exists>kvs' w err. write_mapping H mm s = (Returns err, after s w [set_mapping_cmd R (print_mapping kvs')]) \<and>
    mapping_of (print_mapping kvs') = Some (map_of mm)"
proof -
  obtain cs w where o: "h_Order H (world s) = (cs, w)" by fastforce
  let ?kvs = "permute cs mm"
  let ?s = "s\<lparr>world := w\<rparr>"
  have "?kvs \<noteq> []" using mm(2) by (metis length_0_conv length_permute)
  moreover have "mapping_of (print_mapping ?kvs) = Some (map_of mm)"
    using mapping_of_print [OF clean_mapping_permute [OF mm(1)]] mm(1)
    by (simp add: map_of_permute clean_mapping_def)
  moreover have "runner ?s = Some R" using R by simp
  from RunOVSVsctl_some [OF this] obtain out se err w' where
    "RunOVSVsctl H [''set'', ''open'', ''.'', ''external-ids:ovn-bridge-mappings='' @ print_mapping ?kvs] ?s
      = (Returns (out, se, err), after ?s w' [set_mapping_cmd R (print_mapping ?kvs)])"
    unfolding set_mapping_cmd_def by metis
  moreover have "after ?s w' cs = after s w' cs" for w' cs by (simp add: after_def)
  ultimately have "write_mapping H mm s = (Returns err, after s w' [set_mapping_cmd R (print_mapping ?kvs)])"
    by (simp add: write_mapping_def map_range_def bnd_assoc ext_eval o)
  with \<open>mapping_of (print_mapping ?kvs) = Some (map_of mm)\<close> show ?thesis by blast
qed

lemma update_mapping_start:
  assumes R: "runner s = Some R" and kvs: "clean_mapping kvs"
    and out: "h_exec H (get_mapping_cmd R) (world s) = ((out, se, err), w)"
      "unquote out = print_mapping kvs" "err = None \<or> Contains se ''no key''"
  shows "updateOvnBridgeMapping H br nw action s =
      (if action = ''add'' then write_mapping H (AList.update nw br (parsed kvs))
       else if action = ''delete'' then
         (if AList.delete nw (parsed kvs) = [] then
           bnd (RunOVSVsctl H [''remove'', ''open'', ''.'', ''external-ids'', ''ovn-bridge-mappings'']) (\<lambda>(_, _, err).
             if err \<noteq> None then ret err else ret None)
          else write_mapping H (AList.delete nw (parsed kvs)))
       else ret (Some (Errorf (''Invalid action '' @ action)))) (after s w [get_mapping_cmd R])"
proof -
  from out have run: "RunOVSVsctl H [''get'', ''open'', ''.'', ''external-ids:ovn-bridge-mappings''] s =
      (Returns (print_mapping kvs, se, err), after s w [get_mapping_cmd R])"
    using RunOVSVsctl_eval [OF R out(1) [unfolded get_mapping_cmd_def]] by (simp add: get_mapping_cmd_def)
  from out(3) have ok: "\<not> (err \<noteq> None \<and> \<not> Contains se ''no key'')" by blast
  show ?thesis
    unfolding updateOvnBridgeMapping_def bnd_Returns [where m = "RunOVSVsctl H _" and s = s, OF run] prod.case if_not_P [OF ok]
      read_mapping [OF kvs] bnd_ret_left option.case Let_def length_0_conv ..
qed

text \<open>
  C3. Adding a network to the bridge mapping. Whatever order Go iterates the map in, the text
  written back stands for the old map with the one entry added or replaced: the optimised
  text update refines a map update. The hypotheses say what \<open>ovs-vsctl get\<close> answered:
  a well-formed mapping, or no such key.
\<close>

theorem updateOvnBridgeMapping_add:
  assumes "runner s = Some R" and "clean_mapping kvs" and "clean nw" and "clean br"
    and "h_exec H (get_mapping_cmd R) (world s) = ((out, se, err), w)"
    and "unquote out = print_mapping kvs" and "err = None \<or> Contains se ''no key''"
  shows "\<exists>t w' r. updateOvnBridgeMapping H br nw ''add'' s =
      (Returns r, after s w' [get_mapping_cmd R, set_mapping_cmd R t]) \<and>
    mapping_of t = Some ((map_of kvs)(nw \<mapsto> br))"
proof -
  let ?mm = "AList.update nw br (parsed kvs)"
  let ?s = "after s w [get_mapping_cmd R]"
  have "clean_mapping ?mm" using assms by (intro clean_mapping_update clean_parsed)
  moreover have "?mm \<noteq> []" by (simp add: update_nonempty)
  ultimately obtain kvs' w' r where
    "write_mapping H ?mm ?s = (Returns r, after ?s w' [set_mapping_cmd R (print_mapping kvs')])"
    "mapping_of (print_mapping kvs') = Some (map_of ?mm)"
    using write_mapping_eval [of ?s R ?mm H] assms(1) by auto
  with assms show ?thesis
    by (auto simp: update_mapping_start [OF assms(1,2,5,6,7)] update_conv' map_of_parsed)
qed

definition mapping_state :: "unit ovn_state" where
  "mapping_state = \<lparr>world = (), execlog = [], runner = Some demo_runner, ovnConf = None, ovnCtl = None\<rparr>"

definition mapping_host :: "unit host" where
  "mapping_host = canned_host (\<lambda>c. ([CHR 0x22] @ ''nw_a:br-a'' @ [CHR 0x22, CHR 0x0A], [], None))"

lemma mapping_demo:
  "h_exec mapping_host c w = (([CHR 0x22] @ ''nw_a:br-a'' @ [CHR 0x22, CHR 0x0A], [], None), w)"
  "runner mapping_state = Some demo_runner" "world mapping_state = ()"
  by (simp_all add: mapping_host_def canned_host_def mapping_state_def)

lemma mapping_demo_text:
  "unquote ([CHR 0x22] @ ''nw_a:br-a'' @ [CHR 0x22, CHR 0x0A]) = print_mapping [(''nw_a'', ''br-a'')]"
  by (simp add: unquote_def TrimSpace_def Trim_def TrimLeft_def TrimRight_def trim_left_def
      trim_right_def is_space_def print_mapping_def)

theorem updateOvnBridgeMapping_add_witness:
  "\<exists>t w' r. updateOvnBridgeMapping mapping_host ''br-b'' ''nw_b'' ''add'' mapping_state =
      (Returns r, after mapping_state w' [get_mapping_cmd demo_runner, set_mapping_cmd demo_runner t]) \<and>
    mapping_of t = Some ((map_of [(''nw_a'', ''br-a'')])(''nw_b'' \<mapsto> ''br-b''))"
  by (rule updateOvnBridgeMapping_add [OF _ _ _ _ mapping_demo(1) mapping_demo_text])
    (simp_all add: mapping_demo clean_mapping_def clean_def is_space_def)

text \<open>
  C11. Removing a network from the bridge mapping. If no other network is mapped, the key is
  removed; otherwise the text written stands for the old map without that network.
\<close>

theorem updateOvnBridgeMapping_delete:
  assumes "runner s = Some R" and "clean_mapping kvs"
    and "h_exec H (get_mapping_cmd R) (world s) = ((out, se, err), w)"
    and "unquote out = print_mapping kvs" and "err = None \<or> Contains se ''no key''"
  shows "\<exists>c w' r. updateOvnBridgeMapping H br nw ''delete'' s =
      (Returns r, after s w' [get_mapping_cmd R, c]) \<and>
    (if dom (map_of kvs) \<subseteq> {nw} then c = remove_mapping_cmd R
     else \<exists>t. c = set_mapping_cmd R t \<and> mapping_of t = Some ((map_of kvs)(nw := None)))"
proof -
  let ?mm = "AList.delete nw (parsed kvs)"
  let ?s = "after s w [get_mapping_cmd R]"
  have map: "map_of ?mm = (map_of kvs)(nw := None)"
    using assms(2) by (simp add: delete_conv' map_of_parsed)
  have "?mm = [] \<longleftrightarrow> dom (map_of ?mm) = {}" by (simp add: dom_map_of_conv_image_fst)
  then have empty: "?mm = [] \<longleftrightarrow> dom (map_of kvs) \<subseteq> {nw}" by (auto simp: map)
  have start: "updateOvnBridgeMapping H br nw ''delete'' s =
      (if ?mm = [] then
        bnd (RunOVSVsctl H [''remove'', ''open'', ''.'', ''external-ids'', ''ovn-bridge-mappings'']) (\<lambda>(_, _, err).
          if err \<noteq> None then ret err else ret None)
       else write_mapping H ?mm) ?s"
    by (simp add: update_mapping_start [OF assms])
  show ?thesis
  proof (cases "?mm = []")
    case True
    from assms(1) have "runner ?s = Some R" by simp
    from RunOVSVsctl_some [OF this] obtain out se err w' where
      "RunOVSVsctl H [''remove'', ''open'', ''.'', ''external-ids'', ''ovn-bridge-mappings''] ?s =
        (Returns (out, se, err), after ?s w' [remove_mapping_cmd R])"
      unfolding remove_mapping_cmd_def by metis
    with True start have "updateOvnBridgeMapping H br nw ''delete'' s =
        (Returns err, after s w' [get_mapping_cmd R, remove_mapping_cmd R])" by auto
    with True empty show ?thesis
      by (intro exI [of _ "remove_mapping_cmd R"] exI [of _ w'] exI [of _ err]) simp
  next
    case False
    have "clean_mapping ?mm" using assms(2) by (intro clean_mapping_delete clean_parsed)
    with False write_mapping_eval [of ?s R ?mm H] assms(1) obtain kvs' w' r where
      "write_mapping H ?mm ?s = (Returns r, after ?s w' [set_mapping_cmd R (print_mapping kvs')])"
      "mapping_of (print_mapping kvs') = Some (map_of ?mm)" by auto
    with False start empty map show ?thesis
      by (intro exI [of _ "set_mapping_cmd R (print_mapping kvs')"] exI [of _ w'] exI [of _ r]) auto
  qed
qed

theorem updateOvnBridgeMapping_delete_witness:
  "\<exists>c w' r. updateOvnBridgeMapping mapping_host ''br-a'' ''nw_a'' ''delete'' mapping_state =
      (Returns r, after mapping_state w' [get_mapping_cmd demo_runner, c]) \<and>
    (if dom (map_of [(''nw_a'', ''br-a'')]) \<subseteq> {''nw_a''} then c = remove_mapping_cmd demo_runner
     else \<exists>t. c = set_mapping_cmd demo_runner t \<and>
       mapping_of t = Some ((map_of [(''nw_a'', ''br-a'')])(''nw_a'' := None)))"
  by (rule updateOvnBridgeMapping_delete [OF _ _ mapping_demo(1) mapping_demo_text])
    (simp_all add: mapping_demo clean_mapping_def clean_def is_space_def)

end
