(* ===== verification/GoSha1.thy ===== *)
theory GoSha1
  imports GoNet
begin

text \<open>
  Go's \<open>crypto/sha1\<close> and \<open>encoding/hex\<close>, which \<open>config.GetNodeIntfName\<close> uses to
  name a node's interface: FIPS 180-4 on 32-bit words, as an executable function, with the
  length of its result.
\<close>

type_synonym word32 = "32 word"

definition string_bytes :: "string \<Rightarrow> byte list" where
  "string_bytes s = map (\<lambda>c. of_nat (of_char c)) s"

definition word32_of_bytes :: "byte list \<Rightarrow> word32" where
  "word32_of_bytes bs = foldl (\<lambda>acc b. push_bit 8 acc OR ucast b) 0 bs"

definition bytes_of_word32 :: "word32 \<Rightarrow> byte list" where
  "bytes_of_word32 w = [ucast (drop_bit 24 w), ucast (drop_bit 16 w), ucast (drop_bit 8 w), ucast w]"

definition bytes_of_length :: "nat \<Rightarrow> byte list" where
  "bytes_of_length n = map (\<lambda>i. ucast (drop_bit (8 * i) (of_nat n :: 64 word))) [7, 6, 5, 4, 3, 2, 1, 0]"

definition sha1_pad :: "byte list \<Rightarrow> byte list" where
  "sha1_pad m = m @ [128] @ replicate ((119 - length m mod 64) mod 64) 0 @ bytes_of_length (8 * length m)"

fun chunks :: "nat \<Rightarrow> 'a list \<Rightarrow> 'a list list" where
  "chunks n [] = []"
| "chunks n (x # xs) = (if n = 0 then [] else take n (x # xs) # chunks n (drop (n - 1) xs))"

text \<open>The message schedule: the last sixteen words, the newest first, give the next.\<close>

fun schedule :: "nat \<Rightarrow> word32 list \<Rightarrow> word32 list" where
  "schedule 0 ws = ws"
| "schedule (Suc n) ws =
     schedule n (word_rotl 1 (ws ! 2 XOR ws ! 7 XOR ws ! 13 XOR ws ! 15) # ws)"

record sha1_state =
  h_a :: word32
  h_b :: word32
  h_c :: word32
  h_d :: word32
  h_e :: word32

definition sha1_f :: "nat \<Rightarrow> word32 \<Rightarrow> word32 \<Rightarrow> word32 \<Rightarrow> word32" where
  "sha1_f t b c d =
     (if t < 20 then (b AND c) OR (NOT b AND d)
      else if t < 40 then b XOR c XOR d
      else if t < 60 then (b AND c) OR (b AND d) OR (c AND d)
      else b XOR c XOR d)"

definition sha1_k :: "nat \<Rightarrow> word32" where
  "sha1_k t = (if t < 20 then 0x5A827999 else if t < 40 then 0x6ED9EBA1
     else if t < 60 then 0x8F1BBCDC else 0xCA62C1D6)"

definition sha1_step :: "nat \<Rightarrow> word32 \<Rightarrow> sha1_state \<Rightarrow> sha1_state" where
  "sha1_step t w h =
     \<lparr>h_a = word_rotl 5 (h_a h) + sha1_f t (h_b h) (h_c h) (h_d h) + h_e h + sha1_k t + w,
      h_b = h_a h, h_c = word_rotl 30 (h_b h), h_d = h_c h, h_e = h_d h\<rparr>"

definition sha1_block :: "sha1_state \<Rightarrow> byte list \<Rightarrow> sha1_state" where
  "sha1_block h block =
     (let ws = rev (schedule 64 (rev (map word32_of_bytes (chunks 4 block))));
          r = fold (\<lambda>(t, w). sha1_step t w) (zip [0..<80] ws) h
      in \<lparr>h_a = h_a h + h_a r, h_b = h_b h + h_b r, h_c = h_c h + h_c r, h_d = h_d h + h_d r, h_e = h_e h + h_e r\<rparr>)"

definition sha1_init :: sha1_state where
  "sha1_init = \<lparr>h_a = 0x67452301, h_b = 0xEFCDAB89, h_c = 0x98BADCFE, h_d = 0x10325476, h_e = 0xC3D2E1F0\<rparr>"

definition sha1 :: "byte list \<Rightarrow> byte list" where
  "sha1 m =
     (let h = foldl sha1_block sha1_init (chunks 64 (sha1_pad m)) in
      concat (map bytes_of_word32 [h_a h, h_b h, h_c h, h_d h, h_e h]))"

lemma length_sha1: "length (sha1 m) = 20"
  by (simp add: sha1_def Let_def bytes_of_word32_def)

lemma length_hexString: "length (hexString b) = 2 * length b"
  by (induction b) (simp_all add: hexString_def hex02_def)

end
