(* ===== verification/Config.thy ===== *)
theory Config
  imports GoSha1
begin

text \<open>
  \<open>internal/pkg/config/config.go\<close>: the global configuration, the reflective merge of
  defaults, configuration file and command line, the search for the configuration file, the
  loader of the CNI network configuration, the command line flags and the name of a node's
  interface.
\<close>

section \<open>Configuration records\<close>

record DefaultConfig =
  MTU :: int

record LoggingConfig =
  File :: string
  Level :: int

record CNIConfig =
  ConfDir :: string
  Plugin :: string

record KubernetesConfig =
  Kubeconfig :: string

record config =
  cfg_Default :: DefaultConfig
  cfg_Logging :: LoggingConfig
  cfg_CNI :: CNIConfig
  cfg_Kubernetes :: KubernetesConfig

definition zero_config :: config where
  "zero_config = \<lparr>cfg_Default = \<lparr>MTU = 0\<rparr>, cfg_Logging = \<lparr>File = [], Level = 0\<rparr>,
     cfg_CNI = \<lparr>ConfDir = [], Plugin = []\<rparr>, cfg_Kubernetes = \<lparr>Kubeconfig = []\<rparr>\<rparr>"

text \<open>The initial values of the package's globals.\<close>

definition default_config :: config where
  "default_config = \<lparr>cfg_Default = \<lparr>MTU = 1400\<rparr>, cfg_Logging = \<lparr>File = [], Level = 4\<rparr>,
     cfg_CNI = \<lparr>ConfDir = ''/etc/cni/net.d'', Plugin = ''ovn4nfvk8s-cni''\<rparr>, cfg_Kubernetes = \<lparr>Kubeconfig = []\<rparr>\<rparr>"

section \<open>The reflective merge\<close>

text \<open>
  A value seen through \<open>reflect\<close>: a struct with its fields in order, or something else. A
  field is a string, an int or of another kind.
\<close>

datatype field = FString string | FInt int | FOther string

datatype rvalue = RStruct "field list" | RNotStruct string

fun Kind :: "field \<Rightarrow> string" where
  "Kind (FString _) = ''string''"
| "Kind (FInt _) = ''int''"
| "Kind (FOther k) = k"

fun rKind :: "rvalue \<Rightarrow> string" where
  "rKind (RStruct _) = ''struct''"
| "rKind (RNotStruct k) = k"

fun override_field :: "field \<Rightarrow> field \<Rightarrow> ('s, field) go" where
  "override_field dst (FString v) =
     (if Kind dst \<noteq> ''string'' then panic ''mismatched struct fields''
      else ret (if v \<noteq> [] then FString v else dst))"
| "override_field dst (FInt v) =
     (if Kind dst \<noteq> ''int'' then panic ''mismatched struct fields''
      else ret (if v \<noteq> 0 then FInt v else dst))"
| "override_field dst (FOther k) =
     (if Kind dst \<noteq> k then panic ''mismatched struct fields''
      else panic (''unhandled struct field type: '' @ k))"

fun override_loop :: "field list \<Rightarrow> field list \<Rightarrow> ('s, field list) go" where
  "override_loop (d # ds) (f # fs) =
     bnd (override_field d f) (\<lambda>d'. bnd (override_loop ds fs) (\<lambda>ds'. ret (d' # ds')))"
| "override_loop ds _ = ret ds"

definition overrideFields :: "rvalue \<Rightarrow> rvalue \<Rightarrow> ('s, rvalue) go" where
  "overrideFields dst src =
     (case (dst, src) of
        (RStruct ds, RStruct fs) \<Rightarrow>
          (if length ds \<noteq> length fs then panic ''mismatched struct types''
           else bnd (override_loop ds fs) (\<lambda>r. ret (RStruct r)))
      | _ \<Rightarrow> panic ''mismatched value types'')"

text \<open>How the four structs look through \<open>reflect\<close>, and back.\<close>

definition refl_Default :: "DefaultConfig \<Rightarrow> rvalue" where
  "refl_Default c = RStruct [FInt (MTU c)]"

definition refl_Logging :: "LoggingConfig \<Rightarrow> rvalue" where
  "refl_Logging c = RStruct [FString (File c), FInt (Level c)]"

definition refl_CNI :: "CNIConfig \<Rightarrow> rvalue" where
  "refl_CNI c = RStruct [FString (ConfDir c), FString (Plugin c)]"

definition refl_Kubernetes :: "KubernetesConfig \<Rightarrow> rvalue" where
  "refl_Kubernetes c = RStruct [FString (Kubeconfig c)]"

fun unrefl_Default :: "rvalue \<Rightarrow> DefaultConfig" where
  "unrefl_Default (RStruct [FInt m]) = \<lparr>MTU = m\<rparr>"
| "unrefl_Default _ = \<lparr>MTU = 0\<rparr>"

fun unrefl_Logging :: "rvalue \<Rightarrow> LoggingConfig" where
  "unrefl_Logging (RStruct [FString f, FInt l]) = \<lparr>File = f, Level = l\<rparr>"
| "unrefl_Logging _ = \<lparr>File = [], Level = 0\<rparr>"

fun unrefl_CNI :: "rvalue \<Rightarrow> CNIConfig" where
  "unrefl_CNI (RStruct [FString d, FString p]) = \<lparr>ConfDir = d, Plugin = p\<rparr>"
| "unrefl_CNI _ = \<lparr>ConfDir = [], Plugin = []\<rparr>"

fun unrefl_Kubernetes :: "rvalue \<Rightarrow> KubernetesConfig" where
  "unrefl_Kubernetes (RStruct [FString k]) = \<lparr>Kubeconfig = k\<rparr>"
| "unrefl_Kubernetes _ = \<lparr>Kubeconfig = []\<rparr>"

section \<open>Command line flags\<close>

text \<open>
  The table \<open>Flags\<close>: the name of a flag, its kind, and the variable it is read into, where it
  has one. Usage texts are left out; \<open>config-file\<close> is asked for by name.
\<close>

datatype cli_flag =
    StringFlag string "(string \<Rightarrow> config \<Rightarrow> config) option"
  | IntFlag string "int \<Rightarrow> config \<Rightarrow> config"

definition Flags :: "cli_flag list" where
  "Flags =
     [StringFlag ''config-file'' None,
      IntFlag ''mtu'' (\<lambda>v c. c\<lparr>cfg_Default := (cfg_Default c)\<lparr>MTU := v\<rparr>\<rparr>),
      IntFlag ''loglevel'' (\<lambda>v c. c\<lparr>cfg_Logging := (cfg_Logging c)\<lparr>Level := v\<rparr>\<rparr>),
      StringFlag ''logfile'' (Some (\<lambda>v c. c\<lparr>cfg_Logging := (cfg_Logging c)\<lparr>File := v\<rparr>\<rparr>)),
      StringFlag ''cni-conf-dir'' (Some (\<lambda>v c. c\<lparr>cfg_CNI := (cfg_CNI c)\<lparr>ConfDir := v\<rparr>\<rparr>)),
      StringFlag ''cni-plugin'' (Some (\<lambda>v c. c\<lparr>cfg_CNI := (cfg_CNI c)\<lparr>Plugin := v\<rparr>\<rparr>)),
      StringFlag ''k8s-kubeconfig'' (Some (\<lambda>v c. c\<lparr>cfg_Kubernetes := (cfg_Kubernetes c)\<lparr>Kubeconfig := v\<rparr>\<rparr>))]"

fun flag_name :: "cli_flag \<Rightarrow> string" where
  "flag_name (StringFlag n _) = n"
| "flag_name (IntFlag n _) = n"

text \<open>
  What the documentation of the flag library promises of a parsed command line: every flag given
  has written its value, of its kind, to its variable, in the order of the command line.
\<close>

fun write_flag :: "cli_flag \<Rightarrow> field \<Rightarrow> config \<Rightarrow> config" where
  "write_flag (StringFlag _ (Some dest)) (FString v) c = dest v c"
| "write_flag (IntFlag _ dest) (FInt v) c = dest v c"
| "write_flag _ _ c = c"

definition parsed_flags :: "(string \<times> field) list \<Rightarrow> config" where
  "parsed_flags given = fold (\<lambda>(n, v) c. case find (\<lambda>f. flag_name f = n) Flags of Some f \<Rightarrow> write_flag f v c | None \<Rightarrow> c) given zero_config"

section \<open>Loading the configuration\<close>

text \<open>
  The state has the package's globals and what the command line set. Outside the repository:
  the file system and the \<open>gcfg\<close> parser (a pure function of the file's text and the struct
  it fills).
\<close>

record 'w cfg_state = "'w gstate" +
  globals :: config
  cliConfig :: config
  cli_config_file :: string

record 'w cfg_host = "'w host" +
  h_Open :: "string \<Rightarrow> 'w \<Rightarrow> (string + goerr) \<times> 'w"
  h_ReadInto :: "config \<Rightarrow> string \<Rightarrow> config \<times> goerr option"
  h_OpenLog :: "string \<Rightarrow> 'w \<Rightarrow> goerr option \<times> 'w"
  h_Stat :: "string \<Rightarrow> 'w \<Rightarrow> goerr option \<times> 'w"

definition override_Default :: "DefaultConfig \<Rightarrow> (('w, 'z) cfg_state_scheme, unit) go" where
  "override_Default src =
     bnd (gets (\<lambda>s. cfg_Default (globals s))) (\<lambda>dst.
     bnd (overrideFields (refl_Default dst) (refl_Default src)) (\<lambda>r.
     modify (globals_update (cfg_Default_update (\<lambda>_. unrefl_Default r)))))"

definition override_Logging :: "LoggingConfig \<Rightarrow> (('w, 'z) cfg_state_scheme, unit) go" where
  "override_Logging src =
     bnd (gets (\<lambda>s. cfg_Logging (globals s))) (\<lambda>dst.
     bnd (overrideFields (refl_Logging dst) (refl_Logging src)) (\<lambda>r.
     modify (globals_update (cfg_Logging_update (\<lambda>_. unrefl_Logging r)))))"

definition override_CNI :: "CNIConfig \<Rightarrow> (('w, 'z) cfg_state_scheme, unit) go" where
  "override_CNI src =
     bnd (gets (\<lambda>s. cfg_CNI (globals s))) (\<lambda>dst.
     bnd (overrideFields (refl_CNI dst) (refl_CNI src)) (\<lambda>r.
     modify (globals_update (cfg_CNI_update (\<lambda>_. unrefl_CNI r)))))"

definition override_Kubernetes :: "KubernetesConfig \<Rightarrow> (('w, 'z) cfg_state_scheme, unit) go" where
  "override_Kubernetes src =
     bnd (gets (\<lambda>s. cfg_Kubernetes (globals s))) (\<lambda>dst.
     bnd (overrideFields (refl_Kubernetes dst) (refl_Kubernetes src)) (\<lambda>r.
     modify (globals_update (cfg_Kubernetes_update (\<lambda>_. unrefl_Kubernetes r)))))"

definition pathExists :: "('w, 'h) cfg_host_scheme \<Rightarrow> string \<Rightarrow> (('w, 'z) cfg_state_scheme, bool) go" where
  "pathExists H path =
     bnd (ext (h_Stat H path)) (\<lambda>err.
     ret (case err of Some e \<Rightarrow> \<not> IsNotExist e | None \<Rightarrow> True))"

definition buildKubernetesConfig :: "('w, 'h) cfg_host_scheme \<Rightarrow> config \<Rightarrow> config \<Rightarrow>
    (('w, 'z) cfg_state_scheme, goerr option) go" where
  "buildKubernetesConfig H cli file =
     bnd (override_Kubernetes (cfg_Kubernetes file)) (\<lambda>_.
     bnd (override_Kubernetes (cfg_Kubernetes cli)) (\<lambda>_.
     bnd (gets (\<lambda>s. Kubeconfig (cfg_Kubernetes (globals s)))) (\<lambda>k.
     let notFound = Some (Errorf (''kubernetes kubeconfig file '' @ k @ '' not found'')) in
     if k = [] then ret notFound else
     bnd (pathExists H k) (\<lambda>ok. if \<not> ok then ret notFound else ret None))))"

definition default_conf_path :: string where
  "default_conf_path = ''/etc/openvswitch/ovn4nfv_k8s.conf''"

definition getConfigFilePath :: "(('w, 'z) cfg_state_scheme, string \<times> bool) go" where
  "getConfigFilePath =
     bnd (gets cli_config_file) (\<lambda>configFile.
     if configFile \<noteq> [] then ret (configFile, False) else ret (default_conf_path, True))"

definition InitConfigWithPath :: "('w, 'h) cfg_host_scheme \<Rightarrow> string \<Rightarrow>
    (('w, 'z) cfg_state_scheme, string \<times> goerr option) go" where
  "InitConfigWithPath H configFile0 =
     bnd (if configFile0 = [] then getConfigFilePath else ret (configFile0, False)) (\<lambda>(configFile, isDefault).
     let retConfigFile = (if isDefault then [] else configFile) in
     bnd (ext (h_Open H configFile)) (\<lambda>f.
     bnd (gets cliConfig) (\<lambda>cli.
     let build = (\<lambda>cfg.
       bnd (override_Default (cfg_Default cfg)) (\<lambda>_.
       bnd (override_Default (cfg_Default cli)) (\<lambda>_.
       bnd (override_CNI (cfg_CNI cfg)) (\<lambda>_.
       bnd (override_CNI (cfg_CNI cli)) (\<lambda>_.
       bnd (override_Logging (cfg_Logging cfg)) (\<lambda>_.
       bnd (override_Logging (cfg_Logging cli)) (\<lambda>_.
       bnd (gets (\<lambda>s. File (cfg_Logging (globals s)))) (\<lambda>logfile.
       bnd (if logfile \<noteq> [] then ext (h_OpenLog H logfile) else ret None) (\<lambda>_.
       bnd (buildKubernetesConfig H cli cfg) (\<lambda>err.
       if err \<noteq> None then ret ([], err) else ret (retConfigFile, None)))))))))))
     in case f of
       Inr e \<Rightarrow>
         (if \<not> isDefault then ret ([], Some (Errorf (''failed to open config file '' @ configFile @ '': '' @ Error e)))
          else build zero_config)
     | Inl text \<Rightarrow>
         (case h_ReadInto H zero_config text of (cfg, perr) \<Rightarrow>
            (case perr of
               Some e \<Rightarrow> ret ([], Some (Errorf (''failed to parse config file '' @ configFile @ '': '' @ Error e)))
             | None \<Rightarrow> build cfg)))))"

definition InitConfig :: "('w, 'h) cfg_host_scheme \<Rightarrow> (('w, 'z) cfg_state_scheme, string \<times> goerr option) go" where
  "InitConfig H = InitConfigWithPath H []"

text \<open>
  \<open>NewClientset\<close> and \<open>ConfigureNetConf\<close>, with the Kubernetes and CNI libraries as
  arguments.
\<close>

definition NewClientset :: "(string \<Rightarrow> 'kc option \<times> goerr option) \<Rightarrow> ('kc option \<Rightarrow> 'cs option \<times> goerr option) \<Rightarrow>
    KubernetesConfig \<Rightarrow> 'cs option \<times> goerr option" where
  "NewClientset BuildConfigFromFlags NewForConfig conf =
     (case (if Kubeconfig conf \<noteq> [] then BuildConfigFromFlags (Kubeconfig conf) else (None, None)) of
        (kconfig, err) \<Rightarrow> if err \<noteq> None then (None, err) else NewForConfig kconfig)"

definition ConfigureNetConf :: "(string \<Rightarrow> 'nc + goerr) \<Rightarrow> ('nc \<Rightarrow> bool) \<Rightarrow> ('nc \<Rightarrow> 'nc \<times> goerr option) \<Rightarrow>
    string \<Rightarrow> 'nc option \<times> goerr option" where
  "ConfigureNetConf unmarshal has_prev parse_prev bytes =
     (case unmarshal bytes of
        Inr e \<Rightarrow> (None, Some (Errorf (''failed to load netconf: '' @ Error e)))
      | Inl conf \<Rightarrow>
          if has_prev conf then
            (case parse_prev conf of (conf', err) \<Rightarrow>
               if err \<noteq> None then (None, err) else (Some conf', None))
          else (Some conf, None))"

section \<open>Node interface names\<close>

definition GetNodeIntfName :: "string \<Rightarrow> string" where
  "GetNodeIntfName node = ''ovn4nfv0-'' @ take 6 (hexString (sha1 (string_bytes node)))"

text \<open>
  C31. The interface name of a node is a valid Linux interface name whatever the node is
  called: exactly 15 characters (\<open>IFNAMSIZ\<close> less the terminator), with no slash and no
  white space, and it starts with the fixed prefix followed by six hexadecimal digits.
\<close>

lemma GetNodeIntfName_valid:
  "length (GetNodeIntfName node) = 15 \<and>
   (\<exists>h. GetNodeIntfName node = ''ovn4nfv0-'' @ h \<and> length h = 6 \<and> set h \<subseteq> hex_chars) \<and>
   list_all (\<lambda>c. \<not> is_space c \<and> c \<noteq> CHR ''/'') (GetNodeIntfName node)"
proof -
  let ?h = "take 6 (hexString (sha1 (string_bytes node)))"
  have len: "length ?h = 6" by (simp add: length_hexString length_sha1)
  have hex: "set ?h \<subseteq> hex_chars"
    using set_take_subset set_hexString by (rule order_trans)
  have "\<not> is_space c \<and> c \<noteq> CHR ''/''" if "c \<in> hex_chars \<or> c \<in> set ''ovn4nfv0-''" for c
    using that by (auto simp: hex_chars_def is_space_def)
  moreover have "c \<in> hex_chars \<or> c \<in> set ''ovn4nfv0-''" if "c \<in> set (GetNodeIntfName node)" for c
    using that hex by (auto simp: GetNodeIntfName_def)
  moreover have "GetNodeIntfName node = ''ovn4nfv0-'' @ ?h" "length (GetNodeIntfName node) = 15"
    using len by (simp_all add: GetNodeIntfName_def)
  ultimately show ?thesis using len hex unfolding list_all_iff by blast
qed

section \<open>Precedence\<close>

text \<open>
  The specification of the merge: a value that is set in the overriding configuration wins.
\<close>

definition prefer_str :: "string \<Rightarrow> string \<Rightarrow> string" where
  "prefer_str a b = (if a \<noteq> [] then a else b)"

definition prefer_int :: "int \<Rightarrow> int \<Rightarrow> int" where
  "prefer_int a b = (if a \<noteq> 0 then a else b)"

definition merge_config :: "config \<Rightarrow> config \<Rightarrow> config" where
  "merge_config a b =
     \<lparr>cfg_Default = \<lparr>MTU = prefer_int (MTU (cfg_Default a)) (MTU (cfg_Default b))\<rparr>,
      cfg_Logging = \<lparr>File = prefer_str (File (cfg_Logging a)) (File (cfg_Logging b)),
        Level = prefer_int (Level (cfg_Logging a)) (Level (cfg_Logging b))\<rparr>,
      cfg_CNI = \<lparr>ConfDir = prefer_str (ConfDir (cfg_CNI a)) (ConfDir (cfg_CNI b)),
        Plugin = prefer_str (Plugin (cfg_CNI a)) (Plugin (cfg_CNI b))\<rparr>,
      cfg_Kubernetes = \<lparr>Kubeconfig = prefer_str (Kubeconfig (cfg_Kubernetes a)) (Kubeconfig (cfg_Kubernetes b))\<rparr>\<rparr>"

named_theorems override_evals "each override is a merge of one part of the globals"

lemma override_Default_eval [override_evals]:
  "override_Default src s =
    (Returns (), s\<lparr>globals := (globals s)\<lparr>cfg_Default := \<lparr>MTU = prefer_int (MTU src) (MTU (cfg_Default (globals s)))\<rparr>\<rparr>\<rparr>)"
  by (simp add: override_Default_def overrideFields_def refl_Default_def prefer_int_def)

lemma override_Logging_eval [override_evals]:
  "override_Logging src s =
    (Returns (), s\<lparr>globals := (globals s)\<lparr>cfg_Logging := \<lparr>File = prefer_str (File src) (File (cfg_Logging (globals s))),
       Level = prefer_int (Level src) (Level (cfg_Logging (globals s)))\<rparr>\<rparr>\<rparr>)"
  by (simp add: override_Logging_def overrideFields_def refl_Logging_def prefer_str_def prefer_int_def)

lemma override_CNI_eval [override_evals]:
  "override_CNI src s =
    (Returns (), s\<lparr>globals := (globals s)\<lparr>cfg_CNI := \<lparr>ConfDir = prefer_str (ConfDir src) (ConfDir (cfg_CNI (globals s))),
       Plugin = prefer_str (Plugin src) (Plugin (cfg_CNI (globals s)))\<rparr>\<rparr>\<rparr>)"
  by (simp add: override_CNI_def overrideFields_def refl_CNI_def prefer_str_def)

lemma override_Kubernetes_eval [override_evals]:
  "override_Kubernetes src s =
    (Returns (), s\<lparr>globals := (globals s)\<lparr>cfg_Kubernetes :=
       \<lparr>Kubeconfig = prefer_str (Kubeconfig src) (Kubeconfig (cfg_Kubernetes (globals s)))\<rparr>\<rparr>\<rparr>)"
  by (simp add: override_Kubernetes_def overrideFields_def refl_Kubernetes_def prefer_str_def)

lemma buildKubernetesConfig_eval:
  assumes k: "k = prefer_str (Kubeconfig (cfg_Kubernetes cli))
      (prefer_str (Kubeconfig (cfg_Kubernetes fc)) (Kubeconfig (cfg_Kubernetes (globals s))))"
  shows "\<exists>err w. buildKubernetesConfig H cli fc s =
      (Returns err, s\<lparr>world := w, globals := (globals s)\<lparr>cfg_Kubernetes := \<lparr>Kubeconfig = k\<rparr>\<rparr>\<rparr>) \<and>
    (err = None \<longleftrightarrow> k \<noteq> [] \<and> (\<forall>e. fst (h_Stat H k (world s)) = Some e \<longrightarrow> \<not> IsNotExist e))"
proof (cases "k = []")
  case True
  have "buildKubernetesConfig H cli fc s =
      (Returns (Some (Errorf (''kubernetes kubeconfig file '' @ k @ '' not found''))),
       s\<lparr>world := world s, globals := (globals s)\<lparr>cfg_Kubernetes := \<lparr>Kubeconfig = k\<rparr>\<rparr>\<rparr>)"
    using True k by (simp add: buildKubernetesConfig_def override_evals)
  with True show ?thesis by blast
next
  case False
  let ?err = "fst (h_Stat H k (world s))" and ?w = "snd (h_Stat H k (world s))"
  let ?r = "if (\<exists>e. ?err = Some e \<and> IsNotExist e) then Some (Errorf (''kubernetes kubeconfig file '' @ k @ '' not found'')) else None"
  have "buildKubernetesConfig H cli fc s =
      (Returns ?r, s\<lparr>world := ?w, globals := (globals s)\<lparr>cfg_Kubernetes := \<lparr>Kubeconfig = k\<rparr>\<rparr>\<rparr>)"
    using False k
    by (auto simp: buildKubernetesConfig_def override_evals pathExists_def ext_eval bnd_assoc split: option.splits)
  with False show ?thesis by (intro exI [of _ ?r] exI [of _ ?w]) auto
qed


text \<open>
  A flag given on the command line decides its setting: whatever the file and the defaults have,
  the last value given for a flag is the setting's, unless it is empty or zero.
\<close>

lemma flag_names: "distinct (map flag_name Flags)"
  by (simp add: Flags_def)

lemma parsed_flags_snoc:
  "parsed_flags (given @ [(n, v)]) = (case find (\<lambda>f. flag_name f = n) Flags of Some f \<Rightarrow> write_flag f v (parsed_flags given) | None \<Rightarrow> parsed_flags given)"
  unfolding parsed_flags_def by simp

lemma flag_decides:
  "v \<noteq> 0 \<Longrightarrow> MTU (cfg_Default (merge_config (parsed_flags (given @ [(''mtu'', FInt v)])) c)) = v"
  "v \<noteq> 0 \<Longrightarrow> Level (cfg_Logging (merge_config (parsed_flags (given @ [(''loglevel'', FInt v)])) c)) = v"
  "t \<noteq> [] \<Longrightarrow> File (cfg_Logging (merge_config (parsed_flags (given @ [(''logfile'', FString t)])) c)) = t"
  "t \<noteq> [] \<Longrightarrow> ConfDir (cfg_CNI (merge_config (parsed_flags (given @ [(''cni-conf-dir'', FString t)])) c)) = t"
  "t \<noteq> [] \<Longrightarrow> Plugin (cfg_CNI (merge_config (parsed_flags (given @ [(''cni-plugin'', FString t)])) c)) = t"
  "t \<noteq> [] \<Longrightarrow> Kubeconfig (cfg_Kubernetes (merge_config (parsed_flags (given @ [(''k8s-kubeconfig'', FString t)])) c)) = t"
  by (simp_all add: parsed_flags_snoc Flags_def merge_config_def prefer_int_def prefer_str_def)

definition demo_cfg_host :: "unit cfg_host" where
  "demo_cfg_host = host.extend (canned_host (\<lambda>_. ([], [], None)))
     (cfg_host.fields (\<lambda>p w. (Inl ''[default]'', w))
        (\<lambda>c t. (c\<lparr>cfg_Default := \<lparr>MTU = 1500\<rparr>, cfg_Kubernetes := \<lparr>Kubeconfig = ''/etc/kubeconfig''\<rparr>\<rparr>, None))
        (\<lambda>p w. (None, w)) (\<lambda>p w. (None, w)))"

definition demo_cfg_state :: "unit cfg_state" where
  "demo_cfg_state = \<lparr>world = (), execlog = [], globals = default_config,
     cliConfig = zero_config\<lparr>cfg_Logging := \<lparr>File = [], Level = 5\<rparr>\<rparr>, cli_config_file = []\<rparr>"


end
