(* ===== verification/ApiTypes.thy ===== *)
theory ApiTypes
  imports Prelude
begin

text \<open>
  The custom resources of \<open>pkg/apis/k8s/v1alpha1\<close> (Network, ProviderNetwork,
  NetworkChaining) and the parts of the Kubernetes objects (object metadata, pods, nodes) the
  repository reads, and the finalizer helpers of \<open>pkg/utils/finalizer_utils.go\<close> with
  the interface the controllers rely on.
\<close>

section \<open>Object metadata\<close>

record ObjectMeta =
  Name :: string
  Namespace :: string
  DeletionTimestamp :: "nat option"
  Finalizers :: "string list"

text \<open>\<open>DeletionTimestamp.IsZero()\<close>: a nil pointer is zero.\<close>

definition IsZero :: "nat option \<Rightarrow> bool" where
  "IsZero t \<longleftrightarrow> t = None"

section \<open>Custom resources\<close>

record IpSubnet =
  sub_Name :: string
  Subnet :: string
  Gateway :: string
  ExcludeIps :: string

record Route =
  Dst :: string
  GW :: string

record DnsSpec =
  Nameservers :: "string list"
  Domain :: string
  Search :: "string list"
  Options :: "string list"

definition Created :: string where
  "Created = ''Created''"

definition CreateInternalError :: string where
  "CreateInternalError = ''CreateInternalError''"

definition DeleteInternalError :: string where
  "DeleteInternalError = ''DeleteInternalError''"

record NetworkSpec =
  nw_CniType :: string
  nw_Ipv4Subnets :: "IpSubnet list"
  nw_Ipv6Subnets :: "IpSubnet list"
  nw_DNS :: DnsSpec
  nw_Routes :: "Route list"

record Network =
  nw_meta :: ObjectMeta
  nw_Spec :: NetworkSpec
  nw_State :: string

record VlanSpec =
  VlanId :: string
  VlanNodeSelector :: string
  vlan_NodeLabelList :: "string list"
  vlan_ProviderInterfaceName :: string
  LogicalInterfaceName :: string

record DirectSpec =
  DirectNodeSelector :: string
  direct_NodeLabelList :: "string list"
  direct_ProviderInterfaceName :: string

record ProviderNetworkSpec =
  pn_CniType :: string
  pn_Ipv4Subnets :: "IpSubnet list"
  pn_Ipv6Subnets :: "IpSubnet list"
  pn_DNS :: DnsSpec
  pn_Routes :: "Route list"
  ProviderNetType :: string
  Vlan :: VlanSpec
  Direct :: DirectSpec

record ProviderNetwork =
  pn_meta :: ObjectMeta
  pn_Spec :: ProviderNetworkSpec
  pn_State :: string

record RoutingNetwork =
  NetworkName :: string
  rn_GatewayIP :: string
  rn_Subnet :: string

record RouteSpec =
  LeftNetwork :: "RoutingNetwork list"
  RightNetwork :: "RoutingNetwork list"
  NetworkChain :: string
  rs_Namespace :: string

record NetworkChainingSpec =
  ChainType :: string
  RoutingSpec :: RouteSpec

record NetworkChaining =
  nc_meta :: ObjectMeta
  nc_Spec :: NetworkChainingSpec
  nc_State :: string

section \<open>Pods\<close>

text \<open>The fields of a pod the repository reads; a pod has the container IDs of its statuses.\<close>

record Pod =
  pod_Name :: string
  pod_Namespace :: string
  Annotations :: "string \<rightharpoonup> string"
  HostNetwork :: bool
  NodeName :: string
  ContainerIDs :: "string list"

section \<open>Finalizer helpers\<close>

fun utils_Contains :: "string list \<Rightarrow> string \<Rightarrow> bool" where
  "utils_Contains [] str = False"
| "utils_Contains (item # rest) str = (if item = str then True else utils_Contains rest str)"

fun utils_Remove :: "string list \<Rightarrow> string \<Rightarrow> string list" where
  "utils_Remove [] str = []"
| "utils_Remove (item # rest) str =
     (if item = str then utils_Remove rest str else item # utils_Remove rest str)"

text \<open>
  What the controllers rely on: \<open>contains\<close> is membership, \<open>remove\<close> drops every
  occurrence of its argument and keeps the order of the others.
\<close>

locale finalizer_list =
  fixes contains :: "'a list \<Rightarrow> 'a \<Rightarrow> bool"
    and remove :: "'a list \<Rightarrow> 'a \<Rightarrow> 'a list"
  assumes contains_iff: "contains xs x \<longleftrightarrow> x \<in> set xs"
    and remove_filter: "remove xs x = filter (\<lambda>y. y \<noteq> x) xs"
begin

lemma removed: "\<not> contains (remove xs x) x"
  by (simp add: contains_iff remove_filter)

lemma others_kept: "y \<noteq> x \<Longrightarrow> contains (remove xs x) y = contains xs y"
  by (simp add: contains_iff remove_filter)

lemma added: "contains (xs @ [x]) x"
  by (simp add: contains_iff)

lemma remove_added: "\<not> contains xs x \<Longrightarrow> remove (xs @ [x]) x = xs"
  by (auto simp: contains_iff remove_filter filter_id_conv)

lemma remove_absent: "\<not> contains xs x \<Longrightarrow> remove xs x = xs"
  by (auto simp: contains_iff remove_filter filter_id_conv)

end

lemma utils_Contains_iff: "utils_Contains xs x \<longleftrightarrow> x \<in> set xs"
  by (induction xs) auto

lemma utils_Remove_filter: "utils_Remove xs x = filter (\<lambda>y. y \<noteq> x) xs"
  by (induction xs) auto

interpretation fin: finalizer_list utils_Contains utils_Remove
  by unfold_locales (auto simp: utils_Contains_iff utils_Remove_filter)

end
