(* ===== verification/OvnController.thy ===== *)
theory OvnController
  imports OvnCommon Config ApiTypes
begin

text \<open>
  \<open>internal/pkg/ovn/ovn.go\<close>: the OVN controller that turns networks, provider networks,
  nodes and pods into logical switches, routers and ports, with its gateway cache, the polling
  loops for dynamic addresses and the annotation text it builds for a pod; and
  \<open>SetupOvnUtils\<close> of \<open>utils.go\<close>.
\<close>

section \<open>Constants, configuration and start-up\<close>

definition ovn4nfvRouterName :: string where
  "ovn4nfvRouterName = ''ovn4nfv-master''"

definition Ovn4nfvAnnotationTag :: string where
  "Ovn4nfvAnnotationTag = ''k8s.plugin.opnfv.org/ovnInterfaces''"

definition Ovn4nfvDefaultNw :: string where
  "Ovn4nfvDefaultNw = ''ovn4nfvk8s-default-nw''"

definition set_ovnConf :: "(OVNNetworkConf \<Rightarrow> OVNNetworkConf) \<Rightarrow> (('w, 'z) ovn_state_scheme, unit) go" where
  "set_ovnConf f = modify (\<lambda>s. s\<lparr>ovnConf := map_option f (ovnConf s)\<rparr>)"

definition GetOvnNetConf :: "('w, 'h) host_scheme \<Rightarrow> (('w, 'z) ovn_state_scheme, goerr option) go" where
  "GetOvnNetConf H =
     bnd (modify (\<lambda>s. s\<lparr>ovnConf := Some \<lparr>conf_Subnet = [], conf_GatewayIP = [], conf_ExcludeIPs = []\<rparr>\<rparr>)) (\<lambda>_.
     bnd (Getenv H ''OVN_SUBNET'') (\<lambda>v.
     bnd (set_ovnConf (conf_Subnet_update (\<lambda>_. v))) (\<lambda>_.
     if v = [] then ret (Some (Errorf ''OVN subnet is not set in nfn-operator configmap env'')) else
     bnd (Getenv H ''OVN_GATEWAYIP'') (\<lambda>v.
     bnd (set_ovnConf (conf_GatewayIP_update (\<lambda>_. v))) (\<lambda>_.
     bnd (Getenv H ''OVN_EXCLUDEIPS'') (\<lambda>v.
     bnd (set_ovnConf (conf_ExcludeIPs_update (\<lambda>_. v))) (\<lambda>_.
     ret None)))))))"

definition SetupOvnUtils :: "('w, 'h) host_scheme \<Rightarrow> (('w, 'z) ovn_state_scheme, goerr option) go" where
  "SetupOvnUtils H =
     bnd (setupDistributedRouter H ovn4nfvRouterName) (\<lambda>err.
     if err \<noteq> None then ret err else
     bnd (gets ovnConf) (\<lambda>c. case c of
       None \<Rightarrow> panic nil_deref
     | Some c \<Rightarrow>
         bnd (createOvnLS H Ovn4nfvDefaultNw (conf_Subnet c) (conf_GatewayIP c) (conf_ExcludeIPs c)) (\<lambda>(_, err).
         if err \<noteq> None \<and> err \<noteq> Some LS_exists then ret err else ret None)))"

text \<open>
  \<open>NewOvnController\<close> returns the pointer it stores in the global \<open>ovnCtl\<close>; the
  methods below work on that global. A nil \<open>exec\<close> is replaced by the real one, so
  \<open>SetExec\<close> always has one.
\<close>

definition NewOvnController :: "('w, 'h) host_scheme \<Rightarrow> (('w, 'z) ovn_state_scheme, Controller option \<times> goerr option) go" where
  "NewOvnController H =
     bnd (SetExec H) (\<lambda>err.
     if err \<noteq> None then ret (None, err) else
     bnd (GetOvnNetConf H) (\<lambda>err.
     if err \<noteq> None then ret (None, err) else
     bnd (SetupOvnUtils H) (\<lambda>err.
     if err \<noteq> None then ret (None, err) else
     bnd (modify (\<lambda>s. s\<lparr>ovnCtl := Some \<lparr>gatewayCache = Map.empty\<rparr>\<rparr>)) (\<lambda>_.
     bnd (gets ovnCtl) (\<lambda>oc. ret (oc, None))))))"

definition GetOvnController :: "(('w, 'z) ovn_state_scheme, Controller option \<times> goerr option) go" where
  "GetOvnController =
     bnd (gets ovnCtl) (\<lambda>oc.
     if oc \<noteq> None then ret (oc, None) else ret (None, Some (Errorf ''OVN Controller not initialized'')))"

section \<open>Networks\<close>

definition CreateNetwork :: "('w, 'h) host_scheme \<Rightarrow> Network \<Rightarrow> (('w, 'z) ovn_state_scheme, goerr option) go" where
  "CreateNetwork H cr =
     (let name = Name (nw_meta cr) in
     bnd (index (nw_Ipv4Subnets (nw_Spec cr)) 0) (\<lambda>sn.
     bnd (createOvnLS H name (Subnet sn) (Gateway sn) (ExcludeIps sn)) (\<lambda>(gatewayIPMask, err).
     if err \<noteq> None then ret err else
     bnd (RunOVNNbctl H [''--if-exist'', ''get'', ''logical_router_port'', ''rtos-'' @ name, ''mac'']) (\<lambda>(routerMac, _, err).
     if err \<noteq> None then ret err else
     bnd (if routerMac = [] then generateMac H else ret routerMac) (\<lambda>routerMac.
     bnd (RunOVNNbctl H [''--wait=hv'', ''--may-exist'', ''lrp-add'', ovn4nfvRouterName, ''rtos-'' @ name, routerMac, gatewayIPMask]) (\<lambda>(_, _, err).
     if err \<noteq> None then ret err else
     bnd (RunOVNNbctl H [''--wait=hv'', ''--'', ''--may-exist'', ''lsp-add'', name, ''stor-'' @ name, ''--'', ''set'', ''logical_switch_port'', ''stor-'' @ name, ''type=router'', ''options:router-port=rtos-'' @ name, ''addresses='' @ [CHR 0x22] @ routerMac @ [CHR 0x22]]) (\<lambda>(_, _, err).
     if err \<noteq> None then ret err else ret None)))))))"

definition DeleteNetwork :: "('w, 'h) host_scheme \<Rightarrow> Network \<Rightarrow> (('w, 'z) ovn_state_scheme, goerr option) go" where
  "DeleteNetwork H cr =
     (let name = Name (nw_meta cr) in
     bnd (RunOVNNbctl H [''--if-exist'', ''--wait=hv'', ''lrp-del'', ''rtos-'' @ name]) (\<lambda>(_, _, err).
     if err \<noteq> None then ret err else
     bnd (RunOVNNbctl H [''--if-exist'', ''--wait=hv'', ''ls-del'', name]) (\<lambda>(_, _, err).
     if err \<noteq> None then ret err else ret None)))"

definition CreateProviderNetwork :: "('w, 'h) host_scheme \<Rightarrow> ProviderNetwork \<Rightarrow>
    (('w, 'z) ovn_state_scheme, goerr option) go" where
  "CreateProviderNetwork H cr =
     (let name = Name (pn_meta cr) in
     bnd (index (pn_Ipv4Subnets (pn_Spec cr)) 0) (\<lambda>sn.
     bnd (createOvnLS H name (Subnet sn) (Gateway sn) (ExcludeIps sn)) (\<lambda>(_, err).
     if err \<noteq> None then ret err else
     bnd (RunOVNNbctl H [''--wait=hv'', ''--'', ''--may-exist'', ''lsp-add'', name, ''server-localnet_'' @ name, ''--'', ''lsp-set-addresses'', ''server-localnet_'' @ name, ''unknown'', ''--'', ''lsp-set-type'', ''server-localnet_'' @ name, ''localnet'', ''--'', ''lsp-set-options'', ''server-localnet_'' @ name, ''network_name=nw_'' @ name]) (\<lambda>(_, _, err).
     if err \<noteq> None then ret err else ret None))))"

definition DeleteProviderNetwork :: "('w, 'h) host_scheme \<Rightarrow> ProviderNetwork \<Rightarrow>
    (('w, 'z) ovn_state_scheme, goerr option) go" where
  "DeleteProviderNetwork H cr =
     bnd (RunOVNNbctl H [''--if-exist'', ''--wait=hv'', ''ls-del'', Name (pn_meta cr)]) (\<lambda>(_, _, err).
     if err \<noteq> None then ret err else ret None)"

definition FindLogicalSwitch :: "('w, 'h) host_scheme \<Rightarrow> string \<Rightarrow> (('w, 'z) ovn_state_scheme, bool) go" where
  "FindLogicalSwitch H name =
     bnd (RunOVNNbctl H [''--data=bare'', ''--no-heading'', ''--columns=name'', ''find'', ''logical_switch'', ''name='' @ name]) (\<lambda>(output, _, err).
     if err \<noteq> None then ret False
     else if name = output then ret True else ret False)"

section \<open>Addresses of ports\<close>

definition getGatewayFromSwitch :: "('w, 'h) host_scheme \<Rightarrow> string \<Rightarrow>
    (('w, 'z) ovn_state_scheme, string \<times> string \<times> goerr option) go" where
  "getGatewayFromSwitch H logicalSwitch =
     bnd (gets ovnCtl) (\<lambda>oc. case oc of None \<Rightarrow> panic nil_deref | Some oc \<Rightarrow>
     bnd (case gatewayCache oc logicalSwitch of
            Some g \<Rightarrow> ret (Inr g)
          | None \<Rightarrow>
              bnd (RunOVNNbctl H [''--if-exists'', ''get'', ''logical_switch'', logicalSwitch, ''external_ids:gateway_ip'']) (\<lambda>(g, _, err).
              if err \<noteq> None then ret (Inl err)
              else if g = [] then ret (Inl (Some (Errorf (''Empty gateway IP in logical switch '' @ logicalSwitch))))
              else bnd (modify (\<lambda>s. s\<lparr>ovnCtl := map_option (gatewayCache_update (\<lambda>m. m(logicalSwitch \<mapsto> g))) (ovnCtl s)\<rparr>)) (\<lambda>_.
                   ret (Inr g)))) (\<lambda>r. case r of
       Inl err \<Rightarrow> ret ([], [], err)
     | Inr g \<Rightarrow>
         (let gatewayIPMask = Split g CHR ''/'' in
          if length gatewayIPMask \<noteq> 2 then
            ret ([], [], Some (Errorf (''Failed to get IP and Mask from gateway CIDR:  '' @ g)))
          else ret (gatewayIPMask ! 0, gatewayIPMask ! 1, None))))"

text \<open>
  The polling loop the three port functions share: at most \<open>count\<close> queries, a second apart;
  an error ends it at once, and a count that runs out is reported apart, because the code then
  returns with a nil error.
\<close>

datatype polled = Got string | Failed "goerr option" | TimedOut

fun poll_addresses :: "('w, 'h) host_scheme \<Rightarrow> string list \<Rightarrow> nat \<Rightarrow> (('w, 'z) ovn_state_scheme, polled) go" where
  "poll_addresses H query 0 = ret TimedOut"
| "poll_addresses H query (Suc n) =
     bnd (RunOVNNbctl H query) (\<lambda>(out, _, err).
     if err = None \<and> out \<noteq> ''[]'' then ret (Got out)
     else if err \<noteq> None then ret (Failed err)
     else bnd (Sleep H 1) (\<lambda>_. poll_addresses H query n))"

definition parse_addresses :: "string \<Rightarrow> string list" where
  "parse_addresses out = Split (Trim (TrimRight (TrimLeft out CHR ''['') CHR '']'') CHR 0x22) CHR '' ''"

definition addNodeLogicalPortWithSwitch :: "('w, 'h) host_scheme \<Rightarrow> string \<Rightarrow> string \<Rightarrow>
    (('w, 'z) ovn_state_scheme, string \<times> string \<times> goerr option) go" where
  "addNodeLogicalPortWithSwitch H logicalSwitch portName =
     bnd (RunOVNNbctl H [''--wait=sb'', ''--'', ''--may-exist'', ''lsp-add'', logicalSwitch, portName, ''--'', ''lsp-set-addresses'', portName, ''dynamic'']) (\<lambda>(_, _, err).
     if err \<noteq> None then ret ([], [], err) else
     bnd (poll_addresses H [''get'', ''logical_switch_port'', portName, ''dynamic_addresses''] 30) (\<lambda>r. case r of
       Failed err \<Rightarrow> ret ([], [], err)
     | TimedOut \<Rightarrow> ret ([], [], None)
     | Got out \<Rightarrow>
         (let addresses = parse_addresses out in
          if length addresses \<noteq> 2 then ret ([], [], None) else
          bnd (getGatewayFromSwitch H logicalSwitch) (\<lambda>(_, mask, err).
          if err \<noteq> None then ret ([], [], err)
          else ret (addresses ! 1 @ ''/'' @ mask, addresses ! 0, None)))))"

definition AddNodeLogicalPorts :: "('w, 'h) host_scheme \<Rightarrow> string \<Rightarrow>
    (('w, 'z) ovn_state_scheme, string \<times> string \<times> goerr option) go" where
  "AddNodeLogicalPorts H node =
     (let portName = GetNodeIntfName (ToLower node) in
     bnd (addNodeLogicalPortWithSwitch H Ovn4nfvDefaultNw portName) (\<lambda>(ipAddr, macAddr, err).
     if err \<noteq> None then ret ([], [], err) else ret (ipAddr, macAddr, None)))"

definition getNodeLogicalPortIPAddr :: "('w, 'h) host_scheme \<Rightarrow> Pod \<Rightarrow>
    (('w, 'z) ovn_state_scheme, string \<times> goerr option) go" where
  "getNodeLogicalPortIPAddr H pod =
     (let portName = GetNodeIntfName (ToLower (NodeName pod)) in
     bnd (poll_addresses H [''get'', ''logical_switch_port'', portName, ''dynamic_addresses''] 30) (\<lambda>r. case r of
       Failed err \<Rightarrow> ret ([], err)
     | TimedOut \<Rightarrow> ret ([], None)
     | Got out \<Rightarrow>
         (let addresses = parse_addresses out in
          if length addresses \<noteq> 2 then ret ([], None) else ret (addresses ! 1, None))))"

section \<open>Ports of pods\<close>

text \<open>The annotation has a backslash before every quote: it is pasted into a JSON string.\<close>

definition bq :: string where
  "bq = [CHR 0x5C, CHR 0x22]"

definition port_annotation :: "string \<Rightarrow> string \<Rightarrow> string \<Rightarrow> string \<Rightarrow> string" where
  "port_annotation ip msk mac gw =
     ''{'' @ bq @ ''ip_address'' @ bq @ '':'' @ bq @ ip @ ''/'' @ msk @ bq @ '', '' @
     bq @ ''mac_address'' @ bq @ '':'' @ bq @ mac @ bq @ '', '' @
     bq @ ''gateway_ip'' @ bq @ '': '' @ bq @ gw @ bq @ ''}''"

text \<open>An empty annotation is the failure value of \<open>addLogicalPortWithSwitch\<close>.\<close>

definition addLogicalPortWithSwitch :: "('w, 'h) host_scheme \<Rightarrow> Pod \<Rightarrow> string \<Rightarrow> string \<Rightarrow> string \<Rightarrow> string \<Rightarrow> string \<Rightarrow>
    (('w, 'z) ovn_state_scheme, string) go" where
  "addLogicalPortWithSwitch H pod logicalSwitch ipAddress macAddress gwipAddress portName =
     (if HostNetwork pod then ret [] else
     bnd (if ipAddress \<noteq> [] \<and> macAddress = [] then generateMac H else ret macAddress) (\<lambda>macAddress.
     let isStaticIP = (ipAddress \<noteq> []);
         ids = [''external-ids:namespace='' @ pod_Namespace pod, ''external-ids:logical_switch='' @ logicalSwitch, ''external-ids:pod=true''] in
     bnd (if isStaticIP then
            RunOVNNbctl H ([''--may-exist'', ''lsp-add'', logicalSwitch, portName, ''--'', ''lsp-set-addresses'', portName, macAddress @ '' '' @ ipAddress, ''--'', ''--if-exists'', ''clear'', ''logical_switch_port'', portName, ''dynamic_addresses'', ''--'', ''set'', ''logical_switch_port'', portName] @ ids)
          else
            RunOVNNbctl H ([''--wait=sb'', ''--'', ''--may-exist'', ''lsp-add'', logicalSwitch, portName, ''--'', ''lsp-set-addresses'', portName, ''dynamic'', ''--'', ''set'', ''logical_switch_port'', portName] @ ids)) (\<lambda>(_, _, err).
     if err \<noteq> None then ret [] else
     bnd (poll_addresses H [''get'', ''logical_switch_port'', portName, if isStaticIP then ''addresses'' else ''dynamic_addresses''] 30) (\<lambda>r. case r of
       Failed _ \<Rightarrow> ret []
     | TimedOut \<Rightarrow> ret []
     | Got out \<Rightarrow>
         (let addresses = parse_addresses out in
          if length addresses \<noteq> 2 then ret [] else
          bnd (getGatewayFromSwitch H logicalSwitch) (\<lambda>(_, mask, err).
          if err \<noteq> None then ret [] else
          bnd (if gwipAddress \<noteq> [] then ret (gwipAddress, None) else getNodeLogicalPortIPAddr H pod) (\<lambda>(gatewayIP, err).
          if err \<noteq> None then ret []
          else ret (port_annotation (addresses ! 1) mask (addresses ! 0) gatewayIP))))))))"

record netInterface =
  if_Name :: string
  Interface :: string
  NetType :: string
  DefaultGateway :: string
  IPAddress :: string
  MacAddress :: string
  GWIPaddress :: string

definition zero_netInterface :: netInterface where
  "zero_netInterface = \<lparr>if_Name = [], Interface = [], NetType = [], DefaultGateway = [],
     IPAddress = [], MacAddress = [], GWIPaddress = []\<rparr>"

definition port_prefix :: "Pod \<Rightarrow> string" where
  "port_prefix pod = pod_Namespace pod @ ''_'' @ pod_Name pod"

text \<open>
  The body of the loop of \<open>AddLogicalPorts\<close>. The decoder is \<open>mapstructure.Decode\<close>: it
  fills the one variable \<open>ns\<close> declared before the loop, so what an entry does not set stays
  from the entry before. \<open>Inl ()\<close> is the bare \<open>return\<close>.
\<close>

definition add_port_step :: "('w, 'h) host_scheme \<Rightarrow> ('o \<Rightarrow> netInterface \<Rightarrow> netInterface \<times> goerr option) \<Rightarrow> Pod \<Rightarrow>
    'o \<Rightarrow> netInterface \<times> bool \<times> string \<Rightarrow> (('w, 'z) ovn_state_scheme, unit + netInterface \<times> bool \<times> string) go" where
  "add_port_step H Decode pod net = (\<lambda>(ns, defaultInterface, ovnString).
     case Decode net ns of (ns, err) \<Rightarrow>
     if err \<noteq> None then ret (Inl ()) else
     bnd (FindLogicalSwitch H (if_Name ns)) (\<lambda>found.
     if \<not> found then ret (Inl ()) else
     let defaultInterface = (if if_Name ns = Ovn4nfvDefaultNw then True else defaultInterface) in
     if Interface ns = [] \<and> if_Name ns \<noteq> Ovn4nfvDefaultNw then ret (Inl ()) else
     let ns = (if DefaultGateway ns = [] then ns\<lparr>DefaultGateway := ''false''\<rparr> else ns);
         portName = (if Interface ns \<noteq> [] then port_prefix pod @ ''_'' @ Interface ns else port_prefix pod);
         ns = (if Interface ns \<noteq> [] then ns else ns\<lparr>Interface := ''*''\<rparr>) in
     bnd (addLogicalPortWithSwitch H pod (if_Name ns) (IPAddress ns) (MacAddress ns) (GWIPaddress ns) portName) (\<lambda>outStr.
     if outStr = [] then ret (Inl ()) else
     let tmpString = butlast outStr @ '','' @ bq @ ''defaultGateway'' @ bq @ '':'' @ bq @ DefaultGateway ns @ bq
           @ '','' @ bq @ ''interface'' @ bq @ '':'' @ bq @ Interface ns @ bq @ ''}'' in
     ret (Inr (ns, defaultInterface, ovnString @ tmpString @ '','')))))"

definition AddLogicalPorts :: "('w, 'h) host_scheme \<Rightarrow> ('o \<Rightarrow> netInterface \<Rightarrow> netInterface \<times> goerr option) \<Rightarrow> Pod \<Rightarrow>
    'o list \<Rightarrow> (('w, 'z) ovn_state_scheme, string \<times> string) go" where
  "AddLogicalPorts H Decode pod ovnNetObjs =
     (if HostNetwork pod then ret ([], [])
      else if Annotations pod Ovn4nfvAnnotationTag \<noteq> None then ret ([], []) else
     bnd (for_range ovnNetObjs (zero_netInterface, False, ''['') (add_port_step H Decode pod)) (\<lambda>r. case r of
       Inl _ \<Rightarrow> ret ([], [])
     | Inr (_, defaultInterface, ovnString) \<Rightarrow>
         bnd (if \<not> defaultInterface then
                bnd (addLogicalPortWithSwitch H pod Ovn4nfvDefaultNw [] [] [] (port_prefix pod)) (\<lambda>outStr.
                if outStr = [] then ret None
                else ret (Some (ovnString @ butlast outStr @ '','' @ bq @ ''interface'' @ bq @ '':'' @ bq @ ''*'' @ bq @ ''}'' @ '','')))
              else ret (Some ovnString)) (\<lambda>o'. case o' of
         None \<Rightarrow> ret ([], [])
       | Some ovnString \<Rightarrow> ret (Ovn4nfvAnnotationTag, butlast ovnString @ '']''))))"

definition DeleteLogicalPorts :: "('w, 'h) host_scheme \<Rightarrow> string \<Rightarrow> string \<Rightarrow> (('w, 'z) ovn_state_scheme, unit) go" where
  "DeleteLogicalPorts H name namespace =
     (let logicalPort = namespace @ ''_'' @ name in
     bnd (RunOVNNbctl H [''--data=bare'', ''--no-heading'', ''--columns=name'', ''find'', ''logical_switch_port'', ''external_ids:pod=true'']) (\<lambda>(stdout, _, err).
     if err \<noteq> None then ret () else
     bnd (for_range (Fields stdout) () (\<lambda>existingPort _.
       if Contains existingPort logicalPort then
         bnd (RunOVNNbctl H [''--if-exists'', ''lsp-del'', existingPort]) (\<lambda>_. ret (Inr ()))
       else ret (Inr () :: unit + unit))) (\<lambda>_. ret ())))"

section \<open>Scripts of commands\<close>

definition find_switch_cmd :: "execHelper \<Rightarrow> string \<Rightarrow> string \<times> string list" where
  "find_switch_cmd R name = nbctl_cmd R [''--data=bare'', ''--no-heading'', ''--columns=name'', ''find'', ''logical_switch'', ''name='' @ name]"

definition ls_add_cmd :: "execHelper \<Rightarrow> string \<Rightarrow> string \<Rightarrow> string \<Rightarrow> string \<Rightarrow> string \<times> string list" where
  "ls_add_cmd R name subnet gw excludeIps = nbctl_cmd R ([''--wait=hv'', ''--'', ''--may-exist'', ''ls-add'', name, ''--'', ''set'', ''logical_switch'', name, ''other-config:subnet='' @ subnet, ''external-ids:gateway_ip='' @ gw] @
     (if excludeIps \<noteq> [] then [''other-config:exclude_ips='' @ excludeIps] else []))"

text \<open>
  \<open>createOvnLS\<close> with a subnet that parses: it asks for the switch, and either stops there
  with an error, or adds the switch with the gateway text it returns.
\<close>

lemma wpe_createOvnLS:
  assumes R: "runner s = Some R" "reliable H" and cidr: "ParseCIDR subnet = Inr (ip, cidr)"
    and stop: "\<And>w e. Q ([], Some e) (after s w [find_switch_cmd R name])"
    and go_on: "\<And>w err. Q (gateway_mask cidr gw, err)
      (after s w [find_switch_cmd R name, ls_add_cmd R name subnet (gateway_mask cidr gw) ex])"
  shows "wpe (createOvnLS H name subnet gw ex) Q E s"
  unfolding createOvnLS_def wpe_bnd
proof (rule wpe_RunOVNNbctl_reliable [OF R], goal_cases)
  case (1 out se err w)
  have "runner (after s w [find_switch_cmd R name]) = Some R" using R by simp
  note step = wpe_RunOVNNbctl_reliable [OF this R(2)]
  show ?case
    using cidr stop go_on
    by (auto simp: wpe_simps Let_def find_switch_cmd_def [symmetric] ls_add_cmd_def intro!: step
        split: option.splits simp del: append_Cons)
qed

text \<open>The five commands that make a network, in order.\<close>

definition network_script :: "execHelper \<Rightarrow> string \<Rightarrow> IpSubnet \<Rightarrow> string \<Rightarrow> string \<Rightarrow> (string \<times> string list) list" where
  "network_script R name sn gw mac =
     [find_switch_cmd R name,
      ls_add_cmd R name (Subnet sn) gw (ExcludeIps sn),
      nbctl_cmd R [''--if-exist'', ''get'', ''logical_router_port'', ''rtos-'' @ name, ''mac''],
      nbctl_cmd R [''--wait=hv'', ''--may-exist'', ''lrp-add'', ovn4nfvRouterName, ''rtos-'' @ name, mac, gw],
      nbctl_cmd R [''--wait=hv'', ''--'', ''--may-exist'', ''lsp-add'', name, ''stor-'' @ name, ''--'', ''set'', ''logical_switch_port'', ''stor-'' @ name, ''type=router'', ''options:router-port=rtos-'' @ name, ''addresses='' @ [CHR 0x22] @ mac @ [CHR 0x22]]]"

lemma take_network_script:
  "take (Suc 0) (network_script R name sn gw mac) = [find_switch_cmd R name]"
  "take 2 (network_script R name sn gw mac) = [find_switch_cmd R name, ls_add_cmd R name (Subnet sn) gw (ExcludeIps sn)]"
  "take 3 (network_script R name sn gw mac) = take 2 (network_script R name sn gw mac) @
     [nbctl_cmd R [''--if-exist'', ''get'', ''logical_router_port'', ''rtos-'' @ name, ''mac'']]"
  "take 4 (network_script R name sn gw mac) = take 3 (network_script R name sn gw mac) @
     [nbctl_cmd R [''--wait=hv'', ''--may-exist'', ''lrp-add'', ovn4nfvRouterName, ''rtos-'' @ name, mac, gw]]"
  "take 5 (network_script R name sn gw mac) = take 4 (network_script R name sn gw mac) @
     [nbctl_cmd R [''--wait=hv'', ''--'', ''--may-exist'', ''lsp-add'', name, ''stor-'' @ name, ''--'', ''set'', ''logical_switch_port'', ''stor-'' @ name, ''type=router'', ''options:router-port=rtos-'' @ name, ''addresses='' @ [CHR 0x22] @ mac @ [CHR 0x22]]]"
  unfolding network_script_def by (simp_all del: append_Cons)

lemma length_network_script: "length (network_script R name sn gw mac) = 5"
  by (simp add: network_script_def)

definition ran_prefix :: "('w, 'z) ovn_state_scheme \<Rightarrow> (string \<Rightarrow> (string \<times> string list) list) \<Rightarrow> goerr option \<Rightarrow>
    ('w, 'z) ovn_state_scheme \<Rightarrow> bool" where
  "ran_prefix s script err s' \<longleftrightarrow>
     (\<exists>mac n w. s' = after s w (take n (script mac)) \<and> 1 \<le> n \<and> (err = None \<longrightarrow> n = length (script mac)))"

lemma ran_prefix_stop: "1 \<le> n \<Longrightarrow> ran_prefix s script (Some e) (after s w (take n (script mac)))"
  unfolding ran_prefix_def by blast

lemma ran_prefix_all:
  "n = length (script mac) \<Longrightarrow> 1 \<le> n \<Longrightarrow> ran_prefix s script err (after s w (take n (script mac)))"
  unfolding ran_prefix_def by blast

lemma wpe_generateMac:
  "(\<And>mac w. Q mac (after s w [])) \<Longrightarrow> wpe (generateMac H) Q E s"
  by (simp add: generateMac_def Intn_def wpe_simps after_def split: prod.splits)

lemma wpe_CreateNetwork:
  assumes R: "runner s = Some R" "reliable H" and sn: "nw_Ipv4Subnets (nw_Spec cr) = sn # rest"
    and cidr: "ParseCIDR (Subnet sn) = Inr (ip, cidr)"
  shows "wpe (CreateNetwork H cr)
    (ran_prefix s (network_script R (Name (nw_meta cr)) sn (gateway_mask cidr (Gateway sn)))) (\<lambda>_. False) s"
proof -
  let ?script = "network_script R (Name (nw_meta cr)) sn (gateway_mask cidr (Gateway sn))"
  note len = length_network_script
  have R': "runner (after s w cs) = Some R" for w cs using R by simp
  note step = wpe_RunOVNNbctl_reliable [OF R' R(2)]
  note stops = ran_prefix_stop [of 1 s ?script] ran_prefix_stop [of 2 s ?script] ran_prefix_stop [of 3 s ?script]
    ran_prefix_stop [of 4 s ?script] ran_prefix_stop [of 5 s ?script] ran_prefix_all [of 5 ?script _ s]
  show ?thesis
    unfolding CreateNetwork_def Let_def wpe_bnd sn wpe_index
    using stops
    by (auto simp: wpe_simps take_network_script len simp del: append_Cons
        intro!: wpe_createOvnLS [OF R cidr] step wpe_generateMac)
qed

text \<open>
  C21. Creating a network runs a nonempty prefix of one fixed script (look the switch up, add it
  with its gateway, ask for the router port's address, add the router port with the gateway,
  connect switch and router), with the switch's gateway text used again for the router port,
  and it reports success only after the whole script. It neither panics nor blocks.
\<close>

theorem CreateNetwork_script:
  assumes "runner s = Some R" and "reliable H" and "nw_Ipv4Subnets (nw_Spec cr) = sn # rest"
    and "ParseCIDR (Subnet sn) = Inr (ip, cidr)"
  shows "\<exists>err mac n w. CreateNetwork H cr s = (Returns err,
      after s w (take n (network_script R (Name (nw_meta cr)) sn (gateway_mask cidr (Gateway sn)) mac))) \<and>
    1 \<le> n \<and> (err = None \<longrightarrow> n = 5)"
  using wpe_total [OF wpe_CreateNetwork [OF assms]] unfolding ran_prefix_def length_network_script by blast

definition demo_subnet :: IpSubnet where
  "demo_subnet = \<lparr>sub_Name = ''subnet1'', Subnet = ''172.16.33.0/24'', Gateway = ''172.16.33.1/24'', ExcludeIps = []\<rparr>"

definition demo_cidr :: IPNet where
  "demo_cidr = \<lparr>net_IP = map2 (AND) [172, 16, 33, 0] (CIDRMask 24 4), net_Mask = CIDRMask 24 4\<rparr>"

definition demo_network :: Network where
  "demo_network = \<lparr>nw_meta = \<lparr>Name = ''ovn-port-net'', Namespace = ''default'', DeletionTimestamp = None, Finalizers = []\<rparr>,
     nw_Spec = \<lparr>nw_CniType = ''ovn4nfv'', nw_Ipv4Subnets = [demo_subnet], nw_Ipv6Subnets = [],
       nw_DNS = \<lparr>Nameservers = [], Domain = [], Search = [], Options = []\<rparr>, nw_Routes = []\<rparr>, nw_State = []\<rparr>"

lemma demo_network_simps:
  "nw_Ipv4Subnets (nw_Spec demo_network) = [demo_subnet]" "Name (nw_meta demo_network) = ''ovn-port-net''"
  by (simp_all add: demo_network_def)

lemma ParseCIDR_demo: "ParseCIDR (Subnet demo_subnet) = Inr (v4InV6Prefix @ [172, 16, 33, 0], demo_cidr)"
proof -
  have "Subnet demo_subnet = dotted [172, 16, 33, 0] @ ''/'' @ Itoa 24"
    by (simp add: demo_subnet_def dotted4 Itoa.simps hexdigit_def)
  then show ?thesis using ParseCIDR_dotted [of "[172, 16, 33, 0]" 24] by (simp add: demo_cidr_def)
qed

theorem CreateNetwork_script_witness:
  "\<exists>err mac n w. CreateNetwork (canned_host (\<lambda>_. ([], [], None))) demo_network demo_state = (Returns err,
      after demo_state w (take n (network_script demo_runner ''ovn-port-net'' demo_subnet (gateway_mask demo_cidr (Gateway demo_subnet)) mac))) \<and>
    1 \<le> n \<and> (err = None \<longrightarrow> n = 5)"
  using CreateNetwork_script [OF demo_state_simps(1) reliable_canned demo_network_simps(1) ParseCIDR_demo, of "\<lambda>_. ([], [], None)"]
  by (simp add: demo_network_simps)

section \<open>Gateways\<close>

text \<open>What the gateway text of \<open>createOvnLS\<close> splits into.\<close>

definition gateway_addr :: "IPNet \<Rightarrow> string \<Rightarrow> IP" where
  "gateway_addr cidr gw = (if gateway_ip gw = [] then NextIP (net_IP cidr) else gateway_ip gw)"

lemma not_slash_Itoa: "CHR ''/'' \<notin> set (Itoa n)"
  using Itoa_digits [of n] not_digit_slash by blast

lemma Split_gateway_mask:
  "Split (gateway_mask cidr gw) CHR ''/'' = [IP_String (gateway_addr cidr gw), Itoa (mask_ones (net_Mask cidr))]"
  by (simp add: gateway_mask_def gateway_addr_def Let_def Split_two slash_notin_IP_String not_slash_Itoa)

lemma gateway_mask_nonempty: "gateway_mask cidr gw \<noteq> []"
  by (simp add: gateway_mask_def Let_def)

definition gateway_query :: "string \<Rightarrow> string list" where
  "gateway_query sw = [''--if-exists'', ''get'', ''logical_switch'', sw, ''external_ids:gateway_ip'']"

lemma getGatewayFromSwitch_hit:
  assumes "ovnCtl s = Some oc" and "gatewayCache oc sw = Some g" and "Split g CHR ''/'' = [ip, msk]"
  shows "getGatewayFromSwitch H sw s = (Returns (ip, msk, None), s)"
  using assms by (simp add: getGatewayFromSwitch_def bnd_def)

lemma getGatewayFromSwitch_miss:
  assumes "runner s = Some R" and "ovnCtl s = Some oc" and "gatewayCache oc sw = None"
    and "h_exec H (nbctl_cmd R (gateway_query sw)) (world s) = ((out, se, None), w)"
    and "unquote out = g" and "g \<noteq> []" and "Split g CHR ''/'' = [ip, msk]"
  shows "getGatewayFromSwitch H sw s = (Returns (ip, msk, None),
    (after s w [nbctl_cmd R (gateway_query sw)])\<lparr>ovnCtl := Some (oc\<lparr>gatewayCache := (gatewayCache oc)(sw \<mapsto> g)\<rparr>)\<rparr>)"
proof -
  have "RunOVNNbctl H (gateway_query sw) s = (Returns (g, se, None), after s w [nbctl_cmd R (gateway_query sw)])"
    using RunOVNNbctl_once [OF assms(1,4)] assms(5) by simp
  then show ?thesis
    using assms by (simp add: getGatewayFromSwitch_def bnd_assoc gateway_query_def)
qed

text \<open>
  C2. The gateway round trip. If OVN gives back, quoted, the gateway text that
  \<open>createOvnLS\<close> stored for a switch, then \<open>getGatewayFromSwitch\<close> returns the gateway
  address and the prefix length \<open>createOvnLS\<close> computed, with one query; asked again it
  answers the same from its cache, without running any command.
\<close>

theorem gateway_roundtrip:
  assumes "runner s = Some R" and "ovnCtl s = Some oc" and "gatewayCache oc sw = None"
    and "h_exec H (nbctl_cmd R (gateway_query sw)) (world s) = ((out, se, None), w)"
    and "unquote out = gateway_mask cidr gw"
  shows "\<exists>t. getGatewayFromSwitch H sw s =
      (Returns (IP_String (gateway_addr cidr gw), Itoa (mask_ones (net_Mask cidr)), None), t) \<and>
    execlog t = execlog s @ [nbctl_cmd R (gateway_query sw)] \<and>
    getGatewayFromSwitch H' sw t =
      (Returns (IP_String (gateway_addr cidr gw), Itoa (mask_ones (net_Mask cidr)), None), t)"
proof -
  let ?g = "gateway_mask cidr gw"
  let ?t = "(after s w [nbctl_cmd R (gateway_query sw)])\<lparr>ovnCtl := Some (oc\<lparr>gatewayCache := (gatewayCache oc)(sw \<mapsto> ?g)\<rparr>)\<rparr>"
  have "getGatewayFromSwitch H sw s =
      (Returns (IP_String (gateway_addr cidr gw), Itoa (mask_ones (net_Mask cidr)), None), ?t)"
    by (rule getGatewayFromSwitch_miss [OF assms gateway_mask_nonempty Split_gateway_mask])
  moreover have "getGatewayFromSwitch H' sw ?t =
      (Returns (IP_String (gateway_addr cidr gw), Itoa (mask_ones (net_Mask cidr)), None), ?t)"
    by (rule getGatewayFromSwitch_hit [OF _ _ Split_gateway_mask,
          where oc = "oc\<lparr>gatewayCache := (gatewayCache oc)(sw \<mapsto> ?g)\<rparr>"]) simp_all
  ultimately show ?thesis by (intro exI [of _ ?t]) simp
qed

lemma unquote_quoted:
  assumes "q \<noteq> []" and "CHR 0x22 \<notin> set q"
  shows "unquote ([CHR 0x22] @ q @ [CHR 0x22, CHR 0x0A]) = q"
proof -
  have "TrimSpace ([CHR 0x22] @ q @ [CHR 0x22, CHR 0x0A]) = [CHR 0x22] @ q @ [CHR 0x22]"
    by (simp add: TrimSpace_def trim_left_def trim_right_def is_space_def)
  moreover have "dropWhile (\<lambda>x. x = CHR 0x22) (q @ [CHR 0x22]) = q @ [CHR 0x22]"
    using assms by (cases q) auto
  moreover have "dropWhile (\<lambda>x. x = CHR 0x22) (rev q) = rev q"
    using assms by (intro dropWhile_none) auto
  ultimately show ?thesis
    by (simp add: unquote_def Trim_def TrimLeft_def TrimRight_def trim_left_def trim_right_def)
qed

lemma quote_notin_demo_gateway: "CHR 0x22 \<notin> set (gateway_mask demo_cidr (Gateway demo_subnet))"
proof -
  have "gateway_ip (Gateway demo_subnet) = v4InV6Prefix @ [172, 16, 33, 1]"
  proof -
    have "Gateway demo_subnet = dotted [172, 16, 33, 1] @ ''/'' @ Itoa 24"
      by (simp add: demo_subnet_def dotted4 Itoa.simps hexdigit_def)
    then show ?thesis using ParseCIDR_dotted [of "[172, 16, 33, 1]" 24] by (simp add: gateway_ip_def)
  qed
  moreover have "CHR 0x22 \<notin> set (dotted ip)" for ip
    using dotted_chars [of "CHR 0x22" ip] not_digit_quote by auto
  moreover have "CHR 0x22 \<notin> set (Itoa n)" for n using Itoa_digits [of n] not_digit_quote by blast
  ultimately show ?thesis by (simp add: gateway_mask_def Let_def IP_String_mapped)
qed

theorem gateway_roundtrip_witness:
  "\<exists>t. getGatewayFromSwitch (canned_host (\<lambda>_. ([CHR 0x22] @ gateway_mask demo_cidr (Gateway demo_subnet) @ [CHR 0x22, CHR 0x0A], [], None))) ''sw'' demo_state =
      (Returns (IP_String (gateway_addr demo_cidr (Gateway demo_subnet)), Itoa (mask_ones (net_Mask demo_cidr)), None), t) \<and>
    execlog t = execlog demo_state @ [nbctl_cmd demo_runner (gateway_query ''sw'')] \<and>
    getGatewayFromSwitch (canned_host (\<lambda>_. ([], [], None))) ''sw'' t =
      (Returns (IP_String (gateway_addr demo_cidr (Gateway demo_subnet)), Itoa (mask_ones (net_Mask demo_cidr)), None), t)"
  by (rule gateway_roundtrip [OF demo_state_simps(1,4) _ _ unquote_quoted [OF gateway_mask_nonempty quote_notin_demo_gateway]])
    (simp_all add: canned_host_def)

section \<open>Deleting the ports of a pod\<close>

definition list_ports_cmd :: "execHelper \<Rightarrow> string \<times> string list" where
  "list_ports_cmd R = nbctl_cmd R [''--data=bare'', ''--no-heading'', ''--columns=name'', ''find'', ''logical_switch_port'', ''external_ids:pod=true'']"

definition del_port_cmd :: "execHelper \<Rightarrow> string \<Rightarrow> string \<times> string list" where
  "del_port_cmd R p = nbctl_cmd R [''--if-exists'', ''lsp-del'', p]"

lemma delete_loop:
  assumes R: "runner s = Some R" "reliable H"
  shows "\<exists>w. for_range ps () (\<lambda>p _. if Contains p pre then
        bnd (RunOVNNbctl H [''--if-exists'', ''lsp-del'', p]) (\<lambda>_. ret (Inr ())) else ret (Inr () :: unit + unit)) s =
      (Returns (Inr ()), after s w (map (del_port_cmd R) (filter (\<lambda>p. Contains p pre) ps)))"
  using R(1)
proof (induction ps arbitrary: s)
  case Nil
  then show ?case by (auto intro: exI [of _ "world s"])
next
  case (Cons p ps)
  show ?case
  proof (cases "Contains p pre")
    case True
    from RunOVNNbctl_reliable [OF Cons.prems R(2)] obtain out se err w where
      run: "RunOVNNbctl H [''--if-exists'', ''lsp-del'', p] s = (Returns (out, se, err), after s w [del_port_cmd R p])"
      unfolding del_port_cmd_def by metis
    have "runner (after s w [del_port_cmd R p]) = Some R" using Cons.prems by simp
    from Cons.IH [OF this] show ?thesis using True run by (auto simp: bnd_assoc)
  next
    case False
    with Cons.IH [OF Cons.prems] show ?thesis by simp
  qed
qed

text \<open>
  C26. Deleting a pod's ports. \<open>DeleteLogicalPorts\<close> always returns; it asks once for the
  ports of all pods and then deletes, in the order listed, exactly the ports whose name
  contains the pod's prefix \<open>namespace_name\<close>.
\<close>

theorem DeleteLogicalPorts_exact:
  assumes "runner s = Some R" and "reliable H"
    and "h_exec H (list_ports_cmd R) (world s) = ((out, se, None), w)"
  shows "\<exists>w'. DeleteLogicalPorts H name namespace s = (Returns (), after s w'
    (list_ports_cmd R # map (del_port_cmd R) (filter (\<lambda>p. Contains p (namespace @ ''_'' @ name)) (Fields (unquote out)))))"
proof -
  have run: "RunOVNNbctl H [''--data=bare'', ''--no-heading'', ''--columns=name'', ''find'', ''logical_switch_port'', ''external_ids:pod=true''] s
      = (Returns (unquote out, se, None), after s w [list_ports_cmd R])"
    using RunOVNNbctl_once [OF assms(1) assms(3) [unfolded list_ports_cmd_def]] by (simp add: list_ports_cmd_def)
  have "runner (after s w [list_ports_cmd R]) = Some R" using assms(1) by simp
  from delete_loop [OF this assms(2), of "Fields (unquote out)" "namespace @ ''_'' @ name"]
  show ?thesis using run by (auto simp: DeleteLogicalPorts_def Let_def simp del: append_Cons append_assoc)
qed

theorem DeleteLogicalPorts_exact_witness:
  "\<exists>w'. DeleteLogicalPorts (canned_host (\<lambda>_. (''ns_a_eth0 ns_b'', [], None))) ''a'' ''ns'' demo_state = (Returns (), after demo_state w'
    (list_ports_cmd demo_runner # map (del_port_cmd demo_runner)
       (filter (\<lambda>p. Contains p (''ns'' @ ''_'' @ ''a'')) (Fields (unquote ''ns_a_eth0 ns_b'')))))"
  by (rule DeleteLogicalPorts_exact [OF demo_state_simps(1)]) (simp_all add: reliable_canned, simp add: canned_host_def)

section \<open>Frame\<close>

lemma keeps_eq: "keeps f m \<Longrightarrow> m s = (r, s') \<Longrightarrow> f s' = f s"
  unfolding keeps_def by (metis snd_conv)

text \<open>
  The gateway cache is the one thing of the state, beside the environment and the log, that the
  functions for ports write: a part of the state that does not depend on it either is left
  alone by all of them.
\<close>

locale ctl_frame = env_frame +
  assumes view_ctl: "view (s\<lparr>ovnCtl := c\<rparr>) = view s"
begin

lemma keeps_getGatewayFromSwitch [keeps_intros]: "keeps view (getGatewayFromSwitch H sw)"
  unfolding getGatewayFromSwitch_def by (intro keeps_intros) (rule view_ctl)

lemma keeps_polled [keeps_intros]:
  "(\<And>t. keeps view (g t)) \<Longrightarrow> (\<And>e. keeps view (f e)) \<Longrightarrow> keeps view t \<Longrightarrow>
   keeps view (case p of Got x \<Rightarrow> g x | Failed e \<Rightarrow> f e | TimedOut \<Rightarrow> t)"
  by (cases p) simp_all

lemma keeps_poll_addresses [keeps_intros]: "keeps view (poll_addresses H q n)"
  by (induction n) (auto intro!: keeps_intros simp del: ret_apply)

lemma keeps_getNodeLogicalPortIPAddr [keeps_intros]: "keeps view (getNodeLogicalPortIPAddr H pod)"
  unfolding getNodeLogicalPortIPAddr_def by (intro keeps_intros)

lemma keeps_addLogicalPortWithSwitch [keeps_intros]: "keeps view (addLogicalPortWithSwitch H pod sw ip mac gw port)"
  unfolding addLogicalPortWithSwitch_def by (intro keeps_intros)

lemma keeps_AddNodeLogicalPorts [keeps_intros]: "keeps view (AddNodeLogicalPorts H node)"
  unfolding AddNodeLogicalPorts_def addNodeLogicalPortWithSwitch_def by (intro keeps_intros)

lemma keeps_FindLogicalSwitch [keeps_intros]: "keeps view (FindLogicalSwitch H sw)"
  unfolding FindLogicalSwitch_def by (intro keeps_intros)

lemma keeps_AddLogicalPorts [keeps_intros]: "keeps view (AddLogicalPorts H Decode pod objs)"
  unfolding AddLogicalPorts_def add_port_step_def by (intro keeps_intros)

lemma keeps_DeleteLogicalPorts [keeps_intros]: "keeps view (DeleteLogicalPorts H name namespace)"
  unfolding DeleteLogicalPorts_def by (intro keeps_intros)

end

end
