(* ===== verification/NetIface.thy ===== *)
theory NetIface
  imports OvnExec GoNet
begin

text \<open>
  \<open>internal/pkg/network\<close>: the default gateway and the host network from the kernel's routes
  and addresses (\<open>iface.go\<close>) and the iptables rules that masquerade and forward pod traffic
  (\<open>iptables.go\<close>). The kernel is reached through the \<open>netlink\<close>, \<open>iptables\<close> and
  network namespace libraries, which are fields of \<open>net_host\<close>.
\<close>

section \<open>The kernel's interface\<close>

record route =
  rt_Dst :: "IPNet option"
  rt_Gw :: IP
  rt_LinkIndex :: int

record veth =
  veth_Name :: string
  veth_Mac :: IP

record 'w net_host = "'w host" +
  h_RouteList :: "'w \<Rightarrow> (route list \<times> goerr option) \<times> 'w"
  h_InterfaceByIndex :: "int \<Rightarrow> 'w \<Rightarrow> (int option \<times> goerr option) \<times> 'w"
  h_AddrList :: "int \<Rightarrow> 'w \<Rightarrow> (IPNet list \<times> goerr option) \<times> 'w"
  h_iptNew :: "'w \<Rightarrow> goerr option \<times> 'w"
  h_iptExists :: "string \<Rightarrow> string \<Rightarrow> string list \<Rightarrow> 'w \<Rightarrow> (bool \<times> goerr option) \<times> 'w"
  h_iptAppendUnique :: "string \<Rightarrow> string \<Rightarrow> string list \<Rightarrow> 'w \<Rightarrow> goerr option \<times> 'w"
  h_iptDelete :: "string \<Rightarrow> string \<Rightarrow> string list \<Rightarrow> 'w \<Rightarrow> goerr option \<times> 'w"
  h_GetNS :: "string \<Rightarrow> 'w \<Rightarrow> (nat \<times> goerr option) \<times> 'w"
  h_NsEnter :: "nat \<Rightarrow> 'w \<Rightarrow> goerr option \<times> 'w"
  h_NsLeave :: "nat \<Rightarrow> 'w \<Rightarrow> unit \<times> 'w"
  h_NsClose :: "nat \<Rightarrow> 'w \<Rightarrow> unit \<times> 'w"
  h_LinkSetDown :: "Link option \<Rightarrow> 'w \<Rightarrow> goerr option \<times> 'w"
  h_LinkSetUp :: "Link option \<Rightarrow> 'w \<Rightarrow> goerr option \<times> 'w"
  h_LinkSetName :: "Link option \<Rightarrow> string \<Rightarrow> 'w \<Rightarrow> goerr option \<times> 'w"
  h_LinkSetHardwareAddr :: "Link option \<Rightarrow> IP \<Rightarrow> 'w \<Rightarrow> goerr option \<times> 'w"
  h_ParseAddr :: "string \<Rightarrow> IPNet + goerr"
  h_AddrAdd :: "Link option \<Rightarrow> IPNet \<Rightarrow> 'w \<Rightarrow> goerr option \<times> 'w"
  h_AddRoute :: "IPNet option \<Rightarrow> IP \<Rightarrow> Link option \<Rightarrow> 'w \<Rightarrow> goerr option \<times> 'w"
  h_SetupVeth :: "string \<Rightarrow> int \<Rightarrow> 'w \<Rightarrow> (veth \<times> veth + goerr) \<times> 'w"
  h_Combined :: "string \<Rightarrow> string list \<Rightarrow> 'w \<Rightarrow> (string \<times> goerr option) \<times> 'w"

text \<open>
  \<open>NetNS.Do\<close>: run a function inside a namespace; the switch itself may fail.
\<close>

definition NetNS_Do :: "('w, 'h) net_host_scheme \<Rightarrow> nat \<Rightarrow> (('w, 'z) gstate_scheme, goerr option \<times> 'a) go \<Rightarrow> 'a \<Rightarrow>
    (('w, 'z) gstate_scheme, goerr option \<times> 'a) go" where
  "NetNS_Do H ns f dflt =
     bnd (ext (h_NsEnter H ns)) (\<lambda>err.
     if err \<noteq> None then ret (err, dflt) else
     bnd f (\<lambda>r. bnd (ext (h_NsLeave H ns)) (\<lambda>_. ret r)))"

section \<open>Printing networks, MAC addresses, address classes\<close>

definition networkNumberAndMask :: "IPNet \<Rightarrow> (IP \<times> IP) option" where
  "networkNumberAndMask n =
     (let ip = (if To4 (net_IP n) \<noteq> [] then To4 (net_IP n) else net_IP n); m = net_Mask n in
      if To4 (net_IP n) = [] \<and> length ip \<noteq> 16 then None
      else if length m = 4 then (if length ip \<noteq> 4 then None else Some (ip, m))
      else if length m = 16 then Some (ip, if length ip = 4 then drop 12 m else m)
      else None)"

definition IPNet_String :: "IPNet \<Rightarrow> string" where
  "IPNet_String n = (case networkNumberAndMask n of
     None \<Rightarrow> ''<nil>''
   | Some (ip, m) \<Rightarrow> IP_String ip @ ''/'' @ (case simpleMaskLength m of Some k \<Rightarrow> Itoa k | None \<Rightarrow> hexString m))"

definition IsLoopback :: "IP \<Rightarrow> bool" where
  "IsLoopback ip = (if To4 ip \<noteq> [] then hd (To4 ip) = 127 else ip = replicate 15 0 @ [1])"

definition IsUnspecified :: "IP \<Rightarrow> bool" where
  "IsUnspecified ip \<longleftrightarrow> To4 ip = [0, 0, 0, 0] \<or> ip = replicate 16 0"

definition IsMulticast :: "IP \<Rightarrow> bool" where
  "IsMulticast ip = (if To4 ip \<noteq> [] then hd (To4 ip) AND 0xF0 = 0xE0 else length ip = 16 \<and> hd ip = 0xFF)"

definition IsLinkLocalUnicast :: "IP \<Rightarrow> bool" where
  "IsLinkLocalUnicast ip =
     (if To4 ip \<noteq> [] then take 2 (To4 ip) = [169, 254]
      else length ip = 16 \<and> hd ip = 0xFE \<and> ip ! 1 AND 0xC0 = 0x80)"

definition IsGlobalUnicast :: "IP \<Rightarrow> bool" where
  "IsGlobalUnicast ip \<longleftrightarrow> (length ip = 4 \<or> length ip = 16) \<and> To4 ip \<noteq> [255, 255, 255, 255] \<and>
     \<not> IsUnspecified ip \<and> \<not> IsLoopback ip \<and> \<not> IsMulticast ip \<and> \<not> IsLinkLocalUnicast ip"

section \<open>Routes and addresses\<close>

text \<open>A nil destination is the default route; so is the printed form of \<open>0.0.0.0/0\<close>.\<close>

definition is_default_route :: "route \<Rightarrow> bool" where
  "is_default_route r = (case rt_Dst r of None \<Rightarrow> True | Some d \<Rightarrow> IPNet_String d = ''0.0.0.0/0'')"

definition GetDefaultGateway :: "('w, 'h) net_host_scheme \<Rightarrow> (('w, 'z) gstate_scheme, string \<times> goerr option) go" where
  "GetDefaultGateway H =
     bnd (ext (h_RouteList H)) (\<lambda>(routes, err).
     if err \<noteq> None then ret ([], err) else
     (case find is_default_route routes of
        Some r \<Rightarrow>
          if To4 (rt_Gw r) = [] then ret ([], Some (Errorf ''Found default route but could not determine gateway''))
          else ret (IP_String (To4 (rt_Gw r)), None)
      | None \<Rightarrow> ret ([], Some (Errorf ''Unable to find default route''))))"

text \<open>
  \<open>CheckRoute\<close> prints the destination without a nil check; \<open>IPNet.String\<close> on a nil
  pointer is a dereference.
\<close>

definition CheckRoute :: "('w, 'h) net_host_scheme \<Rightarrow> string \<Rightarrow> string \<Rightarrow>
    (('w, 'z) gstate_scheme, bool \<times> goerr option) go" where
  "CheckRoute H dst gw =
     bnd (ext (h_RouteList H)) (\<lambda>(routes, err).
     if err \<noteq> None then ret (False, err) else
     bnd (for_range routes False (\<lambda>r isPresent. case rt_Dst r of
        None \<Rightarrow> panic nil_deref
      | Some d \<Rightarrow> ret (Inr (if IPNet_String d = dst \<and> IP_String (To4 (rt_Gw r)) = gw then True else isPresent) :: unit + bool)))
     (\<lambda>r. case r of Inl _ \<Rightarrow> ret (False, None) | Inr isPresent \<Rightarrow> ret (isPresent, None)))"

definition GetDefaultGatewayInterface :: "('w, 'h) net_host_scheme \<Rightarrow>
    (('w, 'z) gstate_scheme, int option \<times> goerr option) go" where
  "GetDefaultGatewayInterface H =
     bnd (ext (h_RouteList H)) (\<lambda>(routes, err).
     if err \<noteq> None then ret (None, err) else
     (case find is_default_route routes of
        Some r \<Rightarrow>
          if rt_LinkIndex r \<le> 0 then ret (None, Some (Errorf ''Found default route but could not determine interface''))
          else ext (h_InterfaceByIndex H (rt_LinkIndex r))
      | None \<Rightarrow> ret (None, Some (Errorf ''Unable to find default route''))))"

definition getIfaceAddrs :: "('w, 'h) net_host_scheme \<Rightarrow> int \<Rightarrow> (('w, 'z) gstate_scheme, IPNet list \<times> goerr option) go" where
  "getIfaceAddrs H iface = ext (h_AddrList H iface)"

text \<open>The choice of \<open>GetInterfaceIP4Addr\<close>: the first global address, else the last link-local one.\<close>

fun pick_addr :: "IPNet list \<Rightarrow> IPNet option \<Rightarrow> IPNet option" where
  "pick_addr [] ll = ll"
| "pick_addr (addr # addrs) ll =
     (if To4 (net_IP addr) = [] then pick_addr addrs ll
      else if IsGlobalUnicast (net_IP addr) then Some addr
      else pick_addr addrs (if IsLinkLocalUnicast (net_IP addr) then Some addr else ll))"

definition GetInterfaceIP4Addr :: "('w, 'h) net_host_scheme \<Rightarrow> int \<Rightarrow>
    (('w, 'z) gstate_scheme, IPNet option \<times> goerr option) go" where
  "GetInterfaceIP4Addr H iface =
     bnd (getIfaceAddrs H iface) (\<lambda>(addrs, err).
     if err \<noteq> None then ret (None, err) else
     (case pick_addr addrs None of
        Some a \<Rightarrow> ret (Some a, None)
      | None \<Rightarrow> ret (None, Some (Errorf ''No IPv4 address found for given interface''))))"

text \<open>
  \<open>GetHostNetwork\<close>: an interface or an address that came without an error is there; a nil
  one would be dereferenced.
\<close>

definition GetHostNetwork :: "('w, 'h) net_host_scheme \<Rightarrow> (('w, 'z) gstate_scheme, string \<times> goerr option) go" where
  "GetHostNetwork H =
     bnd (GetDefaultGatewayInterface H) (\<lambda>(iface, err).
     if err \<noteq> None then ret ([], err) else
     case iface of None \<Rightarrow> panic nil_deref | Some iface \<Rightarrow>
     bnd (GetInterfaceIP4Addr H iface) (\<lambda>(addr, err).
     if err \<noteq> None then ret ([], err) else
     case addr of None \<Rightarrow> panic nil_deref | Some addr \<Rightarrow>
     (case ParseCIDR (IPNet_String addr) of
        Inl e \<Rightarrow> ret ([], Some e)
      | Inr (_, ipv4Net) \<Rightarrow> ret (IPNet_String ipv4Net, None))))"

section \<open>iptables\<close>

record IPTablesRule =
  table :: string
  chain :: string
  rulespec :: "string list"

definition MasqRules :: "string \<Rightarrow> IPTablesRule list" where
  "MasqRules ifname = [\<lparr>table = ''nat'', chain = ''POSTROUTING'', rulespec = [''-o'', ifname, ''-j'', ''MASQUERADE'']\<rparr>]"

definition ForwardRules :: "string \<Rightarrow> IPTablesRule list" where
  "ForwardRules ovnNetwork =
     [\<lparr>table = ''filter'', chain = ''FORWARD'', rulespec = [''-s'', ovnNetwork, ''-j'', ''ACCEPT'']\<rparr>,
      \<lparr>table = ''filter'', chain = ''FORWARD'', rulespec = [''-d'', ovnNetwork, ''-j'', ''ACCEPT'']\<rparr>]"

fun ipTablesRulesExist :: "('w, 'h) net_host_scheme \<Rightarrow> IPTablesRule list \<Rightarrow>
    (('w, 'z) gstate_scheme, bool \<times> goerr option) go" where
  "ipTablesRulesExist H [] = ret (True, None)"
| "ipTablesRulesExist H (r # rules) =
     bnd (ext (h_iptExists H (table r) (chain r) (rulespec r))) (\<lambda>(exists, err). case err of
       Some e \<Rightarrow> ret (False, Some (Errorf (''failed to check rule existence: '' @ Error e)))
     | None \<Rightarrow> if \<not> exists then ret (False, None) else ipTablesRulesExist H rules)"

fun setupIPTables :: "('w, 'h) net_host_scheme \<Rightarrow> IPTablesRule list \<Rightarrow> (('w, 'z) gstate_scheme, goerr option) go" where
  "setupIPTables H [] = ret None"
| "setupIPTables H (r # rules) =
     bnd (ext (h_iptAppendUnique H (table r) (chain r) (rulespec r))) (\<lambda>err. case err of
       Some e \<Rightarrow> ret (Some (Errorf (''failed to insert IPTables rule: '' @ Error e)))
     | None \<Rightarrow> setupIPTables H rules)"

fun teardownIPTables :: "('w, 'h) net_host_scheme \<Rightarrow> IPTablesRule list \<Rightarrow> (('w, 'z) gstate_scheme, unit) go" where
  "teardownIPTables H [] = ret ()"
| "teardownIPTables H (r # rules) =
     bnd (ext (h_iptDelete H (table r) (chain r) (rulespec r))) (\<lambda>_. teardownIPTables H rules)"

definition ensureIPTables :: "('w, 'h) net_host_scheme \<Rightarrow> IPTablesRule list \<Rightarrow> (('w, 'z) gstate_scheme, goerr option) go" where
  "ensureIPTables H rules =
     bnd (ipTablesRulesExist H rules) (\<lambda>(exists, err). case err of
       Some e \<Rightarrow> ret (Some (Errorf (''Error checking rule existence: '' @ Error e)))
     | None \<Rightarrow>
         if exists then ret None else
         bnd (teardownIPTables H rules) (\<lambda>_.
         bnd (setupIPTables H rules) (\<lambda>err. case err of
           Some e \<Rightarrow> ret (Some (Errorf (''Error setting up rules: '' @ Error e)))
         | None \<Rightarrow> ret None)))"

definition SetupAndEnsureIPTables :: "('w, 'h) net_host_scheme \<Rightarrow> IPTablesRule list \<Rightarrow> (('w, 'z) gstate_scheme, goerr option) go" where
  "SetupAndEnsureIPTables H rules =
     bnd (ext (h_iptNew H)) (\<lambda>err.
     if err \<noteq> None then ret err else
     bnd (ensureIPTables H rules) (\<lambda>err. if err \<noteq> None then ret err else ret None))"

definition DeleteIPTables :: "('w, 'h) net_host_scheme \<Rightarrow> IPTablesRule list \<Rightarrow> (('w, 'z) gstate_scheme, goerr option) go" where
  "DeleteIPTables H rules =
     bnd (ext (h_iptNew H)) (\<lambda>err.
     if err \<noteq> None then ret err else
     bnd (teardownIPTables H rules) (\<lambda>_. ret None))"

section \<open>Frame\<close>

context env_frame
begin

lemma keeps_NetNS_Do [keeps_intros]: "keeps view f \<Longrightarrow> keeps view (NetNS_Do H ns f d)"
  unfolding NetNS_Do_def by (intro keeps_intros)

lemma keeps_GetDefaultGateway [keeps_intros]: "keeps view (GetDefaultGateway H)"
  unfolding GetDefaultGateway_def by (intro keeps_intros)

lemma keeps_GetDefaultGatewayInterface [keeps_intros]: "keeps view (GetDefaultGatewayInterface H)"
  unfolding GetDefaultGatewayInterface_def by (intro keeps_intros)

lemma keeps_GetInterfaceIP4Addr [keeps_intros]: "keeps view (GetInterfaceIP4Addr H i)"
  unfolding GetInterfaceIP4Addr_def getIfaceAddrs_def by (intro keeps_intros)

lemma keeps_GetHostNetwork [keeps_intros]: "keeps view (GetHostNetwork H)"
  unfolding GetHostNetwork_def by (intro keeps_intros)

lemma keeps_ipTablesRulesExist [keeps_intros]: "keeps view (ipTablesRulesExist H rules)"
proof (induction rules)
  case Nil
  show ?case unfolding ipTablesRulesExist.simps by (intro keeps_intros)
next
  case (Cons r rules)
  then show ?case unfolding ipTablesRulesExist.simps by (intro keeps_intros)
qed

lemma keeps_setupIPTables [keeps_intros]: "keeps view (setupIPTables H rules)"
proof (induction rules)
  case Nil
  show ?case unfolding setupIPTables.simps by (intro keeps_intros)
next
  case (Cons r rules)
  then show ?case unfolding setupIPTables.simps by (intro keeps_intros)
qed

lemma keeps_teardownIPTables [keeps_intros]: "keeps view (teardownIPTables H rules)"
proof (induction rules)
  case Nil
  show ?case unfolding teardownIPTables.simps by (intro keeps_intros)
next
  case (Cons r rules)
  then show ?case unfolding teardownIPTables.simps by (intro keeps_intros)
qed

lemma keeps_SetupAndEnsureIPTables [keeps_intros]: "keeps view (SetupAndEnsureIPTables H rules)"
  unfolding SetupAndEnsureIPTables_def ensureIPTables_def by (intro keeps_intros)

end

section \<open>The rules end up in place\<close>

text \<open>
  What the code relies on of the \<open>iptables\<close> library, with \<open>R\<close> the rules the kernel
  has: \<open>Exists\<close> answers membership, \<open>AppendUnique\<close> appends a rule that is not there,
  \<open>Delete\<close> removes one occurrence (its error is ignored).
\<close>

definition ipt_laws :: "('w, 'h) net_host_scheme \<Rightarrow> ('w \<Rightarrow> IPTablesRule list) \<Rightarrow> bool" where
  "ipt_laws H R \<longleftrightarrow>
     (\<forall>w. fst (h_iptNew H w) = None \<and> R (snd (h_iptNew H w)) = R w) \<and>
     (\<forall>r w. fst (h_iptExists H (table r) (chain r) (rulespec r) w) = (r \<in> set (R w), None) \<and>
        R (snd (h_iptExists H (table r) (chain r) (rulespec r) w)) = R w) \<and>
     (\<forall>r w. fst (h_iptAppendUnique H (table r) (chain r) (rulespec r) w) = None \<and>
        R (snd (h_iptAppendUnique H (table r) (chain r) (rulespec r) w)) = (if r \<in> set (R w) then R w else R w @ [r])) \<and>
     (\<forall>r w. R (snd (h_iptDelete H (table r) (chain r) (rulespec r) w)) = remove1 r (R w))"

lemma ipt_lawsD:
  assumes "ipt_laws H R"
  shows "fst (h_iptNew H w) = None" "R (snd (h_iptNew H w)) = R w"
    "fst (h_iptExists H (table r) (chain r) (rulespec r) w) = (r \<in> set (R w), None)"
    "R (snd (h_iptExists H (table r) (chain r) (rulespec r) w)) = R w"
    "fst (h_iptAppendUnique H (table r) (chain r) (rulespec r) w) = None"
    "R (snd (h_iptAppendUnique H (table r) (chain r) (rulespec r) w)) = (if r \<in> set (R w) then R w else R w @ [r])"
    "R (snd (h_iptDelete H (table r) (chain r) (rulespec r) w)) = remove1 r (R w)"
  using assms unfolding ipt_laws_def by blast+

lemma ipTablesRulesExist_eval:
  assumes "ipt_laws H R"
  shows "\<exists>w. ipTablesRulesExist H rules s = (Returns (set rules \<subseteq> set (R (world s)), None), s\<lparr>world := w\<rparr>) \<and> R w = R (world s)"
proof (induction rules arbitrary: s)
  case Nil
  show ?case by (intro exI [of _ "world s"]) simp
next
  case (Cons r rules)
  let ?w = "snd (h_iptExists H (table r) (chain r) (rulespec r) (world s))"
  show ?case
  proof (cases "r \<in> set (R (world s))")
    case True
    then show ?thesis
      using Cons [of "s\<lparr>world := ?w\<rparr>"] by (auto simp: ext_eval ipt_lawsD [OF assms])
  next
    case False
    then show ?thesis by (intro exI [of _ ?w]) (simp add: ext_eval ipt_lawsD [OF assms])
  qed
qed

lemma teardownIPTables_eval:
  assumes "ipt_laws H R" and "distinct (R (world s))"
  shows "\<exists>w. teardownIPTables H rules s = (Returns (), s\<lparr>world := w\<rparr>) \<and>
    R w = filter (\<lambda>x. x \<notin> set rules) (R (world s))"
  using assms(2)
proof (induction rules arbitrary: s)
  case Nil
  show ?case by (intro exI [of _ "world s"]) simp
next
  case (Cons r rules)
  let ?w = "snd (h_iptDelete H (table r) (chain r) (rulespec r) (world s))"
  have R: "R ?w = filter (\<lambda>x. x \<noteq> r) (R (world s))"
    using Cons.prems by (simp add: ipt_lawsD [OF assms(1)] distinct_remove1_removeAll removeAll_filter_not_eq) metis
  with Cons.prems have "distinct (R (world (s\<lparr>world := ?w\<rparr>)))" by simp
  from Cons.IH [OF this] R show ?case by (auto simp: ext_eval)
qed

lemma setupIPTables_eval:
  assumes "ipt_laws H R" and "distinct rules" and "set rules \<inter> set (R (world s)) = {}"
  shows "\<exists>w. setupIPTables H rules s = (Returns None, s\<lparr>world := w\<rparr>) \<and> R w = R (world s) @ rules"
  using assms(2,3)
proof (induction rules arbitrary: s)
  case Nil
  show ?case by (intro exI [of _ "world s"]) simp
next
  case (Cons r rules)
  let ?w = "snd (h_iptAppendUnique H (table r) (chain r) (rulespec r) (world s))"
  have R: "R ?w = R (world s) @ [r]" using Cons.prems by (simp add: ipt_lawsD [OF assms(1)])
  with Cons.prems have "set rules \<inter> set (R (world (s\<lparr>world := ?w\<rparr>))) = {}" by auto
  with Cons.IH [of "s\<lparr>world := ?w\<rparr>"] Cons.prems R show ?case
    by (auto simp: ext_eval ipt_lawsD [OF assms(1)])
qed


text \<open>A host whose environment is the kernel's list of rules, for examples.\<close>

definition ipt_host :: "IPTablesRule list net_host" where
  "ipt_host = host.extend (canned_host (\<lambda>_. ([], [], None)))
     (net_host.fields (\<lambda>w. (([], None), w)) (\<lambda>i w. ((Some i, None), w)) (\<lambda>i w. (([], None), w))
        (\<lambda>w. (None, w))
        (\<lambda>t c r w. ((\<lparr>table = t, chain = c, rulespec = r\<rparr> \<in> set w, None), w))
        (\<lambda>t c r w. (None, if \<lparr>table = t, chain = c, rulespec = r\<rparr> \<in> set w then w else w @ [\<lparr>table = t, chain = c, rulespec = r\<rparr>]))
        (\<lambda>t c r w. (None, remove1 \<lparr>table = t, chain = c, rulespec = r\<rparr> w))
        (\<lambda>p w. ((0, None), w)) (\<lambda>n w. (None, w)) (\<lambda>n w. ((), w)) (\<lambda>n w. ((), w))
        (\<lambda>l w. (None, w)) (\<lambda>l w. (None, w)) (\<lambda>l n w. (None, w)) (\<lambda>l m w. (None, w))
        (\<lambda>a. Inr (OtherErr a)) (\<lambda>l a w. (None, w)) (\<lambda>d g l w. (None, w))
        (\<lambda>n m w. (Inr (OtherErr n), w)) (\<lambda>p a w. (([], None), w)))"

lemma rule_surjective: "\<lparr>table = table r, chain = chain r, rulespec = rulespec r\<rparr> = (r :: IPTablesRule)"
  by simp

lemma ipt_host_laws: "ipt_laws ipt_host (\<lambda>w. w)"
  by (simp add: ipt_laws_def ipt_host_def host.defs net_host.defs rule_surjective)


section \<open>The host network\<close>

lemma IPNet_String_4:
  assumes "length ip = 4" and "n \<le> 32"
  shows "IPNet_String \<lparr>net_IP = ip, net_Mask = CIDRMask n 4\<rparr> = dotted ip @ ''/'' @ Itoa n"
proof -
  have "ip \<noteq> []" using assms(1) by auto
  then show ?thesis
    using assms simpleMaskLength_CIDRMask [of n 4]
    by (simp add: IPNet_String_def networkNumberAndMask_def To4_length IP_String_4)
qed

lemma GetHostNetwork_run:
  assumes "h_RouteList H (world s) = ((routes, None), w1)" and "find is_default_route routes = Some r"
    and "0 < rt_LinkIndex r" and "h_InterfaceByIndex H (rt_LinkIndex r) w1 = ((Some i, None), w2)"
    and "h_AddrList H i w2 = ((addrs, None), w3)"
    and "pick_addr addrs None = Some \<lparr>net_IP = ip, net_Mask = CIDRMask n 4\<rparr>"
    and "length ip = 4" and "n \<le> 32"
  shows "GetHostNetwork H s =
    (Returns (dotted (map2 (AND) ip (CIDRMask n 4)) @ ''/'' @ Itoa n, None), s\<lparr>world := w3\<rparr>)"
proof -
  let ?a = "\<lparr>net_IP = ip, net_Mask = CIDRMask n 4\<rparr>"
  let ?t = "s\<lparr>world := w2\<rparr>"
  have gw: "GetDefaultGatewayInterface H s = (Returns (Some i, None), ?t)"
    using assms by (simp add: GetDefaultGatewayInterface_def ext_eval)
  have addr: "GetInterfaceIP4Addr H i ?t = (Returns (Some ?a, None), s\<lparr>world := w3\<rparr>)"
    using assms by (simp add: GetInterfaceIP4Addr_def getIfaceAddrs_def ext_eval)
  have "length (map2 (AND) ip (CIDRMask n 4)) = 4" using assms(7) by simp
  then have net: "IPNet_String \<lparr>net_IP = map2 (AND) ip (CIDRMask n 4), net_Mask = CIDRMask n 4\<rparr> =
      dotted (map2 (AND) ip (CIDRMask n 4)) @ ''/'' @ Itoa n"
    using assms(8) by (rule IPNet_String_4)
  have parse: "ParseCIDR (IPNet_String ?a) = Inr (v4InV6Prefix @ ip,
      \<lparr>net_IP = map2 (AND) ip (CIDRMask n 4), net_Mask = CIDRMask n 4\<rparr>)"
    using assms(7,8) by (simp only: IPNet_String_4 ParseCIDR_dotted)
  show ?thesis
    unfolding GetHostNetwork_def using gw addr by (simp add: parse net del: append_Cons)
qed


definition demo_route :: route where
  "demo_route = \<lparr>rt_Dst = None, rt_Gw = [10, 0, 2, 2], rt_LinkIndex = 2\<rparr>"

definition demo_addr :: IPNet where
  "demo_addr = \<lparr>net_IP = [10, 0, 2, 15], net_Mask = CIDRMask 24 4\<rparr>"

definition demo_net_host :: "IPTablesRule list net_host" where
  "demo_net_host = ipt_host\<lparr>h_RouteList := (\<lambda>w. (([demo_route], None), w)), h_AddrList := (\<lambda>i w. (([demo_addr], None), w))\<rparr>"

lemma IsUnspecified_4: "length ip = 4 \<Longrightarrow> IsUnspecified ip \<longleftrightarrow> ip = [0, 0, 0, 0]"
  unfolding IsUnspecified_def by (auto simp: To4_length dest: arg_cong [where f = length])

lemma pick_demo_addr: "pick_addr [demo_addr] None = Some \<lparr>net_IP = [10, 0, 2, 15], net_Mask = CIDRMask 24 4\<rparr>"
  by (simp add: demo_addr_def To4_length IsGlobalUnicast_def IsUnspecified_4 IsLoopback_def IsMulticast_def
      IsLinkLocalUnicast_def)


end
