(* ===== verification/CniApp.thy ===== *)
theory CniApp
  imports OvnController NetIface
begin

text \<open>
  \<open>cmd/ovn4nfvk8s-cni/app/helper_linux.go\<close>: the node's internal port, the veth pair of a
  pod with its addresses and routes, and the plugging of the host end into Open vSwitch.
  The texts of wrapped errors keep their prefix and cause; the quoting of arguments and the
  command output they also print are left out.
\<close>

section \<open>MAC addresses\<close>

text \<open>\<open>net.ParseMAC\<close>: bytes separated by colons or hyphens, or pairs of bytes by dots.\<close>

definition xtoi2 :: "string \<Rightarrow> char \<Rightarrow> byte option" where
  "xtoi2 s e =
     (if 2 < length s \<and> s ! 2 \<noteq> e then None
      else case xtoi (take 2 s) of
        Some (n, rest) \<Rightarrow> if rest = [] \<and> length (take 2 s) = 2 then Some (of_nat n) else None
      | None \<Rightarrow> None)"

fun mac_bytes :: "nat \<Rightarrow> char \<Rightarrow> string \<Rightarrow> IP option" where
  "mac_bytes 0 e s = Some []"
| "mac_bytes (Suc n) e s =
     (case xtoi2 s e of None \<Rightarrow> None | Some b \<Rightarrow> map_option (\<lambda>bs. b # bs) (mac_bytes n e (drop 3 s)))"

fun mac_words :: "nat \<Rightarrow> char \<Rightarrow> string \<Rightarrow> IP option" where
  "mac_words 0 e s = Some []"
| "mac_words (Suc n) e s =
     (case (xtoi2 (take 2 s) (CHR 0x00), xtoi2 (drop 2 s) e) of
        (Some a, Some b) \<Rightarrow> map_option (\<lambda>bs. a # b # bs) (mac_words n e (drop 5 s))
      | _ \<Rightarrow> None)"

definition ParseMAC :: "string \<Rightarrow> IP + goerr" where
  "ParseMAC s =
     (let bad = Inr (OtherErr (''address '' @ s @ '': invalid MAC address'')); lens = [6, 8, 20] in
      if length s < 14 then bad
      else if s ! 2 = CHR '':'' \<or> s ! 2 = CHR ''-'' then
        (let n = (length s + 1) div 3 in
         if (length s + 1) mod 3 \<noteq> 0 \<or> n \<notin> set lens then bad
         else case mac_bytes n (s ! 2) s of Some hw \<Rightarrow> Inl hw | None \<Rightarrow> bad)
      else if s ! 4 = CHR ''.'' then
        (let n = 2 * (length s + 1) div 5 in
         if (length s + 1) mod 5 \<noteq> 0 \<or> n \<notin> set lens then bad
         else case mac_words (n div 2) (s ! 4) s of Some hw \<Rightarrow> Inl hw | None \<Rightarrow> bad)
      else bad)"

definition MAC_String :: "IP \<Rightarrow> string" where
  "MAC_String hw = Join (map (\<lambda>b. hex02 (unat b)) hw) '':''"

section \<open>Operations\<close>

text \<open>Names for the texts the functions take: paths, names, and addresses as the annotation has them.\<close>

type_synonym ns_path = string
type_synonym intf_name = string
type_synonym mac_text = string
type_synonym cidr_text = string
type_synonym addr_text = string
type_synonym flag_text = string

text \<open>
  \<open>exec.Command(...).CombinedOutput()\<close>: run outside the helper of the OVN package.
\<close>

definition CombinedOutput :: "('w, 'h) net_host_scheme \<Rightarrow> string \<Rightarrow> string list \<Rightarrow>
    (('w, 'z) gstate_scheme, string \<times> goerr option) go" where
  "CombinedOutput H p args =
     bnd (modify (\<lambda>s. s\<lparr>execlog := execlog s @ [(p, args)]\<rparr>)) (\<lambda>_. ext (h_Combined H p args))"

definition renameLink :: "('w, 'h) net_host_scheme \<Rightarrow> string \<Rightarrow> string \<Rightarrow> (('w, 'z) gstate_scheme, goerr option) go" where
  "renameLink H curName newName =
     bnd (ext (h_LinkByName H curName)) (\<lambda>(link, err). if err \<noteq> None then ret err else
     bnd (ext (h_LinkSetDown H link)) (\<lambda>err. if err \<noteq> None then ret err else
     bnd (ext (h_LinkSetName H link newName)) (\<lambda>err. if err \<noteq> None then ret err else
     bnd (ext (h_LinkSetUp H link)) (\<lambda>err. if err \<noteq> None then ret err else ret None))))"

definition wrap_err :: "string \<Rightarrow> goerr option \<Rightarrow> goerr option" where
  "wrap_err m err = map_option (\<lambda>e. Errorf (m @ '': '' @ Error e)) err"

definition node_port_args :: "string \<Rightarrow> IP \<Rightarrow> string list" where
  "node_port_args name hwAddr =
     (let mac = ReplaceAll (MAC_String hwAddr) '':'' [CHR 0x5C, CHR '':''] in
      [''add-port'', ''br-int'', name, ''--'', ''set'', ''interface'', name, ''type=internal'',
       ''mac_in_use='' @ mac, ''mac='' @ mac, ''external_ids:iface-id='' @ name])"

definition CreateNodeOVSInternalPort :: "('w, 'h) net_host_scheme \<Rightarrow> string \<Rightarrow> string \<Rightarrow> string \<Rightarrow>
    (('w, 'z) gstate_scheme, goerr option) go" where
  "CreateNodeOVSInternalPort H nodeintfipaddr nodeintfmacaddr node =
     (let name = GetNodeIntfName (ToLower node) in
      case ParseMAC nodeintfmacaddr of
        Inr e \<Rightarrow> ret (wrap_err (''Error is converting '' @ name @ '' to net hwaddr'') (Some e))
      | Inl hwAddr \<Rightarrow>
          bnd (CombinedOutput H ''ovs-vsctl'' (node_port_args name hwAddr)) (\<lambda>(out, err).
          if err \<noteq> None then ret (wrap_err (''failure in creating Node OVS internal port - '' @ name) err) else
          bnd (ext (h_LinkByName H name)) (\<lambda>(link, err).
          if err \<noteq> None then ret (wrap_err (''failed to get netlink for Node OVS internal port '' @ name) err) else
          bnd (ext (h_LinkSetUp H link)) (\<lambda>err.
          if err \<noteq> None then ret (wrap_err (''failed to set up netlink for Node OVS internal port '' @ name) err) else
          case h_ParseAddr H nodeintfipaddr of
            Inr e \<Rightarrow> ret (wrap_err (''failed to parse IP addr '' @ nodeintfipaddr) (Some e))
          | Inl addr \<Rightarrow>
              bnd (ext (h_AddrAdd H link addr)) (\<lambda>err.
              if err \<noteq> None then ret (wrap_err (''failed to add IP addr '' @ nodeintfipaddr @ '' to '' @ name) err) else
              bnd (SetupAndEnsureIPTables H (MasqRules name)) (\<lambda>err.
              if err \<noteq> None then ret (wrap_err (''failed to apply snat rule for '' @ name) err) else ret None))))))"

record ifc =
  ifc_Name :: string
  ifc_Mac :: string
  ifc_Sandbox :: string

definition zero_ifc :: ifc where
  "zero_ifc = \<lparr>ifc_Name = [], ifc_Mac = [], ifc_Sandbox = []\<rparr>"

definition needs_host_route :: "string \<Rightarrow> bool \<Rightarrow> string \<Rightarrow> bool" where
  "needs_host_route defaultGateway isDefaultGW ifName \<longleftrightarrow>
     defaultGateway = ''false'' \<and> isDefaultGW \<and> ifName = ''eth0''"

text \<open>
  What \<open>setupInterface\<close> does inside the pod's namespace; its result is the host end's
  name and address and the container's interface.
\<close>

definition setup_in_ns :: "('w, 'h) net_host_scheme \<Rightarrow> ns_path \<Rightarrow> cidr_text \<Rightarrow> intf_name \<Rightarrow> mac_text \<Rightarrow> cidr_text \<Rightarrow> addr_text \<Rightarrow> flag_text \<Rightarrow>
    int \<Rightarrow> bool \<Rightarrow> (('w, 'z) ovn_state_scheme, goerr option \<times> string \<times> string \<times> ifc) go" where
  "setup_in_ns H nsPath hostNet ifName macAddress ipAddress gatewayIP defaultGateway mtu isDefaultGW =
     (let fail = (\<lambda>err. ret (err, [], [], zero_ifc)) in
      bnd (ext (h_SetupVeth H ifName mtu)) (\<lambda>r. case r of
        Inr e \<Rightarrow> fail (wrap_err (''failed to setup veth '' @ ifName) (Some e))
      | Inl (hostVeth, containerVeth) \<Rightarrow>
      let name = veth_Name containerVeth in
      bnd (ext (h_LinkByName H name)) (\<lambda>(link, err).
      if err \<noteq> None then fail (wrap_err (''failed to lookup '' @ name) err) else
      case ParseMAC macAddress of
        Inr e \<Rightarrow> fail (wrap_err (''failed to parse mac address for '' @ name) (Some e))
      | Inl hwAddr \<Rightarrow>
      bnd (ext (h_LinkSetHardwareAddr H link hwAddr)) (\<lambda>err.
      if err \<noteq> None then fail (wrap_err (''failed to add mac address '' @ macAddress @ '' to '' @ name) err) else
      case h_ParseAddr H ipAddress of
        Inr e \<Rightarrow> fail (Some e)
      | Inl addr \<Rightarrow>
      bnd (ext (h_AddrAdd H link addr)) (\<lambda>err.
      if err \<noteq> None then fail (wrap_err (''failed to add IP addr '' @ ipAddress @ '' to '' @ name) err) else
      bnd (if defaultGateway = ''true'' then
             (if ParseIP gatewayIP = [] then ret (Some (Errorf ''parse ip of gateway failed''))
              else ext (h_AddRoute H None (ParseIP gatewayIP) link))
           else ret None) (\<lambda>err.
      if err \<noteq> None then fail err else
      bnd (if needs_host_route defaultGateway isDefaultGW ifName then
             bnd (RunIP H [''route'', ''add'', hostNet, ''via'', gatewayIP]) (\<lambda>(stdout, stderr, err).
             if err \<noteq> None \<and> \<not> Contains stderr ''RTNETLINK answers: File exists'' then
               ret (wrap_err (''Failed to ip route add stout '' @ stdout @ '', stderr '' @ stderr) err)
             else ret None)
           else ret None) (\<lambda>err.
      if err \<noteq> None then fail err else
      ret (None, veth_Name hostVeth, MAC_String (veth_Mac hostVeth),
           \<lparr>ifc_Name = name, ifc_Mac = macAddress, ifc_Sandbox = nsPath\<rparr>))))))))"

text \<open>\<open>containerID[:14]\<close> panics on a shorter identifier.\<close>

definition slice_to :: "string \<Rightarrow> nat \<Rightarrow> ('s, string) go" where
  "slice_to s n = (if n \<le> length s then ret (take n s) else panic ''slice bounds out of range'')"

definition setupInterface :: "('w, 'h) net_host_scheme \<Rightarrow> nat \<Rightarrow> ns_path \<Rightarrow> string \<Rightarrow> intf_name \<Rightarrow> mac_text \<Rightarrow> cidr_text \<Rightarrow> addr_text \<Rightarrow> flag_text \<Rightarrow>
    nat \<Rightarrow> int \<Rightarrow> bool \<Rightarrow> (('w, 'z) ovn_state_scheme, (ifc \<times> ifc) option \<times> goerr option) go" where
  "setupInterface H netns nsPath containerID ifName macAddress ipAddress gatewayIP defaultGateway idx mtu isDefaultGW =
     bnd (if needs_host_route defaultGateway isDefaultGW ifName then GetHostNetwork H else ret ([], None)) (\<lambda>(hostNet, err).
     if err \<noteq> None then ret (None, wrap_err ''failed to get host network'' err) else
     bnd (NetNS_Do H netns (setup_in_ns H nsPath hostNet ifName macAddress ipAddress gatewayIP defaultGateway mtu isDefaultGW)
            ([], [], zero_ifc)) (\<lambda>(err, oldHostVethName, hostMac, contIface).
     if err \<noteq> None then ret (None, err) else
     bnd (slice_to containerID 14) (\<lambda>pre.
     let hostName = pre @ Itoa idx in
     bnd (renameLink H oldHostVethName hostName) (\<lambda>err.
     if err \<noteq> None then ret (None, wrap_err (''failed to rename '' @ oldHostVethName @ '' to '' @ hostName) err)
     else ret (Some (\<lparr>ifc_Name = hostName, ifc_Mac = hostMac, ifc_Sandbox = []\<rparr>, contIface), None)))))"

definition iface_id :: "string \<Rightarrow> string \<Rightarrow> string \<Rightarrow> string" where
  "iface_id namespace podName interfaceName =
     (if interfaceName \<noteq> ''*'' then namespace @ ''_'' @ podName @ ''_'' @ interfaceName
      else namespace @ ''_'' @ podName)"

definition plug_args :: "intf_name \<Rightarrow> mac_text \<Rightarrow> string \<Rightarrow> cidr_text \<Rightarrow> string \<Rightarrow> string list" where
  "plug_args hostName macAddress ifaceID ipAddress containerID =
     [''add-port'', ''br-int'', hostName, ''--'', ''set'', ''interface'', hostName,
      ''external_ids:attached_mac='' @ macAddress, ''external_ids:iface-id='' @ ifaceID,
      ''external_ids:ip_address='' @ ipAddress, ''external_ids:sandbox='' @ containerID]"

definition ConfigureInterface :: "('w, 'h) net_host_scheme \<Rightarrow> ns_path \<Rightarrow> string \<Rightarrow> intf_name \<Rightarrow> string \<Rightarrow> string \<Rightarrow> mac_text \<Rightarrow>
    cidr_text \<Rightarrow> addr_text \<Rightarrow> intf_name \<Rightarrow> flag_text \<Rightarrow> nat \<Rightarrow> int \<Rightarrow> bool \<Rightarrow> (('w, 'z) ovn_state_scheme, ifc list \<times> goerr option) go" where
  "ConfigureInterface H containerNetns containerID ifName namespace podName macAddress ipAddress gatewayIP interfaceName
     defaultGateway idx mtu isDefaultGW =
     bnd (ext (h_GetNS H containerNetns)) (\<lambda>(netns, err).
     if err \<noteq> None then ret ([], wrap_err (''failed to open netns '' @ containerNetns) err) else
     let ifaceID = iface_id namespace podName interfaceName;
         interfaceName = (if interfaceName \<noteq> ''*'' then interfaceName else ifName) in
     bnd (setupInterface H netns containerNetns containerID interfaceName macAddress ipAddress gatewayIP defaultGateway idx mtu isDefaultGW) (\<lambda>(r, err).
     bnd (case r of
            None \<Rightarrow> ret ([], err)
          | Some (hostIface, contIface) \<Rightarrow>
              bnd (CombinedOutput H ''ovs-vsctl'' (plug_args (ifc_Name hostIface) macAddress ifaceID ipAddress containerID)) (\<lambda>(out, err).
              if err \<noteq> None then ret ([], wrap_err ''failure in plugging pod interface'' err)
              else ret ([hostIface, contIface], None))) (\<lambda>res.
     bnd (ext (h_NsClose H netns)) (\<lambda>_. ret res))))"

text \<open>
  \<open>setupRoute\<close> ignores the errors of \<open>ParseCIDR\<close> and \<open>LinkByName\<close>; a destination
  that does not parse is a nil network, whose mask is a nil pointer dereference.
\<close>

definition setupRoute :: "('w, 'h) net_host_scheme \<Rightarrow> nat \<Rightarrow> string \<Rightarrow> string \<Rightarrow> string \<Rightarrow>
    (('w, 'z) ovn_state_scheme, goerr option) go" where
  "setupRoute H netns dst gw dev =
     bnd (NetNS_Do H netns
       (case ParseCIDR dst of
          Inl _ \<Rightarrow> panic nil_deref
        | Inr (dstAddr, dstAddrNet) \<Rightarrow>
            bnd (ext (h_LinkByName H dev)) (\<lambda>(link, _).
            bnd (ext (h_AddRoute H (Some \<lparr>net_IP = dstAddr, net_Mask = net_Mask dstAddrNet\<rparr>) (ParseIP gw) link)) (\<lambda>err.
            ret (err, ())))) ()) (\<lambda>(err, _). ret err)"

definition ConfigureRoute :: "('w, 'h) net_host_scheme \<Rightarrow> string \<Rightarrow> string \<Rightarrow> string \<Rightarrow> string \<Rightarrow>
    (('w, 'z) ovn_state_scheme, goerr option) go" where
  "ConfigureRoute H containerNetns dst gw dev =
     bnd (ext (h_GetNS H containerNetns)) (\<lambda>(netns, err).
     if err \<noteq> None then ret (wrap_err (''failed to open netns '' @ containerNetns) err) else
     bnd (setupRoute H netns dst gw dev) (\<lambda>err.
     bnd (ext (h_NsClose H netns)) (\<lambda>_. ret err)))"

definition PlatformSpecificCleanup :: "('w, 'h) net_host_scheme \<Rightarrow> string \<Rightarrow>
    (('w, 'z) gstate_scheme, bool \<times> goerr option) go" where
  "PlatformSpecificCleanup H ifaceName =
     bnd (CombinedOutput H ''ovs-vsctl'' [''del-port'', ''br-int'', ifaceName]) (\<lambda>(out, err).
     if err \<noteq> None \<and> \<not> Contains out ''no port named'' then ret (True, None) else ret (False, None))"

section \<open>Frame\<close>

context env_frame
begin

lemma keeps_CombinedOutput [keeps_intros]: "keeps view (CombinedOutput H p args)"
  unfolding CombinedOutput_def by (intro keeps_intros) (rule view_log)

lemma keeps_CreateNodeOVSInternalPort [keeps_intros]: "keeps view (CreateNodeOVSInternalPort H ip mac node)"
  unfolding CreateNodeOVSInternalPort_def by (intro keeps_intros)

end

section \<open>Addresses printed and parsed back\<close>

lemma xtoi2_hex02: "r = [] \<or> hd r = e \<Longrightarrow> xtoi2 (hex02 (unat (b :: byte)) @ r) e = Some b"
proof -
  assume r: "r = [] \<or> hd r = e"
  have small: "unat b div 16 < 16" using byte_small(2) [of b] by (simp add: less_mult_imp_div_less)
  moreover have "unat b div 16 * 16 + unat b mod 16 = unat b" by simp
  ultimately show ?thesis using r by (cases r) (simp_all add: xtoi2_def hex02_def xtoi_def)
qed

lemma mac_bytes_Join: "mac_bytes (length hw) e (Join (map (\<lambda>b. hex02 (unat b)) hw) [e]) = Some hw"
proof (induction hw)
  case (Cons b hw)
  have "drop 3 (hex02 (unat b) @ e # r) = r" for r by (simp add: hex02_def)
  with Cons show ?case
    using xtoi2_hex02 [of "[]" e b] by (cases "hw = []") (simp_all add: Join_Cons xtoi2_hex02)
qed simp

lemma MAC_String_shape:
  assumes "2 \<le> length hw"
  shows "length (MAC_String hw) + 1 = 3 * length hw" and "MAC_String hw ! 2 = CHR '':''"
proof -
  have "hw \<noteq> [] \<Longrightarrow> length (MAC_String hw) + 1 = 3 * length hw"
    by (induction hw rule: list_nonempty_induct) (auto simp: MAC_String_def Join_Cons hex02_def)
  with assms show "length (MAC_String hw) + 1 = 3 * length hw" by force
  from assms obtain a b t where "hw = a # b # t" by (metis Suc_le_length_iff numeral_2_eq_2)
  then show "MAC_String hw ! 2 = CHR '':''" by (simp add: MAC_String_def Join_Cons hex02_def)
qed

text \<open>What \<open>String\<close> prints of an address is parsed back.\<close>

lemma ParseMAC_printed:
  assumes "length hw \<in> {6, 8, 20}"
  shows "ParseMAC (MAC_String hw) = Inl hw"
proof -
  have "2 \<le> length hw" using assms by auto
  note shape = MAC_String_shape [OF this]
  have "length (MAC_String hw) = 3 * length hw - 1" using shape(1) by simp
  moreover have "mac_bytes (length hw) CHR '':'' (MAC_String hw) = Some hw"
    using mac_bytes_Join [of hw "CHR '':''"] by (simp add: MAC_String_def)
  ultimately show ?thesis using assms shape(2) by (auto simp: ParseMAC_def Let_def)
qed

end
