(* ===== verification/Proto.thy ===== *)
theory Proto
  imports Prelude
begin

text \<open>
  The messages of \<open>internal/pkg/nfnNotify/proto/nfn.pb.go\<close> and their getters. A message is
  passed by pointer, so a getter takes an option: it is defined on a nil pointer too, where it
  gives the zero value. A oneof payload is a datatype with the wrapper types' names.
\<close>

section \<open>Messages\<close>

record SubscribeContext =
  sc_NodeName :: string

record InSync =
  NodeIntfIpAddress :: string
  NodeIntfMacAddress :: string

record VlanInfo =
  vi_VlanId :: string
  vi_ProviderIntf :: string
  vi_LogicalIntf :: string

record DirectInfo =
  di_ProviderIntf :: string

record ProviderNetworkCreate =
  pc_ProviderNwName :: string
  pc_Vlan :: "VlanInfo option"
  pc_Direct :: "DirectInfo option"

record ProviderNetworkRemove =
  pr_ProviderNwName :: string
  pr_VlanLogicalIntf :: string
  pr_DirectProviderIntf :: string

record RouteData =
  rd_Dst :: string
  rd_Gw :: string

record ContainerRouteInsert =
  ci_ContainerId :: string
  ci_Route :: "RouteData option list"

record ContainerRouteRemove =
  cr_ContainerId :: string
  cr_Route :: "RouteData option list"

datatype isNotification_Payload =
    Notification_InSync "InSync option"
  | Notification_ProviderNwCreate "ProviderNetworkCreate option"
  | Notification_ProviderNwRemove "ProviderNetworkRemove option"
  | Notification_ContainterRtInsert "ContainerRouteInsert option"
  | Notification_ContainterRtRemove "ContainerRouteRemove option"

record Notification =
  no_CniType :: string
  Payload :: "isNotification_Payload option"

definition zero_Notification :: Notification where
  "zero_Notification = \<lparr>no_CniType = [], Payload = None\<rparr>"

section \<open>Getters\<close>

text \<open>What every string getter does: a nil receiver gives the empty string.\<close>

definition str_getter :: "('m \<Rightarrow> string) \<Rightarrow> 'm option \<Rightarrow> string" where
  "str_getter f m = (case m of Some m \<Rightarrow> f m | None \<Rightarrow> [])"

definition GetNodeName :: "SubscribeContext option \<Rightarrow> string" where
  "GetNodeName = str_getter sc_NodeName"

definition GetCniType :: "Notification option \<Rightarrow> string" where
  "GetCniType = str_getter no_CniType"

definition GetPayload :: "Notification option \<Rightarrow> isNotification_Payload option" where
  "GetPayload m = (case m of Some m \<Rightarrow> Payload m | None \<Rightarrow> None)"

definition GetInSync :: "Notification option \<Rightarrow> InSync option" where
  "GetInSync m = (case GetPayload m of Some (Notification_InSync x) \<Rightarrow> x | _ \<Rightarrow> None)"

definition GetProviderNwCreate :: "Notification option \<Rightarrow> ProviderNetworkCreate option" where
  "GetProviderNwCreate m = (case GetPayload m of Some (Notification_ProviderNwCreate x) \<Rightarrow> x | _ \<Rightarrow> None)"

definition GetProviderNwRemove :: "Notification option \<Rightarrow> ProviderNetworkRemove option" where
  "GetProviderNwRemove m = (case GetPayload m of Some (Notification_ProviderNwRemove x) \<Rightarrow> x | _ \<Rightarrow> None)"

definition GetContainterRtInsert :: "Notification option \<Rightarrow> ContainerRouteInsert option" where
  "GetContainterRtInsert m = (case GetPayload m of Some (Notification_ContainterRtInsert x) \<Rightarrow> x | _ \<Rightarrow> None)"

definition GetContainterRtRemove :: "Notification option \<Rightarrow> ContainerRouteRemove option" where
  "GetContainterRtRemove m = (case GetPayload m of Some (Notification_ContainterRtRemove x) \<Rightarrow> x | _ \<Rightarrow> None)"

definition pc_GetProviderNwName :: "ProviderNetworkCreate option \<Rightarrow> string" where
  "pc_GetProviderNwName = str_getter pc_ProviderNwName"

definition pc_GetVlan :: "ProviderNetworkCreate option \<Rightarrow> VlanInfo option" where
  "pc_GetVlan m = (case m of Some m \<Rightarrow> pc_Vlan m | None \<Rightarrow> None)"

definition pc_GetDirect :: "ProviderNetworkCreate option \<Rightarrow> DirectInfo option" where
  "pc_GetDirect m = (case m of Some m \<Rightarrow> pc_Direct m | None \<Rightarrow> None)"

definition pr_GetProviderNwName :: "ProviderNetworkRemove option \<Rightarrow> string" where
  "pr_GetProviderNwName = str_getter pr_ProviderNwName"

definition pr_GetVlanLogicalIntf :: "ProviderNetworkRemove option \<Rightarrow> string" where
  "pr_GetVlanLogicalIntf = str_getter pr_VlanLogicalIntf"

definition pr_GetDirectProviderIntf :: "ProviderNetworkRemove option \<Rightarrow> string" where
  "pr_GetDirectProviderIntf = str_getter pr_DirectProviderIntf"

definition vi_GetVlanId :: "VlanInfo option \<Rightarrow> string" where
  "vi_GetVlanId = str_getter vi_VlanId"

definition vi_GetProviderIntf :: "VlanInfo option \<Rightarrow> string" where
  "vi_GetProviderIntf = str_getter vi_ProviderIntf"

definition vi_GetLogicalIntf :: "VlanInfo option \<Rightarrow> string" where
  "vi_GetLogicalIntf = str_getter vi_LogicalIntf"

definition di_GetProviderIntf :: "DirectInfo option \<Rightarrow> string" where
  "di_GetProviderIntf = str_getter di_ProviderIntf"

definition rd_GetDst :: "RouteData option \<Rightarrow> string" where
  "rd_GetDst = str_getter rd_Dst"

definition rd_GetGw :: "RouteData option \<Rightarrow> string" where
  "rd_GetGw = str_getter rd_Gw"

definition ci_GetContainerId :: "ContainerRouteInsert option \<Rightarrow> string" where
  "ci_GetContainerId = str_getter ci_ContainerId"

definition ci_GetRoute :: "ContainerRouteInsert option \<Rightarrow> RouteData option list" where
  "ci_GetRoute m = (case m of Some m \<Rightarrow> ci_Route m | None \<Rightarrow> [])"

definition cr_GetContainerId :: "ContainerRouteRemove option \<Rightarrow> string" where
  "cr_GetContainerId = str_getter cr_ContainerId"

definition cr_GetRoute :: "ContainerRouteRemove option \<Rightarrow> RouteData option list" where
  "cr_GetRoute m = (case m of Some m \<Rightarrow> cr_Route m | None \<Rightarrow> [])"

definition GetNodeIntfIpAddress :: "InSync option \<Rightarrow> string" where
  "GetNodeIntfIpAddress = str_getter NodeIntfIpAddress"

definition GetNodeIntfMacAddress :: "InSync option \<Rightarrow> string" where
  "GetNodeIntfMacAddress = str_getter NodeIntfMacAddress"

lemmas getter_defs = str_getter_def GetNodeName_def GetCniType_def GetPayload_def GetInSync_def
  GetProviderNwCreate_def GetProviderNwRemove_def GetContainterRtInsert_def GetContainterRtRemove_def
  pc_GetProviderNwName_def pc_GetVlan_def pc_GetDirect_def pr_GetProviderNwName_def
  pr_GetVlanLogicalIntf_def pr_GetDirectProviderIntf_def vi_GetVlanId_def vi_GetProviderIntf_def
  vi_GetLogicalIntf_def di_GetProviderIntf_def rd_GetDst_def rd_GetGw_def ci_GetContainerId_def
  ci_GetRoute_def cr_GetContainerId_def cr_GetRoute_def GetNodeIntfIpAddress_def GetNodeIntfMacAddress_def

text \<open>The payload getters are exclusive: at most one of them is set.\<close>

lemma payload_exclusive:
  "length (filter id [GetInSync m \<noteq> None, GetProviderNwCreate m \<noteq> None, GetProviderNwRemove m \<noteq> None,
     GetContainterRtInsert m \<noteq> None, GetContainterRtRemove m \<noteq> None]) \<le> 1"
  by (auto simp: getter_defs split: option.splits isNotification_Payload.splits)

end
