(* ===== verification/Chaining.thy ===== *)
theory Chaining
  imports OvnController NetIface Proto "HOL-Library.Sublist"
begin

text \<open>
  \<open>internal/pkg/utils/chain.go\<close>: service function chaining. The operator side computes, for
  every deployment of a chain, the routes towards the left and right edge networks and towards
  the networks of the chain it is not attached to; the agent side installs them in a container's
  network namespace.
\<close>

section \<open>State\<close>

record RoutingInfo =
  ri_Name :: string
  ri_Namespace :: string
  ri_Id :: string
  ri_Node :: string
  LeftNetworkRoute :: Route
  RightNetworkRoute :: Route
  DynamicNetworkRoutes :: "Route list"

definition zero_RoutingInfo :: RoutingInfo where
  "zero_RoutingInfo = \<lparr>ri_Name = [], ri_Namespace = [], ri_Id = [], ri_Node = [],
     LeftNetworkRoute = \<lparr>Dst = [], GW = []\<rparr>, RightNetworkRoute = \<lparr>Dst = [], GW = []\<rparr>, DynamicNetworkRoutes = []\<rparr>"

record 'w chain_state = "'w ovn_state" +
  chainRoutingInfo :: "RoutingInfo list"

record 'w chain_host = "'w host" +
  h_GetConfig :: "'w \<Rightarrow> goerr option \<times> 'w"
  h_NewForConfig :: "'w \<Rightarrow> goerr option \<times> 'w"
  h_PodList :: "string \<Rightarrow> string \<Rightarrow> 'w \<Rightarrow> (Pod list \<times> goerr option) \<times> 'w"

section \<open>Computing routes\<close>

text \<open>The address of a neighbour in the chain: the pod whose label value names it.\<close>

definition neighbour_ip :: "('w, 'h) chain_host_scheme \<Rightarrow> string list \<Rightarrow> nat \<Rightarrow> string list \<Rightarrow> nat \<Rightarrow>
    (('w, 'z) ovn_state_scheme, string \<times> goerr option) go" where
  "neighbour_ip H deploymentList d networkList n =
     bnd (index deploymentList d) (\<lambda>lbl.
     bnd (index networkList n) (\<lambda>nw.
     bnd (index (Split lbl CHR ''='') 1) (\<lambda>name.
     GetIPAdressForPod H nw name)))"

text \<open>The next hops: an edge gateway at the ends of the chain, else the neighbour's address.\<close>

definition left_hop :: "('w, 'h) chain_host_scheme \<Rightarrow> nat \<Rightarrow> RoutingNetwork list \<Rightarrow> string list \<Rightarrow> string list \<Rightarrow>
    (('w, 'z) ovn_state_scheme, string \<times> goerr option) go" where
  "left_hop H pos ln networkList deploymentList =
     (if pos = 0 then bnd (index ln 0) (\<lambda>l. ret (rn_GatewayIP l, None))
      else neighbour_ip H deploymentList (pos - 1) networkList (pos - 1))"

definition right_hop :: "('w, 'h) chain_host_scheme \<Rightarrow> nat \<Rightarrow> nat \<Rightarrow> RoutingNetwork list \<Rightarrow> string list \<Rightarrow> string list \<Rightarrow>
    (('w, 'z) ovn_state_scheme, string \<times> goerr option) go" where
  "right_hop H pos num rn networkList deploymentList =
     (if Suc pos = num then bnd (index rn 0) (\<lambda>r. ret (rn_GatewayIP r, None))
      else neighbour_ip H deploymentList (pos + 1) networkList pos)"

text \<open>The loop over the networks that are not adjacent to position \<open>pos\<close>.\<close>

definition dynamic_step :: "('w, 'h) chain_host_scheme \<Rightarrow> nat \<Rightarrow> string \<Rightarrow> string \<Rightarrow> nat \<times> string \<Rightarrow> Route list \<Rightarrow>
    (('w, 'z) ovn_state_scheme, goerr option + Route list) go" where
  "dynamic_step H pos nextLeftIP nextRightIP = (\<lambda>(i, nw) rts.
     if i = pos \<or> Suc i = pos then ret (Inr rts) else
     bnd (GetNetworkSubnet H nw) (\<lambda>(dst, err).
     if err \<noteq> None then ret (Inl err)
     else ret (Inr (rts @ [\<lparr>Dst = dst, GW = (if i > pos then nextRightIP else nextLeftIP)\<rparr>]))))"

definition dynamic_routes :: "('w, 'h) chain_host_scheme \<Rightarrow> nat \<Rightarrow> string \<Rightarrow> string \<Rightarrow> string list \<Rightarrow>
    (('w, 'z) ovn_state_scheme, goerr option + Route list) go" where
  "dynamic_routes H pos nextLeftIP nextRightIP networkList =
     for_range (zip [0..<length networkList] networkList) [] (dynamic_step H pos nextLeftIP nextRightIP)"

text \<open>The part of \<open>calculateDeploymentRoutes\<close> after the pod is known.\<close>

definition pod_routes :: "('w, 'h) chain_host_scheme \<Rightarrow> string \<Rightarrow> Pod \<Rightarrow> string \<Rightarrow> nat \<Rightarrow> nat \<Rightarrow>
    RoutingNetwork list \<Rightarrow> RoutingNetwork list \<Rightarrow> string list \<Rightarrow> string list \<Rightarrow>
    (('w, 'z) ovn_state_scheme, RoutingInfo \<times> goerr option) go" where
  "pod_routes H namespace pod cid pos num ln rn networkList deploymentList =
     bnd (left_hop H pos ln networkList deploymentList) (\<lambda>(nextLeftIP, err).
     if err \<noteq> None then ret (zero_RoutingInfo, err) else
     bnd (right_hop H pos num rn networkList deploymentList) (\<lambda>(nextRightIP, err).
     if err \<noteq> None then ret (zero_RoutingInfo, err) else
     bnd (index ln 0) (\<lambda>l. bnd (index rn 0) (\<lambda>r.
     bnd (dynamic_routes H pos nextLeftIP nextRightIP networkList) (\<lambda>d. case d of
       Inl err \<Rightarrow> ret (zero_RoutingInfo, err)
     | Inr rts \<Rightarrow>
         ret (\<lparr>ri_Name = pod_Name pod, ri_Namespace = namespace, ri_Id = TrimPrefix cid ''docker://'',
               ri_Node = NodeName pod,
               LeftNetworkRoute = \<lparr>Dst = rn_Subnet l, GW = nextLeftIP\<rparr>,
               RightNetworkRoute = \<lparr>Dst = rn_Subnet r, GW = nextRightIP\<rparr>,
               DynamicNetworkRoutes = rts @ [\<lparr>Dst = ''0.0.0.0'', GW = nextRightIP\<rparr>]\<rparr>, None))))))"

definition calculateDeploymentRoutes :: "('w, 'h) chain_host_scheme \<Rightarrow> string \<Rightarrow> string \<Rightarrow> nat \<Rightarrow> nat \<Rightarrow>
    RoutingNetwork list \<Rightarrow> RoutingNetwork list \<Rightarrow> string list \<Rightarrow> string list \<Rightarrow>
    (('w, 'z) ovn_state_scheme, RoutingInfo \<times> goerr option) go" where
  "calculateDeploymentRoutes H namespace lbl pos num ln rn networkList deploymentList =
     bnd (ext (h_GetConfig H)) (\<lambda>err. if err \<noteq> None then ret (zero_RoutingInfo, err) else
     bnd (ext (h_NewForConfig H)) (\<lambda>err. if err \<noteq> None then ret (zero_RoutingInfo, err) else
     bnd (ext (h_PodList H namespace lbl)) (\<lambda>(pods, err). if err \<noteq> None then ret (zero_RoutingInfo, err) else
     if length pods = 0 then ret (zero_RoutingInfo, Some (Errorf ''Pod not found'')) else
     bnd (index (ContainerIDs (hd pods)) 0) (\<lambda>cid.
     pod_routes H namespace (hd pods) cid pos num ln rn networkList deploymentList))))"

text \<open>The chain text alternates deployments and networks.\<close>

fun split_chain :: "nat \<Rightarrow> string list \<Rightarrow> string list \<Rightarrow> string list \<Rightarrow> string list \<times> string list" where
  "split_chain i [] deploymentList networkList = (deploymentList, networkList)"
| "split_chain i (c # cs) deploymentList networkList =
     (if i mod 2 = 0 then split_chain (Suc i) cs (deploymentList @ [c]) networkList
      else split_chain (Suc i) cs deploymentList (networkList @ [c]))"

text \<open>
  The body of the loop over the deployments: an error is returned out of the loop, a result is
  appended to the package's list.
\<close>

definition record_routes :: "(('w, 'z) chain_state_scheme, RoutingInfo \<times> goerr option) go \<Rightarrow>
    (('w, 'z) chain_state_scheme, goerr option + unit) go" where
  "record_routes m =
     bnd m (\<lambda>(r, err).
     if err \<noteq> None then ret (Inl err) else
     bnd (modify (\<lambda>s. s\<lparr>chainRoutingInfo := chainRoutingInfo s @ [r]\<rparr>)) (\<lambda>_. ret (Inr ())))"

definition CalculateRoutes :: "('w, 'h) chain_host_scheme \<Rightarrow> NetworkChaining \<Rightarrow>
    (('w, 'z) chain_state_scheme, RoutingInfo list \<times> goerr option) go" where
  "CalculateRoutes H cr =
     (let rs = RoutingSpec (nc_Spec cr); ln = LeftNetwork rs; rn = RightNetwork rs;
          parts = Split (NetworkChain rs) CHR '','' in
      case split_chain 0 parts [] [] of (deploymentList, networkList) \<Rightarrow>
      let num = length deploymentList in
      bnd (for_range (zip [0..<num] deploymentList) () (\<lambda>x _.
        record_routes (calculateDeploymentRoutes H (Namespace (nc_meta cr)) (snd x) (fst x) num ln rn networkList deploymentList)))
        (\<lambda>r. case r of
          Inl err \<Rightarrow> ret ([], err)
        | Inr _ \<Rightarrow> bnd (gets chainRoutingInfo) (\<lambda>infos. ret (infos, None))))"

section \<open>Installing routes\<close>

definition file_exists_msg :: string where
  "file_exists_msg = ''RTNETLINK answers: File exists''"

definition add_route_step :: "('w, 'h) net_host_scheme \<Rightarrow> RouteData option \<Rightarrow> unit \<Rightarrow>
    (('w, 'z) ovn_state_scheme, goerr option + unit) go" where
  "add_route_step H r u =
     (if rd_GetDst r = ''0.0.0.0'' then
        bnd (RunIP H [''route'', ''replace'', ''default'', ''via'', rd_GetGw r]) (\<lambda>(_, _, err).
        if err \<noteq> None then ret (Inl err) else ret (Inr ()))
      else
        bnd (RunIP H [''route'', ''add'', rd_GetDst r, ''via'', rd_GetGw r]) (\<lambda>(_, stderr, err).
        if err \<noteq> None \<and> \<not> Contains stderr file_exists_msg then ret (Inl err) else ret (Inr ())))"

text \<open>The function run inside the container's namespace.\<close>

definition add_routes_in_ns :: "('w, 'h) net_host_scheme \<Rightarrow> string \<Rightarrow> RouteData option list \<Rightarrow>
    (('w, 'z) ovn_state_scheme, goerr option \<times> unit) go" where
  "add_routes_in_ns H hostNet rts =
     bnd (GetDefaultGateway H) (\<lambda>(podGW, err).
     if err \<noteq> None then ret (err, ()) else
     bnd (RunIP H [''route'', ''add'', hostNet, ''via'', podGW]) (\<lambda>(_, stderr, err).
     if err \<noteq> None \<and> \<not> Contains stderr file_exists_msg then ret (err, ()) else
     bnd (for_range rts () (add_route_step H)) (\<lambda>r. case r of
       Inl err \<Rightarrow> ret (err, ())
     | Inr _ \<Rightarrow> ret (None, ()))))"

definition ContainerAddRoute :: "('w, 'h) net_host_scheme \<Rightarrow> nat \<Rightarrow> RouteData option list \<Rightarrow>
    (('w, 'z) ovn_state_scheme, goerr option) go" where
  "ContainerAddRoute H containerPid rts =
     bnd (GetHostNetwork H) (\<lambda>(hostNet, err).
     if err \<noteq> None then ret err else
     bnd (ext (h_GetNS H (''/host/proc/'' @ Itoa containerPid @ ''/ns/net''))) (\<lambda>(nms, err).
     if err \<noteq> None then ret err else
     bnd (NetNS_Do H nms (add_routes_in_ns H hostNet rts) ()) (\<lambda>(err, _).
     bnd (ext (h_NsClose H nms)) (\<lambda>_.
     if err \<noteq> None then ret err else ret None))))"

record 'w agent_host = "'w net_host" +
  h_NewEnvClient :: "'w \<Rightarrow> goerr option \<times> 'w"
  h_ContainerInspect :: "string \<Rightarrow> 'w \<Rightarrow> (nat + goerr) \<times> 'w"

definition GetPidForContainer :: "('w, 'h) agent_host_scheme \<Rightarrow> string \<Rightarrow>
    (('w, 'z) ovn_state_scheme, nat \<times> goerr option) go" where
  "GetPidForContainer H cid =
     bnd (ext (h_NewEnvClient H)) (\<lambda>err.
     if err \<noteq> None then ret (0, err) else
     bnd (ext (h_ContainerInspect H cid)) (\<lambda>r. case r of
       Inr e \<Rightarrow> ret (0, Some e)
     | Inl pid \<Rightarrow>
         if pid = 0 then ret (0, Some (Errorf (''Container not found '' @ cid))) else ret (pid, None)))"

section \<open>Frame\<close>

context env_frame
begin

lemma keeps_ContainerAddRoute [keeps_intros]: "keeps view (ContainerAddRoute H pid rts)"
  unfolding ContainerAddRoute_def add_routes_in_ns_def add_route_step_def by (intro keeps_intros)

lemma keeps_GetPidForContainer [keeps_intros]: "keeps view (GetPidForContainer H cid)"
  unfolding GetPidForContainer_def by (intro keeps_intros)

end

section \<open>The routes of a deployment\<close>

text \<open>The chain text of \<open>n + 1\<close> deployments with a network between neighbours.\<close>

fun interleave :: "string list \<Rightarrow> string list \<Rightarrow> string list" where
  "interleave (d # ds) (n # ns) = d # n # interleave ds ns"
| "interleave ds [] = ds"
| "interleave [] ns = []"

lemma split_chain_interleave:
  "i mod 2 = 0 \<Longrightarrow> length ds = Suc (length ns) \<Longrightarrow> split_chain i (interleave ds ns) as bs = (as @ ds, bs @ ns)"
proof (induction ds ns arbitrary: i as bs rule: interleave.induct)
  case (1 d ds n ns)
  then have "Suc (Suc i) mod 2 = 0" by presburger
  moreover have "Suc i mod 2 \<noteq> 0" using 1 by presburger
  ultimately show ?case using 1 by simp
next
  case (2 ds)
  then obtain d where "ds = [d]" by (auto simp: length_Suc_conv)
  with 2 show ?case by simp
qed simp

definition hop_route :: "(nat \<Rightarrow> string) \<Rightarrow> string \<Rightarrow> string \<Rightarrow> nat \<Rightarrow> nat \<Rightarrow> Route" where
  "hop_route subnet nextL nextR pos i = \<lparr>Dst = subnet i, GW = (if pos < i then nextR else nextL)\<rparr>"

definition far :: "nat \<Rightarrow> nat \<Rightarrow> bool" where
  "far pos i \<longleftrightarrow> i \<noteq> pos \<and> Suc i \<noteq> pos"

lemma map_hop_route_upd:
  "k \<notin> set is \<Longrightarrow> map (hop_route (f(k := d)) l r pos) is = map (hop_route f l r pos) is"
  by (auto simp: hop_route_def)

definition dynamic_post :: "nat \<Rightarrow> string \<Rightarrow> string \<Rightarrow> nat list \<Rightarrow> Route list \<Rightarrow> goerr option + Route list \<Rightarrow> bool" where
  "dynamic_post pos nextL nextR is acc r = (case r of
     Inl e \<Rightarrow> e \<noteq> None
   | Inr rts \<Rightarrow> \<exists>f. rts = acc @ map (hop_route f nextL nextR pos) (filter (far pos) is))"

lemma dynamic_post_skip: "\<not> far pos k \<Longrightarrow> dynamic_post pos nextL nextR is acc r \<Longrightarrow> dynamic_post pos nextL nextR (k # is) acc r"
  by (simp add: dynamic_post_def split: sum.splits)

lemma dynamic_post_step:
  assumes "far pos k" and "k \<notin> set is"
    and "dynamic_post pos nextL nextR is (acc @ [hop_route (\<lambda>_. dst) nextL nextR pos k]) r"
  shows "dynamic_post pos nextL nextR (k # is) acc r"
proof (cases r)
  case (Inr rts)
  with assms(3) obtain f where
    "rts = acc @ [hop_route (\<lambda>_. dst) nextL nextR pos k] @ map (hop_route f nextL nextR pos) (filter (far pos) is)"
    by (auto simp: dynamic_post_def)
  moreover have "hop_route (\<lambda>_. dst) nextL nextR pos k = hop_route (f(k := dst)) nextL nextR pos k"
    by (simp add: hop_route_def)
  moreover have "map (hop_route f nextL nextR pos) (filter (far pos) is) =
      map (hop_route (f(k := dst)) nextL nextR pos) (filter (far pos) is)"
    by (rule map_hop_route_upd [symmetric]) (use assms(2) in auto)
  ultimately have "rts = acc @ map (hop_route (f(k := dst)) nextL nextR pos) (filter (far pos) (k # is))"
    using assms(1) by simp
  with Inr show ?thesis unfolding dynamic_post_def by auto
qed (use assms(3) in \<open>simp add: dynamic_post_def\<close>)

lemma dynamic_loop:
  assumes "runner s \<noteq> None" and "distinct (map fst xs)"
  shows "\<exists>r w cs. for_range xs acc (dynamic_step H pos nextL nextR) s = (Returns r, after s w cs) \<and>
     dynamic_post pos nextL nextR (map fst xs) acc r"
  using assms
proof (induction xs arbitrary: acc s)
  case Nil
  show ?case
    by (intro exI [of _ "Inr acc"] exI [of _ "world s"] exI [of _ "[]"]) (simp add: dynamic_post_def)
next
  case (Cons x xs)
  obtain k nw where x: "x = (k, nw)" by fastforce
  show ?case
  proof (cases "far pos k")
    case False
    then have "for_range (x # xs) acc (dynamic_step H pos nextL nextR) s = for_range xs acc (dynamic_step H pos nextL nextR) s"
      by (simp add: x dynamic_step_def far_def)
    with Cons.IH [OF Cons.prems(1), of acc] Cons.prems(2) False show ?thesis
      by (auto simp: x intro: dynamic_post_skip)
  next
    case True
    from total_runD [OF total_GetNetworkSubnet Cons.prems(1)] obtain dst err w cs where
      g: "GetNetworkSubnet H nw s = (Returns (dst, err), after s w cs)" by (metis prod.exhaust)
    show ?thesis
    proof (cases err)
      case (Some e)
      with True g have "for_range (x # xs) acc (dynamic_step H pos nextL nextR) s = (Returns (Inl err), after s w cs)"
        by (simp add: x dynamic_step_def far_def)
      with Some show ?thesis by (auto simp: dynamic_post_def)
    next
      case None
      let ?s = "after s w cs" and ?acc = "acc @ [hop_route (\<lambda>_. dst) nextL nextR pos k]"
      have "runner ?s \<noteq> None" using Cons.prems(1) by simp
      from Cons.IH [OF this, of ?acc] Cons.prems(2) obtain r w' cs' where
        IH: "for_range xs ?acc (dynamic_step H pos nextL nextR) ?s = (Returns r, after ?s w' cs')"
        "dynamic_post pos nextL nextR (map fst xs) ?acc r" by auto
      have "for_range (x # xs) acc (dynamic_step H pos nextL nextR) s = (Returns r, after s w' (cs @ cs'))"
        using True g None IH(1) by (simp add: x dynamic_step_def far_def hop_route_def)
      moreover have "dynamic_post pos nextL nextR (map fst (x # xs)) acc r"
        using dynamic_post_step [OF True _ IH(2)] Cons.prems(2) by (simp add: x)
      ultimately show ?thesis by blast
    qed
  qed
qed

lemma wpe_dynamic_routes:
  assumes "runner s \<noteq> None"
    and "\<And>r w cs. dynamic_post pos nextL nextR [0..<length ns] [] r \<Longrightarrow> Q r (after s w cs)"
  shows "wpe (dynamic_routes H pos nextL nextR ns) Q E s"
  using dynamic_loop [OF assms(1), of "zip [0..<length ns] ns" "[]" H pos nextL nextR] assms(2)
  by (auto simp: wpe_def dynamic_routes_def)

lemma total_neighbour_ip:
  assumes "d < length ds" and "n < length ns" and "CHR ''='' \<in> set (ds ! d)"
  shows "total_run (neighbour_ip H ds d ns n)"
proof -
  have "filter (\<lambda>x. x = CHR ''='') (ds ! d) \<noteq> []" using assms(3) by (auto simp: filter_empty_conv)
  then have "1 < length (Split (ds ! d) CHR ''='')" by (simp add: length_Split)
  then show ?thesis using assms(1,2) by (simp add: neighbour_ip_def total_intros)
qed

text \<open>What a successful computation for position \<open>pos\<close> of \<open>num\<close> says.\<close>

definition routes_ok :: "nat \<Rightarrow> nat \<Rightarrow> RoutingNetwork list \<Rightarrow> RoutingNetwork list \<Rightarrow> nat \<Rightarrow> RoutingInfo \<Rightarrow> bool" where
  "routes_ok pos num ln rn nets r \<longleftrightarrow> (\<exists>nextL nextR subnet.
     LeftNetworkRoute r = \<lparr>Dst = rn_Subnet (hd ln), GW = nextL\<rparr> \<and>
     RightNetworkRoute r = \<lparr>Dst = rn_Subnet (hd rn), GW = nextR\<rparr> \<and>
     DynamicNetworkRoutes r =
       map (hop_route subnet nextL nextR pos) (filter (far pos) [0..<nets]) @ [\<lparr>Dst = ''0.0.0.0'', GW = nextR\<rparr>] \<and>
     (pos = 0 \<longrightarrow> nextL = rn_GatewayIP (hd ln)) \<and> (Suc pos = num \<longrightarrow> nextR = rn_GatewayIP (hd rn)))"

lemma world_after: "(s :: ('w, 'z) ovn_state_scheme)\<lparr>world := w\<rparr> = after s w []"
  by (simp add: after_def)

lemma wpe_left_hop:
  assumes "runner s \<noteq> None" and "ln \<noteq> []" and "pos < length ds" and "length ds = Suc (length ns)"
    and "\<forall>d\<in>set ds. CHR ''='' \<in> set d"
    and Q: "\<And>ip err w cs. (pos = 0 \<Longrightarrow> ip = rn_GatewayIP (hd ln)) \<Longrightarrow> Q (ip, err) (after s w cs)"
  shows "wpe (left_hop H pos ln ns ds) Q E s"
proof (cases "pos = 0")
  case True
  have "wpe (ret (rn_GatewayIP (hd ln), None)) Q E s"
    using Q [of "rn_GatewayIP (hd ln)" None "world s" "[]"] by (simp only: wpe_ret after_id)
  with True assms(2) show ?thesis by (simp add: left_hop_def hd_conv_nth del: ret_apply)
next
  case False
  with assms have "total_run (neighbour_ip H ds (pos - 1) ns (pos - 1))" by (intro total_neighbour_ip) auto
  from wpe_total_run [OF this assms(1)] Q False show ?thesis by (auto simp: left_hop_def)
qed

lemma wpe_right_hop:
  assumes "runner s \<noteq> None" and "rn \<noteq> []" and "pos < length ds" and "length ds = Suc (length ns)"
    and "\<forall>d\<in>set ds. CHR ''='' \<in> set d"
    and Q: "\<And>ip err w cs. (Suc pos = length ds \<Longrightarrow> ip = rn_GatewayIP (hd rn)) \<Longrightarrow> Q (ip, err) (after s w cs)"
  shows "wpe (right_hop H pos (length ds) rn ns ds) Q E s"
proof (cases "Suc pos = length ds")
  case True
  have "wpe (ret (rn_GatewayIP (hd rn), None)) Q E s"
    using Q [of "rn_GatewayIP (hd rn)" None "world s" "[]"] by (simp only: wpe_ret after_id)
  with True assms(2) show ?thesis by (simp add: right_hop_def hd_conv_nth del: ret_apply)
next
  case False
  with assms have "total_run (neighbour_ip H ds (pos + 1) ns pos)" by (intro total_neighbour_ip) auto
  from wpe_total_run [OF this assms(1)] Q False show ?thesis by (auto simp: right_hop_def)
qed

lemma wpe_pod_routes:
  assumes "runner s \<noteq> None" and "ln \<noteq> []" and "rn \<noteq> []" and "pos < length ds"
    and "length ds = Suc (length ns)" and "\<forall>d\<in>set ds. CHR ''='' \<in> set d"
    and ok: "\<And>r w cs. routes_ok pos (length ds) ln rn (length ns) r \<Longrightarrow> Q (r, None) (after s w cs)"
    and fail: "\<And>e w cs. Q (zero_RoutingInfo, Some e) (after s w cs)"
  shows "wpe (pod_routes H nspace pod cid pos (length ds) ln rn ns ds) Q E s"
  unfolding pod_routes_def wpe_bnd
proof (rule wpe_left_hop [OF assms(1,2,4,5,6)], goal_cases)
  case (1 ipL err w cs)
  note L = 1
  let ?s = "after s w cs"
  have R: "runner ?s \<noteq> None" using assms(1) by simp
  have "wpe (right_hop H pos (length ds) rn ns ds) (\<lambda>x s'. wpe ((\<lambda>(nextRightIP, err).
     if err \<noteq> None then ret (zero_RoutingInfo, err) else
     bnd (index ln 0) (\<lambda>l. bnd (index rn 0) (\<lambda>r.
     bnd (dynamic_routes H pos ipL nextRightIP ns) (\<lambda>d. case d of
       Inl err \<Rightarrow> ret (zero_RoutingInfo, err)
     | Inr rts \<Rightarrow>
         ret (\<lparr>ri_Name = pod_Name pod, ri_Namespace = nspace, ri_Id = TrimPrefix cid ''docker://'',
               ri_Node = NodeName pod,
               LeftNetworkRoute = \<lparr>Dst = rn_Subnet l, GW = ipL\<rparr>,
               RightNetworkRoute = \<lparr>Dst = rn_Subnet r, GW = nextRightIP\<rparr>,
               DynamicNetworkRoutes = rts @ [\<lparr>Dst = ''0.0.0.0'', GW = nextRightIP\<rparr>]\<rparr>, None))))) x) Q E s') E ?s"
  proof (rule wpe_right_hop [OF R assms(3,4,5,6)], goal_cases)
    case (1 ipR err w' cs')
    note Rt = 1
    let ?t = "after ?s w' cs'"
    have R': "runner ?t \<noteq> None" using assms(1) by simp
    show ?case
    proof (cases err)
      case (Some e)
      then show ?thesis using fail by (simp add: wpe_ret del: ret_apply)
    next
      case None
      have "wpe (dynamic_routes H pos ipL ipR ns) (\<lambda>d s'. wpe (case d of
       Inl err \<Rightarrow> ret (zero_RoutingInfo, err)
     | Inr rts \<Rightarrow>
         ret (\<lparr>ri_Name = pod_Name pod, ri_Namespace = nspace, ri_Id = TrimPrefix cid ''docker://'',
               ri_Node = NodeName pod,
               LeftNetworkRoute = \<lparr>Dst = rn_Subnet (ln ! 0), GW = ipL\<rparr>,
               RightNetworkRoute = \<lparr>Dst = rn_Subnet (rn ! 0), GW = ipR\<rparr>,
               DynamicNetworkRoutes = rts @ [\<lparr>Dst = ''0.0.0.0'', GW = ipR\<rparr>]\<rparr>, None)) Q E s') E ?t"
        using L Rt fail ok
        by (intro wpe_dynamic_routes [OF R']) (auto simp: dynamic_post_def wpe_ret routes_ok_def hd_conv_nth [OF assms(2)] hd_conv_nth [OF assms(3)] simp del: ret_apply split: sum.splits)
      with None assms(2,3) show ?thesis by (simp add: wpe_simps del: ret_apply)
    qed
  qed
  with fail show ?case by (cases err) (simp_all add: wpe_simps del: ret_apply)
qed

text \<open>
  The routes of one deployment of a chain. For a chain of deployments with a label
  \<open>key=value\<close> each and one network between neighbours, and pods that report a container,
  the computation returns; when it reports no error, the left and right routes lead to the edge
  networks through the left and right neighbour (the edge gateway at the ends of the chain),
  every network that is not adjacent to the deployment has exactly one route, through the
  right neighbour if it lies to the right and through the left neighbour otherwise, and the last
  route is the default route through the right neighbour.
\<close>

lemma calculateDeploymentRoutes_correct:
  assumes "runner s \<noteq> None" and "ln \<noteq> []" and "rn \<noteq> []" and "pos < length ds"
    and "length ds = Suc (length ns)" and "\<forall>d\<in>set ds. CHR ''='' \<in> set d"
    and "\<forall>w pods w'. h_PodList H nspace lbl w = ((pods, None), w') \<longrightarrow> (\<forall>p\<in>set pods. ContainerIDs p \<noteq> [])"
  shows "\<exists>r err w cs. calculateDeploymentRoutes H nspace lbl pos (length ds) ln rn ns ds s =
      (Returns (r, err), after s w cs) \<and>
    (err = None \<longrightarrow> routes_ok pos (length ds) ln rn (length ns) r)"
proof -
  let ?Q = "\<lambda>(r, err) s'. \<exists>w cs. s' = after s w cs \<and> (err = None \<longrightarrow> routes_ok pos (length ds) ln rn (length ns) r)"
  have R: "runner (after s w cs) \<noteq> None" for w cs using assms(1) by simp
  have ids: "ContainerIDs (hd pods) \<noteq> []" if "h_PodList H nspace lbl w = ((pods, None), w')" "pods \<noteq> []" for w pods w'
    using assms(7) that by (metis list.set_sel(1))
  have "wpe (calculateDeploymentRoutes H nspace lbl pos (length ds) ln rn ns ds) ?Q (\<lambda>_. False) s"
    unfolding calculateDeploymentRoutes_def
    by (auto simp: wpe_simps world_after ids split: prod.splits intro!: wpe_pod_routes [OF R assms(2-6)] simp del: ret_apply)
      (blast, blast, metis ids option.exhaust)
  then show ?thesis by (auto dest!: wpe_total)
qed

definition demo_pod :: Pod where
  "demo_pod = \<lparr>pod_Name = ''sdewan'', pod_Namespace = ''default'', Annotations = Map.empty, HostNetwork = False,
     NodeName = ''node1'', ContainerIDs = [''docker://0123456789abcdef'']\<rparr>"

definition demo_chain_host :: "unit chain_host" where
  "demo_chain_host = host.extend (canned_host (\<lambda>_. (''10.1.5.0/24'', [], None)))
     (chain_host.fields (\<lambda>w. (None, w)) (\<lambda>w. (None, w)) (\<lambda>n l w. (([demo_pod], None), w)))"

lemma demo_chain_pods:
  "\<forall>w pods w'. h_PodList demo_chain_host n l w = ((pods, None), w') \<longrightarrow> (\<forall>p\<in>set pods. ContainerIDs p \<noteq> [])"
  by (auto simp: demo_chain_host_def host.defs chain_host.defs demo_pod_def)

definition demo_left :: "RoutingNetwork list" where
  "demo_left = [\<lparr>NetworkName = ''left-pnetwork'', rn_GatewayIP = ''172.30.10.2'', rn_Subnet = ''172.30.10.0/24''\<rparr>]"

definition demo_right :: "RoutingNetwork list" where
  "demo_right = [\<lparr>NetworkName = ''right-pnetwork'', rn_GatewayIP = ''172.30.20.2'', rn_Subnet = ''172.30.20.0/24''\<rparr>]"

section \<open>The routes of a chain\<close>

text \<open>\<open>calculateDeploymentRoutes\<close> leaves the rest of the state alone.\<close>

lemma chain_loop:
  assumes "\<And>x s. x \<in> set xs \<Longrightarrow> runner s \<noteq> None \<Longrightarrow>
      \<exists>r err w cs. f x s = (Returns (r, err), after s w cs) \<and> (err = None \<longrightarrow> P x r)"
    and "runner s \<noteq> None"
  shows "\<exists>r rs w cs. for_range xs () (\<lambda>x _. record_routes (f x)) s =
      (Returns r, (after s w cs)\<lparr>chainRoutingInfo := chainRoutingInfo s @ rs\<rparr>) \<and>
    (case r of Inl e \<Rightarrow> e \<noteq> None | Inr _ \<Rightarrow> list_all2 P xs rs)"
  using assms
proof (induction xs arbitrary: s)
  case Nil
  show ?case
    by (intro exI [of _ "Inr ()"] exI [of _ "[]"] exI [of _ "world s"] exI [of _ "[]"]) simp
next
  case (Cons x xs)
  from Cons.prems(1) [of x s] Cons.prems(2) obtain r err w cs where
    fx: "f x s = (Returns (r, err), after s w cs)" "err = None \<longrightarrow> P x r" by auto
  show ?case
  proof (cases err)
    case (Some e)
    then show ?thesis
      using fx by (intro exI [of _ "Inl err"] exI [of _ "[]"] exI [of _ w] exI [of _ cs])
        (simp add: record_routes_def after_def)
  next
    case None
    let ?t = "(after s w cs)\<lparr>chainRoutingInfo := chainRoutingInfo s @ [r]\<rparr>"
    have info: "chainRoutingInfo (after s w cs) = chainRoutingInfo s" by (simp add: after_def)
    have "runner ?t \<noteq> None" using Cons.prems(2) by simp
    from Cons.IH [OF _ this] Cons.prems(1) obtain r' rs w' cs' where
      IH: "for_range xs () (\<lambda>x _. record_routes (f x)) ?t =
        (Returns r', (after ?t w' cs')\<lparr>chainRoutingInfo := chainRoutingInfo ?t @ rs\<rparr>)"
      "case r' of Inl e \<Rightarrow> e \<noteq> None | Inr _ \<Rightarrow> list_all2 P xs rs" by fastforce
    have st: "(after ?t w' cs')\<lparr>chainRoutingInfo := chainRoutingInfo ?t @ rs\<rparr> =
        (after s w' (cs @ cs'))\<lparr>chainRoutingInfo := chainRoutingInfo s @ (r # rs)\<rparr>" by (simp add: after_def)
    have "record_routes (f x) s = (Returns (Inr ()), ?t)"
      using fx None by (simp add: record_routes_def info)
    with fx None IH st show ?thesis
      by (intro exI [of _ r'] exI [of _ "r # rs"] exI [of _ w'] exI [of _ "cs @ cs'"]) (auto split: sum.splits)
  qed
qed


definition demo_chaining :: NetworkChaining where
  "demo_chaining = \<lparr>nc_meta = \<lparr>Name = ''chain1'', Namespace = ''default'', DeletionTimestamp = None, Finalizers = []\<rparr>,
     nc_Spec = \<lparr>ChainType = ''Routing'', RoutingSpec = \<lparr>LeftNetwork = demo_left, RightNetwork = demo_right,
       NetworkChain = Join (interleave [''app=slb'', ''app=sdewan''] [''dync-net1'']) '','', rs_Namespace = ''default''\<rparr>\<rparr>,
     nc_State = []\<rparr>"

definition demo_chain_state :: "unit chain_state" where
  "demo_chain_state = ovn_state.extend (gstate.extend \<lparr>world = (), execlog = []\<rparr>
     (ovn_state.fields (Some demo_runner) None None)) (chain_state.fields [])"


section \<open>Installing routes\<close>

text \<open>The commands that install a list of routes in a container, after the route to the host's network.\<close>

definition route_args :: "RouteData option \<Rightarrow> string list" where
  "route_args r = (if rd_GetDst r = ''0.0.0.0'' then [''route'', ''replace'', ''default'', ''via'', rd_GetGw r]
     else [''route'', ''add'', rd_GetDst r, ''via'', rd_GetGw r])"

definition install_script :: "string \<Rightarrow> string \<Rightarrow> RouteData option list \<Rightarrow> string list list" where
  "install_script hostNet podGW rts = [''route'', ''add'', hostNet, ''via'', podGW] # map route_args rts"

definition ran_script :: "RouteData option list \<Rightarrow> goerr option \<Rightarrow> (string \<times> string list) list \<Rightarrow> bool" where
  "ran_script rts err cs \<longleftrightarrow> (\<exists>hostNet podGW. prefix (map snd cs) (install_script hostNet podGW rts) \<and>
     (err = None \<longrightarrow> map snd cs = install_script hostNet podGW rts))"

definition added_routes :: "RouteData option list \<Rightarrow> goerr option + unit \<Rightarrow> (string \<times> string list) list \<Rightarrow> bool" where
  "added_routes rts r cs \<longleftrightarrow> prefix (map snd cs) (map route_args rts) \<and>
     (case r of Inl err \<Rightarrow> err \<noteq> None | Inr _ \<Rightarrow> map snd cs = map route_args rts)"

lemma added_routes_Cons: "map snd cs = [route_args rd] \<Longrightarrow> added_routes rts r ds \<Longrightarrow> added_routes (rd # rts) r (cs @ ds)"
  unfolding added_routes_def by (auto split: sum.splits)

lemma yields_add_route_step: "yields (added_routes [rd]) (add_route_step H rd u)"
  unfolding add_route_step_def
  by (intro yields_if yields_bnd [OF yields_RunIP])
    (auto intro!: yields_ret simp: added_routes_def route_args_def simp del: ret_apply)

lemma yields_add_routes:
  fixes H :: "('w, 'h) net_host_scheme"
  shows "yields (added_routes rts) (for_range rts () (add_route_step H) :: (('w, 'z) ovn_state_scheme, goerr option + unit) go)"
proof (induction rts)
  case Nil
  show ?case by (auto intro!: yields_ret simp: added_routes_def simp del: ret_apply)
next
  case (Cons rd rts)
  show ?case
    unfolding for_range.simps
  proof (rule yields_bnd [OF yields_add_route_step])
    fix r cs
    assume cs: "added_routes [rd] r cs"
    show "yields (\<lambda>r' ds. added_routes (rd # rts) r' (cs @ ds)) 
      (case r of Inl v \<Rightarrow> ret (Inl v) | Inr a \<Rightarrow> (for_range rts a (add_route_step H) :: (('w, 'z) ovn_state_scheme, goerr option + unit) go))"
    proof (cases r)
      case (Inl v)
      with cs show ?thesis by (auto intro!: yields_ret simp: added_routes_def prefix_Cons simp del: ret_apply)
    next
      case (Inr a)
      with cs have first: "map snd cs = [route_args rd]" by (simp add: added_routes_def)
      have unit: "a = ()" by simp
      show ?thesis
        unfolding Inr unit sum.case by (rule yields_mono [OF Cons.IH]) (rule added_routes_Cons [OF first])
    qed
  qed
qed

lemma silent_GetHostNetwork: "emits (\<lambda>_. False) (GetHostNetwork H)"
  unfolding GetHostNetwork_def GetDefaultGatewayInterface_def GetInterfaceIP4Addr_def getIfaceAddrs_def by (intro emits_intros)

lemma silent_GetDefaultGateway: "emits (\<lambda>_. False) (GetDefaultGateway H)"
  unfolding GetDefaultGateway_def by (intro emits_intros)

lemma ran_nothing: "err \<noteq> None \<Longrightarrow> ran_script rts err []"
  by (auto simp: ran_script_def)

lemma ran_first: "err \<noteq> None \<Longrightarrow> map snd cs = [[''route'', ''add'', h, ''via'', g]] \<Longrightarrow> ran_script rts err cs"
  by (auto simp: ran_script_def install_script_def)

lemma ran_routes:
  "map snd cs = [[''route'', ''add'', h, ''via'', g]] \<Longrightarrow> added_routes rts r ds \<Longrightarrow>
    ran_script rts (case r of Inl err \<Rightarrow> err | Inr _ \<Rightarrow> None) (cs @ ds)"
  unfolding ran_script_def install_script_def added_routes_def by (auto split: sum.splits)

lemma yields_add_routes_in_ns: "yields (\<lambda>(err, _). ran_script rts err) (add_routes_in_ns H hostNet rts)"
proof -
  have loop: "yields (\<lambda>(err, _) ds. ran_script rts err (cs @ ds)) (bnd (for_range rts () (add_route_step H)) (\<lambda>r. case r of
       Inl err \<Rightarrow> ret (err, ())
     | Inr _ \<Rightarrow> ret (None, ())))" if "map snd cs = [[''route'', ''add'', hostNet, ''via'', gw]]" for cs gw
  proof (rule yields_bnd [OF yields_add_routes])
    fix r ds
    assume "added_routes rts r ds"
    from ran_routes [OF that this] show "yields (\<lambda>x es. (\<lambda>(err, _) ds. ran_script rts err (cs @ ds)) x (ds @ es))
      (case r of Inl err \<Rightarrow> ret (err, ()) | Inr _ \<Rightarrow> ret (None, ()))"
      by (cases r) (auto intro!: yields_ret simp del: ret_apply)
  qed
  have route: "yields (\<lambda>(err, _). ran_script rts err)
    (bnd (RunIP H [''route'', ''add'', hostNet, ''via'', gw]) (\<lambda>(_, stderr, err).
     if err \<noteq> None \<and> \<not> Contains stderr file_exists_msg then ret (err, ()) else
     bnd (for_range rts () (add_route_step H)) (\<lambda>r. case r of Inl err \<Rightarrow> ret (err, ()) | Inr _ \<Rightarrow> ret (None, ()))))" for gw
    by (rule yields_bnd [OF yields_RunIP])
      (auto intro!: yields_if yields_ret loop [unfolded case_prod_unfold] simp: ran_first case_prod_unfold simp del: ret_apply)
  show ?thesis
    unfolding add_routes_in_ns_def
    by (rule yields_after_silent [OF silent_GetDefaultGateway])
      (auto intro!: yields_if yields_ret route simp: ran_nothing simp del: ret_apply)
qed

lemma silent_ext: "emits (\<lambda>_. False) (ext f)"
  by (intro emits_intros)

lemma yields_NetNS_Do:
  assumes "yields (\<lambda>(err, _). Q err) f" and "\<And>err. err \<noteq> None \<Longrightarrow> Q err []"
  shows "yields (\<lambda>(err, _). Q err) (NetNS_Do H ns f dflt)"
proof -
  have "yields (\<lambda>(err, _). Q err) (bnd f (\<lambda>r. bnd (ext (h_NsLeave H ns)) (\<lambda>_. ret r)))"
    by (rule yields_bnd [OF assms(1)], rule yields_after_silent [OF silent_ext]) (auto intro!: yields_ret simp del: ret_apply)
  with assms(2) show ?thesis
    unfolding NetNS_Do_def
    by (intro yields_after_silent [OF silent_ext] yields_if) (auto intro!: yields_ret simp del: ret_apply)
qed

lemma yields_ContainerAddRoute: "yields (ran_script rts) (ContainerAddRoute H pid rts)"
proof -
  have close: "yields (ran_script rts) (bnd (NetNS_Do H nms (add_routes_in_ns H hostNet rts) ()) (\<lambda>(err, _).
     bnd (ext (h_NsClose H nms)) (\<lambda>_. if err \<noteq> None then ret err else ret None)))" for hostNet nms
    by (rule yields_bnd [OF yields_NetNS_Do [OF yields_add_routes_in_ns ran_nothing]])
      (auto intro!: yields_after_silent [OF silent_ext] yields_if yields_ret simp del: ret_apply)
  show ?thesis
    unfolding ContainerAddRoute_def
    by (rule yields_after_silent [OF silent_GetHostNetwork])
      (auto intro!: yields_if yields_after_silent [OF silent_ext] yields_ret close simp: ran_nothing simp del: ret_apply)
qed

end
