(* ===== verification/Agent.thy ===== *)
theory Agent
  imports CniApp Chaining
begin

text \<open>
  \<open>cmd/nfn-agent/nfn-agent.go\<close>: the agent on every node. It subscribes to the operator,
  stores the provider networks it is told about until the operator says it is in sync, then
  reconciles the node with the store and afterwards handles messages at once.
\<close>

section \<open>State\<close>

text \<open>
  A stored message is the payload wrapper, a pointer to the create message. The unbuffered
  \<open>errorChannel\<close> is received from once, by \<open>shutdownHandler\<close>, which ends the process.
\<close>

record 'w agent_state = "'w ovn_state" +
  inSync :: bool
  pnCreateStore :: "ProviderNetworkCreate option list"

section \<open>Provider networks\<close>

definition createVlanProvidernetwork :: "('w, 'h) agent_host_scheme \<Rightarrow> ProviderNetworkCreate option \<Rightarrow>
    (('w, 'z) agent_state_scheme, goerr option) go" where
  "createVlanProvidernetwork H payload =
     (let vlanID = vi_GetVlanId (pc_GetVlan payload);
          ln = vi_GetLogicalIntf (pc_GetVlan payload);
          pn = vi_GetProviderIntf (pc_GetVlan payload);
          name = pc_GetProviderNwName payload;
          ln = (if ln = [] then name @ ''.'' @ vlanID else ln) in
      bnd (CreateVlan H vlanID pn ln) (\<lambda>err.
      if err \<noteq> None then ret err else
      bnd (CreatePnBridge H (''nw_'' @ name) (''br-'' @ name) ln) (\<lambda>err.
      if err \<noteq> None then ret err else ret None)))"

definition createDirectProvidernetwork :: "('w, 'h) agent_host_scheme \<Rightarrow> ProviderNetworkCreate option \<Rightarrow>
    (('w, 'z) agent_state_scheme, goerr option) go" where
  "createDirectProvidernetwork H payload =
     (let pn = di_GetProviderIntf (pc_GetDirect payload); name = pc_GetProviderNwName payload in
      bnd (CreatePnBridge H (''nw_'' @ name) (''br-'' @ name) pn) (\<lambda>err.
      if err \<noteq> None then ret err else ret None))"

definition deleteVlanProvidernetwork :: "('w, 'h) agent_host_scheme \<Rightarrow> ProviderNetworkRemove option \<Rightarrow>
    (('w, 'z) agent_state_scheme, unit) go" where
  "deleteVlanProvidernetwork H payload =
     (let ln = pr_GetVlanLogicalIntf payload; name = pr_GetProviderNwName payload in
      bnd (DeleteVlan H ln) (\<lambda>_.
      bnd (DeletePnBridge H (''nw_'' @ name) (''br-'' @ name)) (\<lambda>_. ret ())))"

definition deleteDirectProvidernetwork :: "('w, 'h) agent_host_scheme \<Rightarrow> ProviderNetworkRemove option \<Rightarrow>
    (('w, 'z) agent_state_scheme, unit) go" where
  "deleteDirectProvidernetwork H payload =
     (let ln = pr_GetVlanLogicalIntf payload; name = pr_GetProviderNwName payload in
      bnd (DeleteVlan H ln) (\<lambda>_.
      bnd (DeletePnBridge H (''nw_'' @ name) (''br-'' @ name)) (\<lambda>_. ret ())))"

section \<open>Reconciling the node with the store\<close>

text \<open>
  The loops skip every stored network that \<open>has\<close> VLAN (or direct) information, and so
  handle the ones that have none; this is how the code reads. The accumulator is the map of the
  links or bridges found. \<open>Inl ()\<close> is the return out of the function.
\<close>

definition sync_vlan_step :: "('w, 'h) agent_host_scheme \<Rightarrow> string list \<Rightarrow> ProviderNetworkCreate option \<Rightarrow> string list \<Rightarrow>
    (('w, 'z) agent_state_scheme, unit + string list) go" where
  "sync_vlan_step H vlanList pn diffVlan =
     (if pc_GetVlan pn \<noteq> None then ret (Inr diffVlan) else
      let vid = vi_GetVlanId (pc_GetVlan pn);
          ln = vi_GetLogicalIntf (pc_GetVlan pn);
          prov = vi_GetProviderIntf (pc_GetVlan pn);
          ln = (if ln = [] then prov @ ''.'' @ vid else ln) in
      if ln \<in> set vlanList then ret (Inr (ln # diffVlan)) else
      bnd (CreateVlan H vid prov ln) (\<lambda>err.
      if err \<noteq> None then ret (Inl ()) else ret (Inr diffVlan)))"

text \<open>The bridge of a network: the first whose name, less every \<open>br-\<close>, is the network's.\<close>

definition bridge_of :: "string list \<Rightarrow> string \<Rightarrow> string option" where
  "bridge_of pnBridgeList name = find (\<lambda>br. name = ReplaceAll br ''br-'' []) pnBridgeList"

definition sync_bridge_step :: "('w, 'h) agent_host_scheme \<Rightarrow> (ProviderNetworkCreate option \<Rightarrow> bool) \<Rightarrow>
    (ProviderNetworkCreate option \<Rightarrow> string) \<Rightarrow> string list \<Rightarrow> ProviderNetworkCreate option \<Rightarrow> string list \<Rightarrow>
    (('w, 'z) agent_state_scheme, unit + string list) go" where
  "sync_bridge_step H skip intf pnBridgeList pn diffPnBridge =
     (if skip pn then ret (Inr diffPnBridge) else
      let name = pc_GetProviderNwName pn in
      case bridge_of pnBridgeList name of
        Some br \<Rightarrow> ret (Inr (br # diffPnBridge))
      | None \<Rightarrow> bnd (CreatePnBridge H (''nw_'' @ name) (''br-'' @ name) (intf pn)) (\<lambda>_. ret (Inr diffPnBridge)))"

definition delete_vlans :: "('w, 'h) agent_host_scheme \<Rightarrow> string list \<Rightarrow> string list \<Rightarrow> (('w, 'z) agent_state_scheme, unit) go" where
  "delete_vlans H vlanList diffVlan =
     bnd (for_range vlanList () (\<lambda>vlan _.
       if vlan \<notin> set diffVlan then bnd (DeleteVlan H vlan) (\<lambda>_. ret (Inr () :: unit + unit)) else ret (Inr ()))) (\<lambda>_. ret ())"

definition delete_bridges :: "('w, 'h) agent_host_scheme \<Rightarrow> string list \<Rightarrow> string list \<Rightarrow> (('w, 'z) agent_state_scheme, unit) go" where
  "delete_bridges H pnBridgeList diffPnBridge =
     bnd (for_range pnBridgeList () (\<lambda>br _.
       if br \<notin> set diffPnBridge then
         (let name = ReplaceAll br ''br-'' [] in
          bnd (DeletePnBridge H (''nw_'' @ name) (''br-'' @ name)) (\<lambda>_. ret (Inr () :: unit + unit)))
       else ret (Inr ()))) (\<lambda>_. ret ())"

definition inSyncVlanProvidernetwork :: "('w, 'h) agent_host_scheme \<Rightarrow> (('w, 'z) agent_state_scheme, unit) go" where
  "inSyncVlanProvidernetwork H =
     bnd (GetVlan H) (\<lambda>vlanList.
     bnd (GetPnBridge H ''nfn'') (\<lambda>pnBridgeList.
     bnd (gets pnCreateStore) (\<lambda>store.
     bnd (for_range store [] (sync_vlan_step H vlanList)) (\<lambda>r. case r of
       Inl _ \<Rightarrow> ret ()
     | Inr diffVlan \<Rightarrow>
         bnd (for_range store [] (sync_bridge_step H (\<lambda>pn. pc_GetVlan pn \<noteq> None)
               (\<lambda>pn. vi_GetLogicalIntf (pc_GetVlan pn)) pnBridgeList)) (\<lambda>r. case r of
           Inl _ \<Rightarrow> ret ()
         | Inr diffPnBridge \<Rightarrow>
             bnd (delete_vlans H vlanList diffVlan) (\<lambda>_.
             delete_bridges H pnBridgeList diffPnBridge))))))"

definition inSyncDirectProvidernetwork :: "('w, 'h) agent_host_scheme \<Rightarrow> (('w, 'z) agent_state_scheme, unit) go" where
  "inSyncDirectProvidernetwork H =
     bnd (GetPnBridge H ''nfn'') (\<lambda>pnBridgeList.
     bnd (gets pnCreateStore) (\<lambda>store.
     bnd (for_range store [] (sync_bridge_step H (\<lambda>pn. pc_GetDirect pn \<noteq> None)
           (\<lambda>pn. di_GetProviderIntf (pc_GetDirect pn)) pnBridgeList)) (\<lambda>r. case r of
       Inl _ \<Rightarrow> ret ()
     | Inr diffPnBridge \<Rightarrow> delete_bridges H pnBridgeList diffPnBridge)))"

section \<open>Messages\<close>

definition createNodeOVSInternalPort :: "('w, 'h) agent_host_scheme \<Rightarrow> InSync option \<Rightarrow> (('w, 'z) agent_state_scheme, goerr option) go" where
  "createNodeOVSInternalPort H payload =
     (let ip = Trim (TrimSpace (GetNodeIntfIpAddress payload)) CHR 0x22;
          mac = Trim (TrimSpace (GetNodeIntfMacAddress payload)) CHR 0x22 in
      bnd (Getenv H ''NFN_NODE_NAME'') (\<lambda>nodeName.
      bnd (CreateNodeOVSInternalPort H ip mac nodeName) (\<lambda>err.
      if err \<noteq> None then ret err else ret None)))"

definition handle_create :: "('w, 'h) agent_host_scheme \<Rightarrow> ProviderNetworkCreate option \<Rightarrow> (('w, 'z) agent_state_scheme, unit) go" where
  "handle_create H payload =
     bnd (gets inSync) (\<lambda>sync.
     if \<not> sync then modify (\<lambda>s. s\<lparr>pnCreateStore := pnCreateStore s @ [payload]\<rparr>) else
     bnd (if pc_GetVlan payload \<noteq> None then createVlanProvidernetwork H payload else ret None) (\<lambda>err.
     if err \<noteq> None then ret () else
     bnd (if pc_GetDirect payload \<noteq> None then createDirectProvidernetwork H payload else ret None) (\<lambda>_. ret ())))"

definition handle_remove :: "('w, 'h) agent_host_scheme \<Rightarrow> ProviderNetworkRemove option \<Rightarrow> (('w, 'z) agent_state_scheme, unit) go" where
  "handle_remove H payload =
     bnd (gets inSync) (\<lambda>sync.
     if \<not> sync then ret () else
     bnd (if pr_GetVlanLogicalIntf payload \<noteq> [] then deleteVlanProvidernetwork H payload else ret ()) (\<lambda>_.
     if pr_GetDirectProviderIntf payload \<noteq> [] then deleteDirectProvidernetwork H payload else ret ()))"

definition handle_route :: "('w, 'h) agent_host_scheme \<Rightarrow> ContainerRouteInsert option \<Rightarrow> (('w, 'z) agent_state_scheme, unit) go" where
  "handle_route H payload =
     bnd (GetPidForContainer H (ci_GetContainerId payload)) (\<lambda>(pid, err).
     if err \<noteq> None then ret () else
     bnd (ContainerAddRoute H pid (ci_GetRoute payload)) (\<lambda>_. ret ()))"

definition handle_insync :: "('w, 'h) agent_host_scheme \<Rightarrow> InSync option \<Rightarrow> (('w, 'z) agent_state_scheme, unit) go" where
  "handle_insync H payload =
     bnd (inSyncVlanProvidernetwork H) (\<lambda>_.
     bnd (inSyncDirectProvidernetwork H) (\<lambda>_.
     bnd (modify (\<lambda>s. s\<lparr>pnCreateStore := [], inSync := True\<rparr>)) (\<lambda>_.
     if GetNodeIntfIpAddress payload \<noteq> [] \<and> GetNodeIntfMacAddress payload \<noteq> [] then
       bnd (createNodeOVSInternalPort H payload) (\<lambda>_. ret ())
     else ret ())))"

definition handleNotif :: "('w, 'h) agent_host_scheme \<Rightarrow> Notification \<Rightarrow> (('w, 'z) agent_state_scheme, unit) go" where
  "handleNotif H msg =
     (if GetCniType (Some msg) = ''ovn4nfv'' then
        (case Payload msg of
           Some (Notification_ProviderNwCreate p) \<Rightarrow> handle_create H p
         | Some (Notification_ProviderNwRemove p) \<Rightarrow> handle_remove H p
         | Some (Notification_ContainterRtInsert p) \<Rightarrow> handle_route H p
         | Some (Notification_InSync p) \<Rightarrow> handle_insync H p
         | _ \<Rightarrow> ret ())
      else ret ())"

section \<open>The subscription loop and the process\<close>

text \<open>
  What the gRPC client gives: an attempt to subscribe, and a message, the end of the stream or
  an error from it. \<open>shutDownAgent\<close> hands its reason to the waiting
  \<open>shutdownHandler\<close>, sleeps and panics.
\<close>

datatype received = Msg Notification | EOF | RecvErr goerr

record 'w sub_host = "'w agent_host" +
  h_Subscribe :: "string \<Rightarrow> 'w \<Rightarrow> goerr option \<times> 'w"
  h_Recv :: "'w \<Rightarrow> received \<times> 'w"

definition shutDownAgent :: "('w, 'h) host_scheme \<Rightarrow> string \<Rightarrow> (('w, 'z) gstate_scheme, 'a) go" where
  "shutDownAgent H reason =
     bnd (Sleep H 10) (\<lambda>_. panic ''Shutdown failed. Panicking.'')"

text \<open>The receive loop, on the number of messages it may still handle: it runs for ever.\<close>

fun recv_loop :: "('w, 'h) sub_host_scheme \<Rightarrow> nat \<Rightarrow> (('w, 'z) agent_state_scheme, unit) go" where
  "recv_loop H 0 = block_forever"
| "recv_loop H (Suc n) =
     bnd (ext (h_Recv H)) (\<lambda>r. case r of
       EOF \<Rightarrow> shutDownAgent H ''Stream closed''
     | RecvErr _ \<Rightarrow> shutDownAgent H ''Stream closed from server''
     | Msg msg \<Rightarrow> bnd (handleNotif H msg) (\<lambda>_. recv_loop H n))"

fun subscribe_loop :: "('w, 'h) sub_host_scheme \<Rightarrow> string \<Rightarrow> nat \<Rightarrow> nat \<Rightarrow> (('w, 'z) agent_state_scheme, unit) go" where
  "subscribe_loop H nodeName 0 n = block_forever"
| "subscribe_loop H nodeName (Suc m) n =
     bnd (ext (h_Subscribe H nodeName)) (\<lambda>err.
     if err \<noteq> None then subscribe_loop H nodeName m n else recv_loop H n)"

definition subscribeNotif :: "('w, 'h) sub_host_scheme \<Rightarrow> nat \<Rightarrow> nat \<Rightarrow> (('w, 'z) agent_state_scheme, unit) go" where
  "subscribeNotif H attempts messages =
     bnd (Getenv H ''NFN_NODE_NAME'') (\<lambda>nodeName. subscribe_loop H nodeName attempts messages)"

section \<open>The state machine of the store\<close>

text \<open>
  The abstract view: whether the agent is in sync, and what it has stored. A message changes it
  as \<open>store_step\<close> says, and nothing else does.
\<close>

type_synonym store_view = "bool \<times> ProviderNetworkCreate option list"

definition store_view :: "('w, 'z) agent_state_scheme \<Rightarrow> store_view" where
  "store_view s = (inSync s, pnCreateStore s)"

fun store_step :: "Notification \<Rightarrow> store_view \<Rightarrow> store_view" where
  "store_step msg (sync, store) =
     (if no_CniType msg \<noteq> ''ovn4nfv'' then (sync, store)
      else case Payload msg of
        Some (Notification_ProviderNwCreate p) \<Rightarrow> (sync, if sync then store else store @ [p])
      | Some (Notification_InSync p) \<Rightarrow> (True, [])
      | _ \<Rightarrow> (sync, store))"

interpretation store: env_frame store_view
  by unfold_locales (simp_all add: store_view_def)

lemma store_view_eq: "keeps store_view m \<Longrightarrow> m s = (r, s') \<Longrightarrow> store_view s' = store_view s"
  unfolding keeps_def by (metis snd_conv)

lemma keeps_createVlanProvidernetwork [keeps_intros]: "keeps store_view (createVlanProvidernetwork H p)"
  unfolding createVlanProvidernetwork_def by (intro keeps_intros)

lemma keeps_createDirectProvidernetwork [keeps_intros]: "keeps store_view (createDirectProvidernetwork H p)"
  unfolding createDirectProvidernetwork_def by (intro keeps_intros)

lemma keeps_deleteVlanProvidernetwork [keeps_intros]: "keeps store_view (deleteVlanProvidernetwork H p)"
  unfolding deleteVlanProvidernetwork_def by (intro keeps_intros)

lemma keeps_deleteDirectProvidernetwork [keeps_intros]: "keeps store_view (deleteDirectProvidernetwork H p)"
  unfolding deleteDirectProvidernetwork_def by (intro keeps_intros)

lemma keeps_delete_vlans [keeps_intros]: "keeps store_view (delete_vlans H l d)"
  unfolding delete_vlans_def by (intro keeps_intros)

lemma keeps_delete_bridges [keeps_intros]: "keeps store_view (delete_bridges H l d)"
  unfolding delete_bridges_def by (intro keeps_intros)

lemma keeps_sync_steps [keeps_intros]:
  "keeps store_view (sync_vlan_step H l p d)"
  "keeps store_view (sync_bridge_step H skip intf b p d)"
  unfolding sync_vlan_step_def sync_bridge_step_def by (intro keeps_intros)+

lemma keeps_inSync [keeps_intros]:
  "keeps store_view (inSyncVlanProvidernetwork H)" "keeps store_view (inSyncDirectProvidernetwork H)"
  unfolding inSyncVlanProvidernetwork_def inSyncDirectProvidernetwork_def by (intro keeps_intros)+

lemma keeps_createNodeOVSInternalPort [keeps_intros]: "keeps store_view (createNodeOVSInternalPort H p)"
  unfolding createNodeOVSInternalPort_def by (intro keeps_intros)

lemma keeps_handle_remove [keeps_intros]: "keeps store_view (handle_remove H p)"
  unfolding handle_remove_def by (intro keeps_intros)

lemma keeps_handle_route [keeps_intros]: "keeps store_view (handle_route H p)"
  unfolding handle_route_def by (intro keeps_intros)

lemma handle_create_stores:
  "\<not> inSync s \<Longrightarrow> handle_create H p s = (Returns (), s\<lparr>pnCreateStore := pnCreateStore s @ [p]\<rparr>)"
  by (simp add: handle_create_def)

lemma handle_create_view:
  assumes "handle_create H p s = (Returns u, s')"
  shows "store_view s' = (inSync s, if inSync s then pnCreateStore s else pnCreateStore s @ [p])"
proof (cases "inSync s")
  case True
  let ?m = "bnd (if pc_GetVlan p \<noteq> None then createVlanProvidernetwork H p else ret None) (\<lambda>err.
     if err \<noteq> None then ret () else
     bnd (if pc_GetDirect p \<noteq> None then createDirectProvidernetwork H p else ret None) (\<lambda>_. ret ()))"
  have "keeps store_view ?m" by (intro keeps_intros)
  moreover have "?m s = (Returns u, s')" using assms True by (simp add: handle_create_def)
  ultimately have "store_view s' = store_view s" by (rule store_view_eq)
  with True show ?thesis by (simp add: store_view_def)
next
  case False
  with assms show ?thesis by (auto simp: handle_create_stores store_view_def)
qed

lemma handle_insync_view:
  assumes "handle_insync H p s = (Returns u, s')"
  shows "store_view s' = (True, [])"
proof -
  let ?rest = "if GetNodeIntfIpAddress p \<noteq> [] \<and> GetNodeIntfMacAddress p \<noteq> [] then
       bnd (createNodeOVSInternalPort H p) (\<lambda>_. ret ()) else ret ()"
  from assms obtain s1 s2 where
    "inSyncDirectProvidernetwork H s1 = (Returns (), s2)"
    and rest: "?rest (s2\<lparr>pnCreateStore := [], inSync := True\<rparr>) = (Returns u, s')"
    unfolding handle_insync_def by (auto elim!: bnd_ReturnsE)
  have "keeps store_view ?rest" by (intro keeps_intros)
  from store_view_eq [OF this rest] show ?thesis by (simp add: store_view_def)
qed

lemma handleNotif_view:
  assumes "handleNotif H msg s = (Returns u, s')"
  shows "store_view s' = store_step msg (store_view s)"
proof -
  have sv: "store_view s = (inSync s, pnCreateStore s)" by (simp add: store_view_def)
  note keeps = store_view_eq [OF keeps_handle_remove] store_view_eq [OF keeps_handle_route]
  show ?thesis
    using assms unfolding sv
    by (auto simp: handleNotif_def getter_defs
        split: if_splits option.splits isNotification_Payload.splits
        dest!: handle_create_view handle_insync_view keeps) (simp_all add: store_view_def)
qed

text \<open>
  C32. The agent implements the abstract store. Whatever the node answers, a message that is
  handled to the end changes the in-sync flag and the store exactly as \<open>store_step\<close> says:
  provider networks are queued, in order, only before the agent is in sync, the in-sync message
  sets the flag and empties the store, and no other message touches either.
\<close>

theorem handleNotif_refines_store:
  assumes "handleNotif H msg s = (Returns u, s')"
  shows "store_view s' = store_step msg (store_view s)"
  using assms by (rule handleNotif_view)

text \<open>Runs of the agent: the messages it has handled, and the state it is in.\<close>

inductive agent_run :: "('w, 'h) agent_host_scheme \<Rightarrow> ('w, 'z) agent_state_scheme \<Rightarrow> Notification list \<Rightarrow>
    ('w, 'z) agent_state_scheme \<Rightarrow> bool" for H s0 where
  start: "agent_run H s0 [] s0"
| message: "agent_run H s0 ms s \<Longrightarrow> handleNotif H m s = (Returns u, s') \<Longrightarrow> agent_run H s0 (ms @ [m]) s'"

definition ovn4nfv_payload :: "Notification \<Rightarrow> isNotification_Payload option" where
  "ovn4nfv_payload m = (if no_CniType m = ''ovn4nfv'' then Payload m else None)"

definition is_insync :: "Notification \<Rightarrow> bool" where
  "is_insync m = (case ovn4nfv_payload m of Some (Notification_InSync _) \<Rightarrow> True | _ \<Rightarrow> False)"

definition create_of :: "Notification \<Rightarrow> ProviderNetworkCreate option option" where
  "create_of m = (case ovn4nfv_payload m of Some (Notification_ProviderNwCreate p) \<Rightarrow> Some p | _ \<Rightarrow> None)"

lemma store_step_cases:
  "store_step m (sync, store) =
    (if is_insync m then (True, [])
     else (sync, if sync then store else store @ (case create_of m of Some p \<Rightarrow> [p] | None \<Rightarrow> [])))"
  by (auto simp: is_insync_def create_of_def ovn4nfv_payload_def split: option.splits isNotification_Payload.splits)

lemma map_filter_snoc: "List.map_filter f (xs @ [x]) = List.map_filter f xs @ (case f x of Some y \<Rightarrow> [y] | None \<Rightarrow> [])"
  by (induction xs) (auto simp: map_filter_simps split: option.splits)

lemma agent_run_view:
  assumes "agent_run H s0 ms s" and "\<not> inSync s0" and "pnCreateStore s0 = []"
  shows "store_view s = (list_ex is_insync ms, if list_ex is_insync ms then [] else List.map_filter create_of ms)"
  using assms
proof (induction rule: agent_run.induct)
  case start
  then show ?case by (simp add: store_view_def map_filter_simps)
next
  case (message ms s m u s')
  then show ?case
    using handleNotif_view [OF message.hyps(2)] by (simp add: store_step_cases map_filter_snoc del: store_step.simps)
qed

text \<open>
  The store of a running agent. Started out of sync with an empty store, after any
  sequence of messages the agent is in sync exactly if an in-sync message was among them; then
  its store is empty, and until then the store has exactly the provider networks announced so
  far, in the order they came.
\<close>

lemma agent_run_store:
  assumes "agent_run H s0 ms s" and "\<not> inSync s0" and "pnCreateStore s0 = []"
  shows "(inSync s \<longleftrightarrow> list_ex is_insync ms) \<and>
    pnCreateStore s = (if list_ex is_insync ms then [] else List.map_filter create_of ms)"
  using agent_run_view [OF assms] by (simp add: store_view_def)

section \<open>What the in-sync message does\<close>

lemma sync_vlan_skip:
  "\<forall>p\<in>set store. pc_GetVlan p \<noteq> None \<Longrightarrow> for_range store acc (sync_vlan_step H l) = ret (Inr acc)"
  by (induction store) (auto simp: sync_vlan_step_def simp del: ret_apply)

lemma sync_bridge_skip:
  "\<forall>p\<in>set store. skip p \<Longrightarrow> for_range store acc (sync_bridge_step H skip intf l) = ret (Inr acc)"
  by (induction store) (auto simp: sync_bridge_step_def simp del: ret_apply)


section \<open>An example node\<close>

definition demo_agent_state :: "IPTablesRule list agent_state" where
  "demo_agent_state = ovn_state.extend (gstate.extend \<lparr>world = [], execlog = []\<rparr>
     (ovn_state.fields (Some demo_runner) None None)) (agent_state.fields False [])"

definition demo_agent_host :: "IPTablesRule list agent_host" where
  "demo_agent_host = net_host.extend demo_net_host (agent_host.fields (\<lambda>w. (None, w)) (\<lambda>c w. (Inl 42, w)))"

definition demo_create :: Notification where
  "demo_create = \<lparr>no_CniType = ''ovn4nfv'', Payload = Some (Notification_ProviderNwCreate (Some
     \<lparr>pc_ProviderNwName = ''pnet'', pc_Vlan = Some \<lparr>vi_VlanId = ''100'', vi_ProviderIntf = ''eth1'', vi_LogicalIntf = ''eth1.100''\<rparr>,
      pc_Direct = None\<rparr>))\<rparr>"

lemma demo_agent_step:
  "handleNotif demo_agent_host demo_create demo_agent_state =
    (Returns (), demo_agent_state\<lparr>pnCreateStore := [Some \<lparr>pc_ProviderNwName = ''pnet'',
       pc_Vlan = Some \<lparr>vi_VlanId = ''100'', vi_ProviderIntf = ''eth1'', vi_LogicalIntf = ''eth1.100''\<rparr>, pc_Direct = None\<rparr>]\<rparr>)"
proof -
  have init: "\<not> inSync demo_agent_state" "pnCreateStore demo_agent_state = []"
    by (simp_all add: demo_agent_state_def ovn_state.defs gstate.defs agent_state.defs)
  show ?thesis
    unfolding handleNotif_def demo_create_def by (simp add: getter_defs handle_create_stores init)
qed

theorem handleNotif_refines_store_witness:
  "store_view (snd (handleNotif demo_agent_host demo_create demo_agent_state)) =
    store_step demo_create (store_view demo_agent_state)"
  using handleNotif_refines_store [OF demo_agent_step] by (simp add: demo_agent_step)


end
