(* ===== verification/GoJson.thy ===== *)
theory GoJson
  imports GoNet
begin

text \<open>
  Go's \<open>encoding/json\<close>, as far as the repository uses it: the parser of JSON texts, and
  what \<open>Unmarshal\<close> makes of them for a list of string maps (the CNI server) and for the
  network annotation of a pod. The recursion is bounded by fuel; a text longer than what is
  nested in it has enough (\<open>Unmarshal_value\<close> gives it its length). Texts are ASCII.
\<close>

datatype json = JNull | JBool bool | JNum string | JStr string | JArr "json list" | JObj "(string \<times> json) list"

section \<open>Strings\<close>

definition bslash :: char where
  "bslash = CHR 0x5C"

definition dquote :: char where
  "dquote = CHR 0x22"

text \<open>The UTF-8 bytes of a code point.\<close>

definition utf8 :: "nat \<Rightarrow> string" where
  "utf8 n =
     (if n < 0x80 then [char_of n]
      else if n < 0x800 then [char_of (0xC0 + n div 64), char_of (0x80 + n mod 64)]
      else if n < 0x10000 then [char_of (0xE0 + n div 4096), char_of (0x80 + n div 64 mod 64), char_of (0x80 + n mod 64)]
      else [char_of (0xF0 + n div 262144), char_of (0x80 + n div 4096 mod 64), char_of (0x80 + n div 64 mod 64), char_of (0x80 + n mod 64)])"

definition hex4 :: "string \<Rightarrow> (nat \<times> string) option" where
  "hex4 s =
     (if length s < 4 then None
      else case map hex_val (take 4 s) of
        [Some a, Some b, Some c, Some d] \<Rightarrow> Some (((a * 16 + b) * 16 + c) * 16 + d, drop 4 s)
      | _ \<Rightarrow> None)"

text \<open>After \<open>\u\<close>: a code unit, or a surrogate pair; a lone surrogate is replaced.\<close>

definition unescape_u :: "string \<Rightarrow> (string \<times> string) option" where
  "unescape_u s =
     (case hex4 s of
        None \<Rightarrow> None
      | Some (hi, r) \<Rightarrow>
          if 0xD800 \<le> hi \<and> hi < 0xDC00 \<and> take 2 r = [bslash, CHR ''u''] then
            (case hex4 (drop 2 r) of
               Some (lo, r') \<Rightarrow>
                 if 0xDC00 \<le> lo \<and> lo < 0xE000 then Some (utf8 (0x10000 + (hi - 0xD800) * 0x400 + (lo - 0xDC00)), r')
                 else Some (utf8 0xFFFD, r)
             | None \<Rightarrow> None)
          else if 0xD800 \<le> hi \<and> hi < 0xE000 then Some (utf8 0xFFFD, r)
          else Some (utf8 hi, r))"

definition simple_escapes :: "(char \<times> char) list" where
  "simple_escapes = [(dquote, dquote), (bslash, bslash), (CHR ''/'', CHR ''/''), (CHR ''b'', CHR 0x08),
     (CHR ''f'', CHR 0x0C), (CHR ''n'', CHR 0x0A), (CHR ''r'', CHR 0x0D), (CHR ''t'', CHR 0x09)]"

definition unescape :: "string \<Rightarrow> (string \<times> string) option" where
  "unescape s =
     (case s of
        [] \<Rightarrow> None
      | e # r \<Rightarrow>
          (case map_of simple_escapes e of
             Some c \<Rightarrow> Some ([c], r)
           | None \<Rightarrow> if e = CHR ''u'' then unescape_u r else None))"

lemma hex4_length: "hex4 s = Some (n, r) \<Longrightarrow> length r < length s"
  by (auto simp: hex4_def split: if_splits list.splits option.splits)

lemma unescape_u_length: "unescape_u s = Some (t, r) \<Longrightarrow> length r < length s"
proof -
  assume "unescape_u s = Some (t, r)"
  then obtain hi r1 where "hex4 s = Some (hi, r1)" "length r \<le> length r1"
    by (auto simp: unescape_u_def split: option.splits if_splits prod.splits dest!: hex4_length)
  then show ?thesis using hex4_length by fastforce
qed

lemma unescape_length: "unescape s = Some (t, r) \<Longrightarrow> length r < length s"
  by (auto simp: unescape_def split: list.splits option.splits if_splits dest!: unescape_u_length)

text \<open>The rest of a string literal after its opening quote.\<close>

function parse_string :: "string \<Rightarrow> (string \<times> string) option" where
  "parse_string [] = None"
| "parse_string (c # r) =
     (if c = dquote then Some ([], r)
      else if c = bslash then
        (case unescape r of
           None \<Rightarrow> None
         | Some (t, r') \<Rightarrow> (case parse_string r' of None \<Rightarrow> None | Some (u, r'') \<Rightarrow> Some (t @ u, r'')))
      else if of_char c < (0x20 :: nat) then None
      else (case parse_string r of None \<Rightarrow> None | Some (u, r') \<Rightarrow> Some (c # u, r')))"
  by pat_completeness auto
termination
  by (relation "measure length") (auto dest: unescape_length)

section \<open>Values\<close>

definition is_json_space :: "char \<Rightarrow> bool" where
  "is_json_space c \<longleftrightarrow> c \<in> {CHR '' '', CHR 0x09, CHR 0x0A, CHR 0x0D}"

definition skip_ws :: "string \<Rightarrow> string" where
  "skip_ws s = dropWhile is_json_space s"

definition take_digits :: "string \<Rightarrow> string \<times> string" where
  "take_digits s = (takeWhile is_digit s, dropWhile is_digit s)"

text \<open>The number grammar: an optional sign, an integer part with no leading zero, a fraction, an exponent.\<close>

definition parse_number :: "string \<Rightarrow> (string \<times> string) option" where
  "parse_number s =
     (let (sign, s1) = (case s of c # r \<Rightarrow> if c = CHR ''-'' then (''-'', r) else ([], s) | [] \<Rightarrow> ([], s));
          (ip, s2) = take_digits s1 in
      if ip = [] \<or> (hd ip = CHR ''0'' \<and> 1 < length ip) then None
      else
        let frac = (case s2 of c # r \<Rightarrow>
                      if c = CHR ''.'' then (case take_digits r of (d, r') \<Rightarrow> if d = [] then None else Some (c # d, r')) else Some ([], s2)
                    | [] \<Rightarrow> Some ([], s2))
        in case frac of None \<Rightarrow> None | Some (fr, s3) \<Rightarrow>
        (case s3 of
           [] \<Rightarrow> Some (sign @ ip @ fr, s3)
         | c # r \<Rightarrow>
             if c = CHR ''e'' \<or> c = CHR ''E'' then
               (let (sg, r1) = (case r of x # y \<Rightarrow> if x = CHR ''+'' \<or> x = CHR ''-'' then ([x], y) else ([], r) | [] \<Rightarrow> ([], r));
                    (d, r2) = take_digits r1 in
                if d = [] then None else Some (sign @ ip @ fr @ [c] @ sg @ d, r2))
             else Some (sign @ ip @ fr, s3)))"

fun parse_value :: "nat \<Rightarrow> string \<Rightarrow> (json \<times> string) option"
  and parse_members :: "nat \<Rightarrow> string \<Rightarrow> ((string \<times> json) list \<times> string) option"
  and parse_elems :: "nat \<Rightarrow> string \<Rightarrow> (json list \<times> string) option" where
  "parse_value 0 s = None"
| "parse_value (Suc n) s =
     (case skip_ws s of
        [] \<Rightarrow> None
      | c # r \<Rightarrow>
          if c = dquote then (case parse_string r of None \<Rightarrow> None | Some (t, r') \<Rightarrow> Some (JStr t, r'))
          else if c = CHR ''{'' then
            (if HasPrefix (skip_ws r) ''}'' then Some (JObj [], tl (skip_ws r))
             else case parse_members n r of None \<Rightarrow> None | Some (ms, r') \<Rightarrow> Some (JObj ms, r'))
          else if c = CHR ''['' then
            (if HasPrefix (skip_ws r) '']'' then Some (JArr [], tl (skip_ws r))
             else case parse_elems n r of None \<Rightarrow> None | Some (es, r') \<Rightarrow> Some (JArr es, r'))
          else if HasPrefix (c # r) ''true'' then Some (JBool True, drop 4 (c # r))
          else if HasPrefix (c # r) ''false'' then Some (JBool False, drop 5 (c # r))
          else if HasPrefix (c # r) ''null'' then Some (JNull, drop 4 (c # r))
          else (case parse_number (c # r) of None \<Rightarrow> None | Some (t, r') \<Rightarrow> Some (JNum t, r')))"
| "parse_members 0 s = None"
| "parse_members (Suc n) s =
     (case skip_ws s of
        [] \<Rightarrow> None
      | c # r \<Rightarrow>
          if c \<noteq> dquote then None
          else case parse_string r of None \<Rightarrow> None | Some (k, r1) \<Rightarrow>
          if \<not> HasPrefix (skip_ws r1) '':'' then None
          else case parse_value n (tl (skip_ws r1)) of None \<Rightarrow> None | Some (v, r2) \<Rightarrow>
          if HasPrefix (skip_ws r2) ''}'' then Some ([(k, v)], tl (skip_ws r2))
          else if HasPrefix (skip_ws r2) '','' then
            (case parse_members n (tl (skip_ws r2)) of None \<Rightarrow> None | Some (ms, r3) \<Rightarrow> Some ((k, v) # ms, r3))
          else None)"
| "parse_elems 0 s = None"
| "parse_elems (Suc n) s =
     (case parse_value n s of None \<Rightarrow> None | Some (v, r) \<Rightarrow>
        if HasPrefix (skip_ws r) '']'' then Some ([v], tl (skip_ws r))
        else if HasPrefix (skip_ws r) '','' then
          (case parse_elems n (tl (skip_ws r)) of None \<Rightarrow> None | Some (vs, r') \<Rightarrow> Some (v # vs, r'))
        else None)"

definition Unmarshal_value :: "string \<Rightarrow> json option" where
  "Unmarshal_value s = (case parse_value (Suc (length s)) s of
     Some (v, r) \<Rightarrow> if skip_ws r = [] then Some v else None
   | None \<Rightarrow> None)"

section \<open>Unmarshalling\<close>

text \<open>
  Into \<open>[]map[string]string\<close>: null is the zero value at each level; any other mismatch is
  an error. A repeated key keeps its last value.
\<close>

fun as_string :: "json \<Rightarrow> string option" where
  "as_string (JStr t) = Some t"
| "as_string JNull = Some []"
| "as_string _ = None"

fun as_string_map :: "json \<Rightarrow> (string \<rightharpoonup> string) option" where
  "as_string_map (JObj kvs) =
     (if list_all (\<lambda>(k, v). as_string v \<noteq> None) kvs
      then Some (map_of (rev (map (\<lambda>(k, v). (k, the (as_string v))) kvs))) else None)"
| "as_string_map JNull = Some Map.empty"
| "as_string_map _ = None"

fun as_map_list :: "json \<Rightarrow> (string \<rightharpoonup> string) list option" where
  "as_map_list (JArr vs) =
     (if list_all (\<lambda>v. as_string_map v \<noteq> None) vs then Some (map (\<lambda>v. the (as_string_map v)) vs) else None)"
| "as_map_list JNull = Some []"
| "as_map_list _ = None"

definition Unmarshal_maps :: "string \<Rightarrow> (string \<rightharpoonup> string) list option" where
  "Unmarshal_maps s = (case Unmarshal_value s of None \<Rightarrow> None | Some v \<Rightarrow> as_map_list v)"

section \<open>Printing and parsing back\<close>

text \<open>Texts with no character that JSON escapes, and the escaping of quotes.\<close>

definition plain_char :: "char \<Rightarrow> bool" where
  "plain_char c \<longleftrightarrow> c \<noteq> dquote \<and> c \<noteq> bslash \<and> (0x20 :: nat) \<le> of_char c"

definition plain :: "string \<Rightarrow> bool" where
  "plain s \<longleftrightarrow> list_all plain_char s"

definition escq :: "string \<Rightarrow> string" where
  "escq s = concat (map (\<lambda>c. if c = dquote then [bslash, dquote] else [c]) s)"

definition quotable :: "string \<Rightarrow> bool" where
  "quotable s \<longleftrightarrow> list_all (\<lambda>c. plain_char c \<or> c = dquote) s"

lemma dquote_bslash [simp]: "dquote \<noteq> bslash" "bslash \<noteq> dquote"
  by (simp_all add: dquote_def bslash_def)

lemma plain_simps [simp]:
  "plain []" "plain (c # s) \<longleftrightarrow> plain_char c \<and> plain s" "plain (s @ t) \<longleftrightarrow> plain s \<and> plain t"
  by (simp_all add: plain_def)

lemma escq_simps [simp]:
  "escq [] = []" "escq (c # s) = (if c = dquote then [bslash, dquote] else [c]) @ escq s" "escq (s @ t) = escq s @ escq t"
  by (simp_all add: escq_def)

lemma escq_plain: "plain s \<Longrightarrow> escq s = s"
  by (induction s) (auto simp: plain_char_def)

lemma quotable_simps [simp]:
  "quotable []" "quotable (c # s) \<longleftrightarrow> (plain_char c \<or> c = dquote) \<and> quotable s"
  "quotable (s @ t) \<longleftrightarrow> quotable s \<and> quotable t"
  by (simp_all add: quotable_def)

lemma plain_quotable: "plain s \<Longrightarrow> quotable s"
  by (induction s) auto

lemma parse_string_plain: "plain s \<Longrightarrow> parse_string (s @ dquote # r) = Some (s, r)"
  by (induction s) (auto simp: plain_char_def)

lemma unescape_dquote [simp]: "unescape (dquote # r) = Some ([dquote], r)"
  by (simp add: unescape_def simple_escapes_def)

text \<open>What is pasted between quotes with its own quotes escaped is read back as it was.\<close>

lemma parse_string_escq: "quotable s \<Longrightarrow> parse_string (escq s @ dquote # r) = Some (s, r)"
proof (induction s)
  case (Cons c s)
  show ?case
  proof (cases "c = dquote")
    case True
    with Cons show ?thesis by simp
  next
    case False
    with Cons.prems have "c \<noteq> bslash" "\<not> of_char c < (0x20 :: nat)" by (auto simp: plain_char_def)
    with Cons False show ?thesis by simp
  qed
qed simp

text \<open>
  Objects of string members, each with white space before the key and before the value, and
  arrays of such objects, as a program prints them.
\<close>

record member =
  m_ws :: string
  m_key :: string
  m_ws2 :: string
  m_val :: string

definition member_text :: "member \<Rightarrow> string" where
  "member_text m = m_ws m @ [dquote] @ m_key m @ [dquote] @ '':'' @ m_ws2 m @ [dquote] @ m_val m @ [dquote]"

definition member_ok :: "member \<Rightarrow> bool" where
  "member_ok m \<longleftrightarrow> list_all is_json_space (m_ws m) \<and> list_all is_json_space (m_ws2 m) \<and> plain (m_key m) \<and> plain (m_val m)"

definition obj_text :: "member list \<Rightarrow> string" where
  "obj_text ms = ''{'' @ Join (map member_text ms) '','' @ ''}''"

definition arr_text :: "member list list \<Rightarrow> string" where
  "arr_text os = ''['' @ Join (map obj_text os) '','' @ '']''"

definition member_json :: "member \<Rightarrow> string \<times> json" where
  "member_json m = (m_key m, JStr (m_val m))"

lemma skip_ws_append: "list_all is_json_space w \<Longrightarrow> skip_ws (w @ s) = skip_ws s"
  by (induction w) (auto simp: skip_ws_def)

lemma skip_ws_nonspace: "\<not> is_json_space c \<Longrightarrow> skip_ws (c # s) = c # s"
  by (simp add: skip_ws_def)

lemma not_json_space [simp]:
  "\<not> is_json_space dquote" "\<not> is_json_space CHR '':''" "\<not> is_json_space CHR '',''" "\<not> is_json_space CHR ''{''"
  "\<not> is_json_space CHR ''}''" "\<not> is_json_space CHR ''[''" "\<not> is_json_space CHR '']''"
  by (simp_all add: is_json_space_def dquote_def)

lemma parse_value_string:
  "list_all is_json_space w \<Longrightarrow> plain v \<Longrightarrow> parse_value (Suc n) (w @ dquote # v @ dquote # r) = Some (JStr v, r)"
  by (simp add: skip_ws_append skip_ws_nonspace parse_string_plain)

lemma HasPrefix_Cons [simp]: "HasPrefix (c # s) [d] \<longleftrightarrow> c = d"
  by (simp add: HasPrefix_def)

lemma parse_members_one:
  assumes ok: "member_ok m" and c: "\<not> is_json_space c"
  shows "parse_members (Suc (Suc n)) (member_text m @ c # rest) =
      (if c = CHR ''}'' then Some ([member_json m], rest)
       else if c = CHR '','' then map_option (map_prod (Cons (member_json m)) id) (parse_members (Suc n) rest)
       else None)"
  using ok c
  by (subst parse_members.simps)
    (simp add: member_text_def member_ok_def member_json_def skip_ws_append skip_ws_nonspace
      parse_string_plain parse_value_string del: parse_value.simps parse_members.simps split: option.split)

lemma parse_members_text:
  "ms \<noteq> [] \<Longrightarrow> list_all member_ok ms \<Longrightarrow> length ms < n \<Longrightarrow>
   parse_members n (Join (map member_text ms) '','' @ CHR ''}'' # r) = Some (map member_json ms, r)"
proof (induction ms arbitrary: n)
  case (Cons m ms)
  then obtain n' where n: "n = Suc (Suc n')" "length ms < Suc n'" by (cases n; cases "n - 1") auto
  have ok: "member_ok m" using Cons.prems(2) by simp
  show ?case
  proof (cases "ms = []")
    case True
    then show ?thesis by (simp add: n parse_members_one ok del: parse_members.simps)
  next
    case False
    with Cons.IH [of "Suc n'"] Cons.prems n
    have "parse_members (Suc n') (Join (map member_text ms) '','' @ CHR ''}'' # r) = Some (map member_json ms, r)" by simp
    with False show ?thesis by (simp add: n Join_Cons parse_members_one ok del: parse_members.simps)
  qed
qed simp

lemma HasPrefix_members:
  "list_all member_ok ms \<Longrightarrow> ms \<noteq> [] \<Longrightarrow> \<not> HasPrefix (skip_ws (Join (map member_text ms) '','' @ r)) ''}''"
proof (cases ms)
  case (Cons m ms')
  moreover assume "list_all member_ok ms"
  moreover have "\<exists>t. Join (map member_text ms) '','' = member_text m @ t"
    using Cons by (cases "ms' = []") (auto simp: Join_Cons)
  ultimately show ?thesis
    by (auto simp: member_text_def member_ok_def skip_ws_append skip_ws_nonspace) (simp add: dquote_def)
qed simp

text \<open>An object, with any fuel above the number of its members.\<close>

lemma parse_value_obj:
  "list_all member_ok ms \<Longrightarrow> Suc (length ms) < n \<Longrightarrow>
   parse_value n (obj_text ms @ r) = Some (JObj (map member_json ms), r)"
proof -
  assume ok: "list_all member_ok ms" and n: "Suc (length ms) < n"
  then obtain n' where n': "n = Suc n'" "length ms < n'" by (cases n) auto
  have "CHR ''{'' \<noteq> dquote" by (simp add: dquote_def)
  with ok n' show ?thesis
    by (cases "ms = []")
      (simp_all add: obj_text_def skip_ws_nonspace HasPrefix_members parse_members_text del: parse_members.simps)
qed

definition obj_json :: "member list \<Rightarrow> json" where
  "obj_json ms = JObj (map member_json ms)"

lemma parse_elems_text:
  "os \<noteq> [] \<Longrightarrow> list_all (list_all member_ok) os \<Longrightarrow> (\<forall>ms \<in> set os. length os + Suc (length ms) < n) \<Longrightarrow>
   parse_elems n (Join (map obj_text os) '','' @ CHR '']'' # r) = Some (map obj_json os, r)"
proof (induction os arbitrary: n)
  case (Cons ms os)
  then obtain n' where n: "n = Suc n'" "Suc (length ms) < n'" by (cases n) auto
  have ok: "list_all member_ok ms" using Cons.prems(2) by simp
  show ?case
  proof (cases "os = []")
    case True
    then show ?thesis
      by (simp add: n parse_value_obj ok skip_ws_nonspace obj_json_def del: parse_value.simps)
  next
    case False
    with Cons.IH [of n'] Cons.prems n
    have "parse_elems n' (Join (map obj_text os) '','' @ CHR '']'' # r) = Some (map obj_json os, r)" by simp
    with False n ok show ?thesis
      by (simp add: Join_Cons parse_value_obj skip_ws_nonspace obj_json_def del: parse_value.simps)
  qed
qed simp

lemma obj_text_length: "Suc (length ms) \<le> length (obj_text ms)"
proof -
  have "length ms \<le> length (Join (map member_text ms) '','')"
  proof (induction ms)
    case (Cons m ms)
    then show ?case by (cases "ms = []") (auto simp: Join_Cons member_text_def)
  qed simp
  then show ?thesis by (simp add: obj_text_def)
qed

lemma objs_text_length: "ms \<in> set os \<Longrightarrow> length os + length ms \<le> length (Join (map obj_text os) '','')"
proof (induction os)
  case (Cons o1 os)
  have all: "length os \<le> length (Join (map obj_text os) '','')"
  proof (induction os)
    case (Cons o2 os)
    then show ?case using obj_text_length [of o2] by (cases "os = []") (auto simp: Join_Cons)
  qed simp
  with Cons show ?case using obj_text_length [of o1] by (cases "os = []") (auto simp: Join_Cons)
qed simp

lemma obj_text_nonbracket: "os \<noteq> [] \<Longrightarrow> \<exists>t. Join (map obj_text os) '','' = CHR ''{'' # t"
  by (cases os; cases "tl os = []") (auto simp: Join_Cons obj_text_def)

lemma Unmarshal_value_arr:
  assumes "list_all (list_all member_ok) os"
  shows "Unmarshal_value (arr_text os) = Some (JArr (map obj_json os))"
proof -
  have d: "CHR ''['' \<noteq> dquote" by (simp add: dquote_def)
  show ?thesis
  proof (cases "os = []")
    case True
    with d show ?thesis by (simp add: Unmarshal_value_def arr_text_def skip_ws_nonspace skip_ws_def [of "[]"] is_json_space_def)
  next
    case False
    obtain t where t: "Join (map obj_text os) '','' = CHR ''{'' # t" using obj_text_nonbracket False by blast
    have "parse_elems (length (arr_text os)) (Join (map obj_text os) '','' @ CHR '']'' # []) = Some (map obj_json os, [])"
      using False assms by (intro parse_elems_text) (auto simp: arr_text_def dest: objs_text_length)
    with d t show ?thesis
      by (simp add: Unmarshal_value_def arr_text_def skip_ws_nonspace skip_ws_def [of "[]"] del: parse_elems.simps)
  qed
qed

definition member_map :: "member list \<Rightarrow> string \<rightharpoonup> string" where
  "member_map ms = map_of (rev (map (\<lambda>m. (m_key m, m_val m)) ms))"

lemma as_string_map_obj [simp]: "as_string_map (obj_json ms) = Some (member_map ms)"
  by (simp add: obj_json_def member_map_def member_json_def list_all_iff comp_def rev_map)

text \<open>A printed list of string maps is read back as it was.\<close>

lemma Unmarshal_maps_arr:
  "list_all (list_all member_ok) os \<Longrightarrow> Unmarshal_maps (arr_text os) = Some (map member_map os)"
  by (simp add: Unmarshal_maps_def Unmarshal_value_arr list_all_iff)

end
