(* ===== verification/PodPorts.thy ===== *)
theory PodPorts
  imports OvnController GoJson
begin

text \<open>
  The annotation \<open>AddLogicalPorts\<close> of \<open>internal/pkg/ovn/ovn.go\<close> builds for a pod: its
  shape whatever OVN answers, and what the CNI server reads from it once the API server has
  taken it out of the patch.
\<close>

section \<open>Values returned\<close>

named_theorems gives_intros "introduction rules for gives"

text \<open>\<open>gives P m\<close>: a value \<open>m\<close> returns satisfies \<open>P\<close>, whatever the state.\<close>

definition gives :: "('a \<Rightarrow> bool) \<Rightarrow> ('s, 'a) go \<Rightarrow> bool" where
  "gives P m \<longleftrightarrow> (\<forall>s x s'. m s = (Returns x, s') \<longrightarrow> P x)"

lemma gives_ret [gives_intros]: "P x \<Longrightarrow> gives P (ret x)"
  by (simp add: gives_def)

lemma gives_bnd: "gives Q m \<Longrightarrow> (\<And>x. Q x \<Longrightarrow> gives P (f x)) \<Longrightarrow> gives P (bnd m f)"
  unfolding gives_def by (blast elim: bnd_ReturnsE)

lemma gives_bnd_any [gives_intros]: "(\<And>x. gives P (f x)) \<Longrightarrow> gives P (bnd m f)"
  by (rule gives_bnd [where Q = "\<lambda>_. True"]) (simp_all add: gives_def)

lemma gives_if [gives_intros]: "(b \<Longrightarrow> gives P m) \<Longrightarrow> (\<not> b \<Longrightarrow> gives P n) \<Longrightarrow> gives P (if b then m else n)"
  by simp

lemma gives_Let [gives_intros]: "gives P (m t) \<Longrightarrow> gives P (let x = t in m x)"
  by simp

lemma gives_prod [gives_intros]: "(\<And>a b. p = (a, b) \<Longrightarrow> gives P (m a b)) \<Longrightarrow> gives P (case p of (a, b) \<Rightarrow> m a b)"
  by (cases p) simp

lemma gives_for_range:
  assumes "\<And>k a. k < length xs \<Longrightarrow> I k a \<Longrightarrow> gives (\<lambda>r. \<forall>a'. r = Inr a' \<longrightarrow> I (Suc k) a') (body (xs ! k) a)"
    and "I 0 a"
  shows "gives (\<lambda>r. \<forall>a'. r = Inr a' \<longrightarrow> I (length xs) a') (for_range xs a body)"
  using assms
proof (induction xs arbitrary: a I)
  case Nil
  then show ?case by (simp add: gives_def)
next
  case (Cons x xs)
  have body: "gives (\<lambda>r. \<forall>a'. r = Inr a' \<longrightarrow> I 1 a') (body x a)" using Cons.prems(1) [of 0 a] Cons.prems(2) by simp
  have rest: "gives (\<lambda>r. \<forall>a'. r = Inr a' \<longrightarrow> I (Suc (length xs)) a') (for_range xs a' body)" if "I 1 a'" for a'
    using Cons.IH [of "\<lambda>k. I (Suc k)" a'] Cons.prems(1) [of "Suc k" for k] that by simp
  show ?case
    unfolding for_range.simps
    by (rule gives_bnd [OF body]) (auto split: sum.split intro: gives_ret rest)
qed

section \<open>The text of an annotation\<close>

record port_entry =
  e_ip :: string
  e_mask :: string
  e_mac :: string
  e_gw :: string
  e_defaultGateway :: "string option"
  e_interface :: string

definition entry_tail :: "port_entry \<Rightarrow> string" where
  "entry_tail e = (case e_defaultGateway e of None \<Rightarrow> [] | Some d \<Rightarrow> '','' @ bq @ ''defaultGateway'' @ bq @ '':'' @ bq @ d @ bq)
     @ '','' @ bq @ ''interface'' @ bq @ '':'' @ bq @ e_interface e @ bq @ ''}''"

definition entry_text :: "port_entry \<Rightarrow> string" where
  "entry_text e = butlast (port_annotation (e_ip e) (e_mask e) (e_mac e) (e_gw e)) @ entry_tail e"

definition annotation_text :: "port_entry list \<Rightarrow> string" where
  "annotation_text es = ''['' @ Join (map entry_text es) '','' @ '']''"

definition port_result :: "string \<Rightarrow> bool" where
  "port_result out \<longleftrightarrow> out = [] \<or> (\<exists>ip msk mac gw. out = port_annotation ip msk mac gw)"

lemma port_result_simps [simp]: "port_result []" "port_result (port_annotation ip msk mac gw)"
  by (auto simp: port_result_def)

lemma gives_addLogicalPortWithSwitch: "gives port_result (addLogicalPortWithSwitch H pod sw ip mac gw port)"
  unfolding addLogicalPortWithSwitch_def
  by (intro gives_intros) (auto split: polled.split intro!: gives_intros)

definition text_so_far :: "port_entry list \<Rightarrow> string" where
  "text_so_far es = ''['' @ concat (map (\<lambda>e. entry_text e @ '','') es)"

lemma text_so_far_snoc: "text_so_far es @ entry_text e @ '','' = text_so_far (es @ [e])"
  by (simp add: text_so_far_def)

lemma close_text: "es \<noteq> [] \<Longrightarrow> butlast (text_so_far es) @ '']'' = annotation_text es"
proof -
  have "concat (map (\<lambda>e. entry_text e @ '','') es) = Join (map entry_text es) '','' @ '',''" if "es \<noteq> []"
    using that by (induction es rule: list_nonempty_induct) (auto simp: Join_Cons)
  then show "es \<noteq> [] \<Longrightarrow> ?thesis" by (simp add: text_so_far_def annotation_text_def butlast_append)
qed

lemma entry_of_result:
  assumes "port_result out" and "out \<noteq> []"
  obtains e where "butlast out @ entry_tail e = entry_text e" and "e_defaultGateway e = d" and "e_interface e = i"
proof -
  from assms obtain ip msk mac gw where "out = port_annotation ip msk mac gw" by (auto simp: port_result_def)
  then show thesis
    by (intro that [of "\<lparr>e_ip = ip, e_mask = msk, e_mac = mac, e_gw = gw, e_defaultGateway = d, e_interface = i\<rparr>"])
      (simp_all add: entry_text_def)
qed

definition ports_inv :: "nat \<Rightarrow> netInterface \<times> bool \<times> string \<Rightarrow> bool" where
  "ports_inv k = (\<lambda>(ns, d, str). (d \<longrightarrow> 0 < k) \<and> (\<exists>es. str = text_so_far es \<and> length es = k))"

lemma ports_inv_step:
  assumes "ports_inv k (ns, d, str)" and "port_result out" and "out \<noteq> []"
  shows "ports_inv (Suc k) (ns', d', str @ butlast out @ '','' @ bq @ ''defaultGateway'' @ bq @ '':'' @ bq @ dg @ bq
           @ '','' @ bq @ ''interface'' @ bq @ '':'' @ bq @ i @ bq @ ''}'' @ '','')"
proof -
  from assms(1) obtain es where es: "str = text_so_far es" "length es = k" by (auto simp: ports_inv_def)
  obtain e where e: "butlast out @ entry_tail e = entry_text e" "e_defaultGateway e = Some dg" "e_interface e = i"
    by (rule entry_of_result [OF assms(2,3)])
  have "str @ (butlast out @ entry_tail e) @ '','' = text_so_far (es @ [e])"
    unfolding e(1) es(1) by (rule text_so_far_snoc)
  with e(2,3) es(2) show ?thesis
    by (auto simp: ports_inv_def entry_tail_def intro!: exI [of _ "es @ [e]"])
qed

lemma gives_add_port_step:
  assumes "ports_inv k a"
  shows "gives (\<lambda>r. \<forall>a'. r = Inr a' \<longrightarrow> ports_inv (Suc k) a') (add_port_step H Decode pod net a)"
proof (cases a)
  case (fields ns d str)
  note step = ports_inv_step [OF assms [unfolded fields]]
  show ?thesis
    unfolding fields add_port_step_def prod.case Let_def
    by (intro gives_intros gives_bnd [OF gives_addLogicalPortWithSwitch])
      (use step in \<open>auto simp: Let_def intro!: gives_intros gives_bnd [OF gives_addLogicalPortWithSwitch]\<close>)
qed

definition pod_annotation :: "nat \<Rightarrow> string \<times> string \<Rightarrow> bool" where
  "pod_annotation n = (\<lambda>(key, val). key = [] \<and> val = [] \<or> key = Ovn4nfvAnnotationTag \<and>
     (\<exists>es. es \<noteq> [] \<and> n \<le> length es \<and> length es \<le> Suc n \<and> val = annotation_text es))"

lemma pod_annotation_nil [simp]: "pod_annotation n ([], [])"
  by (simp add: pod_annotation_def)

lemma pod_annotation_close:
  assumes "ports_inv n (ns, d, str)" and "d"
  shows "pod_annotation n (Ovn4nfvAnnotationTag, butlast str @ '']'')"
proof -
  from assms obtain es where "str = text_so_far es" "length es = n" "es \<noteq> []" by (auto simp: ports_inv_def)
  then show ?thesis by (auto simp: pod_annotation_def close_text intro!: exI [of _ es])
qed

lemma pod_annotation_default:
  assumes "ports_inv n (ns, d, str)" and "port_result out" and "out \<noteq> []"
  shows "pod_annotation n (Ovn4nfvAnnotationTag, butlast (str @ butlast out @ '','' @ bq @ ''interface'' @ bq @ '':'' @ bq @ ''*'' @ bq @ ''}'' @ '','') @ '']'')"
proof -
  from assms(1) obtain es where es: "str = text_so_far es" "length es = n" by (auto simp: ports_inv_def)
  obtain e where e: "butlast out @ entry_tail e = entry_text e" "e_defaultGateway e = None" "e_interface e = ''*''"
    by (rule entry_of_result [OF assms(2,3)])
  have "str @ (butlast out @ entry_tail e) @ '','' = text_so_far (es @ [e])"
    unfolding e(1) es(1) by (rule text_so_far_snoc)
  then have "str @ butlast out @ '','' @ bq @ ''interface'' @ bq @ '':'' @ bq @ ''*'' @ bq @ ''}'' @ '','' = text_so_far (es @ [e])"
    using e(2,3) by (simp add: entry_tail_def)
  then show ?thesis
    unfolding pod_annotation_def using es(2) close_text [of "es @ [e]"] by (auto simp del: append_assoc intro!: exI [of _ "es @ [e]"])
qed

lemma gives_AddLogicalPorts: "gives (pod_annotation (length objs)) (AddLogicalPorts H Decode pod objs)"
proof -
  have inv0: "ports_inv 0 (zero_netInterface, False, ''['')"
    by (auto simp: ports_inv_def text_so_far_def intro!: exI [of _ "[]"])
  note loop = gives_for_range [of objs ports_inv, OF gives_add_port_step inv0]
  have rest: "gives (pod_annotation (length objs)) (case r of
       Inl _ \<Rightarrow> ret ([], [])
     | Inr (_, defaultInterface, ovnString) \<Rightarrow>
         bnd (if \<not> defaultInterface then
                bnd (addLogicalPortWithSwitch H pod Ovn4nfvDefaultNw [] [] [] (port_prefix pod)) (\<lambda>outStr.
                if outStr = [] then ret None
                else ret (Some (ovnString @ butlast outStr @ '','' @ bq @ ''interface'' @ bq @ '':'' @ bq @ ''*'' @ bq @ ''}'' @ '','')))
              else ret (Some ovnString)) (\<lambda>o'. case o' of
         None \<Rightarrow> ret ([], [])
       | Some ovnString \<Rightarrow> ret (Ovn4nfvAnnotationTag, butlast ovnString @ '']'')))"
    if "\<forall>a'. r = Inr a' \<longrightarrow> ports_inv (length objs) a'" for r
  proof (cases r)
    case (Inr a)
    obtain ns d str where a: "a = (ns, d, str)" by (cases a)
    with that Inr have inv: "ports_inv (length objs) (ns, d, str)" by simp
    show ?thesis
      unfolding Inr a sum.case prod.case
      using pod_annotation_close [OF inv] pod_annotation_default [OF inv]
      by (cases d) (auto simp: bnd_assoc if_distrib [where f = "\<lambda>m. bnd m f" for f] simp del: ret_apply
          intro!: gives_ret gives_if gives_bnd [OF gives_addLogicalPortWithSwitch])
  qed (simp add: gives_ret)
  show ?thesis
    unfolding AddLogicalPorts_def
    by (intro gives_if gives_ret pod_annotation_nil gives_bnd [OF loop rest]) simp_all
qed

section \<open>Reading the annotation\<close>

definition mem :: "string \<Rightarrow> string \<Rightarrow> string \<Rightarrow> string \<Rightarrow> member" where
  "mem ws k ws2 v = \<lparr>m_ws = ws, m_key = k, m_ws2 = ws2, m_val = v\<rparr>"

definition entry_members :: "port_entry \<Rightarrow> member list" where
  "entry_members e = [mem [] ''ip_address'' [] (e_ip e @ ''/'' @ e_mask e), mem '' '' ''mac_address'' [] (e_mac e),
     mem '' '' ''gateway_ip'' '' '' (e_gw e)] @
     (case e_defaultGateway e of None \<Rightarrow> [] | Some d \<Rightarrow> [mem [] ''defaultGateway'' [] d]) @
     [mem [] ''interface'' [] (e_interface e)]"

definition entry_plain :: "port_entry \<Rightarrow> bool" where
  "entry_plain e \<longleftrightarrow> plain (e_ip e) \<and> plain (e_mask e) \<and> plain (e_mac e) \<and> plain (e_gw e) \<and>
     plain (e_interface e) \<and> (\<forall>d. e_defaultGateway e = Some d \<longrightarrow> plain d)"

text \<open>The map an entry stands for.\<close>

definition entry_map :: "port_entry \<Rightarrow> string \<rightharpoonup> string" where
  "entry_map e = [''ip_address'' \<mapsto> e_ip e @ ''/'' @ e_mask e, ''mac_address'' \<mapsto> e_mac e, ''gateway_ip'' \<mapsto> e_gw e,
     ''interface'' \<mapsto> e_interface e](''defaultGateway'' := e_defaultGateway e)"

lemma entry_members_ok: "entry_plain e \<Longrightarrow> list_all member_ok (entry_members e)"
  by (auto simp: entry_plain_def entry_members_def member_ok_def mem_def is_json_space_def plain_char_def dquote_def bslash_def split: option.splits)

lemma entry_map_members: "member_map (entry_members e) = entry_map e"
  by (auto simp: member_map_def entry_members_def entry_map_def mem_def fun_eq_iff split: option.splits)

lemma entry_text_escq:
  assumes "entry_plain e"
  shows "entry_text e = escq (obj_text (entry_members e))"
proof -
  have pl: "escq (e_ip e) = e_ip e" "escq (e_mask e) = e_mask e" "escq (e_mac e) = e_mac e" "escq (e_gw e) = e_gw e"
    "escq (e_interface e) = e_interface e" "\<And>d. e_defaultGateway e = Some d \<Longrightarrow> escq d = d"
    using assms by (simp_all add: entry_plain_def escq_plain)
  then show ?thesis
    by (cases "e_defaultGateway e")
      (simp_all add: entry_text_def port_annotation_def entry_tail_def obj_text_def entry_members_def mem_def member_text_def
        butlast_append bq_def dquote_def bslash_def)
qed

lemma annotation_text_escq:
  assumes "list_all entry_plain es"
  shows "annotation_text es = escq (arr_text (map entry_members es))"
proof -
  have join: "escq (Join ts '','') = Join (map escq ts) '',''" for ts
  proof (induction ts)
    case (Cons t ts)
    then show ?case by (cases "ts = []") (simp_all add: Join_Cons dquote_def)
  qed simp
  have "map entry_text es = map escq (map obj_text (map entry_members es))"
    using assms by (auto simp: list_all_iff entry_text_escq)
  then show ?thesis by (simp add: annotation_text_def arr_text_def join dquote_def del: map_map)
qed

lemma quotable_Join: "list_all quotable ts \<Longrightarrow> quotable (Join ts '','')"
proof (induction ts)
  case (Cons t ts)
  then show ?case by (cases "ts = []") (simp_all add: Join_Cons plain_char_def dquote_def bslash_def)
qed simp

lemma quotable_member: "member_ok m \<Longrightarrow> list_all (\<lambda>c. c = CHR '' '') (m_ws m @ m_ws2 m) \<Longrightarrow> quotable (member_text m)"
proof -
  have ws: "list_all (\<lambda>c. c = CHR '' '') w \<Longrightarrow> quotable w" for w
    by (induction w) (simp_all add: plain_char_def dquote_def bslash_def)
  assume "member_ok m" "list_all (\<lambda>c. c = CHR '' '') (m_ws m @ m_ws2 m)"
  then show ?thesis
    by (simp add: member_ok_def member_text_def ws plain_quotable) (simp add: plain_char_def dquote_def bslash_def)
qed

lemma quotable_annotation:
  assumes "list_all entry_plain es"
  shows "quotable (arr_text (map entry_members es))"
proof -
  have "quotable (obj_text (entry_members e))" if "e \<in> set es" for e
  proof -
    have "list_all member_ok (entry_members e)" using entry_members_ok [of e] that assms by (simp add: list_all_iff)
    moreover have "\<forall>m\<in>set (entry_members e). list_all (\<lambda>c. c = CHR '' '') (m_ws m @ m_ws2 m)"
      by (auto simp: entry_members_def mem_def split: option.splits)
    ultimately have "list_all quotable (map member_text (entry_members e))"
      by (auto simp: list_all_iff intro!: quotable_member)
    then show ?thesis by (simp add: obj_text_def quotable_Join plain_char_def dquote_def bslash_def)
  qed
  then have "list_all quotable (map obj_text (map entry_members es))" by (simp add: list_all_iff)
  then show ?thesis by (simp add: arr_text_def quotable_Join plain_char_def dquote_def bslash_def del: map_map)
qed

text \<open>The merge patch that sets one annotation, and what the API server reads in it.\<close>

definition annotation_patch :: "string \<Rightarrow> string \<Rightarrow> string" where
  "annotation_patch key val = ''{'' @ [dquote] @ ''metadata'' @ [dquote] @ '':{'' @ [dquote] @ ''annotations'' @ [dquote] @ '':{''
     @ [dquote] @ key @ [dquote] @ '':'' @ [dquote] @ val @ [dquote] @ ''}}}''"

lemma annotation_patch_parses:
  assumes "plain key" and "quotable t"
  shows "Unmarshal_value (annotation_patch key (escq t)) =
    Some (JObj [(''metadata'', JObj [(''annotations'', JObj [(key, JStr t)])])])"
proof -
  obtain n where n: "length (annotation_patch key (escq t)) = Suc (Suc (Suc (Suc (Suc (Suc (Suc n))))))"
  proof -
    have "7 \<le> length (annotation_patch key (escq t))" by (simp add: annotation_patch_def)
    then show thesis by (intro that [of "length (annotation_patch key (escq t)) - 7"]) simp
  qed
  have lits: "plain ''metadata''" "plain ''annotations''" by (simp_all add: plain_char_def dquote_def bslash_def)
  have d: "CHR ''{'' \<noteq> dquote" "CHR ''}'' \<noteq> dquote" "dquote \<noteq> CHR ''}''" by (simp_all add: dquote_def)
  note strs = parse_string_plain [OF lits(1)] parse_string_plain [OF lits(2)] parse_string_plain [OF assms(1)] parse_string_escq [OF assms(2)]
  show ?thesis
    unfolding Unmarshal_value_def n
    using strs d
    by (simp add: annotation_patch_def skip_ws_nonspace skip_ws_def [of "[]"] del: parse_string.simps)
qed

lemma annotation_maps:
  assumes "list_all entry_plain es"
  shows "Unmarshal_maps (arr_text (map entry_members es)) = Some (map entry_map es)"
proof -
  have "list_all (list_all member_ok) (map entry_members es)"
    using assms entry_members_ok by (auto simp: list_all_iff)
  from Unmarshal_maps_arr [OF this] show ?thesis by (simp add: entry_map_members)
qed

text \<open>An entry for examples.\<close>

definition demo_entry :: port_entry where
  "demo_entry = \<lparr>e_ip = ''172.16.33.2'', e_mask = ''24'', e_mac = ''0a:00:00:00:00:3c'', e_gw = ''172.16.33.1'',
     e_defaultGateway = Some ''false'', e_interface = ''net0''\<rparr>"

end
