(* ===== verification/Kube.thy ===== *)
theory Kube
  imports PodPorts
begin

text \<open>
  The wrapper around the Kubernetes client (\<open>internal/pkg/kube/kube.go\<close>). The client itself
  is an argument: patching, reading and listing the objects of a resource. The last section
  states what an API server does with a merge patch that sets one annotation, and shows that an
  annotation set through the wrapper is the one a later query gives.
\<close>

section \<open>The wrapper\<close>

type_synonym ns_name = string
type_synonym obj_name = string

datatype resource = Pods ns_name | Nodes | Namespaces | Services ns_name | Endpoints ns_name | NetworkPolicies ns_name

text \<open>Reading gives one object, listing a list; a label selector restricts a list.\<close>

record ('w, 'o, 'l) kube_client =
  kc_Patch :: "resource \<Rightarrow> obj_name \<Rightarrow> string \<Rightarrow> 'w \<Rightarrow> goerr option \<times> 'w"
  kc_Get :: "resource \<Rightarrow> obj_name \<Rightarrow> 'w \<Rightarrow> ('o + goerr) \<times> 'w"
  kc_List :: "resource \<Rightarrow> string option \<Rightarrow> 'w \<Rightarrow> ('l + goerr) \<times> 'w"

definition SetAnnotationOnPod :: "('w, 'o, 'l) kube_client \<Rightarrow> Pod \<Rightarrow> string \<Rightarrow> string \<Rightarrow> (('w, 'z) gstate_scheme, goerr option) go" where
  "SetAnnotationOnPod K pod key val = ext (kc_Patch K (Pods (pod_Namespace pod)) (pod_Name pod) (annotation_patch key val))"

definition SetAnnotationOnNode :: "('w, 'o, 'l) kube_client \<Rightarrow> obj_name \<Rightarrow> string \<Rightarrow> string \<Rightarrow> (('w, 'z) gstate_scheme, goerr option) go" where
  "SetAnnotationOnNode K node key val = ext (kc_Patch K Nodes node (annotation_patch key val))"

definition SetAnnotationOnNamespace :: "('w, 'o, 'l) kube_client \<Rightarrow> ns_name \<Rightarrow> string \<Rightarrow> string \<Rightarrow> (('w, 'z) gstate_scheme, goerr option) go" where
  "SetAnnotationOnNamespace K ns key val = ext (kc_Patch K Namespaces ns (annotation_patch key val))"

definition GetPod :: "('w, 'o, 'l) kube_client \<Rightarrow> ns_name \<Rightarrow> obj_name \<Rightarrow> (('w, 'z) gstate_scheme, 'o + goerr) go" where
  "GetPod K namespace name = ext (kc_Get K (Pods namespace) name)"

text \<open>The query for annotations, for a client whose pods are ours.\<close>

definition GetAnnotationsOnPod :: "(ns_name \<Rightarrow> obj_name \<Rightarrow> 'w \<Rightarrow> (Pod + goerr) \<times> 'w) \<Rightarrow> ns_name \<Rightarrow> obj_name \<Rightarrow>
    (('w, 'z) gstate_scheme, (string \<rightharpoonup> string) \<times> goerr option) go" where
  "GetAnnotationsOnPod get namespace name =
     bnd (ext (get namespace name)) (\<lambda>r. case r of
       Inr err \<Rightarrow> ret (Map.empty, Some err)
     | Inl pod \<Rightarrow> ret (Annotations pod, None))"

definition GetPods :: "('w, 'o, 'l) kube_client \<Rightarrow> ns_name \<Rightarrow> (('w, 'z) gstate_scheme, 'l + goerr) go" where
  "GetPods K namespace = ext (kc_List K (Pods namespace) None)"

definition GetPodsByLabels :: "('w, 'o, 'l) kube_client \<Rightarrow> ns_name \<Rightarrow> string \<Rightarrow> (('w, 'z) gstate_scheme, 'l + goerr) go" where
  "GetPodsByLabels K namespace selector = ext (kc_List K (Pods namespace) (Some selector))"

definition GetNodes :: "('w, 'o, 'l) kube_client \<Rightarrow> (('w, 'z) gstate_scheme, 'l + goerr) go" where
  "GetNodes K = ext (kc_List K Nodes None)"

definition GetNode :: "('w, 'o, 'l) kube_client \<Rightarrow> obj_name \<Rightarrow> (('w, 'z) gstate_scheme, 'o + goerr) go" where
  "GetNode K name = ext (kc_Get K Nodes name)"

definition GetService :: "('w, 'o, 'l) kube_client \<Rightarrow> ns_name \<Rightarrow> obj_name \<Rightarrow> (('w, 'z) gstate_scheme, 'o + goerr) go" where
  "GetService K namespace name = ext (kc_Get K (Services namespace) name)"

definition GetEndpoints :: "('w, 'o, 'l) kube_client \<Rightarrow> ns_name \<Rightarrow> (('w, 'z) gstate_scheme, 'l + goerr) go" where
  "GetEndpoints K namespace = ext (kc_List K (Endpoints namespace) None)"

definition GetNamespace :: "('w, 'o, 'l) kube_client \<Rightarrow> ns_name \<Rightarrow> (('w, 'z) gstate_scheme, 'o + goerr) go" where
  "GetNamespace K name = ext (kc_Get K Namespaces name)"

definition GetNamespaces :: "('w, 'o, 'l) kube_client \<Rightarrow> (('w, 'z) gstate_scheme, 'l + goerr) go" where
  "GetNamespaces K = ext (kc_List K Namespaces None)"

definition GetNetworkPolicies :: "('w, 'o, 'l) kube_client \<Rightarrow> ns_name \<Rightarrow> (('w, 'z) gstate_scheme, 'l + goerr) go" where
  "GetNetworkPolicies K namespace = ext (kc_List K (NetworkPolicies namespace) None)"

section \<open>Annotations through the API server\<close>

text \<open>
  What the API server documents. An accepted merge patch whose only member sets one annotation
  adds that annotation to the pod the server has; a query for a pod there is answers with it,
  and changes no pod.
\<close>

type_synonym 'w pod_store = "'w \<Rightarrow> ns_name \<times> obj_name \<Rightarrow> Pod option"

definition merges_annotations :: "'w pod_store \<Rightarrow> (Pod \<Rightarrow> string \<Rightarrow> 'w \<Rightarrow> goerr option \<times> 'w) \<Rightarrow> bool" where
  "merges_annotations pods patch \<longleftrightarrow> (\<forall>pod cur key t b w w'.
     pods w (pod_Namespace pod, pod_Name pod) = Some cur \<and>
     Unmarshal_value b = Some (JObj [(''metadata'', JObj [(''annotations'', JObj [(key, JStr t)])])]) \<and>
     patch pod b w = (None, w') \<longrightarrow>
     pods w' (pod_Namespace pod, pod_Name pod) = Some (cur\<lparr>Annotations := (Annotations cur)(key \<mapsto> t)\<rparr>))"

definition answers_pods :: "'w pod_store \<Rightarrow> (ns_name \<Rightarrow> obj_name \<Rightarrow> 'w \<Rightarrow> (Pod + goerr) \<times> 'w) \<Rightarrow> bool" where
  "answers_pods pods get \<longleftrightarrow> (\<forall>ns name w pod. pods w (ns, name) = Some pod \<longrightarrow> (\<exists>w'. get ns name w = (Inl pod, w') \<and> pods w' = pods w))"

lemma patched_pod:
  assumes "merges_annotations pods patch" and "pods w (pod_Namespace pod, pod_Name pod) = Some cur"
    and "plain key" and "quotable t" and "patch pod (annotation_patch key (escq t)) w = (None, w')"
  shows "pods w' (pod_Namespace pod, pod_Name pod) = Some (cur\<lparr>Annotations := (Annotations cur)(key \<mapsto> t)\<rparr>)"
  using assms(1,2,5) annotation_patch_parses [OF assms(3,4)] unfolding merges_annotations_def by blast

text \<open>
  Set, then get. A text set as an annotation through the wrapper, its quotes escaped by the
  caller as the operator does, is found under its key by the query for the pod's annotations,
  with the other annotations as they were.
\<close>

lemma SetAnnotationOnPod_get:
  assumes "merges_annotations pods (\<lambda>pod. kc_Patch K (Pods (pod_Namespace pod)) (pod_Name pod))" and "answers_pods pods get"
    and "pods (world s) (pod_Namespace pod, pod_Name pod) = Some cur" and "plain key" and "quotable t"
    and "SetAnnotationOnPod K pod key (escq t) s = (Returns None, s')"
  shows "\<exists>w. GetAnnotationsOnPod get (pod_Namespace pod) (pod_Name pod) s' =
    (Returns ((Annotations cur)(key \<mapsto> t), None), s'\<lparr>world := w\<rparr>)"
proof -
  obtain w' where patch: "kc_Patch K (Pods (pod_Namespace pod)) (pod_Name pod) (annotation_patch key (escq t)) (world s) = (None, w')"
    and s': "s' = s\<lparr>world := w'\<rparr>"
    using assms(6) by (auto simp: SetAnnotationOnPod_def ext_def split: prod.splits)
  from patched_pod [OF assms(1,3,4,5)] patch
  have "pods (world s') (pod_Namespace pod, pod_Name pod) = Some (cur\<lparr>Annotations := (Annotations cur)(key \<mapsto> t)\<rparr>)"
    by (simp add: s')
  with assms(2) show ?thesis by (fastforce simp: answers_pods_def GetAnnotationsOnPod_def ext_def bnd_def)
qed

text \<open>A pod for examples.\<close>

definition api_pod :: Pod where
  "api_pod = \<lparr>pod_Name = ''web'', pod_Namespace = ''default'', Annotations = Map.empty, HostNetwork = False, NodeName = ''node1'', ContainerIDs = []\<rparr>"

end
