(* ===== verification/GoBase64.thy ===== *)
theory GoBase64
  imports GoJson
begin

text \<open>
  Go's \<open>encoding/base64\<close> (the standard encoding with padding), which \<open>encoding/json\<close>
  uses for byte slices, and the text \<open>json.Marshal\<close> writes for a string; both with their
  round trips.
\<close>

section \<open>Base64\<close>

definition b64_alphabet :: string where
  "b64_alphabet = ''ABCDEFGHIJKLMNOPQRSTUVWXYZabcdefghijklmnopqrstuvwxyz0123456789+/''"

definition b64_char :: "nat \<Rightarrow> char" where
  "b64_char n = b64_alphabet ! n"

definition b64_val :: "char \<Rightarrow> nat option" where
  "b64_val c = (case find (\<lambda>n. b64_char n = c) [0..<64] of Some n \<Rightarrow> Some n | None \<Rightarrow> None)"

definition ord :: "char \<Rightarrow> nat" where
  "ord c = of_char c"

fun b64_encode :: "string \<Rightarrow> string" where
  "b64_encode [] = []"
| "b64_encode [a] =
     (let n = ord a * 65536 in [b64_char (n div 262144 mod 64), b64_char (n div 4096 mod 64), CHR ''='', CHR ''=''])"
| "b64_encode [a, b] =
     (let n = ord a * 65536 + ord b * 256 in
      [b64_char (n div 262144 mod 64), b64_char (n div 4096 mod 64), b64_char (n div 64 mod 64), CHR ''=''])"
| "b64_encode (a # b # c # r) =
     (let n = ord a * 65536 + ord b * 256 + ord c in
      [b64_char (n div 262144 mod 64), b64_char (n div 4096 mod 64), b64_char (n div 64 mod 64), b64_char (n mod 64)] @ b64_encode r)"

text \<open>The decoder skips line ends; padding may only end the text; unused low bits are dropped.\<close>

fun b64_quads :: "string \<Rightarrow> string option" where
  "b64_quads [] = Some []"
| "b64_quads (a # b # c # d # r) =
     (case (b64_val a, b64_val b) of
        (Some x, Some y) \<Rightarrow>
          if c = CHR ''='' then
            (if d = CHR ''='' \<and> r = [] then Some [char_of ((x * 262144 + y * 4096) div 65536)] else None)
          else if d = CHR ''='' then
            (case b64_val c of
               Some z \<Rightarrow>
                 (let n = x * 262144 + y * 4096 + z * 64 in
                  if r = [] then Some [char_of (n div 65536), char_of (n div 256 mod 256)] else None)
             | None \<Rightarrow> None)
          else
            (case (b64_val c, b64_val d) of
               (Some z, Some u) \<Rightarrow>
                 (let n = x * 262144 + y * 4096 + z * 64 + u in
                  map_option (\<lambda>t. char_of (n div 65536) # char_of (n div 256 mod 256) # char_of (n mod 256) # t) (b64_quads r))
             | _ \<Rightarrow> None)
      | _ \<Rightarrow> None)"
| "b64_quads _ = None"

definition b64_decode :: "string \<Rightarrow> string option" where
  "b64_decode s = b64_quads (filter (\<lambda>c. c \<noteq> CHR 0x0D \<and> c \<noteq> CHR 0x0A) s)"

lemma b64_table: "\<forall>n\<in>set [0..<64]. b64_val (b64_char n) = Some n \<and> b64_char n \<noteq> CHR ''='' \<and> plain_char (b64_char n)
    \<and> b64_char n \<noteq> CHR 0x0D \<and> b64_char n \<noteq> CHR 0x0A \<and> ord (b64_char n) < 128"
  by code_simp

lemma b64_char_simps [simp]:
  "n < 64 \<Longrightarrow> b64_val (b64_char n) = Some n" "n < 64 \<Longrightarrow> b64_char n \<noteq> CHR ''=''" "n < 64 \<Longrightarrow> plain_char (b64_char n)"
  "n < 64 \<Longrightarrow> b64_char n \<noteq> CHR 0x0D" "n < 64 \<Longrightarrow> b64_char n \<noteq> CHR 0x0A" "n < 64 \<Longrightarrow> ord (b64_char n) < 128"
  using b64_table by simp_all

lemma ord_less [simp]: "ord c < 256"
  by (simp add: ord_def)

lemma char_of_ord [simp]: "char_of (ord c) = c"
  by (simp add: ord_def)

text \<open>Four digits to the base 64 and three to the base 256 of one number.\<close>

lemma base_digits:
  assumes "n < (16777216 :: nat)"
  shows "n div 262144 mod 64 * 262144 + n div 4096 mod 64 * 4096 + n div 64 mod 64 * 64 + n mod 64 = n"
proof -
  let ?m1 = "n div 64" and ?m2 = "n div 64 div 64" and ?m3 = "n div 64 div 64 div 64"
  have eqs: "n div 4096 = ?m2" "n div 262144 = ?m3" by (simp_all add: div_mult2_eq [symmetric])
  have "?m3 < 64" using assms by (simp add: div_mult2_eq [symmetric] less_mult_imp_div_less)
  then have "?m3 mod 64 = ?m3" by simp
  then show ?thesis
    using div_mult_mod_eq [of n 64] div_mult_mod_eq [of ?m1 64] div_mult_mod_eq [of ?m2 64] unfolding eqs by linarith
qed

lemma byte_digits:
  assumes "b < (256 :: nat)" and "c < 256"
  shows "(a * 65536 + b * 256 + c) div 65536 = a" and "(a * 65536 + b * 256 + c) div 256 mod 256 = b"
    and "(a * 65536 + b * 256 + c) mod 256 = c"
proof -
  have "a * 65536 + b * 256 + c = (a * 256 + b) * 256 + c" by simp
  then have "(a * 65536 + b * 256 + c) div 256 = a * 256 + b" "(a * 65536 + b * 256 + c) mod 256 = c"
    using assms(2) by (simp_all only: div_mult_self3 mod_mult_self3) simp_all
  moreover have "(a * 256 + b) div 256 = a" "(a * 256 + b) mod 256 = b" using assms(1) by simp_all
  moreover have "m div 65536 = m div 256 div 256" for m :: nat by (simp add: div_mult2_eq [symmetric])
  ultimately show "(a * 65536 + b * 256 + c) div 65536 = a" "(a * 65536 + b * 256 + c) div 256 mod 256 = b"
    "(a * 65536 + b * 256 + c) mod 256 = c" by simp_all
qed

lemma triple_less: "a < 256 \<Longrightarrow> b < 256 \<Longrightarrow> c < 256 \<Longrightarrow> a * 65536 + b * 256 + c < (16777216 :: nat)"
  by simp

lemma b64_quads_chars:
  fixes x y z u :: nat
  defines "x' \<equiv> x mod 64" and "y' \<equiv> y mod 64" and "z' \<equiv> z mod 64" and "u' \<equiv> u mod 64"
  shows "b64_quads [b64_char x', b64_char y', CHR ''='', CHR ''=''] = Some [char_of ((x' * 262144 + y' * 4096) div 65536)]"
    and "b64_quads [b64_char x', b64_char y', b64_char z', CHR ''=''] =
      Some [char_of ((x' * 262144 + y' * 4096 + z' * 64) div 65536), char_of ((x' * 262144 + y' * 4096 + z' * 64) div 256 mod 256)]"
    and "b64_quads (b64_char x' # b64_char y' # b64_char z' # b64_char u' # r) =
      map_option (\<lambda>t. char_of ((x' * 262144 + y' * 4096 + z' * 64 + u') div 65536) # char_of ((x' * 262144 + y' * 4096 + z' * 64 + u') div 256 mod 256)
        # char_of ((x' * 262144 + y' * 4096 + z' * 64 + u') mod 256) # t) (b64_quads r)"
  by (simp_all add: x'_def y'_def z'_def u'_def Let_def)

lemma b64_quads_encode: "b64_quads (b64_encode s) = Some s"
proof (induction s rule: b64_encode.induct)
  case (2 a)
  define n where "n = ord a * 65536"
  have n: "n = ord a * 16 * 64 * 64" by (simp add: n_def)
  have "n div 64 mod 64 = 0" "n mod 64 = 0" unfolding n by (simp_all only: nonzero_mult_div_cancel_right mod_mult_self2_is_0)
  moreover have "n < 16777216" using triple_less [OF ord_less [of a], of 0 0] by (simp add: n_def)
  ultimately have "n div 262144 mod 64 * 262144 + n div 4096 mod 64 * 4096 = n" using base_digits [of n] by linarith
  then have "b64_quads (b64_encode [a]) = Some [char_of (n div 65536)]"
    unfolding b64_encode.simps Let_def n_def [symmetric] by (simp only: b64_quads_chars)
  then show ?case by (simp add: n_def)
next
  case (3 a b)
  define n where "n = ord a * 65536 + ord b * 256"
  have "n = (ord a * 1024 + ord b * 4) * 64" by (simp add: n_def)
  then have "n mod 64 = 0" by (simp only: mod_mult_self2_is_0)
  moreover have "n < 16777216" using triple_less [OF ord_less [of a] ord_less [of b], of 0] by (simp add: n_def)
  ultimately have "n div 262144 mod 64 * 262144 + n div 4096 mod 64 * 4096 + n div 64 mod 64 * 64 = n"
    using base_digits [of n] by linarith
  then have "b64_quads (b64_encode [a, b]) = Some [char_of (n div 65536), char_of (n div 256 mod 256)]"
    unfolding b64_encode.simps Let_def n_def [symmetric] by (simp only: b64_quads_chars)
  with byte_digits [OF ord_less [of b], of 0 "ord a"] show ?case by (simp only: n_def add_0_right) simp
next
  case (4 a b c r)
  define n where "n = ord a * 65536 + ord b * 256 + ord c"
  have "n < 16777216" unfolding n_def by (rule triple_less) simp_all
  note base_digits [OF this]
  then have "b64_quads (b64_encode (a # b # c # r)) =
      map_option (\<lambda>t. char_of (n div 65536) # char_of (n div 256 mod 256) # char_of (n mod 256) # t) (b64_quads (b64_encode r))"
    unfolding b64_encode.simps Let_def n_def [symmetric] append.simps by (simp only: b64_quads_chars)
  with 4 byte_digits [OF ord_less [of b] ord_less [of c], of "ord a"] show ?case by (simp only: n_def) simp
qed simp

lemma plain_padding [simp]: "plain_char CHR ''=''"
  by (simp add: plain_char_def dquote_def bslash_def)

lemma ord_padding [simp]: "ord CHR ''='' < 128"
  by (simp add: ord_def)

lemma b64_encode_chars: "c \<in> set (b64_encode s) \<Longrightarrow> plain_char c \<and> c \<noteq> CHR 0x0D \<and> c \<noteq> CHR 0x0A \<and> ord c < 128"
proof (induction s rule: b64_encode.induct)
  case (4 a b c r)
  then show ?case by (auto simp: Let_def)
qed (auto simp: Let_def)

lemma b64_decode_encode [simp]: "b64_decode (b64_encode s) = Some s"
proof -
  have "filter (\<lambda>c. c \<noteq> CHR 0x0D \<and> c \<noteq> CHR 0x0A) (b64_encode s) = b64_encode s"
    using b64_encode_chars by (auto simp: filter_id_conv)
  then show ?thesis by (simp add: b64_decode_def b64_quads_encode)
qed

lemma plain_b64_encode: "plain (b64_encode s)"
  using b64_encode_chars by (auto simp: plain_def list_all_iff)

section \<open>Strings as JSON\<close>

text \<open>
  How \<open>json.Marshal\<close> writes a character of a string, ASCII only: quotes, backslashes and
  control characters are escaped, and the three that are special in HTML.
\<close>

definition hex2 :: "nat \<Rightarrow> string" where
  "hex2 n = [hexdigit (n div 16), hexdigit (n mod 16)]"

definition json_char :: "char \<Rightarrow> string" where
  "json_char c =
     (if c = dquote \<or> c = bslash then [bslash, c]
      else if c = CHR 0x0A then [bslash, CHR ''n'']
      else if c = CHR 0x0D then [bslash, CHR ''r'']
      else if c = CHR 0x09 then [bslash, CHR ''t'']
      else if ord c < 0x20 \<or> c = CHR ''<'' \<or> c = CHR ''>'' \<or> c = CHR ''&'' then [bslash] @ ''u00'' @ hex2 (ord c)
      else [c])"

definition json_string :: "string \<Rightarrow> string" where
  "json_string s = [dquote] @ concat (map json_char s) @ [dquote]"

definition ascii :: "string \<Rightarrow> bool" where
  "ascii s \<longleftrightarrow> list_all (\<lambda>c. ord c < 128) s"

lemma ascii_b64_encode [simp]: "ascii (b64_encode s)"
  using b64_encode_chars by (auto simp: ascii_def list_all_iff)

lemma unescape_hex:
  assumes "ord c < 128"
  shows "unescape (''u00'' @ hex2 (ord c) @ r) = Some ([c], r)"
proof -
  have "hex_val CHR ''0'' = Some 0" by code_simp
  moreover have "ord c div 16 < 16" using assms by (simp add: less_mult_imp_div_less)
  moreover have "ord c div 16 * 16 + ord c mod 16 = ord c" by simp
  ultimately have "hex4 (''00'' @ hex2 (ord c) @ r) = Some (ord c, r)"
    by (simp add: hex4_def hex2_def)
  with assms show ?thesis
    by (simp add: unescape_def unescape_u_def simple_escapes_def utf8_def dquote_def bslash_def)
qed

lemma unescape_simple [simp]:
  "unescape (bslash # r) = Some ([bslash], r)" "unescape (CHR ''n'' # r) = Some ([CHR 0x0A], r)"
  "unescape (CHR ''r'' # r) = Some ([CHR 0x0D], r)" "unescape (CHR ''t'' # r) = Some ([CHR 0x09], r)"
  by (simp_all add: unescape_def simple_escapes_def dquote_def bslash_def)

text \<open>A character, then a string, is read back as it was.\<close>

lemma parse_json_char:
  assumes "ord c < 128"
  shows "parse_string (json_char c @ r) = (case parse_string r of None \<Rightarrow> None | Some (u, r') \<Rightarrow> Some (c # u, r'))"
proof -
  consider "c = dquote \<or> c = bslash \<or> c = CHR 0x0A \<or> c = CHR 0x0D \<or> c = CHR 0x09"
    | "\<not> (c = dquote \<or> c = bslash \<or> c = CHR 0x0A \<or> c = CHR 0x0D \<or> c = CHR 0x09)"
      "ord c < 0x20 \<or> c = CHR ''<'' \<or> c = CHR ''>'' \<or> c = CHR ''&''"
    | "\<not> (c = dquote \<or> c = bslash \<or> c = CHR 0x0A \<or> c = CHR 0x0D \<or> c = CHR 0x09)"
      "\<not> (ord c < 0x20 \<or> c = CHR ''<'' \<or> c = CHR ''>'' \<or> c = CHR ''&'')"
    by blast
  then show ?thesis
  proof cases
    case 1
    then have "\<exists>e. json_char c = [bslash, e] \<and> unescape (e # r) = Some ([c], r)"
      by (elim disjE) (simp_all add: json_char_def)
    then show ?thesis by (auto split: option.split)
  next
    case 2
    then have "json_char c = bslash # ''u00'' @ hex2 (ord c)" by (simp add: json_char_def)
    with unescape_hex [OF assms, of r] show ?thesis by (simp split: option.split)
  next
    case 3
    then have "json_char c = [c]" "c \<noteq> dquote" "c \<noteq> bslash" "\<not> ord c < 0x20" by (simp_all add: json_char_def)
    then show ?thesis by (simp add: ord_def)
  qed
qed

lemma parse_json_string:
  "ascii s \<Longrightarrow> parse_string (concat (map json_char s) @ dquote # r) = Some (s, r)"
proof (induction s)
  case (Cons c s)
  then show ?case
    using parse_json_char [of c "concat (map json_char s) @ dquote # r"] by (simp add: ascii_def del: parse_string.simps)
qed (simp add: ascii_def)

end
