(* ===== verification/CniServer.thy ===== *)
theory CniServer
  imports CniApp Kube GoBase64
begin

text \<open>
  \<open>internal/pkg/cniserver\<close>: the CNI server inside the agent. \<open>cni.go\<close> waits for a
  pod's annotation, makes its interfaces and routes and builds the CNI result;
  \<open>cniserver.go\<close> decodes the shim's request, dispatches it and sets up the socket.
\<close>

section \<open>Results\<close>

text \<open>The CNI result type of the specification's current version.\<close>

record DNS =
  dns_Nameservers :: "string list"
  dns_Domain :: string
  dns_Search :: "string list"
  dns_Options :: "string list"

record IPConfig =
  ip_Version :: string
  ip_Interface :: "int option"
  ip_Address :: IPNet
  ip_Gateway :: IP

record cni_route =
  rt_Dst :: IPNet
  rt_GW :: IP

record cni_result =
  res_Interfaces :: "ifc list"
  res_IPs :: "IPConfig list"
  res_Routes :: "cni_route list"
  res_DNS :: DNS

definition zero_DNS :: DNS where
  "zero_DNS = \<lparr>dns_Nameservers = [], dns_Domain = [], dns_Search = [], dns_Options = []\<rparr>"

text \<open>
  What the server calls outside the repository: the API server, the conversion of a result to
  the current version, and its JSON text.
\<close>

record 'w cni_host = "'w net_host" +
  h_GetPod :: "string \<Rightarrow> string \<Rightarrow> 'w \<Rightarrow> (Pod + goerr) \<times> 'w"
  h_NewResultFromResult :: "cni_result \<Rightarrow> cni_result + goerr"
  h_MarshalResult :: "cni_result \<Rightarrow> string + goerr"

section \<open>The annotation and the merge of results\<close>

definition parseOvnNetworkObject :: "string \<Rightarrow> (string \<rightharpoonup> string) list + goerr" where
  "parseOvnNetworkObject ovnnetwork =
     (if ovnnetwork = [] then Inr (Errorf ''parseOvnNetworkObject:error'')
      else case Unmarshal_maps ovnnetwork of
        None \<Rightarrow> Inr (Errorf (''parseOvnNetworkObject: failed to load ovn network: '' @ ovnnetwork))
      | Some ovnNet \<Rightarrow> Inl ovnNet)"

definition shift_ip :: "nat \<Rightarrow> IPConfig \<Rightarrow> IPConfig" where
  "shift_ip ifacesLength ip =
     (case ip_Interface ip of
        Some i \<Rightarrow> if i \<noteq> -1 then ip\<lparr>ip_Interface := Some (i + int ifacesLength)\<rparr> else ip
      | None \<Rightarrow> ip)"

definition mergeWithResult :: "('w, 'h) cni_host_scheme \<Rightarrow> cni_result \<Rightarrow> cni_result option \<Rightarrow> cni_result option \<times> goerr option" where
  "mergeWithResult H srcObj dstObj =
     (case dstObj of
        None \<Rightarrow> (Some srcObj, None)
      | Some dstObj \<Rightarrow>
          (case h_NewResultFromResult H srcObj of
             Inr e \<Rightarrow> (None, wrap_err ''Couldn't convert old result to current version'' (Some e))
           | Inl src \<Rightarrow>
               (case h_NewResultFromResult H dstObj of
                  Inr e \<Rightarrow> (None, wrap_err ''Couldn't convert old result to current version'' (Some e))
                | Inl dst \<Rightarrow>
                    (Some (dst\<lparr>res_Interfaces := res_Interfaces dst @ res_Interfaces src,
                       res_IPs := res_IPs dst @ map (shift_ip (length (res_Interfaces dst))) (res_IPs src),
                       res_Routes := res_Routes dst @ res_Routes src,
                       res_DNS := (res_DNS dst)\<lparr>dns_Nameservers := dns_Nameservers (res_DNS dst) @ dns_Nameservers (res_DNS src),
                         dns_Search := dns_Search (res_DNS dst) @ dns_Search (res_DNS src),
                         dns_Options := dns_Options (res_DNS dst) @ dns_Options (res_DNS src)\<rparr>\<rparr>), None))))"

fun isNotFoundError :: "goerr \<Rightarrow> bool" where
  "isNotFoundError (StatusError code _) = (code = 404)"
| "isNotFoundError _ = False"

section \<open>Requests\<close>

record 'nc CNIServerRequest =
  Command :: string
  PodNamespace :: string
  PodName :: string
  SandboxID :: string
  Netns :: string
  IfName :: string
  CNIConf :: "'nc option"

definition lookup :: "(string \<rightharpoonup> string) \<Rightarrow> string \<Rightarrow> string" where
  "lookup m k = (case m k of Some v \<Rightarrow> v | None \<Rightarrow> [])"

section \<open>Interfaces\<close>

text \<open>
  Which interface gets the default route: the new value of \<open>defaultGateway\<close> for an entry
  and whether one was chosen so far (\<open>isDefaultGW\<close>).
\<close>

definition gateway_choice :: "string \<Rightarrow> string \<Rightarrow> string \<Rightarrow> bool \<Rightarrow> string \<times> bool" where
  "gateway_choice ifName interfaceName defaultGateway isDefaultGW =
     (let (defaultGateway, isDefaultGW) =
            (if interfaceName \<noteq> ''*'' \<and> defaultGateway = ''true'' \<and> \<not> isDefaultGW then (defaultGateway, True)
             else if interfaceName \<noteq> ''*'' \<and> defaultGateway = ''true'' then (''false'', isDefaultGW)
             else (defaultGateway, isDefaultGW));
          defaultGateway = (if interfaceName = ''*'' \<and> isDefaultGW then ''false'' else defaultGateway);
          defaultGateway = (if interfaceName = ''*'' \<and> \<not> isDefaultGW then ''true'' else defaultGateway);
          defaultGateway = (if interfaceName = ''*'' \<and> ifName \<noteq> ''eth0'' then ''false'' else defaultGateway) in
      (defaultGateway, isDefaultGW))"

text \<open>The result for one interface; the default route is \<open>0.0.0.0/0\<close>.\<close>

definition interface_result :: "ifc list \<Rightarrow> IP \<Rightarrow> IPNet \<Rightarrow> string \<Rightarrow> string \<Rightarrow> ('s, cni_result) go" where
  "interface_result interfacesArray addr addrNet gatewayIP defaultGateway =
     (let ipVersion = (if To4 addr \<noteq> [] then ''4'' else ''6'');
          ips = [\<lparr>ip_Version = ipVersion, ip_Interface = Some 1,
                  ip_Address = \<lparr>net_IP = addr, net_Mask = net_Mask addrNet\<rparr>, ip_Gateway = ParseIP gatewayIP\<rparr>] in
      if defaultGateway = ''true'' then
        (case ParseCIDR ''0.0.0.0/0'' of
           Inl _ \<Rightarrow> panic nil_deref
         | Inr (defaultAddr, defaultAddrNet) \<Rightarrow>
             ret \<lparr>res_Interfaces = interfacesArray, res_IPs = ips,
               res_Routes = [\<lparr>rt_Dst = \<lparr>net_IP = defaultAddr, net_Mask = net_Mask defaultAddrNet\<rparr>, rt_GW = ParseIP gatewayIP\<rparr>],
               res_DNS = zero_DNS\<rparr>)
      else ret \<lparr>res_Interfaces = interfacesArray, res_IPs = ips, res_Routes = [], res_DNS = zero_DNS\<rparr>)"

text \<open>
  The loop's state: \<open>isDefaultGW\<close>, \<open>index\<close> and \<open>dstResult\<close>; \<open>Inl ()\<close> is
  \<open>return nil\<close>. Nothing in the agent changes the configured MTU.
\<close>

definition add_interface_step :: "('w, 'h) cni_host_scheme \<Rightarrow> 'nc CNIServerRequest \<Rightarrow> string \<Rightarrow> string \<Rightarrow>
    (string \<rightharpoonup> string) \<Rightarrow> bool \<times> nat \<times> cni_result option \<Rightarrow>
    (('w, 'z) ovn_state_scheme, unit + bool \<times> nat \<times> cni_result option) go" where
  "add_interface_step H cr namespace podName ovnNet = (\<lambda>(isDefaultGW, index, dstResult).
     let ipAddress = lookup ovnNet ''ip_address'';
         macAddress = lookup ovnNet ''mac_address'';
         gatewayIP = lookup ovnNet ''gateway_ip'';
         defaultGateway = lookup ovnNet ''defaultGateway'' in
     if ipAddress = [] \<or> macAddress = [] then ret (Inl ()) else
     let index = Suc index;
         interfaceName = lookup ovnNet ''interface'' in
     if interfaceName = [] then ret (Inl ()) else
     let (defaultGateway, isDefaultGW) = gateway_choice (IfName cr) interfaceName defaultGateway isDefaultGW in
     bnd (ConfigureInterface H (Netns cr) (SandboxID cr) (IfName cr) namespace podName macAddress ipAddress gatewayIP
            interfaceName defaultGateway index (MTU (cfg_Default default_config)) isDefaultGW) (\<lambda>(interfacesArray, err).
     if err \<noteq> None then ret (Inl ()) else
     case ParseCIDR ipAddress of
       Inl _ \<Rightarrow> ret (Inl ())
     | Inr (addr, addrNet) \<Rightarrow>
         bnd (interface_result interfacesArray addr addrNet gatewayIP defaultGateway) (\<lambda>result.
         case mergeWithResult H result dstResult of (dstResult, err) \<Rightarrow>
         if err \<noteq> None then ret (Inl ()) else ret (Inr (isDefaultGW, index, dstResult)))))"

definition addMultipleInterfaces :: "('w, 'h) cni_host_scheme \<Rightarrow> 'nc CNIServerRequest \<Rightarrow> string \<Rightarrow> string \<Rightarrow> string \<Rightarrow>
    (('w, 'z) ovn_state_scheme, cni_result option) go" where
  "addMultipleInterfaces H cr ovnAnnotation namespace podName =
     (case parseOvnNetworkObject ovnAnnotation of
        Inr _ \<Rightarrow> ret None
      | Inl ovnAnnotatedMap \<Rightarrow>
          if namespace = [] \<or> podName = [] then ret None else
          bnd (for_range ovnAnnotatedMap (False, 0, None) (add_interface_step H cr namespace podName)) (\<lambda>r. case r of
            Inl _ \<Rightarrow> ret None
          | Inr (_, _, dstResult) \<Rightarrow> ret dstResult))"

section \<open>Routes\<close>

definition add_route_entry :: "('w, 'h) cni_host_scheme \<Rightarrow> 'nc CNIServerRequest \<Rightarrow> (string \<rightharpoonup> string) \<Rightarrow> cni_route list \<Rightarrow>
    (('w, 'z) ovn_state_scheme, unit + cni_route list) go" where
  "add_route_entry H cr ovnNet routes =
     (let dst = lookup ovnNet ''dst''; gw = lookup ovnNet ''gw''; dev = lookup ovnNet ''dev'' in
      if dst = [] \<or> gw = [] \<or> dev = [] then ret (Inl ()) else
      bnd (ConfigureRoute H (Netns cr) dst gw dev) (\<lambda>err.
      if err \<noteq> None then ret (Inl ()) else
      case ParseCIDR dst of
        Inl _ \<Rightarrow> panic nil_deref
      | Inr (dstAddr, dstAddrNet) \<Rightarrow>
          ret (Inr (routes @ [\<lparr>rt_Dst = \<lparr>net_IP = dstAddr, net_Mask = net_Mask dstAddrNet\<rparr>, rt_GW = ParseIP gw\<rparr>]))))"

definition addRoutes :: "('w, 'h) cni_host_scheme \<Rightarrow> 'nc CNIServerRequest \<Rightarrow> string \<Rightarrow> cni_result option \<Rightarrow>
    (('w, 'z) ovn_state_scheme, cni_result option) go" where
  "addRoutes H cr ovnAnnotation dstResult =
     (case parseOvnNetworkObject ovnAnnotation of
        Inr _ \<Rightarrow> ret None
      | Inl ovnAnnotatedMap \<Rightarrow>
          bnd (for_range ovnAnnotatedMap [] (add_route_entry H cr)) (\<lambda>r. case r of
            Inl _ \<Rightarrow> ret None
          | Inr routes \<Rightarrow>
              (case mergeWithResult H \<lparr>res_Interfaces = [], res_IPs = [], res_Routes = routes, res_DNS = zero_DNS\<rparr> dstResult of
                 (dstResult, err) \<Rightarrow> if err \<noteq> None then ret None else ret dstResult)))"

section \<open>Commands\<close>

text \<open>
  \<open>cmdAdd\<close>: the closure given to \<open>wait.ExponentialBackoff\<close> writes the variable
  \<open>annotation\<close> of its caller, a field of the state here. The library function is an
  argument, applied to the number of steps and the closure.
\<close>

record 'w cni_state = "'w ovn_state" +
  annotation :: "string \<rightharpoonup> string"

type_synonym ('w, 'z) backoff = "nat \<Rightarrow> (('w, 'z) cni_state_scheme, bool \<times> goerr option) go \<Rightarrow> (('w, 'z) cni_state_scheme, goerr option) go"

definition ovn4nfvAnnotationTag :: string where
  "ovn4nfvAnnotationTag = ''k8s.plugin.opnfv.org/ovnInterfaces''"

definition annotation_ready :: "('w, 'h) cni_host_scheme \<Rightarrow> string \<Rightarrow> string \<Rightarrow> (('w, 'z) cni_state_scheme, bool \<times> goerr option) go" where
  "annotation_ready H namespace podname =
     bnd (GetAnnotationsOnPod (h_GetPod H) namespace podname) (\<lambda>(ann, err).
     bnd (modify (\<lambda>s. s\<lparr>annotation := ann\<rparr>)) (\<lambda>_.
     case err of
       Some e \<Rightarrow> if isNotFoundError e then ret (False, wrap_err ''Error - pod not found -'' (Some e)) else ret (False, None)
     | None \<Rightarrow> if ann ovn4nfvAnnotationTag \<noteq> None then ret (True, None) else ret (False, None)))"

text \<open>What follows once the annotation is there.\<close>

definition add_from_annotation :: "('w, 'h) cni_host_scheme \<Rightarrow> 'nc CNIServerRequest \<Rightarrow> (('w, 'z) cni_state_scheme, string \<times> goerr option) go" where
  "add_from_annotation H cr =
     bnd (gets annotation) (\<lambda>annot. case annot ovn4nfvAnnotationTag of
       None \<Rightarrow> ret ([], Some (Errorf ''Error while obtaining pod annotations''))
     | Some ovnAnnotation \<Rightarrow>
         bnd (addMultipleInterfaces H cr ovnAnnotation (PodNamespace cr) (PodName cr)) (\<lambda>result.
         bnd (case annot ''ovnNetworkRoutes'' of
                Some ovnRouteAnnotation \<Rightarrow> addRoutes H cr ovnRouteAnnotation result
              | None \<Rightarrow> ret result) (\<lambda>result. case result of
           None \<Rightarrow> ret ([], Some (Errorf ''result is nil from cni server response''))
         | Some result \<Rightarrow>
             (case h_MarshalResult H result of
                Inr e \<Rightarrow> ret ([], wrap_err ''failed to marshal pod request response'' (Some e))
              | Inl responseBytes \<Rightarrow> ret (responseBytes, None)))))"

definition cmdAdd :: "('w, 'h) cni_host_scheme \<Rightarrow> ('w, 'z) backoff \<Rightarrow> 'nc CNIServerRequest \<Rightarrow>
    (('w, 'z) cni_state_scheme, string \<times> goerr option) go" where
  "cmdAdd H ExponentialBackoff cr =
     (let namespace = PodNamespace cr; podname = PodName cr in
      if namespace = [] \<or> podname = [] then ret ([], Some (Errorf ''required CNI variable missing'')) else
      bnd (modify (\<lambda>s. s\<lparr>annotation := Map.empty\<rparr>)) (\<lambda>_.
      bnd (ExponentialBackoff 14 (annotation_ready H namespace podname)) (\<lambda>err.
      if err \<noteq> None then ret ([], wrap_err ''failed to get pod annotation -'' err) else
      add_from_annotation H cr)))"

definition cleanup_step :: "('w, 'h) net_host_scheme \<Rightarrow> string \<Rightarrow> nat \<Rightarrow> unit \<Rightarrow> (('w, 'z) gstate_scheme, unit + unit) go" where
  "cleanup_step H sandboxID i u =
     bnd (slice_to sandboxID 14) (\<lambda>pre.
     bnd (PlatformSpecificCleanup H (pre @ Itoa i)) (\<lambda>(done, _).
     if done then ret (Inl ()) else ret (Inr ())))"

definition cmdDel :: "('w, 'h) net_host_scheme \<Rightarrow> 'nc CNIServerRequest \<Rightarrow> (('w, 'z) gstate_scheme, string \<times> goerr option) go" where
  "cmdDel H cr = bnd (for_range [0..<10] () (cleanup_step H (SandboxID cr))) (\<lambda>_. ret ([], None))"

definition HandleCNIcommandRequest :: "('w, 'h) cni_host_scheme \<Rightarrow> ('w, 'z) backoff \<Rightarrow> 'nc CNIServerRequest \<Rightarrow>
    (('w, 'z) cni_state_scheme, string \<times> goerr option) go" where
  "HandleCNIcommandRequest H ExponentialBackoff request =
     bnd (if Command request = ''ADD'' then cmdAdd H ExponentialBackoff request
          else if Command request = ''DEL'' then cmdDel H request
          else ret ([], None)) (\<lambda>(result, err).
     if err \<noteq> None then
       ret ([], wrap_err (''[PodNamespace:'' @ PodNamespace request @ ''/PodName:'' @ PodName request @ ''] CNI request'') err)
     else ret (result, None))"

section \<open>Decoding the shim's request\<close>

text \<open>\<open>CNIEndpointRequest\<close> as the server has it after decoding: a map and the bytes.\<close>

record CNIEndpointRequest =
  ArgEnv :: "string \<rightharpoonup> string"
  NetConfig :: string

fun load_args :: "string list \<Rightarrow> (string \<rightharpoonup> string) \<Rightarrow> (string \<rightharpoonup> string) + goerr" where
  "load_args [] mapArgs = Inl mapArgs"
| "load_args (arg # rest) mapArgs =
     (let parts = Split arg CHR ''='' in
      if length parts \<noteq> 2 then Inr (Errorf (''invalid CNI_ARG from cnishim '' @ arg))
      else load_args rest (mapArgs(TrimSpace (parts ! 0) \<mapsto> TrimSpace (parts ! 1))))"

definition loadCNIShimArgs :: "(string \<rightharpoonup> string) \<Rightarrow> (string \<rightharpoonup> string) + goerr" where
  "loadCNIShimArgs env =
     (case env ''CNI_ARGS'' of
        None \<Rightarrow> Inr (Errorf ''cnishim req missing CNI_ARGS'')
      | Some cnishimArgs \<Rightarrow> load_args (Split cnishimArgs CHR '';'') Map.empty)"

definition missing :: "string \<Rightarrow> 'a + goerr" where
  "missing k = Inr (Errorf (''cnishim req missing '' @ k))"

text \<open>
  The library functions \<open>config.ConfigureNetConf\<close> needs, as one argument, with the text of
  the error \<open>json.Unmarshal\<close> gives for a request that is no valid one.
\<close>

record 'nc netconf_lib =
  l_unmarshal :: "string \<Rightarrow> 'nc + goerr"
  l_has_prev :: "'nc \<Rightarrow> bool"
  l_parse_prev :: "'nc \<Rightarrow> 'nc \<times> goerr option"
  l_json_error :: "string \<Rightarrow> string"

definition loadCNIRequestToCNIServer :: "'nc netconf_lib \<Rightarrow> CNIEndpointRequest \<Rightarrow> 'nc CNIServerRequest + goerr" where
  "loadCNIRequestToCNIServer L r =
     (case ArgEnv r ''CNI_COMMAND'' of None \<Rightarrow> missing ''CNI_COMMAND'' | Some cmd \<Rightarrow>
      case ArgEnv r ''CNI_CONTAINERID'' of None \<Rightarrow> missing ''CNI_CONTAINERID'' | Some sandbox \<Rightarrow>
      case ArgEnv r ''CNI_NETNS'' of None \<Rightarrow> missing ''CNI_NETNS'' | Some netns \<Rightarrow>
      case ArgEnv r ''CNI_IFNAME'' of None \<Rightarrow> missing ''CNI_IFNAME'' | Some ifName \<Rightarrow>
      case loadCNIShimArgs (ArgEnv r) of Inr e \<Rightarrow> Inr e | Inl cnishimArgs \<Rightarrow>
      case cnishimArgs ''K8S_POD_NAMESPACE'' of None \<Rightarrow> missing ''K8S_POD_NAMESPACE'' | Some namespace \<Rightarrow>
      case cnishimArgs ''K8S_POD_NAME'' of None \<Rightarrow> missing ''K8S_POD_NAME'' | Some name \<Rightarrow>
      case ConfigureNetConf (l_unmarshal L) (l_has_prev L) (l_parse_prev L) (NetConfig r) of (netconf, err) \<Rightarrow>
      case err of
        Some e \<Rightarrow> Inr (Errorf (''cnishim req CNI arg configuration failed:'' @ Error e))
      | None \<Rightarrow> Inl \<lparr>Command = cmd, PodNamespace = namespace, PodName = name, SandboxID = sandbox, Netns = netns,
          IfName = ifName, CNIConf = netconf\<rparr>)"

text \<open>
  \<open>json.Unmarshal\<close> of the request: a byte slice is a base64 text or an array of small
  numbers; a repeated map is decoded into the map there is; null gives the zero value.
\<close>

fun decode_byte :: "json \<Rightarrow> char option" where
  "decode_byte (JNum t) =
     (if t \<noteq> [] \<and> list_all is_digit t then
        (let n = foldl (\<lambda>n c. n * 10 + the (digit_val c)) 0 t in if n < 256 then Some (char_of n) else None)
      else None)"
| "decode_byte JNull = Some (char_of (0 :: nat))"
| "decode_byte _ = None"

fun decode_bytes :: "json \<Rightarrow> string option" where
  "decode_bytes (JStr t) = b64_decode t"
| "decode_bytes (JArr vs) =
     (if list_all (\<lambda>v. decode_byte v \<noteq> None) vs then Some (map (\<lambda>v. the (decode_byte v)) vs) else None)"
| "decode_bytes JNull = Some []"
| "decode_bytes _ = None"

definition request_field :: "string \<Rightarrow> json \<Rightarrow> CNIEndpointRequest \<Rightarrow> CNIEndpointRequest option" where
  "request_field k v r =
     (if EqualFold k ''env'' then
        (case v of
           JNull \<Rightarrow> Some (r\<lparr>ArgEnv := Map.empty\<rparr>)
         | _ \<Rightarrow> map_option (\<lambda>m. r\<lparr>ArgEnv := ArgEnv r ++ m\<rparr>) (as_string_map v))
      else if EqualFold k ''config'' then map_option (\<lambda>b. r\<lparr>NetConfig := b\<rparr>) (decode_bytes v)
      else Some r)"

fun request_fields :: "(string \<times> json) list \<Rightarrow> CNIEndpointRequest \<Rightarrow> CNIEndpointRequest option" where
  "request_fields [] r = Some r"
| "request_fields ((k, v) # kvs) r = (case request_field k v r of None \<Rightarrow> None | Some r' \<Rightarrow> request_fields kvs r')"

definition zero_request :: CNIEndpointRequest where
  "zero_request = \<lparr>ArgEnv = Map.empty, NetConfig = []\<rparr>"

definition Unmarshal_request :: "string \<Rightarrow> CNIEndpointRequest option" where
  "Unmarshal_request b =
     (case Unmarshal_value b of
        Some (JObj kvs) \<Rightarrow> request_fields kvs zero_request
      | Some JNull \<Rightarrow> Some zero_request
      | _ \<Rightarrow> None)"

section \<open>The HTTP server\<close>

record http_response =
  http_Status :: nat
  http_Body :: string

definition http_Error :: "string \<Rightarrow> http_response" where
  "http_Error msg = \<lparr>http_Status = 400, http_Body = msg @ [CHR 0x0A]\<rparr>"

text \<open>
  A handler is given the request's body. Errors of reading the body and of writing the response are ignored, as in the code.
\<close>

definition handleCNIShimRequest :: "'nc netconf_lib \<Rightarrow> ('nc CNIServerRequest \<Rightarrow> ('s, string \<times> goerr option) go) \<Rightarrow> string \<Rightarrow>
    ('s, http_response) go" where
  "handleCNIShimRequest L requestFunc b =
     (case Unmarshal_request b of
        None \<Rightarrow> ret (http_Error (l_json_error L b))
      | Some cr \<Rightarrow>
          (case loadCNIRequestToCNIServer L cr of
             Inr err \<Rightarrow> ret (http_Error (Error err))
           | Inl req \<Rightarrow>
               bnd (requestFunc req) (\<lambda>(result, err). case err of
                 Some e \<Rightarrow> ret (http_Error (Error e))
               | None \<Rightarrow> ret \<lparr>http_Status = 200, http_Body = result\<rparr>)))"

definition CNIServerRunDir :: string where
  "CNIServerRunDir = ''/var/run/ovn4nfv-k8s-plugin/cniserver''"

definition CNIServerSocketName :: string where
  "CNIServerSocketName = ''ovn4nfv-k8s-plugin-cni-server.sock''"

definition CNIServerSocketPath :: string where
  "CNIServerSocketPath = CNIServerRunDir @ ''/'' @ CNIServerSocketName"

definition NewCNIServer :: "string \<Rightarrow> string" where
  "NewCNIServer serverRunSir = (if length serverRunSir = 0 then CNIServerRunDir else serverRunSir)"

text \<open>
  The socket: what \<open>Start\<close> asks of the operating system. \<open>os.Stat\<close> gives the owner,
  if the system says, and the mode bits.
\<close>

record 'w os_host =
  o_RemoveAll :: "string \<Rightarrow> 'w \<Rightarrow> goerr option \<times> 'w"
  o_Stat :: "string \<Rightarrow> 'w \<Rightarrow> (32 word option \<times> 32 word + goerr) \<times> 'w"
  o_Remove :: "string \<Rightarrow> 'w \<Rightarrow> goerr option \<times> 'w"
  o_MkdirAll :: "string \<Rightarrow> nat \<Rightarrow> 'w \<Rightarrow> goerr option \<times> 'w"
  o_Listen :: "string \<Rightarrow> 'w \<Rightarrow> goerr option \<times> 'w"
  o_Chmod :: "string \<Rightarrow> nat \<Rightarrow> 'w \<Rightarrow> goerr option \<times> 'w"
  o_CloseListener :: "'w \<Rightarrow> unit \<times> 'w"
  o_Serve :: "'w \<Rightarrow> unit \<times> 'w"

definition is_fatal :: "goerr option \<Rightarrow> bool" where
  "is_fatal err \<longleftrightarrow> (case err of Some e \<Rightarrow> \<not> IsNotExist e | None \<Rightarrow> False)"

definition check_rundir :: "'w os_host \<Rightarrow> string \<Rightarrow> string \<Rightarrow> (('w, 'z) gstate_scheme, goerr option) go" where
  "check_rundir Sys dir socketPath =
     bnd (ext (o_Stat Sys dir)) (\<lambda>r. case r of
       Inr e \<Rightarrow> ret (wrap_err (''failed to stat old cni server info socket directory '' @ dir) (Some e))
     | Inl (None, mode) \<Rightarrow> ret (Some (Errorf ''failed to read CNI Server info socket directory stat info''))
     | Inl (Some uid, mode) \<Rightarrow>
         if uid \<noteq> 0 then ret (Some (Errorf (''insecure owner of CNI Server info socket directory '' @ dir @ '': '' @ Itoa (unat uid))))
         else if and mode 0x1FF \<noteq> 0x1C0 then ret (Some (Errorf (''insecure permissions on CNI Server info socket directory '' @ dir)))
         else bnd (ext (o_Remove Sys socketPath)) (\<lambda>err.
           if is_fatal err then ret (wrap_err (''failed to remove old CNI Server info socket '' @ socketPath) err) else ret None))"

text \<open>
  Serving goes on in the background; the printed mode at the end of the permission error is left
  out; \<open>filepath.Join\<close> of a clean directory is a slash.
\<close>

definition Start :: "'w os_host \<Rightarrow> string \<Rightarrow> bool \<Rightarrow> (('w, 'z) gstate_scheme, goerr option) go" where
  "Start Sys dir has_handler =
     (if \<not> has_handler then ret (Some (Errorf ''no CNI request handler'')) else
      let socketPath = dir @ ''/'' @ CNIServerSocketName in
      bnd (ext (o_RemoveAll Sys dir)) (\<lambda>err.
      bnd (if is_fatal err then check_rundir Sys dir socketPath else ret None) (\<lambda>err.
      if err \<noteq> None then ret err else
      bnd (ext (o_MkdirAll Sys dir 0x1C0)) (\<lambda>err.
      if err \<noteq> None then ret (wrap_err (''failed to create CNI Server info socket directory '' @ dir) err) else
      bnd (ext (o_Listen Sys socketPath)) (\<lambda>err.
      if err \<noteq> None then ret (wrap_err ''failed to listen on CNI Server info socket'' err) else
      bnd (ext (o_Chmod Sys socketPath 0x180)) (\<lambda>err.
      if err \<noteq> None then bnd (ext (o_CloseListener Sys)) (\<lambda>_. ret (wrap_err ''failed to set CNI Server info socket mode'' err)) else
      bnd (ext (o_Serve Sys)) (\<lambda>_. ret None)))))))"

section \<open>The result of making the interfaces\<close>

text \<open>The default gateway values the entries get, one after the other, and whether one was chosen.\<close>

fun choices :: "string \<Rightarrow> (string \<rightharpoonup> string) list \<Rightarrow> bool \<Rightarrow> string list \<times> bool" where
  "choices ifName [] isd = ([], isd)"
| "choices ifName (m # ms) isd =
     (case gateway_choice ifName (lookup m ''interface'') (lookup m ''defaultGateway'') isd of (d, isd') \<Rightarrow>
      case choices ifName ms isd' of (ds, isd'') \<Rightarrow> (d # ds, isd''))"

lemma choices_snoc:
  "choices ifName (ms @ [m]) isd =
    (case choices ifName ms isd of (ds, isd') \<Rightarrow>
     case gateway_choice ifName (lookup m ''interface'') (lookup m ''defaultGateway'') isd' of (d, isd'') \<Rightarrow> (ds @ [d], isd''))"
  by (induction ms arbitrary: isd) (auto split: prod.splits)

lemma gives_ConfigureInterface:
  "gives (\<lambda>(ifs, err). err = None \<longrightarrow> length ifs = 2)
     (ConfigureInterface H ns sb ifn namesp pod mac ip gw i dg idx mtu isd)"
proof -
  have mk: "gives (\<lambda>(r, err). r = None \<longrightarrow> err \<noteq> None)
      (setupInterface H netns path sb i mac ip gw dg idx mtu isd)" for netns path i
    unfolding setupInterface_def Let_def by (intro gives_intros) (auto simp: wrap_err_def)
  have plug: "gives (\<lambda>(ifs, err). err = None \<longrightarrow> length ifs = 2) (case r of
        None \<Rightarrow> ret ([], err)
      | Some (hostIface, contIface) \<Rightarrow>
          bnd (CombinedOutput H p (args hostIface)) (\<lambda>(out, err).
          if err \<noteq> None then ret ([], wrap_err m err) else ret ([hostIface, contIface], None)))"
    if "r = None \<longrightarrow> err \<noteq> None" for r :: "(ifc \<times> ifc) option" and err p args m
    using that by (auto simp: wrap_err_def intro!: gives_intros split: option.splits prod.splits)
  show ?thesis
    unfolding ConfigureInterface_def Let_def
    by (rule gives_bnd_any, intro gives_prod gives_if gives_ret gives_bnd [OF mk] gives_bnd [OF plug] gives_bnd_any)
      (auto simp: wrap_err_def)
qed

text \<open>
  A result for \<open>k\<close> entries with \<open>d\<close> default routes: two interfaces for every entry,
  and the address of the \<open>j\<close>-th entry belongs to the container's end of its pair.
\<close>

definition result_ok :: "nat \<Rightarrow> nat \<Rightarrow> cni_result option \<Rightarrow> bool" where
  "result_ok k d dst = (case dst of
     None \<Rightarrow> k = 0 \<and> d = 0
   | Some r \<Rightarrow> length (res_IPs r) = k \<and> length (res_Interfaces r) = 2 * k \<and>
       (\<forall>j<k. ip_Interface (res_IPs r ! j) = Some (int (2 * j + 1))) \<and> length (res_Routes r) = d)"

definition one_interface :: "nat \<Rightarrow> cni_result \<Rightarrow> bool" where
  "one_interface d r \<longleftrightarrow> length (res_Interfaces r) = 2 \<and> map ip_Interface (res_IPs r) = [Some 1] \<and> length (res_Routes r) = d"

definition converts_current :: "('w, 'h) cni_host_scheme \<Rightarrow> bool" where
  "converts_current H \<longleftrightarrow> (\<forall>r. h_NewResultFromResult H r = Inl r)"

lemma mergeWithResult_ok:
  assumes "converts_current H" and "one_interface d' src" and "result_ok k d dst"
  shows "\<exists>dst'. mergeWithResult H src dst = (dst', None) \<and> result_ok (Suc k) (d + d') dst'"
proof (cases dst)
  case None
  with assms show ?thesis by (auto simp: mergeWithResult_def result_ok_def one_interface_def)
next
  case (Some r)
  from assms(2) obtain ip where "res_IPs src = [ip]" "ip_Interface ip = Some 1" by (auto simp: one_interface_def)
  moreover have "ip_Interface (shift_ip n ip) = Some (int n + 1)" for n
    using calculation(2) by (simp add: shift_ip_def)
  ultimately show ?thesis
    using assms Some by (auto simp: mergeWithResult_def result_ok_def one_interface_def converts_current_def nth_append less_Suc_eq)
qed

lemma gives_interface_result:
  "length ifs = 2 \<Longrightarrow> gives (one_interface (if dg = ''true'' then 1 else 0)) (interface_result ifs addr addrNet gw dg)"
  unfolding interface_result_def Let_def
  by (auto simp: one_interface_def gives_def split: sum.splits)

definition loop_ok :: "string \<Rightarrow> (string \<rightharpoonup> string) list \<Rightarrow> nat \<Rightarrow> bool \<times> nat \<times> cni_result option \<Rightarrow> bool" where
  "loop_ok ifName maps k = (\<lambda>(isd, index, dst). isd = snd (choices ifName (take k maps) False) \<and> index = k \<and>
     result_ok k (count_list (fst (choices ifName (take k maps) False)) ''true'') dst)"

lemma loop_ok_step:
  assumes "k < length maps" and "loop_ok ifName maps k (isd, idx, dst)" and "converts_current H"
    and "gateway_choice ifName (lookup (maps ! k) ''interface'') (lookup (maps ! k) ''defaultGateway'') isd = (dg, isd')"
    and "one_interface (if dg = ''true'' then 1 else 0) src"
    and "mergeWithResult H src dst = (dst', None)"
  shows "loop_ok ifName maps (Suc k) (isd', Suc idx, dst')"
proof -
  obtain ds where ch: "choices ifName (take k maps) False = (ds, isd)"
    using assms(2) by (cases "choices ifName (take k maps) False") (auto simp: loop_ok_def)
  have "choices ifName (take (Suc k) maps) False = (ds @ [dg], isd')"
    using assms(1,4) ch by (simp add: take_Suc_conv_app_nth choices_snoc)
  moreover have "result_ok (Suc k) (count_list ds ''true'' + (if dg = ''true'' then 1 else 0)) dst'"
    using mergeWithResult_ok [OF assms(3,5), of k "count_list ds ''true''" dst] assms(2,6) ch by (auto simp: loop_ok_def)
  ultimately show ?thesis using assms(2) by (auto simp: loop_ok_def)
qed

lemma gives_add_interface_step:
  assumes "converts_current H" and "k < length maps" and "loop_ok (IfName cr) maps k a"
  shows "gives (\<lambda>r. \<forall>a'. r = Inr a' \<longrightarrow> loop_ok (IfName cr) maps (Suc k) a')
    (add_interface_step H cr namesp pod (maps ! k) a)"
proof (cases a)
  case (fields isd idx dst)
  obtain dg isd' where ch: "gateway_choice (IfName cr) (lookup (maps ! k) ''interface'') (lookup (maps ! k) ''defaultGateway'') isd = (dg, isd')"
    by fastforce
  note step = loop_ok_step [OF assms(2) assms(3) [unfolded fields] assms(1) ch]
  show ?thesis
    unfolding fields add_interface_step_def prod.case Let_def ch
  proof (intro gives_if gives_ret gives_bnd [OF gives_ConfigureInterface] gives_prod, goal_cases)
    case (4 x ifs err)
    then have "length ifs = 2" by simp
    note res = gives_interface_result [OF this]
    show ?case
      using step by (auto intro!: gives_ret gives_bnd [OF res] split: sum.split prod.split)
  qed simp_all
qed

lemma gives_addMultipleInterfaces:
  assumes "converts_current H" and "parseOvnNetworkObject ann = Inl maps"
  shows "gives (\<lambda>r. r \<noteq> None \<longrightarrow> result_ok (length maps) (count_list (fst (choices (IfName cr) maps False)) ''true'') r)
    (addMultipleInterfaces H cr ann namesp pod)"
proof -
  have start: "loop_ok (IfName cr) maps 0 (False, 0, None)" by (simp add: loop_ok_def result_ok_def)
  note loop = gives_for_range [of maps "loop_ok (IfName cr) maps", OF gives_add_interface_step [OF assms(1)] start]
  show ?thesis
    unfolding addMultipleInterfaces_def assms(2) sum.case
    by (intro gives_if gives_ret gives_bnd [OF loop]) (auto simp: loop_ok_def intro!: gives_ret split: sum.split prod.split)
qed

text \<open>Named interfaces: the first that asks for the default route gets it.\<close>

definition named :: "(string \<rightharpoonup> string) \<Rightarrow> bool" where
  "named m \<longleftrightarrow> lookup m ''interface'' \<noteq> ''*''"

definition wants_default :: "(string \<rightharpoonup> string) \<Rightarrow> bool" where
  "wants_default m \<longleftrightarrow> lookup m ''defaultGateway'' = ''true''"

lemma gateway_choice_named:
  "i \<noteq> ''*'' \<Longrightarrow> gateway_choice ifName i dg isd =
    (if dg = ''true'' then (if isd then ''false'' else ''true'', True) else (dg, isd))"
  by (simp add: gateway_choice_def)

lemma gateway_choice_star:
  "gateway_choice ifName ''*'' dg isd = (if \<not> isd \<and> ifName = ''eth0'' then ''true'' else ''false'', isd)"
  by (simp add: gateway_choice_def)

lemma choices_named:
  "list_all named ms \<Longrightarrow> snd (choices ifName ms isd) = (isd \<or> list_ex wants_default ms) \<and>
    count_list (fst (choices ifName ms isd)) ''true'' = (if \<not> isd \<and> list_ex wants_default ms then 1 else 0)"
proof (induction ms arbitrary: isd)
  case (Cons m ms)
  then have "lookup m ''interface'' \<noteq> ''*''" by (simp add: named_def)
  note ch = gateway_choice_named [OF this]
  show ?case
  proof (cases "wants_default m")
    case True
    with Cons.IH [of True] Cons.prems show ?thesis
      by (cases "choices ifName ms True") (auto simp: ch wants_default_def)
  next
    case False
    with Cons.IH [of isd] Cons.prems show ?thesis
      by (cases "choices ifName ms isd") (auto simp: ch wants_default_def)
  qed
qed simp

lemma choices_star:
  assumes "list_all named ms" and "\<not> named m"
  shows "count_list (fst (choices ''eth0'' (ms @ [m]) False)) ''true'' = 1"
  using choices_named [OF assms(1), of "''eth0''" False] assms(2)
  by (cases "choices ''eth0'' ms False") (auto simp: choices_snoc gateway_choice_star named_def split: if_splits)


text \<open>A node on which every call succeeds, and a request for a pod with one interface.\<close>

definition demo_cni_host :: "IPTablesRule list cni_host" where
  "demo_cni_host = net_host.extend (demo_net_host\<lparr>
       h_SetupVeth := (\<lambda>i mtu w. (Inl (\<lparr>veth_Name = ''veth0'', veth_Mac = [1, 2, 3, 4, 5, 6]\<rparr>, \<lparr>veth_Name = i, veth_Mac = [1, 2, 3, 4, 5, 7]\<rparr>), w)),
       h_LinkByName := (\<lambda>n w. ((Some \<lparr>LinkName = n, LinkAlias = []\<rparr>, None), w)),
       h_ParseAddr := (\<lambda>t. Inl demo_cidr)\<rparr>)
     (cni_host.fields (\<lambda>ns n w. (Inr (StatusError 404 ''not found''), w)) (\<lambda>r. Inl r) (\<lambda>r. Inl ''{}''))"

definition demo_cni_state :: "IPTablesRule list cni_state" where
  "demo_cni_state = ovn_state.extend (gstate.extend \<lparr>world = [], execlog = []\<rparr> (ovn_state.fields (Some demo_runner) None None))
     (cni_state.fields Map.empty)"

definition demo_request :: "unit CNIServerRequest" where
  "demo_request = \<lparr>Command = ''ADD'', PodNamespace = ''default'', PodName = ''web'', SandboxID = ''0123456789abcdef'',
     Netns = ''/proc/42/ns/net'', IfName = ''eth0'', CNIConf = None\<rparr>"

definition star_entry :: port_entry where
  "star_entry = \<lparr>e_ip = dotted [172, 16, 33, 2], e_mask = Itoa 24, e_mac = MAC_String [10, 0, 0, 0, 0, 60], e_gw = dotted [172, 16, 33, 1],
     e_defaultGateway = None, e_interface = ''*''\<rparr>"

lemma star_entry_lookup:
  "lookup (entry_map star_entry) ''ip_address'' = dotted [172, 16, 33, 2] @ ''/'' @ Itoa 24"
  "lookup (entry_map star_entry) ''mac_address'' = MAC_String [10, 0, 0, 0, 0, 60]"
  "lookup (entry_map star_entry) ''gateway_ip'' = dotted [172, 16, 33, 1]"
  "lookup (entry_map star_entry) ''defaultGateway'' = []" "lookup (entry_map star_entry) ''interface'' = ''*''"
  by (simp_all add: lookup_def entry_map_def star_entry_def)

lemma demo_cni_host_simps [simp]:
  "h_GetNS demo_cni_host p w = ((0, None), w)" "h_NsEnter demo_cni_host n w = (None, w)" "h_NsLeave demo_cni_host n w = ((), w)"
  "h_NsClose demo_cni_host n w = ((), w)" "h_LinkSetDown demo_cni_host l w = (None, w)" "h_LinkSetUp demo_cni_host l w = (None, w)"
  "h_LinkSetName demo_cni_host l nm w = (None, w)" "h_LinkSetHardwareAddr demo_cni_host l hw w = (None, w)"
  "h_ParseAddr demo_cni_host t = Inl demo_cidr" "h_AddrAdd demo_cni_host l a w = (None, w)" "h_AddRoute demo_cni_host d g l w = (None, w)"
  "h_SetupVeth demo_cni_host i mtu w =
    (Inl (\<lparr>veth_Name = ''veth0'', veth_Mac = [1, 2, 3, 4, 5, 6]\<rparr>, \<lparr>veth_Name = i, veth_Mac = [1, 2, 3, 4, 5, 7]\<rparr>), w)"
  "h_LinkByName demo_cni_host nm w = ((Some \<lparr>LinkName = nm, LinkAlias = []\<rparr>, None), w)"
  "h_Combined demo_cni_host p' args w = (([], None), w)" "h_NewResultFromResult demo_cni_host r = Inl r"
  by (simp_all add: demo_cni_host_def demo_net_host_def ipt_host_def host.defs net_host.defs cni_host.defs)

lemma demo_setup_in_ns:
  "setup_in_ns demo_cni_host path hostNet i (MAC_String [10, 0, 0, 0, 0, 60]) ip (dotted [172, 16, 33, 1]) ''true'' mtu False s =
    (Returns (None, ''veth0'', MAC_String [1, 2, 3, 4, 5, 6], \<lparr>ifc_Name = i, ifc_Mac = MAC_String [10, 0, 0, 0, 0, 60], ifc_Sandbox = path\<rparr>), s)"
proof -
  have "ParseMAC (MAC_String [10, 0, 0, 0, 0, 60]) = Inl [10, 0, 0, 0, 0, 60]" by (rule ParseMAC_printed) simp
  moreover have "ParseIP (dotted [172, 16, 33, 1]) \<noteq> []" by (simp add: ParseIP_dotted v4InV6Prefix_def)
  ultimately show ?thesis
    by (cases s) (simp add: setup_in_ns_def Let_def ext_def bnd_def needs_host_route_def)
qed

lemma demo_interface:
  "\<exists>ifs s'. ConfigureInterface demo_cni_host ''/proc/42/ns/net'' ''0123456789abcdef'' ''eth0'' ''default'' ''web''
     (MAC_String [10, 0, 0, 0, 0, 60]) ip (dotted [172, 16, 33, 1]) ''*'' ''true'' (Suc 0) 1400 False demo_cni_state = (Returns (ifs, None), s')"
  by (simp add: ConfigureInterface_def setupInterface_def Let_def needs_host_route_def NetNS_Do_def slice_to_def renameLink_def
        CombinedOutput_def ext_def bnd_def demo_setup_in_ns)


section \<open>Waiting for the annotation\<close>

text \<open>
  The documented behaviour of \<open>wait.ExponentialBackoff\<close>: the condition is evaluated up to
  the given number of times, with a pause in between, until it holds or fails.
\<close>

definition retries :: "('w, 'z) backoff \<Rightarrow> ('w \<Rightarrow> unit \<times> 'w) \<Rightarrow> bool" where
  "retries B pause \<longleftrightarrow>
     (\<forall>cond. B 0 cond = ret (Some (OtherErr ''timed out waiting for the condition''))) \<and>
     (\<forall>n cond. B (Suc n) cond = bnd cond (\<lambda>(ok, err). if err \<noteq> None \<or> ok then ret err
       else if n = 0 then ret (Some (OtherErr ''timed out waiting for the condition'')) else bnd (ext pause) (\<lambda>_. B n cond)))"

text \<open>
  The annotations \<open>a\<close> appear at the query after the next \<open>k\<close>: until then the server
  answers with a pod that has no annotation of ours, or fails in another way than not finding
  the pod.
\<close>

fun appears :: "('w, 'h) cni_host_scheme \<Rightarrow> ('w \<Rightarrow> unit \<times> 'w) \<Rightarrow> string \<Rightarrow> string \<Rightarrow> nat \<Rightarrow> 'w \<Rightarrow> (string \<rightharpoonup> string) \<Rightarrow> bool" where
  "appears H pause ns name 0 w a =
     (case h_GetPod H ns name w of (Inl pod, _) \<Rightarrow> Annotations pod = a \<and> a ovn4nfvAnnotationTag \<noteq> None | (Inr e, _) \<Rightarrow> False)"
| "appears H pause ns name (Suc k) w a =
     (case h_GetPod H ns name w of
        (Inl pod, w') \<Rightarrow> Annotations pod ovn4nfvAnnotationTag = None \<and> appears H pause ns name k (snd (pause w')) a
      | (Inr e, w') \<Rightarrow> \<not> isNotFoundError e \<and> appears H pause ns name k (snd (pause w')) a)"

lemma annotation_ready_eval:
  "annotation_ready H ns name s = (case h_GetPod H ns name (world s) of
     (Inl pod, w) \<Rightarrow> (Returns (Annotations pod ovn4nfvAnnotationTag \<noteq> None, None), s\<lparr>world := w, annotation := Annotations pod\<rparr>)
   | (Inr e, w) \<Rightarrow> (Returns (False, if isNotFoundError e then wrap_err ''Error - pod not found -'' (Some e) else None),
       s\<lparr>world := w, annotation := Map.empty\<rparr>))"
  by (cases s) (auto simp: annotation_ready_def GetAnnotationsOnPod_def ext_def bnd_def split: prod.splits sum.splits)

lemma wait_for_annotation:
  assumes "retries B pause" and "appears H pause ns name k (world s) a" and "k < n"
  shows "\<exists>w. B n (annotation_ready H ns name) s = (Returns None, s\<lparr>world := w, annotation := a\<rparr>)"
  using assms(2,3)
proof (induction k arbitrary: n s)
  case 0
  then obtain m where n: "n = Suc m" by (cases n) auto
  from assms(1) 0 show ?case
    by (auto simp: n retries_def bnd_def annotation_ready_eval split: prod.splits sum.splits)
next
  case (Suc k)
  then obtain m where n: "n = Suc m" "k < m" by (cases n) auto
  obtain r w where get: "h_GetPod H ns name (world s) = (r, w)" by fastforce
  define s1 where "s1 = s\<lparr>world := snd (pause w), annotation := (case r of Inl pod \<Rightarrow> Annotations pod | Inr _ \<Rightarrow> Map.empty)\<rparr>"
  have m: "m \<noteq> 0" using n(2) by simp
  have "B n (annotation_ready H ns name) s = B m (annotation_ready H ns name) s1"
    using assms(1) Suc.prems(1) get m
    by (cases s) (auto simp: n s1_def retries_def bnd_def annotation_ready_eval ext_def split: sum.splits prod.splits)
  moreover have "appears H pause ns name k (world s1) a"
    using Suc.prems(1) get by (auto simp: s1_def split: sum.splits)
  ultimately show ?case using Suc.IH [OF _ n(2), of s1] by (cases s) (auto simp: s1_def)
qed

lemma cmdAdd_goes_on:
  assumes "retries B pause" and "PodNamespace cr \<noteq> []" and "PodName cr \<noteq> []"
    and "appears H pause (PodNamespace cr) (PodName cr) k (world s) a" and "k < 14"
  shows "\<exists>w. cmdAdd H B cr s = add_from_annotation H cr (s\<lparr>world := w, annotation := a\<rparr>)"
proof -
  have "appears H pause (PodNamespace cr) (PodName cr) k (world (s\<lparr>annotation := Map.empty\<rparr>)) a" using assms(4) by simp
  from wait_for_annotation [OF assms(1) this assms(5)] obtain w where
    "B 14 (annotation_ready H (PodNamespace cr) (PodName cr)) (s\<lparr>annotation := Map.empty\<rparr>) = (Returns None, s\<lparr>annotation := Map.empty, world := w, annotation := a\<rparr>)"
    by auto
  then show ?thesis using assms(2,3) by (cases s) (auto simp: cmdAdd_def Let_def)
qed

text \<open>
  C18. \<open>cmdAdd\<close> gets there. If the pod's annotation appears at one of the first 14
  queries, and before that the API server answers without it or fails for another reason than
  a missing pod, then \<open>cmdAdd\<close> goes on with exactly these annotations; waiting has run no
  command on the node.
\<close>

theorem cmdAdd_eventually:
  assumes "retries B pause" and "PodNamespace cr \<noteq> []" and "PodName cr \<noteq> []"
    and "appears H pause (PodNamespace cr) (PodName cr) k (world s) a" and "k < 14"
  shows "\<exists>w. cmdAdd H B cr s = add_from_annotation H cr (s\<lparr>world := w, annotation := a\<rparr>)"
  using assms by (rule cmdAdd_goes_on)

fun demo_backoff :: "('w, 'z) backoff" where
  "demo_backoff 0 cond = ret (Some (OtherErr ''timed out waiting for the condition''))"
| "demo_backoff (Suc n) cond = bnd cond (\<lambda>(ok, err). if err \<noteq> None \<or> ok then ret err
     else if n = 0 then ret (Some (OtherErr ''timed out waiting for the condition'')) else bnd (ext (\<lambda>w. ((), w))) (\<lambda>_. demo_backoff n cond))"

definition cni_pod :: Pod where
  "cni_pod = \<lparr>pod_Name = ''web'', pod_Namespace = ''default'', Annotations = [ovn4nfvAnnotationTag \<mapsto> ''{''],
     HostNetwork = False, NodeName = ''node1'', ContainerIDs = []\<rparr>"

theorem cmdAdd_eventually_witness:
  "\<exists>w. cmdAdd (demo_cni_host\<lparr>h_GetPod := (\<lambda>ns n w. (Inl cni_pod, w))\<rparr>) demo_backoff demo_request demo_cni_state =
    add_from_annotation (demo_cni_host\<lparr>h_GetPod := (\<lambda>ns n w. (Inl cni_pod, w))\<rparr>) demo_request
      (demo_cni_state\<lparr>world := w, annotation := [ovn4nfvAnnotationTag \<mapsto> ''{'']\<rparr>)"
  by (rule cmdAdd_eventually [where pause = "\<lambda>w. ((), w)" and k = 0])
    (simp_all add: retries_def demo_request_def cni_pod_def)



section \<open>Removing the interfaces\<close>

definition del_port :: "string \<Rightarrow> nat \<Rightarrow> string \<times> string list" where
  "del_port sandboxID i = (''ovs-vsctl'', [''del-port'', ''br-int'', take 14 sandboxID @ Itoa i])"

definition removable :: "('w, 'h) net_host_scheme \<Rightarrow> bool" where
  "removable H \<longleftrightarrow> (\<forall>args w out e w'. h_Combined H ''ovs-vsctl'' args w = ((out, Some e), w') \<longrightarrow> Contains out ''no port named'')"

lemma cleanup_step_eval:
  assumes "14 \<le> length sb"
  shows "\<exists>d w. cleanup_step H sb i u s = (Returns (if d then Inl () else Inr ()), s\<lparr>world := w, execlog := execlog s @ [del_port sb i]\<rparr>) \<and>
    (removable H \<longrightarrow> \<not> d)"
proof -
  obtain out err w where run: "h_Combined H ''ovs-vsctl'' (snd (del_port sb i)) (world s) = ((out, err), w)" by (metis surj_pair)
  let ?d = "err \<noteq> None \<and> \<not> Contains out ''no port named''"
  have "cleanup_step H sb i u s = (Returns (if ?d then Inl () else Inr ()), s\<lparr>world := w, execlog := execlog s @ [del_port sb i]\<rparr>)"
    using assms run
    by (cases s) (auto simp: cleanup_step_def slice_to_def PlatformSpecificCleanup_def CombinedOutput_def ext_def bnd_def del_port_def)
  moreover have "removable H \<longrightarrow> \<not> ?d" using run unfolding removable_def by (cases err) blast+
  ultimately show ?thesis by blast
qed

lemma cleanup_loop:
  assumes "14 \<le> length sb"
  shows "\<exists>r n w. for_range is () (cleanup_step H sb) s = (Returns r, s\<lparr>world := w, execlog := execlog s @ map (del_port sb) (take n is)\<rparr>) \<and>
    n \<le> length is \<and> (is \<noteq> [] \<longrightarrow> 1 \<le> n) \<and> (removable H \<longrightarrow> n = length is)"
proof (induction "is" arbitrary: s)
  case Nil
  show ?case by (cases s) simp
next
  case (Cons i js)
  from cleanup_step_eval [OF assms, of H i "()" s] obtain d w where
    step: "cleanup_step H sb i () s = (Returns (if d then Inl () else Inr ()), s\<lparr>world := w, execlog := execlog s @ [del_port sb i]\<rparr>)"
      "removable H \<longrightarrow> \<not> d" by blast
  show ?case
  proof (cases d)
    case True
    with step show ?thesis by (auto intro!: exI [of _ 1] exI [of _ w])
  next
    case False
    from Cons.IH [of "s\<lparr>world := w, execlog := execlog s @ [del_port sb i]\<rparr>"] obtain r n w' where
      "for_range js () (cleanup_step H sb) (s\<lparr>world := w, execlog := execlog s @ [del_port sb i]\<rparr>) =
        (Returns r, s\<lparr>world := w', execlog := execlog s @ [del_port sb i] @ map (del_port sb) (take n js)\<rparr>)"
      "n \<le> length js" "removable H \<longrightarrow> n = length js" by (cases s) auto
    with step False show ?thesis by (auto intro!: exI [of _ "Suc n"] exI [of _ w'])
  qed
qed

lemma cmdDel_returns:
  assumes "14 \<le> length (SandboxID cr)"
  shows "\<exists>n w. cmdDel H cr s = (Returns ([], None), s\<lparr>world := w, execlog := execlog s @ map (del_port (SandboxID cr)) [0..<n]\<rparr>) \<and>
     1 \<le> n \<and> n \<le> 10 \<and> (removable H \<longrightarrow> n = 10)"
proof -
  from cleanup_loop [OF assms, of "[0..<10]" H s] obtain r n w where
    "for_range [0..<10] () (cleanup_step H (SandboxID cr)) s =
      (Returns r, s\<lparr>world := w, execlog := execlog s @ map (del_port (SandboxID cr)) (take n [0..<10])\<rparr>)"
    "n \<le> 10" "1 \<le> n" "removable H \<longrightarrow> n = 10" by auto
  moreover from this have "take n [0..<10] = [0..<n]" by (simp add: take_upt)
  ultimately show ?thesis by (auto simp: cmdDel_def)
qed

text \<open>
  \<open>cmdDel\<close> with a container identifier of at least 14 characters always succeeds. It
  deletes the ports of the interfaces with index 0, 1, ... in order, up to index 9 unless a
  deletion fails for another reason than a missing port. A shorter identifier makes it panic
  before any port is deleted.
\<close>

lemma cmdDel_deletes:
  "if 14 \<le> length (SandboxID cr)
   then \<exists>n w. cmdDel H cr s = (Returns ([], None), s\<lparr>world := w, execlog := execlog s @ map (del_port (SandboxID cr)) [0..<n]\<rparr>) \<and>
     1 \<le> n \<and> n \<le> 10 \<and> (removable H \<longrightarrow> n = 10)
   else \<exists>e. cmdDel H cr s = (Panics e, s)"
proof (cases "14 \<le> length (SandboxID cr)")
  case True
  then show ?thesis using cmdDel_returns by auto
next
  case False
  have "[0..<10] = 0 # [1..<10]" by (simp add: upt_rec)
  with False show ?thesis by (simp add: cmdDel_def cleanup_step_def slice_to_def bnd_def)
qed

section \<open>The shim's arguments\<close>

definition clean_arg :: "string \<Rightarrow> bool" where
  "clean_arg s \<longleftrightarrow> CHR '';'' \<notin> set s \<and> CHR ''='' \<notin> set s \<and> TrimSpace s = s"

definition print_args :: "(string \<times> string) list \<Rightarrow> string" where
  "print_args kvs = Join (map (\<lambda>(k, v). k @ ''='' @ v) kvs) '';''"

lemma load_args_printed:
  "\<forall>(k, v)\<in>set kvs. clean_arg k \<and> clean_arg v \<Longrightarrow> load_args (map (\<lambda>(k, v). k @ ''='' @ v) kvs) m = Inl (m ++ map_of (rev kvs))"
  by (induction kvs arbitrary: m) (auto simp: clean_arg_def Split_two map_add_assoc [symmetric])

text \<open>
  The arguments of a CNI call, \<open>KEY=value\<close> texts joined by semicolons, are read back as
  the map they stand for, the last value of a key counting.
\<close>

lemma loadCNIShimArgs_printed:
  assumes "kvs \<noteq> []" and "\<forall>(k, v)\<in>set kvs. clean_arg k \<and> clean_arg v"
  shows "loadCNIShimArgs [''CNI_ARGS'' \<mapsto> print_args kvs] = Inl (map_of (rev kvs))"
proof -
  have "Split (print_args kvs) CHR '';'' = map (\<lambda>(k, v). k @ ''='' @ v) kvs"
    unfolding print_args_def using assms by (intro Split_Join) (auto simp: clean_arg_def)
  then show ?thesis using load_args_printed [OF assms(2), of Map.empty] by (simp add: loadCNIShimArgs_def)
qed

section \<open>The socket\<close>

text \<open>
  When the old socket directory cannot be removed, \<open>Start\<close> refuses to listen unless the
  directory belongs to root and only root may use it: it returns an error, and the last thing
  it has done is looking at the directory.
\<close>

lemma Start_refuses_insecure:
  assumes "o_RemoveAll Sys dir (world s) = (Some e, w1)" and "\<not> IsNotExist e"
    and "o_Stat Sys dir w1 = (Inl (Some uid, mode), w2)" and "uid \<noteq> 0 \<or> and mode 0x1FF \<noteq> 0x1C0"
  shows "\<exists>err. Start Sys dir True s = (Returns (Some err), s\<lparr>world := w2\<rparr>)"
  using assms by (cases "uid = 0") (simp_all add: Start_def Let_def is_fatal_def check_rundir_def ext_def bnd_def)

end
