(* ===== verification/AgentProcess.thy ===== *)
theory AgentProcess
  imports Agent CniServer
begin

text \<open>
  The process of the agent (\<open>main\<close> and \<open>shutdownHandler\<close> of
  \<open>cmd/nfn-agent/nfn-agent.go\<close>): the set-up, and then its two threads, the main one that
  waits for a signal or a reason to stop, and the one that subscribes and handles messages, as
  one relation of interleaved steps.
\<close>

section \<open>Set-up\<close>

text \<open>Outside the repository: the connection to the operator and the in-cluster client.\<close>

record 'w boot_host = "'w sub_host" +
  h_Dial :: "string \<Rightarrow> 'w \<Rightarrow> goerr option \<times> 'w"
  h_CloseConn :: "'w \<Rightarrow> unit \<times> 'w"
  h_InClusterConfig :: "'w \<Rightarrow> goerr option \<times> 'w"
  h_NewForConfig :: "'w \<Rightarrow> goerr option \<times> 'w"

text \<open>
  \<open>main\<close> up to the start of the second thread, and whether it gets there. The deferred
  \<open>conn.Close()\<close> runs on every return after the dialling.
\<close>

definition leave_main :: "('w, 'h) boot_host_scheme \<Rightarrow> (('w, 'z) gstate_scheme, bool) go" where
  "leave_main H = bnd (ext (h_CloseConn H)) (\<lambda>_. ret False)"

definition agent_setup :: "('w, 'h) boot_host_scheme \<Rightarrow> 'w os_host \<Rightarrow> (('w, 'z) agent_state_scheme, bool) go" where
  "agent_setup H Sys =
     bnd (Getenv H ''NFN_OPERATOR_SERVICE_HOST'') (\<lambda>host.
     bnd (Getenv H ''NFN_OPERATOR_SERVICE_PORT'') (\<lambda>port.
     bnd (SetExec H) (\<lambda>err.
     if err \<noteq> None then ret False else
     bnd (ext (h_Dial H (host @ '':'' @ port))) (\<lambda>err.
     if err \<noteq> None then ret False else
     bnd (ext (h_InClusterConfig H)) (\<lambda>err.
     if err \<noteq> None then leave_main H else
     bnd (ext (h_NewForConfig H)) (\<lambda>err.
     if err \<noteq> None then leave_main H else
     bnd (Start Sys (NewCNIServer []) True) (\<lambda>err.
     if err \<noteq> None then leave_main H else ret True)))))))"

section \<open>The two threads\<close>

text \<open>
  What ends the \<open>select\<close> of \<open>shutdownHandler\<close>, and the reason it logs: one of the three
  signals, by its name, or a text from the channel.
\<close>

datatype wake = Signal string | Reason string

definition signal_names :: "string list" where
  "signal_names = [''terminated'', ''interrupt'', ''hangup'']"

fun shutdownHandler :: "wake \<Rightarrow> string" where
  "shutdownHandler (Signal sig) = ''Received OS signal '' @ sig"
| "shutdownHandler (Reason r) = r"

text \<open>
  Where the threads are. The main thread waits in the \<open>select\<close>, returns from
  \<open>main\<close>, and then the process has ended, whatever the other thread does; a panic of the
  other thread ends it too. The other thread subscribes, receives, hands its reason over the
  unbuffered channel, or sleeps before its panic.
\<close>

datatype main_pc = Selecting | Leaving string | Ended string | Died string

datatype sub_pc = Subscribing | Receiving | Handing string | Asleep

record 's agent_proc =
  main_at :: main_pc
  sub_at :: sub_pc
  handled :: "Notification list"
  agent :: 's

fun live_pc :: "main_pc \<Rightarrow> bool" where
  "live_pc Selecting = True"
| "live_pc (Leaving _) = True"
| "live_pc _ = False"

definition live :: "'s agent_proc \<Rightarrow> bool" where
  "live p = live_pc (main_at p)"

inductive proc_step :: "('w, 'h) boot_host_scheme \<Rightarrow> string \<Rightarrow> ('w, 'z) agent_state_scheme agent_proc \<Rightarrow>
    ('w, 'z) agent_state_scheme agent_proc \<Rightarrow> bool" for H node where
  subscribe_again: "live p \<Longrightarrow> sub_at p = Subscribing \<Longrightarrow> ext (h_Subscribe H node) (agent p) = (Returns (Some e), s) \<Longrightarrow>
    proc_step H node p (p\<lparr>agent := s\<rparr>)"
| subscribed: "live p \<Longrightarrow> sub_at p = Subscribing \<Longrightarrow> ext (h_Subscribe H node) (agent p) = (Returns None, s) \<Longrightarrow>
    proc_step H node p (p\<lparr>sub_at := Receiving, agent := s\<rparr>)"
| message: "live p \<Longrightarrow> sub_at p = Receiving \<Longrightarrow> ext (h_Recv H) (agent p) = (Returns (Msg m), s) \<Longrightarrow>
    handleNotif H m s = (Returns u, t) \<Longrightarrow>
    proc_step H node p (p\<lparr>handled := handled p @ [m], agent := t\<rparr>)"
| handler_panic: "live p \<Longrightarrow> sub_at p = Receiving \<Longrightarrow> ext (h_Recv H) (agent p) = (Returns (Msg m), s) \<Longrightarrow>
    handleNotif H m s = (Panics e, t) \<Longrightarrow>
    proc_step H node p (p\<lparr>main_at := Died e, agent := t\<rparr>)"
| stream_eof: "live p \<Longrightarrow> sub_at p = Receiving \<Longrightarrow> ext (h_Recv H) (agent p) = (Returns EOF, s) \<Longrightarrow>
    proc_step H node p (p\<lparr>sub_at := Handing ''Stream closed'', agent := s\<rparr>)"
| stream_error: "live p \<Longrightarrow> sub_at p = Receiving \<Longrightarrow> ext (h_Recv H) (agent p) = (Returns (RecvErr e), s) \<Longrightarrow>
    proc_step H node p (p\<lparr>sub_at := Handing ''Stream closed from server'', agent := s\<rparr>)"
| handover: "main_at p = Selecting \<Longrightarrow> sub_at p = Handing r \<Longrightarrow>
    proc_step H node p (p\<lparr>main_at := Leaving (shutdownHandler (Reason r)), sub_at := Asleep\<rparr>)"
| signal: "main_at p = Selecting \<Longrightarrow> sig \<in> set signal_names \<Longrightarrow>
    proc_step H node p (p\<lparr>main_at := Leaving (shutdownHandler (Signal sig))\<rparr>)"
| wake: "live p \<Longrightarrow> sub_at p = Asleep \<Longrightarrow> Sleep H 10 (agent p) = (Returns u, s) \<Longrightarrow>
    proc_step H node p (p\<lparr>main_at := Died ''Shutdown failed. Panicking.'', agent := s\<rparr>)"
| leave: "main_at p = Leaving r \<Longrightarrow> ext (h_CloseConn H) (agent p) = (Returns u, s) \<Longrightarrow>
    proc_step H node p (p\<lparr>main_at := Ended r, agent := s\<rparr>)"

inductive_cases proc_stepE: "proc_step H node p q"

definition proc_init :: "'s \<Rightarrow> 's agent_proc" where
  "proc_init s = \<lparr>main_at = Selecting, sub_at = Subscribing, handled = [], agent = s\<rparr>"

text \<open>The states the process can reach from the agent's state \<open>s0\<close>.\<close>

inductive proc_reach :: "('w, 'h) boot_host_scheme \<Rightarrow> string \<Rightarrow> ('w, 'z) agent_state_scheme \<Rightarrow>
    ('w, 'z) agent_state_scheme agent_proc \<Rightarrow> bool" for H node s0 where
  boot: "proc_reach H node s0 (proc_init s0)"
| step: "proc_reach H node s0 p \<Longrightarrow> proc_step H node p q \<Longrightarrow> proc_reach H node s0 q"

section \<open>What the agent has stored at any moment\<close>

lemma ext_store_view: "ext f s = (Returns x, t) \<Longrightarrow> store_view t = store_view s"
  by (auto simp: ext_eval store_view_def)

lemma Sleep_store_view: "Sleep H n s = (Returns x, t) \<Longrightarrow> store_view t = store_view s"
  unfolding Sleep_def by (rule ext_store_view)

lemmas kept_views = ext_store_view Sleep_store_view

text \<open>Either the last message made the handler panic, or the store is what the handled messages say.\<close>

definition store_inv :: "('w, 'z) agent_state_scheme \<Rightarrow> ('w, 'z) agent_state_scheme agent_proc \<Rightarrow> bool" where
  "store_inv s0 p \<longleftrightarrow> store_view (agent p) = fold store_step (handled p) (store_view s0)"

lemma store_inv_step:
  assumes "proc_step H node p q" and "store_inv s0 p"
  shows "store_inv s0 q \<or> (\<exists>e. main_at q = Died e)"
  using assms
  by cases (auto simp: store_inv_def kept_views handleNotif_view)

lemma dead_stops: "proc_step H node p q \<Longrightarrow> main_at p \<noteq> Died e"
  by (auto elim!: proc_stepE simp: live_def)

lemma store_inv_reach: "proc_reach H node s0 p \<Longrightarrow> store_inv s0 p \<or> (\<exists>e. main_at p = Died e)"
proof (induction rule: proc_reach.induct)
  case boot
  show ?case by (simp add: store_inv_def proc_init_def)
next
  case (step p q)
  then show ?case using store_inv_step dead_stops by blast
qed

lemma fold_store_step:
  "fold store_step ms (False, []) = (list_ex is_insync ms, if list_ex is_insync ms then [] else List.map_filter create_of ms)"
proof (induction ms rule: rev_induct)
  case Nil
  show ?case by (simp add: map_filter_simps)
next
  case (snoc m ms)
  then show ?case by (simp add: store_step_cases map_filter_snoc del: store_step.simps)
qed

text \<open>Setting up leaves the store alone.\<close>

lemma keeps_setup: "keeps store_view (agent_setup H Sys)"
proof -
  have "keeps store_view (Start Sys dir True :: (('w, 'z) agent_state_scheme, goerr option) go)" for Sys :: "'w os_host" and dir
    unfolding Start_def check_rundir_def Let_def
    by (auto intro!: keeps_intros store.keeps_ext_view split: sum.splits option.splits simp del: ret_apply)
  moreover have "keeps store_view (SetExec H :: (('w, 'z) agent_state_scheme, goerr option) go)" for H :: "('w, 'h) boot_host_scheme"
    unfolding SetExec_def set_runner_def
    by (intro keeps_intros store.keeps_ext_view store.keeps_Getenv) (simp_all add: store_view_def)
  ultimately show ?thesis
    unfolding agent_setup_def leave_main_def by (intro keeps_intros store.keeps_ext_view store.keeps_Getenv)
qed

text \<open>
  C7. The store at every moment of the process, from the set-up of \<open>main\<close> on. However the two threads, the stream and the
  signals interleave, as long as no handler has panicked the agent is in sync exactly if it has
  handled an in-sync message; then its store is empty, and until then the store has exactly the
  provider networks announced so far, in the order they came.
\<close>

theorem agent_process_store:
  assumes "agent_setup H Sys s = (Returns True, s0)" and "\<not> inSync s" and "pnCreateStore s = []" and "proc_reach H node s0 p"
  shows "(\<exists>e. main_at p = Died e) \<or>
    (inSync (agent p) \<longleftrightarrow> list_ex is_insync (handled p)) \<and>
    pnCreateStore (agent p) = (if list_ex is_insync (handled p) then [] else List.map_filter create_of (handled p))"
proof -
  have "store_view s0 = (False, [])" using keeps_eq [OF keeps_setup assms(1)] assms(2,3) by (simp add: store_view_def)
  with store_inv_reach [OF assms(4)] show ?thesis
    by (auto simp: store_inv_def fold_store_step store_view_def)
qed

section \<open>How the process ends\<close>

lemma step_Handing:
  assumes "proc_step H node p q" and "main_at p = Selecting" and "sub_at p = Handing r"
  shows "main_at q = Leaving r \<and> sub_at q = Asleep \<or>
    (\<exists>sig\<in>set signal_names. main_at q = Leaving (''Received OS signal '' @ sig) \<and> sub_at q = Handing r)"
  using assms by cases auto

lemma step_Leaving:
  assumes "proc_step H node p q" and "main_at p = Leaving why" and "sub_at p = Asleep \<or> (\<exists>r. sub_at p = Handing r)"
  shows "main_at q = Ended why \<or> main_at q = Died ''Shutdown failed. Panicking.''"
  using assms by cases auto

lemma can_handover: "main_at p = Selecting \<Longrightarrow> sub_at p = Handing r \<Longrightarrow> \<exists>q. proc_step H node p q"
  by (blast intro: proc_step.handover)

lemma can_leave: "main_at p = Leaving why \<Longrightarrow> \<exists>q. proc_step H node p q"
  using proc_step.leave [where H = H and p = p] by (meson ext_eval)

lemma no_step_dead: "\<not> live p \<Longrightarrow> \<not> proc_step H node p q"
  by (auto elim!: proc_stepE simp: live_def)

text \<open>
  C19. After the end of the stream the process ends. Once the receiving thread has a reason to
  hand over while the main thread waits, every run takes exactly two more steps: it can always
  go on before the second, and it is over after it. It ends with that reason or with a
  signal that came at the same time, or, if the ten seconds are over first, with the agent's
  panic.
\<close>

theorem stream_end_stops:
  assumes "main_at p = Selecting" and "sub_at p = Handing r" and "(proc_step H node ^^ n) p q"
  shows "n \<le> 2 \<and> (n < 2 \<longrightarrow> (\<exists>q'. proc_step H node q q')) \<and>
    (n = 2 \<longrightarrow> main_at q = Ended r \<or> (\<exists>sig\<in>set signal_names. main_at q = Ended (''Received OS signal '' @ sig)) \<or>
      main_at q = Died ''Shutdown failed. Panicking.'')"
proof -
  have first: "main_at a = Leaving r \<and> sub_at a = Asleep \<or>
      (\<exists>sig\<in>set signal_names. main_at a = Leaving (''Received OS signal '' @ sig) \<and> sub_at a = Handing r)"
    if "proc_step H node p a" for a using step_Handing [OF that assms(1,2)] .
  have second: "main_at b = Ended r \<or> (\<exists>sig\<in>set signal_names. main_at b = Ended (''Received OS signal '' @ sig)) \<or>
      main_at b = Died ''Shutdown failed. Panicking.''"
    if "proc_step H node p a" and "proc_step H node a b" for a b
    using first [OF that(1)] step_Leaving [OF that(2)] by blast
  have over: "\<not> proc_step H node b c" if "proc_step H node p a" and "proc_step H node a b" for a b c
    using second [OF that] by (intro no_step_dead) (auto simp: live_def)
  consider (zero) "n = 0" | (one) "n = 1" | (two) "n = 2" | (more) m where "n = Suc (Suc (Suc m))"
    by (cases n rule: nat.exhaust; cases "n - 1" rule: nat.exhaust; cases "n - 2" rule: nat.exhaust) auto
  then show ?thesis
  proof cases
    case zero
    with assms(3) have "q = p" by simp
    with can_handover [OF assms(1,2), of H node] zero show ?thesis by simp
  next
    case one
    with assms(3) have "proc_step H node p q" by (auto simp: relcompp.simps)
    from first [OF this] can_leave show ?thesis using one by auto
  next
    case two
    with assms(3) obtain a where "proc_step H node p a" "proc_step H node a q" by (auto simp: numeral_2_eq_2 relcompp.simps)
    from second [OF this] two show ?thesis by simp
  next
    case more
    with assms(3) obtain a b c where "proc_step H node p a" "proc_step H node a b" "proc_step H node b c"
      by (metis relpowp_Suc_D2)
    then show ?thesis using over by blast
  qed
qed

text \<open>Whatever happens before: a process that ends without a panic says why.\<close>

definition stop_reasons :: "string list" where
  "stop_reasons = [''Stream closed'', ''Stream closed from server''] @ map (\<lambda>sig. ''Received OS signal '' @ sig) signal_names"

lemma reasons_reach:
  assumes "proc_reach H node s0 p"
  shows "(\<forall>why. main_at p = Leaving why \<or> main_at p = Ended why \<longrightarrow> why \<in> set stop_reasons) \<and>
    (\<forall>r. sub_at p = Handing r \<longrightarrow> r \<in> set stop_reasons)"
  using assms
proof (induction rule: proc_reach.induct)
  case boot
  show ?case by (simp add: proc_init_def)
next
  case (step p q)
  from step.hyps(2) step.IH show ?case by cases (auto simp: stop_reasons_def)
qed

section \<open>An example process\<close>

definition demo_boot_host :: "IPTablesRule list boot_host" where
  "demo_boot_host = sub_host.extend (agent_host.extend demo_agent_host
       (sub_host.fields (\<lambda>n w. (None, w)) (\<lambda>w. (Msg demo_create, w))))
     (boot_host.fields (\<lambda>a w. (None, w)) (\<lambda>w. ((), w)) (\<lambda>w. (None, w)) (\<lambda>w. (None, w)))"

lemma demo_agent_state_init: "\<not> inSync demo_agent_state" "pnCreateStore demo_agent_state = []"
  by (simp_all add: demo_agent_state_def ovn_state.defs gstate.defs agent_state.defs)

definition quiet_system :: "'w os_host" where
  "quiet_system = \<lparr>o_RemoveAll = \<lambda>p w. (None, w), o_Stat = \<lambda>p w. (Inr (NotExistErr p), w), o_Remove = \<lambda>p w. (None, w),
     o_MkdirAll = \<lambda>p m w. (None, w), o_Listen = \<lambda>p w. (None, w), o_Chmod = \<lambda>p m w. (None, w), o_CloseListener = \<lambda>w. ((), w),
     o_Serve = \<lambda>w. ((), w)\<rparr>"

lemma demo_boot_host_simps:
  "h_LookPath demo_boot_host = (\<lambda>p w. ((''/usr/bin/'' @ p, None), w))" "h_Getenv demo_boot_host = (\<lambda>v w. ([], w))"
  "h_Dial demo_boot_host = (\<lambda>a w. (None, w))" "h_InClusterConfig demo_boot_host = (\<lambda>w. (None, w))"
  "h_NewForConfig demo_boot_host = (\<lambda>w. (None, w))" "h_Subscribe demo_boot_host = (\<lambda>n w. (None, w))"
  "h_Recv demo_boot_host = (\<lambda>w. (Msg demo_create, w))"
  by (simp_all add: demo_boot_host_def sub_host.defs agent_host.defs boot_host.defs net_host.defs host.defs demo_agent_host_def demo_net_host_def
      ipt_host_def canned_host_def)

lemma demo_setup: "\<exists>s. agent_setup demo_boot_host quiet_system demo_agent_state = (Returns True, s) \<and> \<not> inSync s \<and> pnCreateStore s = []"
proof -
  have "\<exists>s. agent_setup demo_boot_host quiet_system demo_agent_state = (Returns True, s)"
    by (simp add: agent_setup_def SetExec_def set_runner_def Start_def Getenv_def quiet_system_def is_fatal_def demo_boot_host_simps ext_eval bnd_def)
  then obtain s where s: "agent_setup demo_boot_host quiet_system demo_agent_state = (Returns True, s)" ..
  from keeps_eq [OF keeps_setup s] have "store_view s = store_view demo_agent_state" .
  with s show ?thesis by (auto simp: store_view_def demo_agent_state_init)
qed

lemma demo_boot_message: "\<not> inSync s \<Longrightarrow> \<exists>t. handleNotif demo_boot_host demo_create s = (Returns (), t)"
  unfolding handleNotif_def demo_create_def by (simp add: getter_defs handle_create_stores)

lemma demo_process:
  assumes "\<not> inSync s"
  shows "\<exists>p. proc_reach demo_boot_host ''node1'' s p \<and> handled p = [demo_create] \<and> main_at p = Selecting"
proof -
  let ?p = "(proc_init s)\<lparr>sub_at := Receiving\<rparr>"
  obtain t where t: "handleNotif demo_boot_host demo_create s = (Returns (), t)" using demo_boot_message [OF assms] by blast
  let ?q = "?p\<lparr>handled := [demo_create], agent := t\<rparr>"
  have "proc_step demo_boot_host ''node1'' (proc_init s) (proc_init s\<lparr>sub_at := Receiving, agent := s\<rparr>)"
    by (rule proc_step.subscribed) (simp_all add: proc_init_def live_def ext_eval demo_boot_host_simps)
  then have "proc_step demo_boot_host ''node1'' (proc_init s) ?p" by (simp add: proc_init_def)
  moreover have "proc_step demo_boot_host ''node1'' ?p (?p\<lparr>handled := handled ?p @ [demo_create], agent := t\<rparr>)"
    by (rule proc_step.message [OF _ _ _ t]) (simp_all add: proc_init_def live_def ext_eval demo_boot_host_simps)
  then have "proc_step demo_boot_host ''node1'' ?p ?q" by (simp add: proc_init_def)
  ultimately have "proc_reach demo_boot_host ''node1'' s ?q" using proc_reach.boot proc_reach.step by blast
  then show ?thesis by (intro exI [of _ ?q]) (simp add: proc_init_def)
qed

theorem agent_process_store_witness:
  "\<exists>s p. agent_setup demo_boot_host quiet_system demo_agent_state = (Returns True, s) \<and> proc_reach demo_boot_host ''node1'' s p \<and>
    handled p = [demo_create] \<and> map pc_GetProviderNwName (pnCreateStore (agent p)) = [''pnet''] \<and> \<not> inSync (agent p)"
proof -
  obtain s where s: "agent_setup demo_boot_host quiet_system demo_agent_state = (Returns True, s)" "\<not> inSync s" using demo_setup by blast
  from demo_process [OF s(2)] obtain p where p: "proc_reach demo_boot_host ''node1'' s p" "handled p = [demo_create]" "main_at p = Selecting" by blast
  moreover have "create_of demo_create \<noteq> None" "pc_GetProviderNwName (the (create_of demo_create)) = ''pnet''" "\<not> is_insync demo_create"
    by (simp_all add: create_of_def is_insync_def ovn4nfv_payload_def demo_create_def getter_defs)
  ultimately show ?thesis
    using agent_process_store [OF s(1) demo_agent_state_init p(1)] s(1) by (intro exI [of _ s] exI [of _ p]) (auto simp: map_filter_simps)
qed

theorem stream_end_stops_witness:
  "let p = (proc_init demo_agent_state)\<lparr>sub_at := Handing ''Stream closed''\<rparr>
   in \<exists>q. (proc_step demo_boot_host ''node1'' ^^ 2) p q \<and> \<not> live q"
proof -
  let ?p = "(proc_init demo_agent_state)\<lparr>sub_at := Handing ''Stream closed''\<rparr>"
  have p: "main_at ?p = Selecting" "sub_at ?p = Handing ''Stream closed''" by (simp_all add: proc_init_def)
  obtain a where "proc_step demo_boot_host ''node1'' ?p a" using can_handover [OF p] by blast
  moreover from step_Handing [OF this p] obtain b where "proc_step demo_boot_host ''node1'' a b" using can_leave by blast
  ultimately have run: "(proc_step demo_boot_host ''node1'' ^^ 2) ?p b" by (auto simp: numeral_2_eq_2)
  from stream_end_stops [OF p run] have "\<not> live b" by (auto simp: live_def)
  with run show ?thesis by auto
qed

end
