(* ===== verification/Notify.thy ===== *)
theory Notify
  imports Chaining
begin

text \<open>
  \<open>internal/pkg/nfnNotify/server.go\<close> and \<open>internal/pkg/node/node.go\<close>: the operator's
  gRPC server, which keeps one stream per subscribed node and sends provider network and route
  notifications to all nodes, to any one node or to the nodes with given labels.
\<close>

section \<open>State and environment\<close>

text \<open>A client is nil-valued when the node never subscribed; a stream is an identifier.\<close>

record client =
  cl_context :: "SubscribeContext option"
  stream :: "nat option"

record serverDB =
  srv_name :: string
  clientList :: "(string \<times> client) list"

text \<open>
  The operator's state: the server and, as the log of commands, the messages handed to
  \<open>Send\<close> with their stream, in order.
\<close>

record 'w op_state = "'w chain_state" +
  notifServer :: "serverDB option"
  sent :: "(nat \<times> Notification) list"

record 'w op_host = "'w chain_host" +
  h_Send :: "nat \<Rightarrow> Notification \<Rightarrow> 'w \<Rightarrow> goerr option \<times> 'w"
  h_PnList :: "string \<Rightarrow> 'w \<Rightarrow> (ProviderNetwork list \<times> goerr option) \<times> 'w"
  h_PnUpdate :: "string \<Rightarrow> ProviderNetwork \<Rightarrow> 'w \<Rightarrow> goerr option \<times> 'w"
  h_NodeList :: "string \<Rightarrow> 'w \<Rightarrow> (string list + goerr) \<times> 'w"
  h_PnClientset :: "'w \<Rightarrow> goerr option \<times> 'w"
  h_KubeClientset :: "'w \<Rightarrow> goerr option \<times> 'w"
  h_Listen :: "string \<Rightarrow> 'w \<Rightarrow> goerr option \<times> 'w"
  h_Serve :: "'w \<Rightarrow> goerr option \<times> 'w"

definition newServer :: serverDB where
  "newServer = \<lparr>srv_name = ''nfnNotifServer'', clientList = []\<rparr>"

definition zero_client :: client where
  "zero_client = \<lparr>cl_context = None, stream = None\<rparr>"

definition GetClient :: "serverDB \<Rightarrow> string \<Rightarrow> client" where
  "GetClient srv nodeName = (case map_of (clientList srv) nodeName of Some val \<Rightarrow> val | None \<Rightarrow> zero_client)"

definition the_server :: "(('w, 'z) op_state_scheme, serverDB) go" where
  "the_server = bnd (gets notifServer) (\<lambda>srv. case srv of None \<Rightarrow> panic nil_deref | Some srv \<Rightarrow> ret srv)"

definition Send :: "('w, 'h) op_host_scheme \<Rightarrow> nat \<Rightarrow> Notification \<Rightarrow> (('w, 'z) op_state_scheme, goerr option) go" where
  "Send H str msg =
     bnd (modify (\<lambda>s. s\<lparr>sent := sent s @ [(str, msg)]\<rparr>)) (\<lambda>_. ext (h_Send H str msg))"

section \<open>Node logical ports\<close>

definition node_AddNodeLogicalPorts :: "('w, 'h) host_scheme \<Rightarrow> string \<Rightarrow>
    (('w, 'z) ovn_state_scheme, string \<times> string \<times> goerr option) go" where
  "node_AddNodeLogicalPorts H node =
     bnd GetOvnController (\<lambda>(_, err).
     if err \<noteq> None then ret ([], [], err) else
     bnd (AddNodeLogicalPorts H node) (\<lambda>(a, b, err).
     if err \<noteq> None then ret ([], [], err) else ret (a, b, None)))"

definition DeleteNodeLogicalPorts :: "string \<Rightarrow> string \<Rightarrow> goerr option" where
  "DeleteNodeLogicalPorts name namespace = None"

section \<open>Messages\<close>

definition createVlanMsg :: "ProviderNetwork \<Rightarrow> Notification" where
  "createVlanMsg pn = \<lparr>no_CniType = ''ovn4nfv'', Payload = Some (Notification_ProviderNwCreate (Some
     \<lparr>pc_ProviderNwName = Name (pn_meta pn),
      pc_Vlan = Some \<lparr>vi_VlanId = VlanId (Vlan (pn_Spec pn)), vi_ProviderIntf = vlan_ProviderInterfaceName (Vlan (pn_Spec pn)),
        vi_LogicalIntf = LogicalInterfaceName (Vlan (pn_Spec pn))\<rparr>,
      pc_Direct = None\<rparr>))\<rparr>"

definition deleteVlanMsg :: "ProviderNetwork \<Rightarrow> Notification" where
  "deleteVlanMsg pn = \<lparr>no_CniType = ''ovn4nfv'', Payload = Some (Notification_ProviderNwRemove (Some
     \<lparr>pr_ProviderNwName = Name (pn_meta pn), pr_VlanLogicalIntf = LogicalInterfaceName (Vlan (pn_Spec pn)),
      pr_DirectProviderIntf = []\<rparr>))\<rparr>"

definition createDirectMsg :: "ProviderNetwork \<Rightarrow> Notification" where
  "createDirectMsg pn = \<lparr>no_CniType = ''ovn4nfv'', Payload = Some (Notification_ProviderNwCreate (Some
     \<lparr>pc_ProviderNwName = Name (pn_meta pn), pc_Vlan = None,
      pc_Direct = Some \<lparr>di_ProviderIntf = direct_ProviderInterfaceName (Direct (pn_Spec pn))\<rparr>\<rparr>))\<rparr>"

definition deleteDirectMsg :: "ProviderNetwork \<Rightarrow> Notification" where
  "deleteDirectMsg pn = \<lparr>no_CniType = ''ovn4nfv'', Payload = Some (Notification_ProviderNwRemove (Some
     \<lparr>pr_ProviderNwName = Name (pn_meta pn), pr_VlanLogicalIntf = [],
      pr_DirectProviderIntf = direct_ProviderInterfaceName (Direct (pn_Spec pn))\<rparr>))\<rparr>"

section \<open>Sending\<close>

text \<open>
  The loop over a channel: \<open>nodeListIterator\<close> returns a nil channel when the nodes cannot
  be listed, and receiving from a nil channel blocks for ever. Otherwise the goroutine sends the
  names one by one and closes the channel; the loop is the only receiver, so it sees the names
  in order.
\<close>

definition nodeListIterator :: "('w, 'h) op_host_scheme \<Rightarrow> string \<Rightarrow> (('w, 'z) op_state_scheme, string list option) go" where
  "nodeListIterator H labels =
     bnd (ext (h_NodeList H labels)) (\<lambda>r. case r of Inr _ \<Rightarrow> ret None | Inl names \<Rightarrow> ret (Some names))"

definition range_chan :: "string list option \<Rightarrow> (('w, 'z) op_state_scheme, string list) go" where
  "range_chan ch = (case ch of None \<Rightarrow> block_forever | Some names \<Rightarrow> ret names)"

definition wanted :: "string \<Rightarrow> string \<Rightarrow> bool" where
  "wanted nodeReq name \<longleftrightarrow> \<not> (nodeReq \<noteq> [] \<and> nodeReq \<noteq> name)"

definition send_all_step :: "('w, 'h) op_host_scheme \<Rightarrow> Notification \<Rightarrow> string \<Rightarrow> string \<times> client \<Rightarrow> unit \<Rightarrow>
    (('w, 'z) op_state_scheme, goerr option + unit) go" where
  "send_all_step H msg nodeReq = (\<lambda>(name, c) _.
     if \<not> wanted nodeReq name then ret (Inr ()) else
     case stream c of
       None \<Rightarrow> ret (Inr ())
     | Some str \<Rightarrow> bnd (Send H str msg) (\<lambda>_. ret (Inr ())))"

definition send_any_step :: "('w, 'h) op_host_scheme \<Rightarrow> Notification \<Rightarrow> string \<times> client \<Rightarrow> unit \<Rightarrow>
    (('w, 'z) op_state_scheme, goerr option + unit) go" where
  "send_any_step H msg = (\<lambda>(_, c) _.
     case stream c of
       None \<Rightarrow> ret (Inr ())
     | Some str \<Rightarrow> bnd (Send H str msg) (\<lambda>err. if err \<noteq> None then ret (Inl err) else ret (Inl None)))"

definition send_node_step :: "('w, 'h) op_host_scheme \<Rightarrow> Notification \<Rightarrow> string \<Rightarrow> string \<Rightarrow> unit \<Rightarrow>
    (('w, 'z) op_state_scheme, goerr option + unit) go" where
  "send_node_step H msg nodeReq name u =
     (if \<not> wanted nodeReq name then ret (Inr ()) else
      bnd the_server (\<lambda>srv. case stream (GetClient srv name) of
        None \<Rightarrow> ret (Inr ())
      | Some str \<Rightarrow> bnd (Send H str msg) (\<lambda>err. if err \<noteq> None then ret (Inl err) else ret (Inr ()))))"

definition finish :: "goerr option + unit \<Rightarrow> (('w, 'z) op_state_scheme, goerr option) go" where
  "finish r = (case r of Inl err \<Rightarrow> ret err | Inr _ \<Rightarrow> ret None)"

definition sendMsg :: "('w, 'h) op_host_scheme \<Rightarrow> Notification \<Rightarrow> string \<Rightarrow> string \<Rightarrow> string \<Rightarrow>
    (('w, 'z) op_state_scheme, goerr option) go" where
  "sendMsg H msg labels opt nodeReq =
     (if opt = ''all'' then
        bnd the_server (\<lambda>srv. bnd (map_range H (clientList srv)) (\<lambda>cl.
        bnd (for_range cl () (send_all_step H msg nodeReq)) finish))
      else if opt = ''any'' then
        bnd the_server (\<lambda>srv. bnd (map_range H (clientList srv)) (\<lambda>cl.
        bnd (for_range cl () (send_any_step H msg)) finish))
      else
        bnd (nodeListIterator H labels) (\<lambda>ch. bnd (range_chan ch) (\<lambda>names.
        bnd (for_range names () (send_node_step H msg nodeReq)) finish)))"

text \<open>The copy shares nothing that is written; the API server's answer is dropped.\<close>

definition updatePnStatus :: "('w, 'h) op_host_scheme \<Rightarrow> ProviderNetwork \<Rightarrow> string \<Rightarrow> (('w, 'z) op_state_scheme, goerr option) go" where
  "updatePnStatus H pn status = ext (h_PnUpdate H (Namespace (pn_meta pn)) (pn\<lparr>pn_State := status\<rparr>))"

text \<open>
  The part the two provider network types share: \<open>Split\<close> never gives an empty slice, so
  the label check never fires (\<open>Split_nonempty\<close>); it is kept as written.
\<close>

definition dispatch :: "('w, 'h) op_host_scheme \<Rightarrow> ProviderNetwork \<Rightarrow> Notification \<Rightarrow> string \<Rightarrow> string list \<Rightarrow> string \<Rightarrow>
    (('w, 'z) op_state_scheme, goerr option) go" where
  "dispatch H pn msg selector labelList nodeReq =
     (if EqualFold selector ''SPECIFIC'' then
        (if list_ex (\<lambda>lbl. length (Split lbl CHR ''='') = 0) labelList then ret None
         else sendMsg H msg (Join labelList '','') ''specific'' nodeReq)
      else if EqualFold selector ''ALL'' then sendMsg H msg [] ''all'' nodeReq
      else if EqualFold selector ''ANY'' then
        (if pn_State pn \<noteq> Created then
           bnd (sendMsg H msg [] ''any'' nodeReq) (\<lambda>err.
           if err = None then bnd (updatePnStatus H pn Created) (\<lambda>_. ret err) else ret err)
         else ret None)
      else ret None)"

definition SendNotif :: "('w, 'h) op_host_scheme \<Rightarrow> ProviderNetwork \<Rightarrow> string \<Rightarrow> string \<Rightarrow>
    (('w, 'z) op_state_scheme, goerr option) go" where
  "SendNotif H pn msgType nodeReq =
     (if pn_CniType (pn_Spec pn) = ''ovn4nfv'' then
        (if ProviderNetType (pn_Spec pn) = ''VLAN'' then
           dispatch H pn
             (if msgType = ''create'' then createVlanMsg pn else if msgType = ''delete'' then deleteVlanMsg pn else zero_Notification)
             (VlanNodeSelector (Vlan (pn_Spec pn))) (vlan_NodeLabelList (Vlan (pn_Spec pn))) nodeReq
         else if ProviderNetType (pn_Spec pn) = ''DIRECT'' then
           dispatch H pn
             (if msgType = ''create'' then createDirectMsg pn else if msgType = ''delete'' then deleteDirectMsg pn else zero_Notification)
             (DirectNodeSelector (Direct (pn_Spec pn))) (direct_NodeLabelList (Direct (pn_Spec pn))) nodeReq
         else ret (Some (Errorf ''Unsupported Provider Network type'')))
      else ret (Some (Errorf ''Unsupported CNI type'')))"

definition route_data :: "Route \<Rightarrow> RouteData option" where
  "route_data r = Some \<lparr>rd_Dst = Dst r, rd_Gw = GW r\<rparr>"

definition route_msg :: "RoutingInfo \<Rightarrow> Notification" where
  "route_msg r = \<lparr>no_CniType = ''ovn4nfv'', Payload = Some (Notification_ContainterRtInsert (Some
     \<lparr>ci_ContainerId = ri_Id r,
      ci_Route = [route_data (LeftNetworkRoute r)] @ [route_data (RightNetworkRoute r)] @ map route_data (DynamicNetworkRoutes r)\<rparr>))\<rparr>"

text \<open>
  \<open>SendRouteNotif\<close>: the variable \<open>msg\<close> is set in every round when the type is create
  and stays zero otherwise; \<open>Send\<close> serialises the message before the variable is reused.
\<close>

definition send_route_step :: "('w, 'h) op_host_scheme \<Rightarrow> string \<Rightarrow> RoutingInfo \<Rightarrow> unit \<Rightarrow>
    (('w, 'z) op_state_scheme, goerr option + unit) go" where
  "send_route_step H msgType r u =
     (let msg = (if msgType = ''create'' then route_msg r else zero_Notification) in
      bnd the_server (\<lambda>srv. case stream (GetClient srv (ri_Node r)) of
        None \<Rightarrow> ret (Inr ())
      | Some str \<Rightarrow> bnd (Send H str msg) (\<lambda>err. if err \<noteq> None then ret (Inl err) else ret (Inr ()))))"

definition SendRouteNotif :: "('w, 'h) op_host_scheme \<Rightarrow> RoutingInfo list \<Rightarrow> string \<Rightarrow>
    (('w, 'z) op_state_scheme, goerr option) go" where
  "SendRouteNotif H infos msgType = bnd (for_range infos () (send_route_step H msgType)) finish"

section \<open>Subscribing\<close>

definition inSyncMsg :: "string \<Rightarrow> string \<Rightarrow> Notification" where
  "inSyncMsg ip mac = \<lparr>no_CniType = ''ovn4nfv'',
     Payload = Some (Notification_InSync (Some \<lparr>NodeIntfIpAddress = ip, NodeIntfMacAddress = mac\<rparr>))\<rparr>"

text \<open>
  Nothing is ever sent on \<open>stopChan\<close>, so the last loop of \<open>Subscribe\<close> keeps the stream
  open for ever. The receiver is the server registered by \<open>SetupNotifServer\<close>.
\<close>

definition Subscribe :: "('w, 'h) op_host_scheme \<Rightarrow> SubscribeContext option \<Rightarrow> nat option \<Rightarrow>
    (('w, 'z) op_state_scheme, goerr option) go" where
  "Subscribe H sc ss =
     (let nodeName = GetNodeName sc in
      if nodeName = [] then ret (Some (Errorf ''Node name can't be empty'')) else
      bnd (node_AddNodeLogicalPorts H nodeName) (\<lambda>(nodeIntfIPAddr, nodeIntfMacAddr, err). case err of
        Some e \<Rightarrow> ret (Some (Errorf (''Error in creating node logical port for node- '' @ nodeName @ '': '' @ Error e)))
      | None \<Rightarrow>
          bnd the_server (\<lambda>srv.
          bnd (modify (\<lambda>s. s\<lparr>notifServer := Some (srv\<lparr>clientList :=
                 AList.update nodeName \<lparr>cl_context = sc, stream = ss\<rparr> (clientList srv)\<rparr>)\<rparr>)) (\<lambda>_.
          bnd (ext (h_PnList H ''default'')) (\<lambda>(items, err).
          bnd (if err = None then
                 for_range items () (\<lambda>pn _. bnd (SendNotif H pn ''create'' nodeName) (\<lambda>_. ret (Inr () :: unit + unit)))
               else ret (Inr ())) (\<lambda>_.
          bnd (case ss of None \<Rightarrow> panic nil_deref | Some str \<Rightarrow> Send H str (inSyncMsg nodeIntfIPAddr nodeIntfMacAddr)) (\<lambda>_.
          block_forever)))))))"

text \<open>Set-up errors are only logged; \<open>Serve\<close> answers subscriptions until it fails.\<close>

definition SetupNotifServer :: "('w, 'h) op_host_scheme \<Rightarrow> (('w, 'z) op_state_scheme, unit) go" where
  "SetupNotifServer H =
     bnd (ext (h_PnClientset H)) (\<lambda>_.
     bnd (ext (h_KubeClientset H)) (\<lambda>_.
     bnd (ext (h_Listen H '':50000'')) (\<lambda>_.
     bnd (modify (\<lambda>s. s\<lparr>notifServer := Some newServer\<rparr>)) (\<lambda>_.
     bnd (ext (h_Serve H)) (\<lambda>_. ret ())))))"

section \<open>What is sent\<close>

definition sent_after :: "('w, 'z) op_state_scheme \<Rightarrow> 'w \<Rightarrow> (nat \<times> Notification) list \<Rightarrow> ('w, 'z) op_state_scheme" where
  "sent_after s w ms = s\<lparr>world := w, sent := sent s @ ms\<rparr>"

lemma sent_after_simps [simp]:
  "notifServer (sent_after s w ms) = notifServer s"
  "sent (sent_after s w ms) = sent s @ ms"
  "world (sent_after s w ms) = w"
  "sent_after (sent_after s w ms) w' ms' = sent_after s w' (ms @ ms')"
  "sent_after s (world s) [] = s"
  "runner (sent_after s w ms) = runner s"
  "execlog (sent_after s w ms) = execlog s"
  by (simp_all add: sent_after_def)

lemma Send_eval:
  "Send H str msg s = (Returns (fst (h_Send H str msg (world s))), sent_after s (snd (h_Send H str msg (world s))) [(str, msg)])"
  by (cases s) (simp add: Send_def ext_eval sent_after_def)

lemma the_server_eval [simp]: "notifServer s = Some srv \<Longrightarrow> the_server s = (Returns srv, s)"
  by (simp add: the_server_def)

text \<open>
  Sending to a list of addressees until the first failure: what the specific case of
  \<open>sendMsg\<close> and \<open>SendRouteNotif\<close> share. A step looks its addressee up in the server
  and stops the loop with the error of a failed send.
\<close>

definition sends_until_error :: "(nat \<times> Notification) list \<Rightarrow> goerr option \<Rightarrow> (nat \<times> Notification) list \<Rightarrow> bool" where
  "sends_until_error planned err ms \<longleftrightarrow> (\<exists>k. ms = take (Suc k) planned) \<and> (err = None \<longrightarrow> ms = planned)"

lemma sends_until_error_Cons:
  assumes "sends_until_error planned err ms"
  shows "sends_until_error (m # planned) err (m # ms)"
proof -
  from assms obtain k where "ms = take (Suc k) planned" by (auto simp: sends_until_error_def)
  then have "m # ms = take (Suc (Suc k)) (m # planned)" by simp
  with assms show ?thesis unfolding sends_until_error_def by blast
qed

locale addressed_send =
  fixes target :: "serverDB \<Rightarrow> 'x \<Rightarrow> (nat \<times> Notification) option"
    and step :: "('w, 'h) op_host_scheme \<Rightarrow> 'x \<Rightarrow> unit \<Rightarrow> (('w, 'z) op_state_scheme, goerr option + unit) go"
  assumes step_skip: "notifServer s = Some srv \<Longrightarrow> target srv x = None \<Longrightarrow> step H x u s = (Returns (Inr ()), s)"
    and step_send: "notifServer s = Some srv \<Longrightarrow> target srv x = Some (str, msg) \<Longrightarrow>
      step H x u s = bnd (Send H str msg) (\<lambda>err. if err \<noteq> None then ret (Inl err) else ret (Inr ())) s"
begin

lemma loop:
  assumes "notifServer s = Some srv"
  shows "\<exists>w ms err. bnd (for_range xs () (step H)) finish s = (Returns err, sent_after s w ms) \<and>
    sends_until_error (List.map_filter (target srv) xs) err ms"
  using assms
proof (induction xs arbitrary: s)
  case Nil
  show ?case
    by (intro exI [of _ "world s"] exI [of _ "[]"] exI [of _ None])
      (simp add: finish_def sends_until_error_def map_filter_def)
next
  case (Cons x xs)
  show ?case
  proof (cases "target srv x")
    case None
    have "bnd (for_range (x # xs) () (step H)) finish s = bnd (for_range xs () (step H)) finish s"
      using step_skip [OF Cons.prems None, of H "()"] by (simp add: bnd_assoc)
    with Cons.IH [OF Cons.prems] None show ?thesis by (simp add: map_filter_simps)
  next
    case (Some m)
    obtain str msg where m: "m = (str, msg)" by fastforce
    let ?r = "h_Send H str msg (world s)"
    let ?s = "sent_after s (snd ?r) [m]"
    show ?thesis
    proof (cases "fst ?r")
      case (Some e)
      have "bnd (for_range (x # xs) () (step H)) finish s = (Returns (Some e), ?s)"
        using step_send [OF Cons.prems \<open>target srv x = Some m\<close> [unfolded m], of H "()"] Some
        by (simp add: bnd_assoc Send_eval finish_def m)
      moreover have "sends_until_error (List.map_filter (target srv) (x # xs)) (Some e) [m]"
        using \<open>target srv x = Some m\<close> by (auto simp: sends_until_error_def map_filter_simps intro: exI [of _ 0])
      ultimately show ?thesis by blast
    next
      case None
      have "notifServer ?s = Some srv" using Cons.prems by simp
      from Cons.IH [OF this] obtain w ms err where
        IH: "bnd (for_range xs () (step H)) finish ?s = (Returns err, sent_after ?s w ms)"
        "sends_until_error (List.map_filter (target srv) xs) err ms" by blast
      have "bnd (for_range (x # xs) () (step H)) finish s = (Returns err, sent_after s w (m # ms))"
        using step_send [OF Cons.prems \<open>target srv x = Some m\<close> [unfolded m], of H "()"] None IH(1)
        by (simp add: bnd_assoc Send_eval m)
      moreover have "sends_until_error (List.map_filter (target srv) (x # xs)) err (m # ms)"
        using sends_until_error_Cons [OF IH(2)] \<open>target srv x = Some m\<close> by (simp add: map_filter_simps)
      ultimately show ?thesis by blast
    qed
  qed
qed

end

definition node_target :: "Notification \<Rightarrow> string \<Rightarrow> serverDB \<Rightarrow> string \<Rightarrow> (nat \<times> Notification) option" where
  "node_target msg nodeReq srv name =
     (if wanted nodeReq name then map_option (\<lambda>str. (str, msg)) (stream (GetClient srv name)) else None)"

definition route_target :: "string \<Rightarrow> serverDB \<Rightarrow> RoutingInfo \<Rightarrow> (nat \<times> Notification) option" where
  "route_target msgType srv r =
     map_option (\<lambda>str. (str, if msgType = ''create'' then route_msg r else zero_Notification)) (stream (GetClient srv (ri_Node r)))"

interpretation nodes: addressed_send "node_target msg nodeReq" "\<lambda>H. send_node_step H msg nodeReq"
  by unfold_locales (auto simp: node_target_def send_node_step_def split: if_splits)

interpretation routes: addressed_send "route_target msgType" "\<lambda>H. send_route_step H msgType"
  by unfold_locales (auto simp: route_target_def send_route_step_def Let_def)

section \<open>Sending to all, to any, to labelled nodes\<close>

definition targets :: "string \<Rightarrow> (string \<times> client) list \<Rightarrow> nat list" where
  "targets nodeReq cl = List.map_filter (\<lambda>(name, c). if wanted nodeReq name then stream c else None) cl"

lemma targets_Nil [simp]: "targets nodeReq [] = []"
  by (simp add: targets_def map_filter_simps)

lemma targets_Cons: "targets nodeReq ((name, c) # cl) =
    (case (if wanted nodeReq name then stream c else None) of None \<Rightarrow> targets nodeReq cl | Some str \<Rightarrow> str # targets nodeReq cl)"
  by (simp add: targets_def map_filter_simps split: option.splits)

lemma send_all_loop:
  "\<exists>w. for_range cl () (send_all_step H msg nodeReq) s =
    (Returns (Inr ()), sent_after s w (map (\<lambda>str. (str, msg)) (targets nodeReq cl)))"
proof (induction cl arbitrary: s)
  case Nil
  show ?case by (intro exI [of _ "world s"]) simp
next
  case (Cons x cl)
  obtain name c where x: "x = (name, c)" by fastforce
  show ?case
  proof (cases "if wanted nodeReq name then stream c else None")
    case None
    then have "for_range (x # cl) () (send_all_step H msg nodeReq) s = for_range cl () (send_all_step H msg nodeReq) s"
      by (auto simp: x send_all_step_def split: if_splits)
    with Cons [of s] None show ?thesis by (simp add: x targets_Cons)
  next
    case (Some str)
    let ?s = "sent_after s (snd (h_Send H str msg (world s))) [(str, msg)]"
    from Some have "for_range (x # cl) () (send_all_step H msg nodeReq) s = for_range cl () (send_all_step H msg nodeReq) ?s"
      by (auto simp: x send_all_step_def Send_eval split: if_splits)
    with Cons [of ?s] Some show ?thesis by (auto simp: x targets_Cons)
  qed
qed

lemma send_any_loop:
  "\<exists>w r. for_range cl () (send_any_step H msg) s =
    (Returns r, sent_after s w (map (\<lambda>str. (str, msg)) (take 1 (targets [] cl)))) \<and> (targets [] cl = [] \<longrightarrow> r = Inr ())"
proof (induction cl arbitrary: s)
  case Nil
  show ?case by (intro exI [of _ "world s"] exI [of _ "Inr ()"]) simp
next
  case (Cons x cl)
  obtain name c where x: "x = (name, c)" by fastforce
  show ?case
  proof (cases "stream c")
    case None
    with Cons [of s] show ?thesis by (simp add: x targets_Cons send_any_step_def)
  next
    case (Some str)
    let ?r = "h_Send H str msg (world s)"
    have "for_range (x # cl) () (send_any_step H msg) s =
        (Returns (Inl (fst ?r)), sent_after s (snd ?r) [(str, msg)])"
      using Some by (cases "fst ?r") (simp_all add: x send_any_step_def Send_eval)
    with Some show ?thesis by (auto simp: x targets_Cons wanted_def)
  qed
qed

lemma mset_targets_permute: "mset (targets nodeReq (permute cs cl)) = mset (targets nodeReq cl)"
  unfolding targets_def map_filter_def by (simp add: mset_permute mset_filter)

definition demo_server :: serverDB where
  "demo_server = \<lparr>srv_name = ''nfnNotifServer'', clientList =
     [(''node1'', \<lparr>cl_context = Some \<lparr>sc_NodeName = ''node1''\<rparr>, stream = Some 1\<rparr>),
      (''node2'', \<lparr>cl_context = Some \<lparr>sc_NodeName = ''node2''\<rparr>, stream = Some 2\<rparr>)]\<rparr>"

definition demo_op_state :: "unit op_state" where
  "demo_op_state = chain_state.extend demo_chain_state (op_state.fields (Some demo_server) [])"

lemma demo_op_state_simps [simp]:
  "notifServer demo_op_state = Some demo_server" "world demo_op_state = ()" "sent demo_op_state = []"
  "runner demo_op_state = Some demo_runner" "ovnCtl demo_op_state = None"
  by (simp_all add: demo_op_state_def demo_chain_state_def chain_state.defs op_state.defs ovn_state.defs gstate.defs)

definition demo_op_host :: "unit op_host" where
  "demo_op_host = chain_host.extend demo_chain_host
     (op_host.fields (\<lambda>str m w. (None, w)) (\<lambda>n w. (([], None), w)) (\<lambda>n p w. (None, w))
        (\<lambda>l w. (Inl [''node2'', ''node3'', ''node1''], w)) (\<lambda>w. (None, w)) (\<lambda>w. (None, w)) (\<lambda>p w. (None, w)) (\<lambda>w. (None, w)))"

lemma demo_op_nodes: "h_NodeList demo_op_host l w = (Inl [''node2'', ''node3'', ''node1''], w)"
  by (simp add: demo_op_host_def demo_chain_host_def chain_host.defs op_host.defs host.defs)

lemma sendMsg_all_run:
  assumes "notifServer s = Some srv"
  shows "\<exists>w cs. sendMsg H msg labels ''all'' nodeReq s =
    (Returns None, sent_after s w (map (\<lambda>str. (str, msg)) (targets nodeReq (permute cs (clientList srv)))))"
proof -
  obtain cs w where o: "h_Order H (world s) = (cs, w)" by fastforce
  let ?s = "s\<lparr>world := w\<rparr>" and ?cl = "permute cs (clientList srv)"
  obtain w' where loop: "for_range ?cl () (send_all_step H msg nodeReq) ?s =
      (Returns (Inr ()), sent_after ?s w' (map (\<lambda>str. (str, msg)) (targets nodeReq ?cl)))"
    using send_all_loop [of ?cl H msg nodeReq ?s] by blast
  have "sent_after ?s w' ms = sent_after s w' ms" for ms by (simp add: sent_after_def)
  with loop assms have "sendMsg H msg labels ''all'' nodeReq s =
      (Returns None, sent_after s w' (map (\<lambda>str. (str, msg)) (targets nodeReq ?cl)))"
    by (simp add: sendMsg_def map_range_def bnd_assoc ext_eval o finish_def)
  then show ?thesis by blast
qed

text \<open>
  C14. A notification for all nodes. Whatever order Go iterates the clients in and whatever
  sends fail, the call returns nil and the message is handed exactly once to the stream of every
  subscribed node, or, when a node is requested, of that node only, and to no other stream.
\<close>

theorem sendMsg_all:
  assumes "notifServer s = Some srv"
  shows "\<exists>w ms. sendMsg H msg labels ''all'' nodeReq s = (Returns None, sent_after s w ms) \<and>
    mset ms = mset (map (\<lambda>str. (str, msg)) (targets nodeReq (clientList srv)))"
  using sendMsg_all_run [OF assms, of H msg labels nodeReq] mset_targets_permute by fastforce

theorem sendMsg_all_witness:
  "\<exists>w ms. sendMsg demo_op_host zero_Notification [] ''all'' ''node2'' demo_op_state = (Returns None, sent_after demo_op_state w ms) \<and>
    mset ms = {#(2, zero_Notification)#}"
  using sendMsg_all [OF demo_op_state_simps(1), of demo_op_host zero_Notification "[]" "''node2''"]
  by (simp add: demo_server_def targets_Cons wanted_def)

lemma sendMsg_any_run:
  assumes "notifServer s = Some srv"
  shows "\<exists>w ms err. sendMsg H msg labels ''any'' nodeReq s = (Returns err, sent_after s w ms) \<and>
    (if targets [] (clientList srv) = [] then ms = [] \<and> err = None
     else \<exists>str \<in> set (targets [] (clientList srv)). ms = [(str, msg)])"
proof -
  obtain cs w where o: "h_Order H (world s) = (cs, w)" by fastforce
  let ?s = "s\<lparr>world := w\<rparr>" and ?cl = "permute cs (clientList srv)"
  obtain w' r where loop: "for_range ?cl () (send_any_step H msg) ?s =
      (Returns r, sent_after ?s w' (map (\<lambda>str. (str, msg)) (take 1 (targets [] ?cl))))"
    and none: "targets [] ?cl = [] \<longrightarrow> r = Inr ()"
    using send_any_loop [of ?cl H msg ?s] by blast
  have "sent_after ?s w' ms = sent_after s w' ms" for ms by (simp add: sent_after_def)
  with loop assms have run: "sendMsg H msg labels ''any'' nodeReq s =
      (Returns (case r of Inl e \<Rightarrow> e | Inr _ \<Rightarrow> None), sent_after s w' (map (\<lambda>str. (str, msg)) (take 1 (targets [] ?cl))))"
    by (simp add: sendMsg_def map_range_def bnd_assoc ext_eval o finish_def split: sum.splits)
  have eq: "set (targets [] ?cl) = set (targets [] (clientList srv))"
    using mset_targets_permute by (metis mset_eq_setD)
  show ?thesis
  proof (cases "targets [] ?cl")
    case Nil
    with eq have "targets [] (clientList srv) = []" by simp
    with run none Nil show ?thesis by auto
  next
    case (Cons str strs)
    with eq have "targets [] (clientList srv) \<noteq> []" "str \<in> set (targets [] (clientList srv))" by auto
    with run Cons show ?thesis by auto
  qed
qed

text \<open>
  C27. A notification for any node. At most one message is sent, to a subscribed node; with
  no subscribed node nothing is sent and the call still reports success (so that
  \<open>SendNotif\<close> marks the provider network as created).
\<close>

theorem sendMsg_any:
  assumes "notifServer s = Some srv"
  shows "\<exists>w ms err. sendMsg H msg labels ''any'' nodeReq s = (Returns err, sent_after s w ms) \<and>
    (if targets [] (clientList srv) = [] then ms = [] \<and> err = None
     else \<exists>str \<in> set (targets [] (clientList srv)). ms = [(str, msg)])"
  using assms by (rule sendMsg_any_run)

theorem sendMsg_any_witness:
  "\<exists>w ms err. sendMsg demo_op_host zero_Notification [] ''any'' [] demo_op_state = (Returns err, sent_after demo_op_state w ms) \<and>
    (ms = [(1, zero_Notification)] \<or> ms = [(2, zero_Notification)])"
  using sendMsg_any [OF demo_op_state_simps(1), of demo_op_host zero_Notification "[]" "[]"]
  by (auto simp: demo_server_def targets_Cons wanted_def)

lemma sendMsg_specific_run:
  assumes "notifServer s = Some srv" and "h_NodeList H labels (world s) = (r, w)"
  shows "case r of
      Inr e \<Rightarrow> sendMsg H msg labels ''specific'' nodeReq s = (Blocks, s\<lparr>world := w\<rparr>)
    | Inl names \<Rightarrow> \<exists>w' ms err. sendMsg H msg labels ''specific'' nodeReq s = (Returns err, sent_after s w' ms) \<and>
        sends_until_error (List.map_filter (node_target msg nodeReq srv) names) err ms"
proof (cases r)
  case (Inr e)
  with assms(2) show ?thesis
    by (simp add: sendMsg_def nodeListIterator_def ext_eval bnd_assoc range_chan_def)
next
  case (Inl names)
  let ?s = "s\<lparr>world := w\<rparr>"
  from assms(1) have "notifServer ?s = Some srv" by simp
  from nodes.loop [OF this, of names H msg nodeReq] obtain w' ms err where
    loop: "bnd (for_range names () (send_node_step H msg nodeReq)) finish ?s = (Returns err, sent_after ?s w' ms)"
    "sends_until_error (List.map_filter (node_target msg nodeReq srv) names) err ms" by blast
  have "sent_after ?s w' ms = sent_after s w' ms" by (simp add: sent_after_def)
  with loop(1) assms(2) Inl have "sendMsg H msg labels ''specific'' nodeReq s = (Returns err, sent_after s w' ms)"
    by (simp add: sendMsg_def nodeListIterator_def ext_eval bnd_assoc range_chan_def)
  with loop(2) Inl show ?thesis by auto
qed



text \<open>
  Route notifications go to the right nodes. Every entry of the routing information whose
  node is subscribed is sent to that node's stream, in order, until the first failed send; each
  message carries the container and its left, right and dynamic routes.
\<close>

lemma SendRouteNotif_targets:
  assumes "notifServer s = Some srv"
  shows "\<exists>w ms err. SendRouteNotif H infos ''create'' s = (Returns err, sent_after s w ms) \<and>
    sends_until_error (List.map_filter (\<lambda>r. map_option (\<lambda>str. (str, route_msg r)) (stream (GetClient srv (ri_Node r)))) infos) err ms"
proof -
  have "route_target ''create'' srv = (\<lambda>r. map_option (\<lambda>str. (str, route_msg r)) (stream (GetClient srv (ri_Node r))))"
    by (simp add: route_target_def fun_eq_iff)
  with routes.loop [OF assms, of infos H "''create''"] show ?thesis
    unfolding SendRouteNotif_def by metis
qed

end
