(* ===== verification/Controllers.thy ===== *)
theory Controllers
  imports Notify
begin

text \<open>
  The operator's controllers of \<open>pkg/controller\<close>: \<open>network_controller.go\<close>,
  \<open>providernetwork_controller.go\<close> and \<open>networkchaining_controller.go\<close>. Each
  reconciles one kind of custom resource: it keeps a finalizer on the object while it lives,
  undoes its work when the object is deleted, and otherwise makes the network and reports
  the outcome in the object's status.
\<close>

section \<open>The API client and the state\<close>

text \<open>
  \<open>r.client\<close>, for objects of one kind. \<open>Update\<close> and \<open>Status().Update\<close> decode
  the server's answer into the object they are given, so they return the object too; on an
  error it is as it was. The calls that write are logged in the state.
\<close>

record ('w, 'o) kclient =
  k_Get :: "string \<times> string \<Rightarrow> 'w \<Rightarrow> ('o + goerr) \<times> 'w"
  k_Update :: "'o \<Rightarrow> 'w \<Rightarrow> ('o + goerr) \<times> 'w"
  k_StatusUpdate :: "'o \<Rightarrow> 'w \<Rightarrow> ('o + goerr) \<times> 'w"

datatype 'o api_call = ApiUpdate 'o | ApiStatusUpdate 'o

record ('w, 'o) ctl_state = "'w op_state" +
  api :: "'o api_call list"

definition client_Get :: "('w, 'o) kclient \<Rightarrow> string \<times> string \<Rightarrow> (('w, 'o, 'z) ctl_state_scheme, 'o + goerr) go" where
  "client_Get r nn = ext (k_Get r nn)"

definition answer :: "'o \<Rightarrow> 'o + goerr \<Rightarrow> 'o \<times> goerr option" where
  "answer cr a = (case a of Inl cr' \<Rightarrow> (cr', None) | Inr e \<Rightarrow> (cr, Some e))"

definition client_Update :: "('w, 'o) kclient \<Rightarrow> 'o \<Rightarrow> (('w, 'o, 'z) ctl_state_scheme, 'o \<times> goerr option) go" where
  "client_Update r cr =
     bnd (modify (\<lambda>s. s\<lparr>api := api s @ [ApiUpdate cr]\<rparr>)) (\<lambda>_.
     bnd (ext (k_Update r cr)) (\<lambda>a. ret (answer cr a)))"

definition client_StatusUpdate :: "('w, 'o) kclient \<Rightarrow> 'o \<Rightarrow> (('w, 'o, 'z) ctl_state_scheme, 'o \<times> goerr option) go" where
  "client_StatusUpdate r cr =
     bnd (modify (\<lambda>s. s\<lparr>api := api s @ [ApiStatusUpdate cr]\<rparr>)) (\<lambda>_.
     bnd (ext (k_StatusUpdate r cr)) (\<lambda>a. ret (answer cr a)))"

record Result =
  Requeue :: bool

definition zero_Result :: Result where
  "zero_Result = \<lparr>Requeue = False\<rparr>"

section \<open>Networks\<close>

definition nfnNetworkFinalizer :: string where
  "nfnNetworkFinalizer = ''nfnCleanUpNetwork''"

definition nw_set_finalizers :: "string list \<Rightarrow> Network \<Rightarrow> Network" where
  "nw_set_finalizers fs cr = cr\<lparr>nw_meta := (nw_meta cr)\<lparr>Finalizers := fs\<rparr>\<rparr>"

definition nw_createNetwork :: "('w, 'h) host_scheme \<Rightarrow> ('w, Network) kclient \<Rightarrow> Network \<Rightarrow>
    (('w, Network, 'z) ctl_state_scheme, Network \<times> goerr option) go" where
  "nw_createNetwork H r cr =
     (if \<not> IsZero (DeletionTimestamp (nw_meta cr)) then ret (cr, None)
      else if nw_CniType (nw_Spec cr) = ''ovn4nfv'' then
        bnd GetOvnController (\<lambda>(_, err).
        if err \<noteq> None then ret (cr, err) else
        bnd (CreateNetwork H cr) (\<lambda>err.
        let cr = (if err \<noteq> None \<and> err \<noteq> Some LS_exists then cr\<lparr>nw_State := CreateInternalError\<rparr> else cr\<lparr>nw_State := Created\<rparr>) in
        bnd (client_StatusUpdate r cr) (\<lambda>(cr, err).
        if err \<noteq> None then ret (cr, err) else ret (cr, None))))
      else ret (cr, Some (Errorf ''CNI type not supported'')))"

definition nw_deleteNetwork :: "('w, 'h) host_scheme \<Rightarrow> ('w, Network) kclient \<Rightarrow> Network \<Rightarrow>
    (('w, Network, 'z) ctl_state_scheme, Network \<times> goerr option) go" where
  "nw_deleteNetwork H r cr =
     (if nw_CniType (nw_Spec cr) = ''ovn4nfv'' then
        bnd GetOvnController (\<lambda>(_, err).
        if err \<noteq> None then ret (cr, err) else
        bnd (DeleteNetwork H cr) (\<lambda>err.
        if err \<noteq> None then
          bnd (client_StatusUpdate r (cr\<lparr>nw_State := DeleteInternalError\<rparr>)) (\<lambda>(cr, err).
          if err \<noteq> None then ret (cr, err) else ret (cr, None))
        else ret (cr, None)))
      else ret (cr, Some (Errorf ''CNI type not supported'')))"

definition nw_reconcileFinalizers :: "('w, 'h) host_scheme \<Rightarrow> ('w, Network) kclient \<Rightarrow> Network \<Rightarrow>
    (('w, Network, 'z) ctl_state_scheme, Network \<times> goerr option) go" where
  "nw_reconcileFinalizers H r cr =
     (if \<not> IsZero (DeletionTimestamp (nw_meta cr)) then
        (if utils_Contains (Finalizers (nw_meta cr)) nfnNetworkFinalizer then
           bnd (nw_deleteNetwork H r cr) (\<lambda>(cr, _).
           bnd (client_Update r (nw_set_finalizers (utils_Remove (Finalizers (nw_meta cr)) nfnNetworkFinalizer) cr)) (\<lambda>(cr, err).
           if err \<noteq> None then ret (cr, err) else ret (cr, None)))
         else ret (cr, None))
      else
        (if \<not> utils_Contains (Finalizers (nw_meta cr)) nfnNetworkFinalizer then
           bnd (client_Update r (nw_set_finalizers (Finalizers (nw_meta cr) @ [nfnNetworkFinalizer]) cr)) (\<lambda>(cr, err).
           if err \<noteq> None then ret (cr, err) else ret (cr, None))
         else ret (cr, None)))"

definition nw_Reconcile :: "('w, 'h) host_scheme \<Rightarrow> ('w, Network) kclient \<Rightarrow> string \<times> string \<Rightarrow>
    (('w, Network, 'z) ctl_state_scheme, Result \<times> goerr option) go" where
  "nw_Reconcile H r request =
     bnd (client_Get r request) (\<lambda>g. case g of
       Inr err \<Rightarrow> if IsNotFound err then ret (zero_Result, None) else ret (zero_Result, Some err)
     | Inl cr \<Rightarrow>
         bnd (nw_reconcileFinalizers H r cr) (\<lambda>(cr, err).
         if err \<noteq> None then ret (zero_Result, err) else
         bnd (nw_createNetwork H r cr) (\<lambda>(_, err).
         if err \<noteq> None then ret (zero_Result, err) else ret (zero_Result, None))))"

section \<open>Provider networks\<close>

definition nfnProviderNetworkFinalizer :: string where
  "nfnProviderNetworkFinalizer = ''nfnCleanUpProviderNetwork''"

definition pn_set_finalizers :: "string list \<Rightarrow> ProviderNetwork \<Rightarrow> ProviderNetwork" where
  "pn_set_finalizers fs cr = cr\<lparr>pn_meta := (pn_meta cr)\<lparr>Finalizers := fs\<rparr>\<rparr>"

definition pn_createNetwork :: "('w, 'h) op_host_scheme \<Rightarrow> ('w, ProviderNetwork) kclient \<Rightarrow> ProviderNetwork \<Rightarrow>
    (('w, ProviderNetwork, 'z) ctl_state_scheme, ProviderNetwork \<times> goerr option) go" where
  "pn_createNetwork H r cr =
     (if \<not> IsZero (DeletionTimestamp (pn_meta cr)) then ret (cr, None)
      else if pn_CniType (pn_Spec cr) = ''ovn4nfv'' then
        bnd GetOvnController (\<lambda>(_, err).
        if err \<noteq> None then ret (cr, err) else
        bnd (CreateProviderNetwork H cr) (\<lambda>err.
        if err \<noteq> None \<and> err \<noteq> Some LS_exists then ret (cr\<lparr>pn_State := CreateInternalError\<rparr>, None)
        else
          bnd (SendNotif H cr ''create'' []) (\<lambda>err.
          let cr = (if err \<noteq> None then cr\<lparr>pn_State := CreateInternalError\<rparr> else cr\<lparr>pn_State := Created\<rparr>) in
          bnd (client_StatusUpdate r cr) (\<lambda>(cr, err).
          if err \<noteq> None then ret (cr, err) else ret (cr, None)))))
      else ret (cr, Some (Errorf ''CNI type not supported'')))"

definition pn_deleteNetwork :: "('w, 'h) op_host_scheme \<Rightarrow> ('w, ProviderNetwork) kclient \<Rightarrow> ProviderNetwork \<Rightarrow>
    (('w, ProviderNetwork, 'z) ctl_state_scheme, ProviderNetwork \<times> goerr option) go" where
  "pn_deleteNetwork H r cr =
     (if pn_CniType (pn_Spec cr) = ''ovn4nfv'' then
        bnd GetOvnController (\<lambda>(_, err).
        if err \<noteq> None then ret (cr, err) else
        bnd (SendNotif H cr ''delete'' []) (\<lambda>_.
        bnd (DeleteProviderNetwork H cr) (\<lambda>err.
        if err \<noteq> None then
          bnd (client_StatusUpdate r (cr\<lparr>pn_State := DeleteInternalError\<rparr>)) (\<lambda>(cr, err).
          if err \<noteq> None then ret (cr, err) else ret (cr, None))
        else ret (cr, None))))
      else ret (cr, Some (Errorf ''CNI type not supported'')))"

definition pn_reconcileFinalizers :: "('w, 'h) op_host_scheme \<Rightarrow> ('w, ProviderNetwork) kclient \<Rightarrow> ProviderNetwork \<Rightarrow>
    (('w, ProviderNetwork, 'z) ctl_state_scheme, ProviderNetwork \<times> goerr option) go" where
  "pn_reconcileFinalizers H r cr =
     (if \<not> IsZero (DeletionTimestamp (pn_meta cr)) then
        (if utils_Contains (Finalizers (pn_meta cr)) nfnProviderNetworkFinalizer then
           bnd (pn_deleteNetwork H r cr) (\<lambda>(cr, _).
           bnd (client_Update r (pn_set_finalizers (utils_Remove (Finalizers (pn_meta cr)) nfnProviderNetworkFinalizer) cr)) (\<lambda>(cr, err).
           if err \<noteq> None then ret (cr, err) else ret (cr, None)))
         else ret (cr, None))
      else
        (if \<not> utils_Contains (Finalizers (pn_meta cr)) nfnProviderNetworkFinalizer then
           bnd (client_Update r (pn_set_finalizers (Finalizers (pn_meta cr) @ [nfnProviderNetworkFinalizer]) cr)) (\<lambda>(cr, err).
           if err \<noteq> None then ret (cr, err) else ret (cr, None))
         else ret (cr, None)))"

definition pn_Reconcile :: "('w, 'h) op_host_scheme \<Rightarrow> ('w, ProviderNetwork) kclient \<Rightarrow> string \<times> string \<Rightarrow>
    (('w, ProviderNetwork, 'z) ctl_state_scheme, Result \<times> goerr option) go" where
  "pn_Reconcile H r request =
     bnd (client_Get r request) (\<lambda>g. case g of
       Inr err \<Rightarrow> if IsNotFound err then ret (zero_Result, None) else ret (zero_Result, Some err)
     | Inl cr \<Rightarrow>
         bnd (pn_reconcileFinalizers H r cr) (\<lambda>(cr, err).
         if err \<noteq> None then ret (zero_Result, err) else
         bnd (pn_createNetwork H r cr) (\<lambda>(_, err).
         if err \<noteq> None then ret (zero_Result, err) else ret (zero_Result, None))))"

section \<open>Network chains\<close>

definition nfnNetworkChainFinalizer :: string where
  "nfnNetworkChainFinalizer = ''nfnCleanUpNetworkChain''"

definition nc_set_finalizers :: "string list \<Rightarrow> NetworkChaining \<Rightarrow> NetworkChaining" where
  "nc_set_finalizers fs cr = cr\<lparr>nc_meta := (nc_meta cr)\<lparr>Finalizers := fs\<rparr>\<rparr>"

definition createChain :: "('w, 'h) op_host_scheme \<Rightarrow> ('w, NetworkChaining) kclient \<Rightarrow> NetworkChaining \<Rightarrow>
    (('w, NetworkChaining, 'z) ctl_state_scheme, NetworkChaining \<times> goerr option) go" where
  "createChain H r cr =
     (if \<not> IsZero (DeletionTimestamp (nc_meta cr)) then ret (cr, None)
      else if ChainType (nc_Spec cr) = ''Routing'' then
        bnd (CalculateRoutes H cr) (\<lambda>(routeList, err).
        if err \<noteq> None then ret (cr, err) else
        bnd (SendRouteNotif H routeList ''create'') (\<lambda>err.
        let cr = (if err \<noteq> None then cr\<lparr>nc_State := CreateInternalError\<rparr> else cr\<lparr>nc_State := Created\<rparr>) in
        bnd (client_StatusUpdate r cr) (\<lambda>(cr, err).
        if err \<noteq> None then ret (cr, err) else ret (cr, None))))
      else ret (cr, Some (Errorf ''Chaining type not supported'')))"

definition deleteChain :: "NetworkChaining \<Rightarrow> (('w, NetworkChaining, 'z) ctl_state_scheme, NetworkChaining \<times> goerr option) go" where
  "deleteChain cr = ret (cr, Some (Errorf ''Not Implemented''))"

definition nc_reconcileFinalizers :: "('w, NetworkChaining) kclient \<Rightarrow> NetworkChaining \<Rightarrow>
    (('w, NetworkChaining, 'z) ctl_state_scheme, NetworkChaining \<times> goerr option) go" where
  "nc_reconcileFinalizers r cr =
     (if \<not> IsZero (DeletionTimestamp (nc_meta cr)) then
        (if utils_Contains (Finalizers (nc_meta cr)) nfnNetworkChainFinalizer then
           bnd (deleteChain cr) (\<lambda>(cr, _).
           bnd (client_Update r (nc_set_finalizers (utils_Remove (Finalizers (nc_meta cr)) nfnNetworkChainFinalizer) cr)) (\<lambda>(cr, err).
           if err \<noteq> None then ret (cr, err) else ret (cr, None)))
         else ret (cr, None))
      else
        (if \<not> utils_Contains (Finalizers (nc_meta cr)) nfnNetworkChainFinalizer then
           bnd (client_Update r (nc_set_finalizers (Finalizers (nc_meta cr) @ [nfnNetworkChainFinalizer]) cr)) (\<lambda>(cr, err).
           if err \<noteq> None then ret (cr, err) else ret (cr, None))
         else ret (cr, None)))"

definition nc_Reconcile :: "('w, 'h) op_host_scheme \<Rightarrow> ('w, NetworkChaining) kclient \<Rightarrow> string \<times> string \<Rightarrow>
    (('w, NetworkChaining, 'z) ctl_state_scheme, Result \<times> goerr option) go" where
  "nc_Reconcile H r request =
     bnd (client_Get r request) (\<lambda>g. case g of
       Inr err \<Rightarrow> if IsNotFound err then ret (zero_Result, None) else ret (zero_Result, Some err)
     | Inl cr \<Rightarrow>
         bnd (nc_reconcileFinalizers r cr) (\<lambda>(cr, err).
         if err \<noteq> None then ret (zero_Result, err) else
         bnd (createChain H r cr) (\<lambda>(_, err).
         if err \<noteq> None then ret (zero_Result, err) else ret (zero_Result, None))))"

section \<open>The finalizer protocol\<close>

text \<open>
  What the three reconcilers share. \<open>fins\<close> is \<open>reconcileFinalizers\<close>, \<open>delete\<close>
  and \<open>create\<close> undo and do the work; the laws are the protocol: a live object gets the
  finalizer before anything else, an object marked for deletion loses it after the work was
  undone, whatever that gave, and nothing is created for it.
\<close>

locale finalized =
  fixes r :: "('w, 'o) kclient"
    and meta :: "'o \<Rightarrow> ObjectMeta"
    and set_fins :: "string list \<Rightarrow> 'o \<Rightarrow> 'o"
    and fin :: string
    and delete create fins :: "'o \<Rightarrow> (('w, 'o, 'z) ctl_state_scheme, 'o \<times> goerr option) go"
    and Rec :: "string \<times> string \<Rightarrow> (('w, 'o, 'z) ctl_state_scheme, Result \<times> goerr option) go"
  assumes meta_set: "meta (set_fins fs cr) = (meta cr)\<lparr>Finalizers := fs\<rparr>"
    and fins_delete: "\<not> IsZero (DeletionTimestamp (meta cr)) \<Longrightarrow> fin \<in> set (Finalizers (meta cr)) \<Longrightarrow>
      fins cr = bnd (delete cr) (\<lambda>(cr, _). client_Update r (set_fins (utils_Remove (Finalizers (meta cr)) fin) cr))"
    and fins_gone: "\<not> IsZero (DeletionTimestamp (meta cr)) \<Longrightarrow> fin \<notin> set (Finalizers (meta cr)) \<Longrightarrow> fins cr = ret (cr, None)"
    and fins_add: "IsZero (DeletionTimestamp (meta cr)) \<Longrightarrow> fin \<notin> set (Finalizers (meta cr)) \<Longrightarrow>
      fins cr = client_Update r (set_fins (Finalizers (meta cr) @ [fin]) cr)"
    and fins_has: "IsZero (DeletionTimestamp (meta cr)) \<Longrightarrow> fin \<in> set (Finalizers (meta cr)) \<Longrightarrow> fins cr = ret (cr, None)"
    and create_deleted: "\<not> IsZero (DeletionTimestamp (meta cr)) \<Longrightarrow> create cr = ret (cr, None)"
    and Rec_def: "Rec req = bnd (client_Get r req) (\<lambda>g. case g of
        Inr err \<Rightarrow> if IsNotFound err then ret (zero_Result, None) else ret (zero_Result, Some err)
      | Inl cr \<Rightarrow> bnd (fins cr) (\<lambda>(cr, err). if err \<noteq> None then ret (zero_Result, err)
          else bnd (create cr) (\<lambda>(_, err). if err \<noteq> None then ret (zero_Result, err) else ret (zero_Result, None))))"
begin

text \<open>An object that is not found is left alone.\<close>

lemma not_found:
  "k_Get r req (world s) = (Inr e, w) \<Longrightarrow> IsNotFound e \<Longrightarrow> Rec req s = (Returns (zero_Result, None), s\<lparr>world := w\<rparr>)"
  by (simp add: Rec_def client_Get_def ext_def bnd_def)

text \<open>If the finalizer cannot be stored, nothing else happens.\<close>

lemma finalizer_refused:
  assumes "k_Get r req (world s) = (Inl cr, w1)" and "IsZero (DeletionTimestamp (meta cr))"
    and "fin \<notin> set (Finalizers (meta cr))"
    and "k_Update r (set_fins (Finalizers (meta cr) @ [fin]) cr) w1 = (Inr e, w2)"
  shows "Rec req s = (Returns (zero_Result, Some e),
    s\<lparr>world := w2, api := api s @ [ApiUpdate (set_fins (Finalizers (meta cr) @ [fin]) cr)]\<rparr>)"
  using assms by (simp add: Rec_def client_Get_def ext_def bnd_def fins_add client_Update_def answer_def)

text \<open>A live object that has the finalizer: its creation decides.\<close>

lemma live:
  assumes "k_Get r req (world s) = (Inl cr, w)" and "IsZero (DeletionTimestamp (meta cr))"
    and "fin \<in> set (Finalizers (meta cr))" and "create cr (s\<lparr>world := w\<rparr>) = (Returns (cr', err), t)"
  shows "Rec req s = (Returns (zero_Result, err), t)"
  using assms by (simp add: Rec_def client_Get_def ext_def bnd_def fins_has)

text \<open>
  An object marked for deletion: after undoing the work the finalizer, and only that, is
  removed, the answer of that update is what \<open>Reconcile\<close> returns, and nothing is created,
  provided the server keeps the deletion mark.
\<close>

lemma deletion:
  assumes get: "k_Get r req (world s) = (Inl cr, w)" and marked: "\<not> IsZero (DeletionTimestamp (meta cr))"
    and fin: "fin \<in> set (Finalizers (meta cr))" and del: "delete cr (s\<lparr>world := w\<rparr>) = (Returns (cr', de), t)"
    and upd: "k_Update r (set_fins (utils_Remove (Finalizers (meta cr')) fin) cr') (world t) = (a, w')"
    and kept: "\<And>cr''. a = Inl cr'' \<Longrightarrow> \<not> IsZero (DeletionTimestamp (meta cr''))"
  shows "\<exists>e. Rec req s = (Returns (zero_Result, e),
      t\<lparr>world := w', api := api t @ [ApiUpdate (set_fins (utils_Remove (Finalizers (meta cr')) fin) cr')]\<rparr>) \<and>
    (e = None \<longleftrightarrow> (\<exists>cr''. a = Inl cr''))"
  using assms
  by (cases a) (simp_all add: Rec_def client_Get_def ext_def bnd_def fins_delete client_Update_def answer_def create_deleted)

end

text \<open>The three reconcilers follow the protocol.\<close>

lemma ret_pair_eta: "(\<lambda>(cr, err). if err \<noteq> None then ret (cr, err) else ret (cr, None)) = ret"
  by (auto simp: fun_eq_iff)

lemmas protocol_simps = ret_pair_eta utils_Contains_iff IsZero_def

interpretation nw: finalized r nw_meta nw_set_finalizers nfnNetworkFinalizer
  "nw_deleteNetwork H r" "nw_createNetwork H r" "nw_reconcileFinalizers H r" "nw_Reconcile H r"
  for H :: "('w, 'h) host_scheme" and r :: "('w, Network) kclient"
  by unfold_locales
    (simp_all add: nw_set_finalizers_def nw_reconcileFinalizers_def nw_createNetwork_def nw_Reconcile_def protocol_simps del: not_None_eq)

interpretation pn: finalized r pn_meta pn_set_finalizers nfnProviderNetworkFinalizer
  "pn_deleteNetwork H r" "pn_createNetwork H r" "pn_reconcileFinalizers H r" "pn_Reconcile H r"
  for H :: "('w, 'h) op_host_scheme" and r :: "('w, ProviderNetwork) kclient"
  by unfold_locales
    (simp_all add: pn_set_finalizers_def pn_reconcileFinalizers_def pn_createNetwork_def pn_Reconcile_def protocol_simps del: not_None_eq)

interpretation nc: finalized r nc_meta nc_set_finalizers nfnNetworkChainFinalizer
  deleteChain "createChain H r" "nc_reconcileFinalizers r" "nc_Reconcile H r"
  for H :: "('w, 'h) op_host_scheme" and r :: "('w, NetworkChaining) kclient"
  by unfold_locales
    (simp_all add: nc_set_finalizers_def nc_reconcileFinalizers_def createChain_def nc_Reconcile_def protocol_simps del: not_None_eq)

section \<open>Properties of the reconcilers\<close>

text \<open>A server that stores what it is given, and a state of the operator, for the examples.\<close>

definition demo_client :: "'o + goerr \<Rightarrow> ('w, 'o) kclient" where
  "demo_client g = \<lparr>k_Get = (\<lambda>req w. (g, w)), k_Update = (\<lambda>cr w. (Inl cr, w)), k_StatusUpdate = (\<lambda>cr w. (Inl cr, w))\<rparr>"

definition demo_ctl_state :: "(unit, 'o) ctl_state" where
  "demo_ctl_state = op_state.extend (demo_op_state\<lparr>ovnCtl := Some \<lparr>gatewayCache = Map.empty\<rparr>\<rparr>) (ctl_state.fields [])"

lemma demo_ctl_state_simps [simp]:
  "runner demo_ctl_state = Some demo_runner" "world demo_ctl_state = ()" "execlog demo_ctl_state = []"
  "ovnCtl demo_ctl_state = Some \<lparr>gatewayCache = Map.empty\<rparr>" "sent demo_ctl_state = []" "api demo_ctl_state = []"
  by (simp_all add: demo_ctl_state_def demo_op_state_def demo_chain_state_def chain_state.defs op_state.defs ovn_state.defs
      gstate.defs ctl_state.defs)

definition demo_pn :: ProviderNetwork where
  "demo_pn = \<lparr>pn_meta = \<lparr>Name = ''pnetwork'', Namespace = ''default'', DeletionTimestamp = None, Finalizers = []\<rparr>,
     pn_Spec = \<lparr>pn_CniType = ''ovn4nfv'', pn_Ipv4Subnets = [demo_subnet], pn_Ipv6Subnets = [],
       pn_DNS = \<lparr>Nameservers = [], Domain = [], Search = [], Options = []\<rparr>, pn_Routes = [], ProviderNetType = ''VLAN'',
       Vlan = \<lparr>VlanId = ''100'', VlanNodeSelector = ''all'', vlan_NodeLabelList = [], vlan_ProviderInterfaceName = ''eth1'',
         LogicalInterfaceName = ''eth1.100''\<rparr>,
       Direct = \<lparr>DirectNodeSelector = [], direct_NodeLabelList = [], direct_ProviderInterfaceName = []\<rparr>\<rparr>, pn_State = []\<rparr>"

text \<open>
  C34. The finalizer comes first. When the finalizer of a live provider network cannot be
  stored, \<open>Reconcile\<close> returns that error with one update tried, and no OVN command was run
  and no node was notified: nothing exists that a later deletion would have to undo.
\<close>

theorem pn_Reconcile_finalizer_first:
  assumes "k_Get r req (world s) = (Inl cr, w1)" and "IsZero (DeletionTimestamp (pn_meta cr))"
    and "nfnProviderNetworkFinalizer \<notin> set (Finalizers (pn_meta cr))"
    and "k_Update r (pn_set_finalizers (Finalizers (pn_meta cr) @ [nfnProviderNetworkFinalizer]) cr) w1 = (Inr e, w2)"
  shows "\<exists>t. pn_Reconcile H r req s = (Returns (zero_Result, Some e), t) \<and>
    execlog t = execlog s \<and> sent t = sent s \<and>
    api t = api s @ [ApiUpdate (pn_set_finalizers (Finalizers (pn_meta cr) @ [nfnProviderNetworkFinalizer]) cr)]"
  using pn.finalizer_refused [OF assms, of H] by simp

theorem pn_Reconcile_finalizer_first_witness:
  "\<exists>t. pn_Reconcile demo_op_host ((demo_client (Inl demo_pn))\<lparr>k_Update := (\<lambda>cr w. (Inr (StatusError 409 ''conflict''), w))\<rparr>) ([], []) demo_ctl_state
      = (Returns (zero_Result, Some (StatusError 409 ''conflict'')), t) \<and>
    execlog t = [] \<and> sent t = [] \<and> length (api t) = 1"
  using pn_Reconcile_finalizer_first [of "(demo_client (Inl demo_pn))\<lparr>k_Update := (\<lambda>cr w. (Inr (StatusError 409 ''conflict''), w))\<rparr>"
      "([], [])" demo_ctl_state demo_pn "()" "StatusError 409 ''conflict''" "()" demo_op_host]
  by (auto simp: demo_client_def demo_pn_def IsZero_def)

text \<open>The server keeps the deletion mark of an object it stores.\<close>

definition keeps_mark :: "('o \<Rightarrow> ObjectMeta) \<Rightarrow> ('w, 'o) kclient \<Rightarrow> bool" where
  "keeps_mark meta r \<longleftrightarrow>
     (\<forall>cr w cr'. fst (k_Update r cr w) = Inl cr' \<longrightarrow> DeletionTimestamp (meta cr') = DeletionTimestamp (meta cr)) \<and>
     (\<forall>cr w cr'. fst (k_StatusUpdate r cr w) = Inl cr' \<longrightarrow> DeletionTimestamp (meta cr') = DeletionTimestamp (meta cr))"

lemma wpe_client_StatusUpdate:
  assumes "\<And>a w. fst (k_StatusUpdate r cr (world s)) = a \<Longrightarrow> Q (answer cr a) (s\<lparr>world := w, api := api s @ [ApiStatusUpdate cr]\<rparr>)"
  shows "wpe (client_StatusUpdate r cr) Q E s"
  using assms [OF refl, of "snd (k_StatusUpdate r cr (world s))"]
  by (cases s) (simp add: client_StatusUpdate_def wpe_simps ext_eval wpe_def bnd_def split: prod.splits)

lemma answer_mark:
  "keeps_mark meta r \<Longrightarrow> DeletionTimestamp (meta (fst (answer cr (fst (k_StatusUpdate r cr w))))) = DeletionTimestamp (meta cr)"
  by (auto simp: answer_def keeps_mark_def split: sum.splits)

definition lrp_del_cmd :: "execHelper \<Rightarrow> string \<Rightarrow> string \<times> string list" where
  "lrp_del_cmd R name = nbctl_cmd R [''--if-exist'', ''--wait=hv'', ''lrp-del'', ''rtos-'' @ name]"

definition ls_del_cmd :: "execHelper \<Rightarrow> string \<Rightarrow> string \<times> string list" where
  "ls_del_cmd R name = nbctl_cmd R [''--if-exist'', ''--wait=hv'', ''ls-del'', name]"

definition nw_undo_script :: "execHelper \<Rightarrow> string \<Rightarrow> (string \<times> string list) list" where
  "nw_undo_script R name = [lrp_del_cmd R name, ls_del_cmd R name]"

lemma wpe_DeleteNetwork:
  assumes "runner s = Some R" and "reliable H"
    and "\<And>err w n. (err = None \<longrightarrow> n = 2) \<Longrightarrow> Q err (after s w (take n (nw_undo_script R (Name (nw_meta cr)))))"
  shows "wpe (DeleteNetwork H cr) Q E s"
proof -
  let ?cs = "[lrp_del_cmd R (Name (nw_meta cr)), ls_del_cmd R (Name (nw_meta cr))]"
  have R': "runner (after s w cs) = Some R" for w cs using assms(1) by simp
  have "Q (Some e) (after s w [lrp_del_cmd R (Name (nw_meta cr))])" for e w
    using assms(3) [of "Some e" 1 w] by (simp add: nw_undo_script_def)
  moreover have "Q err (after s w ?cs)" for err w using assms(3) [of err 2 w] by (simp add: nw_undo_script_def)
  ultimately show ?thesis
    unfolding DeleteNetwork_def Let_def wpe_bnd
    by (intro wpe_RunOVNNbctl_reliable [OF assms(1,2)])
      (auto simp: wpe_simps lrp_del_cmd_def ls_del_cmd_def intro!: wpe_RunOVNNbctl_reliable [OF R' assms(2)] simp del: append_Cons)
qed

lemma wpe_GetOvnController:
  "(\<And>oc. ovnCtl s = Some oc \<Longrightarrow> Q (Some oc, None) s) \<Longrightarrow> (\<And>e. ovnCtl s = None \<Longrightarrow> Q (None, Some e) s) \<Longrightarrow>
   wpe GetOvnController Q E s"
  by (cases "ovnCtl s") (simp_all add: GetOvnController_def wpe_simps)

definition undone :: "('o \<Rightarrow> ObjectMeta) \<Rightarrow> 'o \<Rightarrow> ('w, 'o, 'z) ctl_state_scheme \<Rightarrow> (string \<times> string list) list \<Rightarrow>
    'o \<times> goerr option \<Rightarrow> ('w, 'o, 'z) ctl_state_scheme \<Rightarrow> bool" where
  "undone meta cr s script = (\<lambda>(cr', err) t. DeletionTimestamp (meta cr') = DeletionTimestamp (meta cr) \<and>
     (\<exists>n cs. execlog t = execlog s @ take n script \<and> api t = api s @ cs) \<and> sent t = sent s)"

lemma undone_after:
  "undone meta cr s script (cr, err) (after s w (take n script))"
  "undone meta cr s script (cr, err) s"
  unfolding undone_def by (auto intro!: exI [of _ n] exI [of _ "[]"]) (auto intro!: exI [of _ "0 :: nat"] simp: after_def)

lemma undone_status:
  assumes "keeps_mark meta r" and "meta cr' = meta cr"
  shows "undone meta cr s script (answer cr' (fst (k_StatusUpdate r cr' w')))
    ((after s w (take n script))\<lparr>world := w'', api := api s @ [ApiStatusUpdate cr']\<rparr>)"
  using answer_mark [OF assms(1), of cr' w'] assms(2)
  by (auto simp: undone_def after_def split: prod.splits)

lemma wpe_nw_deleteNetwork:
  assumes R: "runner s = Some R" "reliable H" and mark: "keeps_mark nw_meta r"
  shows "wpe (nw_deleteNetwork H r cr)
    (undone nw_meta cr s (nw_undo_script R (Name (nw_meta cr)))) E s"
proof -
  let ?cs = "(nw_undo_script R (Name (nw_meta cr)))"
  have st: "wpe (client_StatusUpdate r (cr\<lparr>nw_State := DeleteInternalError\<rparr>)) (undone nw_meta cr s ?cs) E (after s w (take n ?cs))" for w n
    by (rule wpe_client_StatusUpdate) (use undone_status [OF mark, of "cr\<lparr>nw_State := DeleteInternalError\<rparr>" cr s ?cs] in \<open>auto simp: after_def\<close>)
  show ?thesis
    unfolding nw_deleteNetwork_def wpe_if wpe_bnd wpe_ret ret_pair_eta bnd_ret_right
    using st undone_after [of nw_meta cr s ?cs]
    by (auto simp: wpe_simps intro!: wpe_GetOvnController wpe_DeleteNetwork [OF R])
qed


definition deleted_network :: Network where
  "deleted_network = demo_network\<lparr>nw_meta := (nw_meta demo_network)\<lparr>DeletionTimestamp := Some 1, Finalizers := [nfnNetworkFinalizer, ''other'']\<rparr>\<rparr>"


text \<open>
  Reconciling again is harmless. For a live network that has its finalizer and whose
  switch OVN already lists, \<open>Reconcile\<close> runs the one command that asks for the switch,
  changes nothing in OVN, and stores the status \<open>Created\<close>; it returns what storing the
  status gave.
\<close>

lemma nw_Reconcile_existing:
  assumes "runner s = Some R" and "ovnCtl s = Some oc"
    and "k_Get r req (world s) = (Inl cr, w)" and "IsZero (DeletionTimestamp (nw_meta cr))"
    and "nfnNetworkFinalizer \<in> set (Finalizers (nw_meta cr))" and "nw_CniType (nw_Spec cr) = ''ovn4nfv''"
    and "nw_Ipv4Subnets (nw_Spec cr) = sn # rest"
    and "h_exec H (find_switch_cmd R (Name (nw_meta cr))) w = ((out, se, None), w')" and "unquote out = Name (nw_meta cr)"
    and "k_StatusUpdate r (cr\<lparr>nw_State := Created\<rparr>) w' = (a, w'')"
  shows "nw_Reconcile H r req s = (Returns (zero_Result, snd (answer cr a)),
    (after s w'' [find_switch_cmd R (Name (nw_meta cr))])\<lparr>api := api s @ [ApiStatusUpdate (cr\<lparr>nw_State := Created\<rparr>)]\<rparr>)"
proof -
  let ?s = "s\<lparr>world := w\<rparr>" and ?c = "find_switch_cmd R (Name (nw_meta cr))"
  have "RunOVNNbctl H [''--data=bare'', ''--no-heading'', ''--columns=name'', ''find'', ''logical_switch'', ''name='' @ Name (nw_meta cr)] ?s
      = (Returns (Name (nw_meta cr), se, None), after ?s w' [?c])"
    using RunOVNNbctl_once [of ?s R H] assms(1,8,9) by (simp add: find_switch_cmd_def)
  then have "createOvnLS H (Name (nw_meta cr)) sub gw ex ?s = (Returns ([], Some LS_exists), after ?s w' [?c])" for sub gw ex
    by (simp add: createOvnLS_def)
  then have "CreateNetwork H cr ?s = (Returns (Some LS_exists), after ?s w' [?c])"
    using assms(7) by (simp add: CreateNetwork_def Let_def)
  then have "nw_createNetwork H r cr ?s = (Returns (fst (answer (cr\<lparr>nw_State := Created\<rparr>) a), snd (answer cr a)),
      (after s w'' [?c])\<lparr>api := api s @ [ApiStatusUpdate (cr\<lparr>nw_State := Created\<rparr>)]\<rparr>)"
    using assms(2,4,6,10)
    by (cases s; cases a) (simp_all add: nw_createNetwork_def GetOvnController_def client_StatusUpdate_def ext_def bnd_def answer_def after_def Let_def)
  then show ?thesis by (rule nw.live [OF assms(3-5)])
qed

text \<open>
  Deleting a chain undoes nothing. For a chain marked for deletion that has the finalizer,
  \<open>Reconcile\<close> runs no command and notifies no node, so the routes the chain put into the
  containers stay; it only stores the object without the finalizer.
\<close>

lemma nc_Reconcile_deletion:
  assumes "keeps_mark nc_meta r" and "k_Get r req (world s) = (Inl cr, w)"
    and "\<not> IsZero (DeletionTimestamp (nc_meta cr))" and "nfnNetworkChainFinalizer \<in> set (Finalizers (nc_meta cr))"
  shows "\<exists>e w'. nc_Reconcile H r req s = (Returns (zero_Result, e), s\<lparr>world := w', api := api s @
    [ApiUpdate (nc_set_finalizers (filter (\<lambda>f. f \<noteq> nfnNetworkChainFinalizer) (Finalizers (nc_meta cr))) cr)]\<rparr>)"
proof -
  let ?cr2 = "nc_set_finalizers (utils_Remove (Finalizers (nc_meta cr)) nfnNetworkChainFinalizer) cr"
  have del: "deleteChain cr (s\<lparr>world := w\<rparr>) = (Returns (cr, Some (Errorf ''Not Implemented'')), s\<lparr>world := w\<rparr>)"
    by (simp add: deleteChain_def)
  have kept: "\<not> IsZero (DeletionTimestamp (nc_meta cr''))" if "fst (k_Update r ?cr2 w) = Inl cr''" for cr''
    using that assms(1,3) by (auto simp: keeps_mark_def nc.meta_set)
  from nc.deletion [OF assms(2-4) del surjective_pairing, of H] kept show ?thesis
    by (auto simp: utils_Remove_filter)
qed

context env_frame
begin

lemma keeps_CreateProviderNetwork [keeps_intros]: "keeps view (CreateProviderNetwork H cr)"
  unfolding CreateProviderNetwork_def Let_def by (intro keeps_intros)

end

interpretation outputs: env_frame "\<lambda>s :: ('w, 'o, 'z) ctl_state_scheme. (api s, sent s)"
  by unfold_locales simp_all

text \<open>
  A provider network that cannot be made in OVN is not reported: \<open>Reconcile\<close> returns
  nil, so it is not retried, no call to the API server stores the error state, and no node is
  notified.
\<close>

lemma pn_Reconcile_failure_unreported:
  assumes "ovnCtl s = Some oc"
    and "k_Get r req (world s) = (Inl cr, w)" and "IsZero (DeletionTimestamp (pn_meta cr))"
    and "nfnProviderNetworkFinalizer \<in> set (Finalizers (pn_meta cr))" and "pn_CniType (pn_Spec cr) = ''ovn4nfv''"
    and "CreateProviderNetwork H cr (s\<lparr>world := w\<rparr>) = (Returns (Some e), t)" and "e \<noteq> LS_exists"
  shows "pn_Reconcile H r req s = (Returns (zero_Result, None), t) \<and> api t = api s \<and> sent t = sent s"
proof -
  have "pn_createNetwork H r cr (s\<lparr>world := w\<rparr>) = (Returns (cr\<lparr>pn_State := CreateInternalError\<rparr>, None), t)"
    using assms(1,3,5-7) by (simp add: pn_createNetwork_def GetOvnController_def bnd_def)
  then have "pn_Reconcile H r req s = (Returns (zero_Result, None), t)" by (rule pn.live [OF assms(2-4)])
  moreover have "(api t, sent t) = (api s, sent s)"
    using outputs.keeps_CreateProviderNetwork [of H cr] assms(6) by (auto simp: keeps_def dest!: spec [of _ "s\<lparr>world := w\<rparr>"])
  ultimately show ?thesis by simp
qed

end
