(* ===== verification/Subscription.thy ===== *)
theory Subscription
  imports Notify
begin

text \<open>
  What a node gets when it subscribes (\<open>Subscribe\<close> of \<open>internal/pkg/nfnNotify/server.go\<close>):
  the networks meant for it, then the in-sync message. Together with the runs of the agent this
  gives, in the root theory, what the agent knows when it reconciles its node.
\<close>

section \<open>The networks meant for a node\<close>

definition node_selector :: "ProviderNetwork \<Rightarrow> string" where
  "node_selector pn = (if ProviderNetType (pn_Spec pn) = ''VLAN'' then VlanNodeSelector (Vlan (pn_Spec pn)) else DirectNodeSelector (Direct (pn_Spec pn)))"

definition node_labels :: "ProviderNetwork \<Rightarrow> string list" where
  "node_labels pn = (if ProviderNetType (pn_Spec pn) = ''VLAN'' then vlan_NodeLabelList (Vlan (pn_Spec pn)) else direct_NodeLabelList (Direct (pn_Spec pn)))"

definition create_msg :: "ProviderNetwork \<Rightarrow> Notification" where
  "create_msg pn = (if ProviderNetType (pn_Spec pn) = ''VLAN'' then createVlanMsg pn else createDirectMsg pn)"

text \<open>
  A network of one of the two types for all or for labelled nodes. (A network for any node goes
  to an arbitrary subscribed node, whichever node asks.)
\<close>

definition placed :: "ProviderNetwork \<Rightarrow> bool" where
  "placed pn \<longleftrightarrow> pn_CniType (pn_Spec pn) = ''ovn4nfv'' \<and> ProviderNetType (pn_Spec pn) \<in> {''VLAN'', ''DIRECT''} \<and>
     (EqualFold (node_selector pn) ''ALL'' \<or> EqualFold (node_selector pn) ''SPECIFIC'')"

definition meant_for :: "(string \<Rightarrow> string list) \<Rightarrow> string \<Rightarrow> ProviderNetwork \<Rightarrow> bool" where
  "meant_for nodes name pn \<longleftrightarrow> EqualFold (node_selector pn) ''ALL'' \<or> name \<in> set (nodes (Join (node_labels pn) '',''))"

text \<open>The API server lists the nodes with given labels, each once.\<close>

definition lists_nodes :: "('w, 'h) op_host_scheme \<Rightarrow> (string \<Rightarrow> string list) \<Rightarrow> bool" where
  "lists_nodes H nodes \<longleftrightarrow> (\<forall>labels w. fst (h_NodeList H labels w) = Inl (nodes labels) \<and> distinct (nodes labels))"

section \<open>One network\<close>

lemma wanted_name: "n \<noteq> [] \<Longrightarrow> wanted n name \<longleftrightarrow> name = n"
  by (auto simp: wanted_def)

lemma targets_absent: "n \<noteq> [] \<Longrightarrow> n \<notin> fst ` set cl \<Longrightarrow> targets n cl = []"
  by (induction cl) (auto simp: targets_Cons wanted_name)

lemma targets_one:
  assumes "n \<noteq> []" and "distinct (map fst cl)" and "map_of cl n = Some c" and "stream c = Some str"
  shows "targets n cl = [str]"
  using assms(2,3)
proof (induction cl)
  case (Cons x cl)
  obtain name d where "x = (name, d)" by fastforce
  with Cons assms(1,4) show ?case
    by (cases "name = n") (auto simp: targets_Cons wanted_name targets_absent split: option.splits)
qed simp

lemma map_filter_one:
  "distinct xs \<Longrightarrow> List.map_filter (\<lambda>x. if x = n then Some m else None) xs = (if n \<in> set xs then [m] else [])"
  by (induction xs) (auto simp: map_filter_simps)

lemma sends_one: "sends_until_error (if b then [m] else []) err ms \<Longrightarrow> ms = (if b then [m] else [])"
  by (auto simp: sends_until_error_def)

text \<open>A server that has the node's stream.\<close>

definition subscribed :: "serverDB \<Rightarrow> string \<Rightarrow> nat \<Rightarrow> bool" where
  "subscribed srv n str \<longleftrightarrow> n \<noteq> [] \<and> distinct (map fst (clientList srv)) \<and> (\<exists>c. map_of (clientList srv) n = Some c \<and> stream c = Some str)"

lemma send_all_one:
  assumes "notifServer s = Some srv" and "subscribed srv n str"
  shows "\<exists>w. sendMsg H msg labels ''all'' n s = (Returns None, sent_after s w [(str, msg)])"
proof -
  from sendMsg_all_run [OF assms(1), of H msg labels n] obtain w cs where
    run: "sendMsg H msg labels ''all'' n s = (Returns None, sent_after s w (map (\<lambda>str. (str, msg)) (targets n (permute cs (clientList srv)))))"
    by blast
  have "targets n (clientList srv) = [str]" using assms(2) targets_one unfolding subscribed_def by blast
  then have "mset (targets n (permute cs (clientList srv))) = {#str#}" by (simp add: mset_targets_permute)
  then have "targets n (permute cs (clientList srv)) = [str]" by simp
  with run show ?thesis by auto
qed

lemma send_specific_one:
  assumes "notifServer s = Some srv" and "subscribed srv n str" and "lists_nodes H nodes"
  shows "\<exists>w err. sendMsg H msg labels ''specific'' n s =
    (Returns err, sent_after s w (if n \<in> set (nodes labels) then [(str, msg)] else []))"
proof -
  obtain w where list: "h_NodeList H labels (world s) = (Inl (nodes labels), w)" and "distinct (nodes labels)"
    using assms(3) unfolding lists_nodes_def by (metis prod.collapse)
  moreover have "node_target msg n srv = (\<lambda>name. if name = n then Some (str, msg) else None)"
    using assms(2) by (auto simp: fun_eq_iff node_target_def subscribed_def wanted_name GetClient_def)
  ultimately have "List.map_filter (node_target msg n srv) (nodes labels) = (if n \<in> set (nodes labels) then [(str, msg)] else [])"
    by (simp add: map_filter_one)
  with sendMsg_specific_run [OF assms(1) list, of msg n] show ?thesis by (auto dest!: sends_one)
qed

lemma EqualFold_ALL_SPECIFIC: "EqualFold x ''ALL'' \<Longrightarrow> \<not> EqualFold x ''SPECIFIC''"
proof -
  have "\<not> EqualFold ''ALL'' ''SPECIFIC''" by code_simp
  then show "EqualFold x ''ALL'' \<Longrightarrow> ?thesis" by (simp add: EqualFold_def)
qed

lemma SendNotif_one:
  assumes "notifServer s = Some srv" and "subscribed srv n str" and "lists_nodes H nodes" and "placed pn"
  shows "\<exists>w err. SendNotif H pn ''create'' n s =
    (Returns err, sent_after s w (if meant_for nodes n pn then [(str, create_msg pn)] else []))"
proof -
  have run: "SendNotif H pn ''create'' n = dispatch H pn (create_msg pn) (node_selector pn) (node_labels pn) n"
    using assms(4) by (auto simp: SendNotif_def placed_def create_msg_def node_selector_def node_labels_def)
  show ?thesis
  proof (cases "EqualFold (node_selector pn) ''ALL''")
    case True
    with send_all_one [OF assms(1,2), of H "create_msg pn" "[]"] show ?thesis
      by (auto simp: run dispatch_def meant_for_def EqualFold_ALL_SPECIFIC)
  next
    case False
    with assms(4) have "EqualFold (node_selector pn) ''SPECIFIC''" by (simp add: placed_def)
    with False send_specific_one [OF assms(1-3), of "create_msg pn" "Join (node_labels pn) '',''"] show ?thesis
      by (simp add: run dispatch_def meant_for_def list_ex_iff)
  qed
qed

lemma announce_loop:
  assumes "notifServer s = Some srv" and "subscribed srv n str" and "lists_nodes H nodes" and "list_all placed items"
  shows "\<exists>w. for_range items () (\<lambda>pn _. bnd (SendNotif H pn ''create'' n) (\<lambda>_. ret (Inr () :: unit + unit))) s =
    (Returns (Inr ()), sent_after s w (map (\<lambda>pn. (str, create_msg pn)) (filter (meant_for nodes n) items)))"
  using assms(1,4)
proof (induction items arbitrary: s)
  case Nil
  show ?case by (intro exI [of _ "world s"]) simp
next
  case (Cons pn items)
  from SendNotif_one [OF Cons.prems(1) assms(2,3), of pn] Cons.prems(2) obtain w err where
    one: "SendNotif H pn ''create'' n s = (Returns err, sent_after s w (if meant_for nodes n pn then [(str, create_msg pn)] else []))" by auto
  let ?s = "sent_after s w (if meant_for nodes n pn then [(str, create_msg pn)] else [])"
  have "notifServer ?s = Some srv" "list_all placed items" using Cons.prems by simp_all
  from Cons.IH [OF this] obtain w' where
    "for_range items () (\<lambda>pn _. bnd (SendNotif H pn ''create'' n) (\<lambda>_. ret (Inr () :: unit + unit))) ?s =
      (Returns (Inr ()), sent_after ?s w' (map (\<lambda>pn. (str, create_msg pn)) (filter (meant_for nodes n) items)))" by blast
  with one show ?case by (auto simp: bnd_assoc simp del: ret_apply)
qed

section \<open>The subscription\<close>

interpretation op: ctl_frame "\<lambda>s :: ('w, 'z) op_state_scheme. (notifServer s, sent s)"
  by unfold_locales simp_all

lemma keeps_node_ports: "keeps (\<lambda>s :: ('w, 'z) op_state_scheme. (notifServer s, sent s)) (node_AddNodeLogicalPorts H node)"
  unfolding node_AddNodeLogicalPorts_def GetOvnController_def by (intro keeps_intros op.keeps_AddNodeLogicalPorts)

definition registered :: "serverDB \<Rightarrow> string \<Rightarrow> client \<Rightarrow> serverDB" where
  "registered srv n c = srv\<lparr>clientList := AList.update n c (clientList srv)\<rparr>"

lemma registered_subscribed:
  "n \<noteq> [] \<Longrightarrow> distinct (map fst (clientList srv)) \<Longrightarrow> stream c = Some str \<Longrightarrow> subscribed (registered srv n c) n str"
  by (simp add: subscribed_def registered_def distinct_update update_conv)

lemma Subscribe_sends:
  assumes "GetNodeName sc = n" and "n \<noteq> []"
    and "node_AddNodeLogicalPorts H n s = (Returns (ip, mac, None), t)"
    and "notifServer s = Some srv" and "distinct (map fst (clientList srv))"
    and "h_PnList H ''default'' (world t) = ((items, None), w)" and "list_all placed items" and "lists_nodes H nodes"
  shows "\<exists>u. Subscribe H sc (Some str) s = (Blocks, u) \<and>
    notifServer u = Some (registered srv n \<lparr>cl_context = sc, stream = Some str\<rparr>) \<and>
    sent u = sent s @ map (\<lambda>pn. (str, create_msg pn)) (filter (meant_for nodes n) items) @ [(str, inSyncMsg ip mac)]"
proof -
  let ?srv = "registered srv n \<lparr>cl_context = sc, stream = Some str\<rparr>"
  let ?t = "t\<lparr>notifServer := Some ?srv, world := w\<rparr>"
  have t: "notifServer t = Some srv" "sent t = sent s"
    using keeps_eq [OF keeps_node_ports assms(3)] assms(4) by simp_all
  have "subscribed ?srv n str" using assms(2,5) by (intro registered_subscribed) simp_all
  from announce_loop [OF _ this assms(8,7), of ?t] obtain w' where
    loop: "for_range items () (\<lambda>pn _. bnd (SendNotif H pn ''create'' n) (\<lambda>_. ret (Inr () :: unit + unit))) ?t =
      (Returns (Inr ()), sent_after ?t w' (map (\<lambda>pn. (str, create_msg pn)) (filter (meant_for nodes n) items)))" by auto
  let ?u = "sent_after ?t w' (map (\<lambda>pn. (str, create_msg pn)) (filter (meant_for nodes n) items))"
  have "Subscribe H sc (Some str) s = (Blocks, snd (Send H str (inSyncMsg ip mac) ?u))"
    using assms(1-3,6) t(1) loop
    by (simp add: Subscribe_def registered_def bnd_assoc ext_eval Send_eval del: ret_apply)
  moreover have "notifServer (snd (Send H str (inSyncMsg ip mac) ?u)) = Some ?srv"
    "sent (snd (Send H str (inSyncMsg ip mac) ?u)) = sent s @ map (\<lambda>pn. (str, create_msg pn)) (filter (meant_for nodes n) items) @ [(str, inSyncMsg ip mac)]"
    by (simp_all add: Send_eval t(2))
  ultimately show ?thesis by blast
qed

text \<open>
  C10. A subscribing node learns its networks. If the node's logical port can be made and the API
  server lists the provider networks, each for all or for labelled nodes, then \<open>Subscribe\<close>
  registers the node and hands to its stream exactly one message for each network that is meant
  for it, in the order of the list, and after them the in-sync message with the addresses of the
  port; nothing else is sent to anybody, and the stream stays open.
\<close>

theorem Subscribe_announces:
  assumes "GetNodeName sc = n" and "n \<noteq> []"
    and "node_AddNodeLogicalPorts H n s = (Returns (ip, mac, None), t)"
    and "notifServer s = Some srv" and "distinct (map fst (clientList srv))"
    and "h_PnList H ''default'' (world t) = ((items, None), w)" and "list_all placed items" and "lists_nodes H nodes"
  shows "\<exists>u. Subscribe H sc (Some str) s = (Blocks, u) \<and>
    notifServer u = Some (registered srv n \<lparr>cl_context = sc, stream = Some str\<rparr>) \<and>
    sent u = sent s @ map (\<lambda>pn. (str, create_msg pn)) (filter (meant_for nodes n) items) @ [(str, inSyncMsg ip mac)]"
  using assms by (rule Subscribe_sends)

text \<open>
  An example: a VLAN network for all nodes and a direct one for the nodes of a zone that
  \<open>node1\<close> is not in, and an OVN that gives every query the same answer.
\<close>

definition lan_pn :: ProviderNetwork where
  "lan_pn = \<lparr>pn_meta = \<lparr>Name = ''lan'', Namespace = ''default'', DeletionTimestamp = None, Finalizers = []\<rparr>,
     pn_Spec = \<lparr>pn_CniType = ''ovn4nfv'', pn_Ipv4Subnets = [], pn_Ipv6Subnets = [],
       pn_DNS = \<lparr>Nameservers = [], Domain = [], Search = [], Options = []\<rparr>, pn_Routes = [], ProviderNetType = ''VLAN'',
       Vlan = \<lparr>VlanId = ''100'', VlanNodeSelector = ''all'', vlan_NodeLabelList = [], vlan_ProviderInterfaceName = ''eth1'',
         LogicalInterfaceName = ''eth1.100''\<rparr>,
       Direct = \<lparr>DirectNodeSelector = ''specific'', direct_NodeLabelList = [''zone=a''], direct_ProviderInterfaceName = ''eth2''\<rparr>\<rparr>, pn_State = []\<rparr>"

definition zone_pn :: ProviderNetwork where
  "zone_pn = lan_pn\<lparr>pn_Spec := (pn_Spec lan_pn)\<lparr>ProviderNetType := ''DIRECT''\<rparr>\<rparr>"

definition echo_host :: "unit op_host" where
  "echo_host = demo_op_host\<lparr>h_run := (\<lambda>p args w. ((''a b/c'', [], None), w)), h_PnList := (\<lambda>ns w. (([lan_pn, zone_pn], None), w)),
     h_NodeList := (\<lambda>l w. (Inl [''node2''], w))\<rparr>"

definition ready_op_state :: "unit op_state" where
  "ready_op_state = demo_op_state\<lparr>ovnCtl := Some \<lparr>gatewayCache = Map.empty\<rparr>\<rparr>"

lemma echo_nbctl: "runner s = Some R \<Longrightarrow> RunOVNNbctl echo_host args s = (Returns (''a b/c'', [], None), after s () [nbctl_cmd R args])"
proof -
  assume "runner s = Some R"
  moreover have "unquote ''a b/c'' = ''a b/c''"
    by (simp add: unquote_def TrimSpace_def Trim_def TrimLeft_def TrimRight_def trim_left_def trim_right_def is_space_def)
  ultimately show ?thesis
    using RunOVNNbctl_once [of s R echo_host args "''a b/c''" "[]" None "()"] by (simp add: echo_host_def)
qed

lemma echo_poll: "runner s = Some R \<Longrightarrow> poll_addresses echo_host q 30 s = (Returns (Got ''a b/c''), after s () [nbctl_cmd R q])"
proof -
  assume "runner s = Some R"
  then have "poll_addresses echo_host q (Suc 29) s = (Returns (Got ''a b/c''), after s () [nbctl_cmd R q])"
    by (subst poll_addresses.simps) (simp add: echo_nbctl)
  then show ?thesis by simp
qed

lemma echo_ports:
  assumes "runner s = Some R" and "ovnCtl s = Some \<lparr>gatewayCache = Map.empty\<rparr>"
  shows "\<exists>t. node_AddNodeLogicalPorts echo_host n s = (Returns (''b/c/c'', ''a'', None), t)"
proof -
  have "parse_addresses ''a b/c'' = [''a'', ''b/c'']" by code_simp
  moreover have "Split ''a b/c'' CHR ''/'' = [''a b'', ''c'']" by code_simp
  ultimately show ?thesis
    using assms by (simp add: node_AddNodeLogicalPorts_def AddNodeLogicalPorts_def addNodeLogicalPortWithSwitch_def GetOvnController_def
        getGatewayFromSwitch_def echo_nbctl echo_poll bnd_assoc Let_def)
qed

lemma ready_op_state_simps [simp]:
  "runner ready_op_state = Some demo_runner" "ovnCtl ready_op_state = Some \<lparr>gatewayCache = Map.empty\<rparr>"
  "notifServer ready_op_state = Some demo_server" "sent ready_op_state = []"
  by (simp_all add: ready_op_state_def)

lemma echo_networks:
  "list_all placed [lan_pn, zone_pn]" "filter (meant_for (\<lambda>_. [''node2'']) ''node1'') [lan_pn, zone_pn] = [lan_pn]"
proof -
  have fold: "EqualFold ''all'' ''ALL''" "EqualFold ''specific'' ''SPECIFIC''" "\<not> EqualFold ''specific'' ''ALL''" by code_simp+
  then show "list_all placed [lan_pn, zone_pn]" "filter (meant_for (\<lambda>_. [''node2'']) ''node1'') [lan_pn, zone_pn] = [lan_pn]"
    by (simp_all add: placed_def meant_for_def zone_pn_def lan_pn_def node_selector_def node_labels_def)
qed

lemma echo_host_simps:
  "h_PnList echo_host ns w = (([lan_pn, zone_pn], None), ())" "lists_nodes echo_host (\<lambda>_. [''node2''])"
  "distinct (map fst (clientList demo_server))" "GetNodeName (Some \<lparr>sc_NodeName = ''node1''\<rparr>) = ''node1''"
  by (simp_all add: echo_host_def lists_nodes_def demo_server_def getter_defs)

theorem Subscribe_announces_witness:
  "\<exists>u. Subscribe echo_host (Some \<lparr>sc_NodeName = ''node1''\<rparr>) (Some 7) ready_op_state = (Blocks, u) \<and>
    sent u = [(7, createVlanMsg lan_pn), (7, inSyncMsg ''b/c/c'' ''a'')]"
proof -
  obtain t where t: "node_AddNodeLogicalPorts echo_host ''node1'' ready_op_state = (Returns (''b/c/c'', ''a'', None), t)"
    using echo_ports [OF ready_op_state_simps(1,2)] by blast
  have "create_msg lan_pn = createVlanMsg lan_pn" by (simp add: create_msg_def lan_pn_def)
  with Subscribe_announces [OF echo_host_simps(4) _ t ready_op_state_simps(3) echo_host_simps(3,1) echo_networks(1) echo_host_simps(2), of 7]
  show ?thesis unfolding echo_networks(2) by auto
qed

end
