(* ===== verification/OperatorProcess.thy ===== *)
theory OperatorProcess
  imports Subscription
begin

text \<open>
  The process of the operator (\<open>cmd/nfn-operator/nfn-operator.go\<close>), the registration of the
  API types (\<open>pkg/apis\<close>) and of the four controllers (\<open>pkg/controller\<close>) with the
  manager.
\<close>

section \<open>Types and controllers\<close>

text \<open>
  Outside the repository: the configuration of the cluster, the manager, its controllers with
  their watches. The state records what was registered and whether
  the thread of the notification server and the manager were started.
\<close>

record 'w mgr_host = "'w op_host" +
  h_GetConfig :: "'w \<Rightarrow> goerr option \<times> 'w"
  h_NewManager :: "'w \<Rightarrow> goerr option \<times> 'w"
  h_AddKnownTypes :: "string list \<Rightarrow> 'w \<Rightarrow> goerr option \<times> 'w"
  h_NewController :: "string \<Rightarrow> 'w \<Rightarrow> goerr option \<times> 'w"
  h_Watch :: "string \<Rightarrow> string \<Rightarrow> 'w \<Rightarrow> goerr option \<times> 'w"

record 'w mgr_state = "'w op_state" +
  known_types :: "string list"
  watches :: "(string \<times> string) list"
  notif_thread :: bool
  manager_started :: bool

text \<open>The types the files of the API package register, in the order their \<open>init\<close> functions run.\<close>

definition SchemeBuilder :: "string list" where
  "SchemeBuilder = [''Network'', ''NetworkList''] @ [''NetworkChaining'', ''NetworkChainingList''] @ [''ProviderNetwork'', ''ProviderNetworkList'']"

definition AddToScheme :: "('w, 'h) mgr_host_scheme \<Rightarrow> (('w, 'z) mgr_state_scheme, goerr option) go" where
  "AddToScheme H =
     bnd (ext (h_AddKnownTypes H SchemeBuilder)) (\<lambda>err.
     if err \<noteq> None then ret err else
     bnd (modify (\<lambda>s. s\<lparr>known_types := known_types s @ SchemeBuilder\<rparr>)) (\<lambda>_. ret None))"

text \<open>A new controller and its watch, as the four \<open>add\<close> functions have them.\<close>

definition watch :: "('w, 'h) mgr_host_scheme \<Rightarrow> string \<Rightarrow> string \<Rightarrow> (('w, 'z) mgr_state_scheme, goerr option) go" where
  "watch H ctl kind =
     bnd (ext (h_Watch H ctl kind)) (\<lambda>err.
     if err \<noteq> None then ret err else
     bnd (modify (\<lambda>s. s\<lparr>watches := watches s @ [(ctl, kind)]\<rparr>)) (\<lambda>_. ret None))"

definition nw_add :: "('w, 'h) mgr_host_scheme \<Rightarrow> (('w, 'z) mgr_state_scheme, goerr option) go" where
  "nw_add H =
     bnd (ext (h_NewController H ''network-controller'')) (\<lambda>err.
     if err \<noteq> None then ret err else watch H ''network-controller'' ''Network'')"

definition nc_add :: "('w, 'h) mgr_host_scheme \<Rightarrow> (('w, 'z) mgr_state_scheme, goerr option) go" where
  "nc_add H =
     bnd (ext (h_NewController H ''networkchaining-controller'')) (\<lambda>err.
     if err \<noteq> None then ret err else watch H ''networkchaining-controller'' ''NetworkChaining'')"

definition pod_add :: "('w, 'h) mgr_host_scheme \<Rightarrow> (('w, 'z) mgr_state_scheme, goerr option) go" where
  "pod_add H =
     bnd (ext (h_NewController H ''pod-controller'')) (\<lambda>err.
     if err \<noteq> None then ret err else watch H ''pod-controller'' ''Pod'')"

definition pn_add :: "('w, 'h) mgr_host_scheme \<Rightarrow> (('w, 'z) mgr_state_scheme, goerr option) go" where
  "pn_add H =
     bnd (ext (h_NewController H ''providernetwork-controller'')) (\<lambda>err.
     if err \<noteq> None then ret err else watch H ''providernetwork-controller'' ''ProviderNetwork'')"

text \<open>The list the \<open>init\<close> functions of the package build, in the order of its files.\<close>

definition AddToManagerFuncs :: "('w, 'h) mgr_host_scheme \<Rightarrow> (('w, 'z) mgr_state_scheme, goerr option) go list" where
  "AddToManagerFuncs H = [nw_add H] @ [nc_add H] @ [pod_add H] @ [pn_add H]"

definition AddToManager :: "('w, 'h) mgr_host_scheme \<Rightarrow> (('w, 'z) mgr_state_scheme, goerr option) go" where
  "AddToManager H =
     bnd (for_range (AddToManagerFuncs H) () (\<lambda>f _. bnd f (\<lambda>err. if err \<noteq> None then ret (Inl err) else ret (Inr ())))) (\<lambda>r. case r of
       Inl err \<Rightarrow> ret err
     | Inr _ \<Rightarrow> ret None)"

section \<open>The process\<close>

text \<open>
  \<open>main\<close> up to the start of the manager, and whether it gets there; every error exits with
  code 1. \<open>go SetupNotifServer\<close> only starts the thread; when it runs is up to the scheduler.
\<close>

definition operator_boot :: "('w, 'h) mgr_host_scheme \<Rightarrow> (('w, 'z) mgr_state_scheme, bool) go" where
  "operator_boot H =
     bnd (NewOvnController H) (\<lambda>(_, err).
     if err \<noteq> None then ret False else
     bnd (ext (h_GetConfig H)) (\<lambda>err.
     if err \<noteq> None then ret False else
     bnd (modify (\<lambda>s. s\<lparr>notif_thread := True\<rparr>)) (\<lambda>_.
     bnd (ext (h_NewManager H)) (\<lambda>err.
     if err \<noteq> None then ret False else
     bnd (AddToScheme H) (\<lambda>err.
     if err \<noteq> None then ret False else
     bnd (AddToManager H) (\<lambda>err.
     if err \<noteq> None then ret False else
     bnd (modify (\<lambda>s. s\<lparr>manager_started := True\<rparr>)) (\<lambda>_. ret True)))))))"

text \<open>
  \<open>main\<close>, with the exit code. \<open>mgr.Start\<close> runs the reconcilers until a signal stops
  it: what it does to the state is the argument \<open>run_manager\<close>.
\<close>

definition operator_main :: "('w, 'h) mgr_host_scheme \<Rightarrow> (('w, 'z) mgr_state_scheme, goerr option) go \<Rightarrow>
    (('w, 'z) mgr_state_scheme, nat) go" where
  "operator_main H run_manager =
     bnd (operator_boot H) (\<lambda>ok.
     if \<not> ok then ret 1 else
     bnd run_manager (\<lambda>err. if err \<noteq> None then ret 1 else ret 0))"

section \<open>What the start of the OVN controller leaves alone\<close>

locale boot_frame = ctl_frame +
  assumes view_runner: "view (s\<lparr>runner := r\<rparr>) = view s"
    and view_conf: "view (s\<lparr>ovnConf := c\<rparr>) = view s"
begin

lemma keeps_SetExec [keeps_intros]: "keeps view (SetExec H)"
  unfolding SetExec_def set_runner_def by (intro keeps_intros view_runner)

lemma keeps_GetOvnNetConf [keeps_intros]: "keeps view (GetOvnNetConf H)"
  unfolding GetOvnNetConf_def set_ovnConf_def by (intro keeps_intros view_conf)

lemma keeps_SetupOvnUtils [keeps_intros]: "keeps view (SetupOvnUtils H)"
  unfolding SetupOvnUtils_def setupDistributedRouter_def by (intro keeps_intros)

lemma keeps_NewOvnController [keeps_intros]: "keeps view (NewOvnController H)"
  unfolding NewOvnController_def by (intro keeps_intros view_ctl)

end

text \<open>What the process has registered and started.\<close>

definition registry :: "('w, 'z) mgr_state_scheme \<Rightarrow> (string list \<times> (string \<times> string) list) \<times> (bool \<times> bool) \<times> serverDB option" where
  "registry s = ((known_types s, watches s), (notif_thread s, manager_started s), notifServer s)"

interpretation registry: boot_frame registry
  by unfold_locales (simp_all add: registry_def)

section \<open>What runs when the manager starts\<close>

definition all_watches :: "(string \<times> string) list" where
  "all_watches = [(''network-controller'', ''Network''), (''networkchaining-controller'', ''NetworkChaining''),
     (''pod-controller'', ''Pod''), (''providernetwork-controller'', ''ProviderNetwork'')]"

lemma NewOvnController_sets: "NewOvnController H s = (Returns (oc, None), t) \<Longrightarrow> ovnCtl t \<noteq> None"
  unfolding NewOvnController_def by (auto elim!: bnd_ReturnsE split: if_splits)

text \<open>\<open>m\<close> records the watch \<open>x\<close> and nothing else when it succeeds, and nothing when it fails.\<close>

definition registers :: "(('w, 'z) mgr_state_scheme, goerr option) go \<Rightarrow> string \<times> string \<Rightarrow> bool" where
  "registers m x \<longleftrightarrow> (\<forall>s. \<exists>err w. m s = (Returns err, s\<lparr>world := w, watches := watches s @ (if err = None then [x] else [])\<rparr>))"

lemma registers_add:
  "registers (bnd (ext (h_NewController H c)) (\<lambda>err. if err \<noteq> None then ret err else watch H c k)) (c, k)"
  unfolding registers_def
proof
  fix s :: "('a, 'b) mgr_state_scheme"
  show "\<exists>err w. bnd (ext (h_NewController H c)) (\<lambda>err. if err \<noteq> None then ret err else watch H c k) s =
      (Returns err, s\<lparr>world := w, watches := watches s @ (if err = None then [(c, k)] else [])\<rparr>)"
  proof (cases "fst (h_NewController H c (world s))")
    case (Some e)
    then show ?thesis
      by (intro exI [of _ "Some e"] exI [of _ "snd (h_NewController H c (world s))"]) (simp add: bnd_def ext_eval)
  next
    case None
    let ?w = "snd (h_NewController H c (world s))"
    from None show ?thesis
      by (intro exI [of _ "fst (h_Watch H c k ?w)"] exI [of _ "snd (h_Watch H c k ?w)"]) (simp add: bnd_def ext_eval watch_def)
  qed
qed

lemma registers_loop:
  assumes "list_all2 registers ms xs"
  shows "\<exists>r w ys. for_range ms () (\<lambda>f _. bnd f (\<lambda>err. if err \<noteq> None then ret (Inl err) else ret (Inr ()))) s =
    (Returns r, s\<lparr>world := w, watches := watches s @ ys\<rparr>) \<and> (case r of Inl err \<Rightarrow> err \<noteq> None | Inr _ \<Rightarrow> ys = xs)"
  using assms
proof (induction ms xs arbitrary: s rule: list_all2_induct)
  case Nil
  show ?case by (intro exI [of _ "Inr ()"] exI [of _ "world s"] exI [of _ "[]"]) simp
next
  case (Cons m ms x xs)
  from Cons(1) obtain err w where m: "m s = (Returns err, s\<lparr>world := w, watches := watches s @ (if err = None then [x] else [])\<rparr>)"
    unfolding registers_def by blast
  show ?case
  proof (cases err)
    case None
    let ?s = "s\<lparr>world := w, watches := watches s @ [x]\<rparr>"
    from Cons(3) [of ?s] obtain r w' ys where
      "for_range ms () (\<lambda>f _. bnd f (\<lambda>err. if err \<noteq> None then ret (Inl err) else ret (Inr ()))) ?s =
        (Returns r, ?s\<lparr>world := w', watches := watches ?s @ ys\<rparr>)" "case r of Inl err \<Rightarrow> err \<noteq> None | Inr _ \<Rightarrow> ys = xs" by blast
    with m None show ?thesis
      by (intro exI [of _ r] exI [of _ w'] exI [of _ "x # ys"]) (simp add: bnd_def split: sum.splits)
  next
    case (Some e)
    with m show ?thesis by (intro exI [of _ "Inl err"] exI [of _ w] exI [of _ "[]"]) (simp add: bnd_def)
  qed
qed

lemma AddToManager_registers:
  "\<exists>err w ys. AddToManager H s = (Returns err, s\<lparr>world := w, watches := watches s @ ys\<rparr>) \<and> (err = None \<longrightarrow> ys = all_watches)"
proof -
  have "list_all2 registers (AddToManagerFuncs H) all_watches"
    by (simp add: AddToManagerFuncs_def all_watches_def nw_add_def nc_add_def pod_add_def pn_add_def registers_add del: not_None_eq)
  from registers_loop [OF this, of s] obtain r w ys where
    loop: "for_range (AddToManagerFuncs H) () (\<lambda>f _. bnd f (\<lambda>err. if err \<noteq> None then ret (Inl err) else ret (Inr ()))) s =
      (Returns r, s\<lparr>world := w, watches := watches s @ ys\<rparr>)" and r: "case r of Inl err \<Rightarrow> err \<noteq> None | Inr _ \<Rightarrow> ys = all_watches" by blast
  show ?thesis
    using loop r
    by (intro exI [of _ "case r of Inl err \<Rightarrow> err | Inr _ \<Rightarrow> None"] exI [of _ w] exI [of _ ys])
      (auto simp: AddToManager_def split: sum.splits)
qed

text \<open>The part of \<open>main\<close> after the thread of the notification server is started.\<close>

lemma AddToScheme_total: "\<exists>err w ks. AddToScheme H s = (Returns err, s\<lparr>world := w, known_types := ks\<rparr>) \<and> (err = None \<longrightarrow> ks = known_types s @ SchemeBuilder)"
proof (cases "fst (h_AddKnownTypes H SchemeBuilder (world s))")
  case None
  then show ?thesis
    by (intro exI [of _ None] exI [of _ "snd (h_AddKnownTypes H SchemeBuilder (world s))"] exI [of _ "known_types s @ SchemeBuilder"])
      (simp add: AddToScheme_def bnd_def ext_eval)
next
  case (Some e)
  then show ?thesis
    by (intro exI [of _ "Some e"] exI [of _ "snd (h_AddKnownTypes H SchemeBuilder (world s))"] exI [of _ "known_types s"])
      (cases s, simp add: AddToScheme_def bnd_def ext_eval)
qed

lemma AddToScheme_run:
  assumes "AddToScheme H s = (Returns err, t)"
  shows "ovnCtl t = ovnCtl s \<and> (err = None \<longrightarrow> known_types t = known_types s @ SchemeBuilder) \<and> watches t = watches s \<and>
    notif_thread t = notif_thread s \<and> manager_started t = manager_started s \<and> notifServer t = notifServer s"
  using AddToScheme_total [of H s] assms by auto

lemma AddToManager_run:
  assumes "AddToManager H s = (Returns err, t)"
  shows "ovnCtl t = ovnCtl s \<and> (err = None \<longrightarrow> watches t = watches s @ all_watches) \<and> known_types t = known_types s \<and>
    notif_thread t = notif_thread s \<and> manager_started t = manager_started s \<and> notifServer t = notifServer s"
  using AddToManager_registers [of H s] assms by auto

lemma NewOvnController_run:
  assumes "NewOvnController H s = (Returns x, t)"
  shows "(snd x = None \<longrightarrow> ovnCtl t \<noteq> None) \<and> watches t = watches s \<and> known_types t = known_types s \<and> notif_thread t = notif_thread s \<and>
    manager_started t = manager_started s \<and> notifServer t = notifServer s"
  using keeps_eq [OF registry.keeps_NewOvnController assms] NewOvnController_sets [of H s "fst x" t] assms
  by (cases x) (auto simp: registry_def)

lemmas boot_runs = AddToScheme_run AddToManager_run NewOvnController_run

definition complete :: "('w, 'z) mgr_state_scheme \<Rightarrow> bool" where
  "complete s \<longleftrightarrow> watches s = all_watches \<and> known_types s = SchemeBuilder \<and> ovnCtl s \<noteq> None \<and> notif_thread s \<and> manager_started s"

lemma operator_boot_run:
  assumes "operator_boot H s = (Returns ok, u)" and "\<not> manager_started s" and "watches s = []" and "known_types s = []"
  shows "notifServer u = notifServer s \<and> (if ok then complete u else \<not> manager_started u)"
  using assms unfolding operator_boot_def
  by (auto elim!: bnd_ReturnsE split: if_splits simp: ext_eval complete_def dest!: boot_runs)

text \<open>Either \<open>main\<close> never comes to the manager, or it starts it in a complete state.\<close>

lemma operator_run:
  assumes "operator_main H run_manager s = (Returns code, t)" and "\<not> manager_started s" and "watches s = []" and "known_types s = []"
  shows "code = 1 \<and> \<not> manager_started t \<or>
    (\<exists>u err. complete u \<and> notifServer u = notifServer s \<and> run_manager u = (Returns err, t) \<and> code = (if err = None then 0 else 1))"
proof -
  from assms(1) obtain ok u where boot: "operator_boot H s = (Returns ok, u)"
    and rest: "(if \<not> ok then ret 1 else bnd run_manager (\<lambda>err. if err \<noteq> None then ret 1 else ret 0)) u = (Returns code, t)"
    unfolding operator_main_def by (rule bnd_ReturnsE)
  note u = operator_boot_run [OF boot assms(2-4)]
  show ?thesis
  proof (cases ok)
    case True
    with rest obtain err where "run_manager u = (Returns err, t)" "code = (if err = None then 0 else 1)"
      by (auto elim!: bnd_ReturnsE split: if_splits)
    with u True show ?thesis by auto
  qed (use rest u in auto)
qed

text \<open>
  C13. The operator runs complete or not at all. If \<open>main\<close> returns, then either with code 1
  and the manager was not started, or the manager ran from a state in which the OVN controller
  is there, the types of the API are known, each of the four controllers watches its kind, and
  the thread of the notification server was started; the code says whether it failed.
\<close>

theorem operator_complete:
  fixes s :: "('w, 'z) mgr_state_scheme"
  assumes "operator_main H run_manager s = (Returns code, t)" and "\<not> manager_started s" and "watches s = []" and "known_types s = []"
  shows "code = 1 \<and> \<not> manager_started t \<or>
    (\<exists>u err. watches u = [(''network-controller'', ''Network''), (''networkchaining-controller'', ''NetworkChaining''),
        (''pod-controller'', ''Pod''), (''providernetwork-controller'', ''ProviderNetwork'')] \<and>
      set [''Network'', ''NetworkChaining'', ''ProviderNetwork''] \<subseteq> set (known_types u) \<and> ovnCtl u \<noteq> None \<and> notif_thread u \<and>
      run_manager u = (Returns err, t) \<and> code = (if err = None then 0 else 1))"
proof -
  have "watches u = [(''network-controller'', ''Network''), (''networkchaining-controller'', ''NetworkChaining''),
        (''pod-controller'', ''Pod''), (''providernetwork-controller'', ''ProviderNetwork'')] \<and>
      set [''Network'', ''NetworkChaining'', ''ProviderNetwork''] \<subseteq> set (known_types u) \<and> ovnCtl u \<noteq> None \<and> notif_thread u"
    if "complete u" for u :: "('w, 'z) mgr_state_scheme"
    using that by (simp add: complete_def all_watches_def SchemeBuilder_def)
  with operator_run [OF assms] show ?thesis by blast
qed

lemma SendNotif_no_server:
  assumes "notifServer s = None" and "placed pn" and "EqualFold (node_selector pn) ''ALL''" and "\<not> EqualFold (node_selector pn) ''SPECIFIC''"
  shows "SendNotif H pn msgType nodeReq s = (Panics nil_deref, s)"
  using assms
  by (auto simp: SendNotif_def dispatch_def sendMsg_def the_server_def placed_def node_selector_def bnd_def split: if_splits)

text \<open>
  C39. A race at the start. Nothing in \<open>main\<close> waits for the thread of the notification
  server: when the manager starts, the server is as it was before. If it was not there and the
  manager's first work is to announce a provider network for all nodes, \<open>SendNotif\<close>
  dereferences nil and the operator crashes.
\<close>

theorem startup_race:
  assumes "operator_boot H s = (Returns True, u)"
    and "\<not> manager_started s" and "watches s = []" and "known_types s = []" and "notifServer s = None"
    and "placed pn" and "EqualFold (node_selector pn) ''ALL''" and "\<not> EqualFold (node_selector pn) ''SPECIFIC''"
  shows "operator_main H (bnd (SendNotif H pn msgType nodeReq) reconcile_more) s = (Panics nil_deref, u)"
proof -
  from operator_boot_run [OF assms(1-4)] assms(5) have "notifServer u = None" by simp
  from SendNotif_no_server [OF this assms(6-8), of H msgType nodeReq] assms(1) show ?thesis by (simp add: operator_main_def)
qed

section \<open>An example\<close>

definition default_nw_host :: "unit mgr_host" where
  "default_nw_host = op_host.extend (demo_op_host\<lparr>h_run := (\<lambda>p args w. ((Ovn4nfvDefaultNw, [], None), w)), h_Getenv := (\<lambda>v w. (''10.154.142.0/18'', w))\<rparr>)
     (mgr_host.fields (\<lambda>w. (None, w)) (\<lambda>w. (None, w)) (\<lambda>k w. (None, w)) (\<lambda>c w. (None, w)) (\<lambda>c k w. (None, w)))"

definition fresh_mgr_state :: "unit mgr_state" where
  "fresh_mgr_state = op_state.extend (demo_op_state\<lparr>notifServer := None\<rparr>) (mgr_state.fields [] [] False False)"

lemma fresh_mgr_state_simps [simp]:
  "\<not> manager_started fresh_mgr_state" "watches fresh_mgr_state = []" "known_types fresh_mgr_state = []" "notifServer fresh_mgr_state = None"
  by (simp_all add: fresh_mgr_state_def demo_op_state_def op_state.defs chain_state.defs ovn_state.defs gstate.defs mgr_state.defs)

lemma default_nw_nbctl:
  assumes "runner s = Some R"
  shows "RunOVNNbctl default_nw_host args s = (Returns (Ovn4nfvDefaultNw, [], None), after s () [nbctl_cmd R args])"
proof -
  have "unquote Ovn4nfvDefaultNw = Ovn4nfvDefaultNw"
    by (simp add: Ovn4nfvDefaultNw_def unquote_def TrimSpace_def Trim_def TrimLeft_def TrimRight_def trim_left_def trim_right_def is_space_def)
  then show ?thesis
    using RunOVNNbctl_once [OF assms, of default_nw_host args Ovn4nfvDefaultNw "[]" None "()"]
    by (simp add: default_nw_host_def op_host.defs)
qed

lemma default_nw_host_simps:
  "h_LookPath default_nw_host p w = ((''/usr/bin/'' @ p, None), w)" "h_Getenv default_nw_host v w = (''10.154.142.0/18'', w)"
  "h_GetConfig default_nw_host w = (None, w)" "h_NewManager default_nw_host w = (None, w)" "h_AddKnownTypes default_nw_host ks w = (None, w)"
  "h_NewController default_nw_host c w = (None, w)" "h_Watch default_nw_host c k w = (None, w)"
  by (simp_all add: default_nw_host_def demo_op_host_def demo_chain_host_def canned_host_def host.defs chain_host.defs op_host.defs mgr_host.defs)

lemma default_nw_SetExec: "\<exists>R. SetExec default_nw_host s = (Returns None, s\<lparr>runner := Some R\<rparr>)"
  by (cases s) (simp add: SetExec_def set_runner_def Getenv_def bnd_def ext_eval default_nw_host_simps)

lemma default_nw_conf: "\<exists>c. GetOvnNetConf default_nw_host s = (Returns None, s\<lparr>ovnConf := Some c\<rparr>)"
  by (cases s) (simp add: GetOvnNetConf_def set_ovnConf_def Getenv_def bnd_def ext_eval default_nw_host_simps)

lemma default_nw_utils:
  assumes "runner s = Some R" and "ovnConf s = Some c"
  shows "\<exists>u. SetupOvnUtils default_nw_host s = (Returns None, u)"
proof -
  have "Ovn4nfvDefaultNw \<noteq> []" by (simp add: Ovn4nfvDefaultNw_def)
  then have "\<exists>cs. setupDistributedRouter default_nw_host ovn4nfvRouterName s = (Returns None, after s () cs)"
    using assms(1) by (simp add: setupDistributedRouter_def default_nw_nbctl bnd_assoc) (rule exI, rule refl)
  then obtain cs where r: "setupDistributedRouter default_nw_host ovn4nfvRouterName s = (Returns None, after s () cs)" by blast
  then show ?thesis
    using assms by (simp add: SetupOvnUtils_def createOvnLS_def default_nw_nbctl)
qed

lemma default_nw_boot: "\<exists>u. operator_boot default_nw_host fresh_mgr_state = (Returns True, u)"
proof -
  obtain R where e: "SetExec default_nw_host fresh_mgr_state = (Returns None, fresh_mgr_state\<lparr>runner := Some R\<rparr>)"
    using default_nw_SetExec by blast
  obtain c where c: "GetOvnNetConf default_nw_host (fresh_mgr_state\<lparr>runner := Some R\<rparr>) =
      (Returns None, fresh_mgr_state\<lparr>runner := Some R, ovnConf := Some c\<rparr>)"
    using default_nw_conf by blast
  obtain u where "SetupOvnUtils default_nw_host (fresh_mgr_state\<lparr>runner := Some R, ovnConf := Some c\<rparr>) = (Returns None, u)"
    using default_nw_utils [of "fresh_mgr_state\<lparr>runner := Some R, ovnConf := Some c\<rparr>" R c] by auto
  with e c have "\<exists>oc u. NewOvnController default_nw_host fresh_mgr_state = (Returns (oc, None), u)"
    by (simp add: NewOvnController_def)
  then obtain oc u where n: "NewOvnController default_nw_host fresh_mgr_state = (Returns (oc, None), u)" by blast
  have m: "\<exists>t. AddToManager default_nw_host s = (Returns None, t)" for s
    by (simp add: AddToManager_def AddToManagerFuncs_def nw_add_def nc_add_def pod_add_def pn_add_def watch_def bnd_def ext_eval default_nw_host_simps)
  then obtain t where "AddToManager default_nw_host (u\<lparr>notif_thread := True, world := (), known_types := known_types u @ SchemeBuilder\<rparr>) = (Returns None, t)" by blast
  with n show ?thesis
    by (simp add: operator_boot_def AddToScheme_def ext_eval default_nw_host_simps)
qed

theorem operator_complete_witness:
  "\<exists>t. operator_main default_nw_host (ret None) fresh_mgr_state = (Returns 0, t) \<and>
    watches t = [(''network-controller'', ''Network''), (''networkchaining-controller'', ''NetworkChaining''),
      (''pod-controller'', ''Pod''), (''providernetwork-controller'', ''ProviderNetwork'')] \<and> ovnCtl t \<noteq> None"
proof -
  obtain u where "operator_boot default_nw_host fresh_mgr_state = (Returns True, u)" using default_nw_boot by blast
  then have run: "operator_main default_nw_host (ret None) fresh_mgr_state = (Returns 0, u)" by (simp add: operator_main_def)
  from operator_complete [OF run fresh_mgr_state_simps(1-3)] run show ?thesis by auto
qed

theorem startup_race_witness:
  "\<exists>u. operator_main default_nw_host (bnd (SendNotif default_nw_host lan_pn ''create'' []) (\<lambda>_. ret None)) fresh_mgr_state = (Panics nil_deref, u)"
proof -
  obtain u where u: "operator_boot default_nw_host fresh_mgr_state = (Returns True, u)" using default_nw_boot by blast
  have "placed lan_pn" using echo_networks(1) by simp
  moreover have "EqualFold (node_selector lan_pn) ''ALL''" "\<not> EqualFold (node_selector lan_pn) ''SPECIFIC''" by code_simp+
  ultimately have "operator_main default_nw_host (bnd (SendNotif default_nw_host lan_pn ''create'' []) (\<lambda>_. ret None)) fresh_mgr_state = (Panics nil_deref, u)"
    by (rule startup_race [OF u fresh_mgr_state_simps])
  then show ?thesis by blast
qed

end
