(* ===== verification/PodController.thy ===== *)
theory PodController
  imports PodPorts Controllers
begin

text \<open>
  \<open>pkg/controller/pod/pod_controller.go\<close>: the reconciler that gives a pod its logical
  ports and writes the annotation the CNI server reads, with the decoding of the
  \<open>nfn-network\<close> annotation by \<open>encoding/json\<close>.
\<close>

section \<open>The network annotation of a pod\<close>

definition nfnNetworkAnnotation :: string where
  "nfnNetworkAnnotation = ''k8s.plugin.opnfv.org/nfn-network''"

text \<open>An interface is a map from keys to JSON values.\<close>

type_synonym intf_obj = "string \<rightharpoonup> json"

record nfnNetwork =
  nfn_Type :: string
  nfn_Interface :: "intf_obj list"

definition zero_nfnNetwork :: nfnNetwork where
  "zero_nfnNetwork = \<lparr>nfn_Type = [], nfn_Interface = []\<rparr>"

text \<open>
  How \<open>json.Unmarshal\<close> fills the struct: keys in the order they come, a key names a field
  exactly or in another case, null leaves a string and empties a slice, an element of a slice
  that has a map already (from an earlier occurrence of the key) is decoded into that map. A
  value of the wrong kind is an error in the end.
\<close>

definition decode_obj :: "intf_obj \<Rightarrow> json \<Rightarrow> intf_obj option" where
  "decode_obj old v = (case v of JObj kvs \<Rightarrow> Some (old ++ map_of (rev kvs)) | JNull \<Rightarrow> Some Map.empty | _ \<Rightarrow> None)"

fun decode_objs :: "intf_obj list \<Rightarrow> json list \<Rightarrow> intf_obj list option" where
  "decode_objs olds [] = Some []"
| "decode_objs olds (v # vs) =
     (case (decode_obj (case olds of [] \<Rightarrow> Map.empty | m # _ \<Rightarrow> m) v, decode_objs (tl olds) vs) of
        (Some m, Some ms) \<Rightarrow> Some (m # ms)
      | _ \<Rightarrow> None)"

text \<open>\<open>parseOvnNetworkObject\<close> of the package \<open>ovn\<close>, which decodes such a list by itself.\<close>

definition ovn_parseOvnNetworkObject :: "string \<Rightarrow> intf_obj list + goerr" where
  "ovn_parseOvnNetworkObject ovnnetwork =
     (if ovnnetwork = [] then Inr (Errorf ''parseOvnNetworkObject:error'') else
      case (case Unmarshal_value ovnnetwork of
              Some (JArr vs) \<Rightarrow> decode_objs [] vs
            | Some JNull \<Rightarrow> Some []
            | _ \<Rightarrow> None) of
        None \<Rightarrow> Inr (Errorf (''parseOvnNetworkObject: failed to load ovn network err: | ovn network: '' @ ovnnetwork))
      | Some ovnNet \<Rightarrow> Inl ovnNet)"

definition decode_field :: "string \<Rightarrow> json \<Rightarrow> nfnNetwork \<Rightarrow> nfnNetwork option" where
  "decode_field k v nfn =
     (if EqualFold k ''type'' then
        (case v of JStr t \<Rightarrow> Some (nfn\<lparr>nfn_Type := t\<rparr>) | JNull \<Rightarrow> Some nfn | _ \<Rightarrow> None)
      else if EqualFold k ''interface'' then
        (case v of
           JArr vs \<Rightarrow> map_option (\<lambda>ms. nfn\<lparr>nfn_Interface := ms\<rparr>) (decode_objs (nfn_Interface nfn) vs)
         | JNull \<Rightarrow> Some (nfn\<lparr>nfn_Interface := []\<rparr>)
         | _ \<Rightarrow> None)
      else Some nfn)"

fun decode_fields :: "(string \<times> json) list \<Rightarrow> nfnNetwork \<Rightarrow> nfnNetwork option" where
  "decode_fields [] nfn = Some nfn"
| "decode_fields ((k, v) # kvs) nfn = (case decode_field k v nfn of None \<Rightarrow> None | Some nfn' \<Rightarrow> decode_fields kvs nfn')"

definition Unmarshal_nfn :: "string \<Rightarrow> nfnNetwork option" where
  "Unmarshal_nfn s =
     (case Unmarshal_value s of
        Some (JObj kvs) \<Rightarrow> decode_fields kvs zero_nfnNetwork
      | Some JNull \<Rightarrow> Some zero_nfnNetwork
      | _ \<Rightarrow> None)"

definition readPodAnnotation :: "Pod \<Rightarrow> nfnNetwork + goerr" where
  "readPodAnnotation pod =
     (case Annotations pod nfnNetworkAnnotation of
        None \<Rightarrow> Inr (Errorf ''Invalid annotations'')
      | Some annotaion \<Rightarrow>
          (case Unmarshal_nfn annotaion of
             None \<Rightarrow> Inr (OtherErr ''json'')
           | Some nfn \<Rightarrow> Inl nfn))"

section \<open>The event filter\<close>

definition pod_UpdateFunc :: "(string \<rightharpoonup> string) \<Rightarrow> bool" where
  "pod_UpdateFunc annotaion =
     (if annotaion nfnNetworkAnnotation = None then False
      else if annotaion Ovn4nfvAnnotationTag \<noteq> None then False
      else True)"

definition pod_CreateFunc :: "(string \<rightharpoonup> string) \<Rightarrow> bool" where
  "pod_CreateFunc annotaion = True"

definition pod_DeleteFunc :: "(string \<rightharpoonup> string) \<Rightarrow> bool" where
  "pod_DeleteFunc annotaion = True"

section \<open>Reconciling\<close>

text \<open>The client of the reconciler, and the patches it has sent: the pod and the patch text.\<close>

record 'w pclient =
  p_Get :: "string \<times> string \<Rightarrow> 'w \<Rightarrow> (Pod + goerr) \<times> 'w"
  p_Patch :: "Pod \<Rightarrow> string \<Rightarrow> 'w \<Rightarrow> goerr option \<times> 'w"

record 'w pod_state = "'w op_state" +
  patches :: "(Pod \<times> string) list"

definition enableOvnDefaultIntf :: bool where
  "enableOvnDefaultIntf = True"

definition setPodAnnotation :: "'w pclient \<Rightarrow> Pod \<Rightarrow> string \<Rightarrow> string \<Rightarrow> (('w, 'z) pod_state_scheme, goerr option) go" where
  "setPodAnnotation r pod key val =
     (let patchData = annotation_patch key val in
      bnd (modify (\<lambda>s. s\<lparr>patches := patches s @ [(pod, patchData)]\<rparr>)) (\<lambda>_.
      bnd (ext (p_Patch r pod patchData)) (\<lambda>err.
      if err \<noteq> None then ret err else ret None)))"

definition pod_addLogicalPorts :: "('w, 'h) host_scheme \<Rightarrow> (intf_obj \<Rightarrow> netInterface \<Rightarrow> netInterface \<times> goerr option) \<Rightarrow>
    'w pclient \<Rightarrow> Pod \<Rightarrow> (('w, 'z) pod_state_scheme, goerr option) go" where
  "pod_addLogicalPorts H Decode r pod =
     (case (case readPodAnnotation pod of
              Inl nfn \<Rightarrow> Inl nfn
            | Inr err \<Rightarrow> if enableOvnDefaultIntf then Inl \<lparr>nfn_Type = ''ovn4nfv'', nfn_Interface = []\<rparr> else Inr err) of
        Inr err \<Rightarrow> ret (Some err)
      | Inl nfn \<Rightarrow>
          if nfn_Type nfn = ''ovn4nfv'' then
            bnd GetOvnController (\<lambda>(_, err).
            if err \<noteq> None then ret err
            else if Annotations pod Ovn4nfvAnnotationTag \<noteq> None then ret (Some (Errorf ''Pod annotation found'')) else
            bnd (AddLogicalPorts H Decode pod (nfn_Interface nfn)) (\<lambda>(key, val).
            if 0 < length key then setPodAnnotation r pod key val
            else ret (Some (Errorf ''Failed to add ports''))))
          else ret (Some (Errorf (''Unsupported Networking type '' @ nfn_Type nfn))))"

definition pod_deleteLogicalPorts :: "('w, 'h) host_scheme \<Rightarrow> string \<Rightarrow> string \<Rightarrow> (('w, 'z) pod_state_scheme, goerr option) go" where
  "pod_deleteLogicalPorts H name namespace =
     bnd GetOvnController (\<lambda>(_, err).
     if err \<noteq> None then ret err else
     bnd (DeleteLogicalPorts H name namespace) (\<lambda>_. ret None))"

definition pod_Reconcile :: "('w, 'h) host_scheme \<Rightarrow> (intf_obj \<Rightarrow> netInterface \<Rightarrow> netInterface \<times> goerr option) \<Rightarrow>
    'w pclient \<Rightarrow> string \<times> string \<Rightarrow> (('w, 'z) pod_state_scheme, Result \<times> goerr option) go" where
  "pod_Reconcile H Decode r request =
     bnd (ext (p_Get r request)) (\<lambda>g. case g of
       Inr err \<Rightarrow>
         if IsNotFound err then
           bnd (pod_deleteLogicalPorts H (snd request) (fst request)) (\<lambda>_. ret (zero_Result, None))
         else ret (zero_Result, Some err)
     | Inl pod \<Rightarrow>
         if pod_Name pod = [] \<or> pod_Namespace pod = [] then ret (zero_Result, None)
         else if HostNetwork pod then ret (zero_Result, None)
         else if NodeName pod = [] then ret (\<lparr>Requeue = True\<rparr>, None) else
         bnd (pod_addLogicalPorts H Decode r pod) (\<lambda>err.
         if err \<noteq> None \<and> Error (the err) = ''Failed to add ports'' then ret (zero_Result, err)
         else ret (zero_Result, None)))"

section \<open>What is written to a pod\<close>

interpretation patches: ctl_frame "patches :: ('w, 'z) pod_state_scheme \<Rightarrow> (Pod \<times> string) list"
  by unfold_locales simp_all

definition patched :: "Pod \<Rightarrow> (Pod \<times> string) list \<Rightarrow> (Pod \<times> string) list \<Rightarrow> bool" where
  "patched pod ps ps' \<longleftrightarrow> ps' = ps \<or> Annotations pod Ovn4nfvAnnotationTag = None \<and>
     (\<exists>es. es \<noteq> [] \<and> ps' = ps @ [(pod, annotation_patch Ovn4nfvAnnotationTag (annotation_text es))])"

lemma GetOvnController_eval: "GetOvnController s = (Returns (ovnCtl s, if ovnCtl s = None then Some (Errorf ''OVN Controller not initialized'') else None), s)"
  by (auto simp: GetOvnController_def)

lemma setPodAnnotation_patches:
  "setPodAnnotation r pod k v s = (Returns err, s') \<Longrightarrow> patches s' = patches s @ [(pod, annotation_patch k v)]"
  by (auto simp: setPodAnnotation_def Let_def ext_eval elim!: bnd_ReturnsE split: if_splits)

lemma AddLogicalPorts_result:
  assumes "AddLogicalPorts H Decode pod objs s = (Returns (k, v), s')"
  shows "pod_annotation (length objs) (k, v)" and "patches s' = patches s"
  using assms gives_AddLogicalPorts [of objs H Decode pod] keeps_eq [OF patches.keeps_AddLogicalPorts]
  unfolding gives_def by blast+

lemma pod_addLogicalPorts_patches:
  assumes "pod_addLogicalPorts H Decode r pod s = (Returns err, s')"
  shows "patched pod (patches s) (patches s')"
proof -
  have add: "patched pod (patches s) (patches s')"
    if "bnd (AddLogicalPorts H Decode pod objs) (\<lambda>(key, val). if 0 < length key then setPodAnnotation r pod key val
        else ret (Some (Errorf ''Failed to add ports''))) s = (Returns err, s')"
      and "Annotations pod Ovn4nfvAnnotationTag = None" for objs
  proof -
    from that(1) obtain k v t where run: "AddLogicalPorts H Decode pod objs s = (Returns (k, v), t)"
      and rest: "(if 0 < length k then setPodAnnotation r pod k v else ret (Some (Errorf ''Failed to add ports''))) t = (Returns err, s')"
      by (elim bnd_ReturnsE) auto
    note res = AddLogicalPorts_result [OF run]
    show ?thesis
    proof (cases "k = []")
      case True
      with rest res(2) show ?thesis by (simp add: patched_def)
    next
      case False
      with rest res(2) have "patches s' = patches s @ [(pod, annotation_patch k v)]"
        by (auto dest: setPodAnnotation_patches)
      with False res(1) that(2) show ?thesis by (auto simp: patched_def pod_annotation_def)
    qed
  qed
  from assms show ?thesis
    by (auto simp: pod_addLogicalPorts_def bnd_Returns [OF GetOvnController_eval] patched_def [of pod ps ps for ps]
        split: sum.splits if_splits intro: add)
qed

text \<open>
  C20. What the reconciler writes to pods. Whatever the environment answers, a call of
  \<open>Reconcile\<close> that returns has sent at most one patch, and then for the pod it was asked
  about, which is on a node, not on the host network and not annotated yet; the patch sets the
  annotation to a non-empty list of entries.
\<close>

theorem pod_Reconcile_patch:
  assumes "pod_Reconcile H Decode r req s = (Returns x, s')" and "p_Get r req (world s) = (g, w)"
  shows "patches s' = patches s \<or>
    (\<exists>pod es. g = Inl pod \<and> NodeName pod \<noteq> [] \<and> \<not> HostNetwork pod \<and> Annotations pod Ovn4nfvAnnotationTag = None \<and> es \<noteq> [] \<and>
      patches s' = patches s @ [(pod, annotation_patch Ovn4nfvAnnotationTag (annotation_text es))])"
proof (cases g)
  case (Inr e)
  let ?m = "if IsNotFound e then bnd (pod_deleteLogicalPorts H (snd req) (fst req)) (\<lambda>_. ret (zero_Result, None))
    else ret (zero_Result, Some e)"
  have "keeps patches ?m" unfolding pod_deleteLogicalPorts_def GetOvnController_def by (intro keeps_intros)
  moreover have "?m (s\<lparr>world := w\<rparr>) = (Returns x, s')"
    using assms Inr by (simp add: pod_Reconcile_def ext_def bnd_def)
  ultimately have "patches s' = patches (s\<lparr>world := w\<rparr>)" by (rule keeps_eq)
  then show ?thesis by simp
next
  case (Inl pod)
  let ?fin = "\<lambda>err. if err \<noteq> None \<and> Error (the err) = ''Failed to add ports'' then ret (zero_Result, err) else ret (zero_Result, None)"
  show ?thesis
  proof (cases "pod_Name pod = [] \<or> pod_Namespace pod = [] \<or> HostNetwork pod \<or> NodeName pod = []")
    case True
    with assms Inl have "s' = s\<lparr>world := w\<rparr>"
      by (auto simp: pod_Reconcile_def ext_def bnd_def split: if_splits)
    then show ?thesis by simp
  next
    case False
    with assms Inl have "bnd (pod_addLogicalPorts H Decode r pod) ?fin (s\<lparr>world := w\<rparr>) = (Returns x, s')"
      by (simp add: pod_Reconcile_def bnd_Returns [of "ext (p_Get r req)"] ext_def)
    then obtain err t where "pod_addLogicalPorts H Decode r pod (s\<lparr>world := w\<rparr>) = (Returns err, t)" "s' = t"
      by (elim bnd_ReturnsE) (auto split: if_splits)
    with pod_addLogicalPorts_patches [of H Decode r pod "s\<lparr>world := w\<rparr>"] Inl False
    show ?thesis by (auto simp: patched_def)
  qed
qed

text \<open>An example: a pod that asks for the default network with a gateway of its own.\<close>

definition demo_pod :: Pod where
  "demo_pod = \<lparr>pod_Name = ''web'', pod_Namespace = ''default'',
     Annotations = [nfnNetworkAnnotation \<mapsto> ''{'' @ [dquote] @ ''type'' @ [dquote] @ '':'' @ [dquote] @ ''ovn4nfv'' @ [dquote] @ '',''
       @ [dquote] @ ''interface'' @ [dquote] @ '':[{}]}''],
     HostNetwork = False, NodeName = ''node1'', ContainerIDs = []\<rparr>"

definition demo_decode :: "intf_obj \<Rightarrow> netInterface \<Rightarrow> netInterface \<times> goerr option" where
  "demo_decode o1 ns = (ns\<lparr>if_Name := Ovn4nfvDefaultNw, GWIPaddress := ''10.154.142.1''\<rparr>, None)"

definition demo_answers :: "string \<times> string list \<Rightarrow> string \<times> string \<times> goerr option" where
  "demo_answers c = (if ''dynamic_addresses'' \<in> set (snd c) then ([dquote] @ ''0a:00:00:00:00:3c 10.154.142.7'' @ [dquote], [], None)
     else if ''external_ids:gateway_ip'' \<in> set (snd c) then (''10.154.142.1/18'', [], None)
     else (Ovn4nfvDefaultNw, [], None))"

definition demo_pclient :: "Pod \<Rightarrow> goerr option \<Rightarrow> unit pclient" where
  "demo_pclient pod e = \<lparr>p_Get = (\<lambda>req w. (Inl pod, w)), p_Patch = (\<lambda>p t w. (e, w))\<rparr>"

definition demo_pod_state :: "unit pod_state" where
  "demo_pod_state = op_state.extend (demo_op_state\<lparr>ovnCtl := Some \<lparr>gatewayCache = Map.empty\<rparr>\<rparr>) (pod_state.fields [])"

definition demo_reconcile :: "Pod \<Rightarrow> goerr option \<Rightarrow> (Result \<times> goerr option) outcome \<times> unit pod_state" where
  "demo_reconcile pod e = pod_Reconcile (canned_host demo_answers) demo_decode (demo_pclient pod e) (''default'', ''web'') demo_pod_state"

lemma demo_reconcile_runs:
  "fst (demo_reconcile demo_pod None) = Returns (zero_Result, None)" "length (patches (snd (demo_reconcile demo_pod None))) = 1"
  by code_simp+

lemma demo_pod_state_simps [simp]:
  "world demo_pod_state = ()" "patches demo_pod_state = []" "ovnCtl demo_pod_state = Some \<lparr>gatewayCache = Map.empty\<rparr>"
  by (simp_all add: demo_pod_state_def demo_op_state_def demo_chain_state_def chain_state.defs op_state.defs ovn_state.defs
      gstate.defs pod_state.defs)

theorem pod_Reconcile_patch_witness:
  "\<exists>es. es \<noteq> [] \<and> patches (snd (demo_reconcile demo_pod None)) =
    [(demo_pod, annotation_patch Ovn4nfvAnnotationTag (annotation_text es))]"
proof -
  have run: "pod_Reconcile (canned_host demo_answers) demo_decode (demo_pclient demo_pod None) (''default'', ''web'') demo_pod_state
      = (Returns (zero_Result, None), snd (demo_reconcile demo_pod None))"
    using demo_reconcile_runs(1) unfolding demo_reconcile_def by (metis prod.collapse)
  from pod_Reconcile_patch [OF run, of "Inl demo_pod" "()"] demo_reconcile_runs(2) show ?thesis
    by (auto simp: demo_pclient_def)
qed

text \<open>
  A pod that has the annotation is left alone: \<open>Reconcile\<close> runs no OVN command, sends
  no patch and reports success, whatever networks the pod asks for. Reconciling a pod again
  after its ports were added changes nothing.
\<close>

lemma pod_Reconcile_annotated:
  assumes "p_Get r req (world s) = (Inl pod, w)" and "Annotations pod Ovn4nfvAnnotationTag \<noteq> None"
    and "NodeName pod \<noteq> []" and "ovnCtl s \<noteq> None"
  shows "pod_Reconcile H Decode r req s = (Returns (zero_Result, None), s\<lparr>world := w\<rparr>)"
proof -
  have "\<exists>e. pod_addLogicalPorts H Decode r pod (s\<lparr>world := w\<rparr>) = (Returns (Some e), s\<lparr>world := w\<rparr>) \<and> Error e \<noteq> ''Failed to add ports''"
    using assms(2,4)
    by (auto simp: pod_addLogicalPorts_def enableOvnDefaultIntf_def bnd_Returns [OF GetOvnController_eval] split: sum.splits)
  then obtain e where "pod_addLogicalPorts H Decode r pod (s\<lparr>world := w\<rparr>) = (Returns (Some e), s\<lparr>world := w\<rparr>)"
    and "Error e \<noteq> ''Failed to add ports''" by blast
  with assms(1,3) show ?thesis by (simp add: pod_Reconcile_def bnd_Returns [of "ext (p_Get r req)"] ext_def)
qed

text \<open>
  A patch that the API server refuses is not tried again: the ports were added in OVN,
  \<open>Reconcile\<close> reports success, and the pod has no annotation. It is reported only if the
  error's text happens to be the one of failed ports.
\<close>

lemma pod_Reconcile_patch_refused:
  assumes "p_Get r req (world s) = (Inl pod, w)" and "pod_Name pod \<noteq> []" and "pod_Namespace pod \<noteq> []"
    and "\<not> HostNetwork pod" and "NodeName pod \<noteq> []" and "Annotations pod Ovn4nfvAnnotationTag = None"
    and "readPodAnnotation pod = Inl nfn" and "nfn_Type nfn = ''ovn4nfv''" and "ovnCtl s \<noteq> None"
    and "AddLogicalPorts H Decode pod (nfn_Interface nfn) (s\<lparr>world := w\<rparr>) = (Returns (key, val), t)" and "key \<noteq> []"
    and "p_Patch r pod (annotation_patch key val) (world t) = (Some e, w')" and "Error e \<noteq> ''Failed to add ports''"
  shows "pod_Reconcile H Decode r req s = (Returns (zero_Result, None),
    t\<lparr>world := w', patches := patches t @ [(pod, annotation_patch key val)]\<rparr>)"
proof -
  have "setPodAnnotation r pod key val t = (Returns (Some e), t\<lparr>world := w', patches := patches t @ [(pod, annotation_patch key val)]\<rparr>)"
    using assms(12) by (cases t) (simp add: setPodAnnotation_def Let_def ext_def bnd_def)
  with assms(6-11) have "pod_addLogicalPorts H Decode r pod (s\<lparr>world := w\<rparr>) =
      (Returns (Some e), t\<lparr>world := w', patches := patches t @ [(pod, annotation_patch key val)]\<rparr>)"
    by (auto simp: pod_addLogicalPorts_def bnd_Returns [OF GetOvnController_eval])
  with assms(1-5,13) show ?thesis by (simp add: pod_Reconcile_def bnd_Returns [of "ext (p_Get r req)"] ext_def)
qed

end
