(* ===== verification/PortBinding.thy ===== *)
theory PortBinding
  imports PodPorts CniApp
begin

text \<open>
  How a pod's interface finds its logical port: the operator makes the port under a name
  (\<open>AddLogicalPorts\<close>, \<open>internal/pkg/ovn/ovn.go\<close>), and the CNI side plugs the interface
  under an \<open>iface-id\<close> it computes from the annotation (\<open>ConfigureInterface\<close>,
  \<open>ovn4nfvk8s-cni/app/helper_linux.go\<close>). OVN binds the two when the names are equal. The
  theorem of this theory says when they are.
\<close>

section \<open>Ports made\<close>

lemma yields_gives: "gives P m \<Longrightarrow> yields Q m \<Longrightarrow> yields (\<lambda>x cs. P x \<and> Q x cs) m"
  unfolding gives_def yields_def by blast

definition adds_port :: "string \<Rightarrow> (string \<times> string list) list \<Rightarrow> bool" where
  "adds_port port cs \<longleftrightarrow> (\<exists>c\<in>set cs. \<exists>pre sw post. snd c = pre @ [''lsp-add'', sw, port] @ post)"

lemma adds_port_append: "adds_port port cs \<or> adds_port port ds \<Longrightarrow> adds_port port (cs @ ds)"
  by (auto simp: adds_port_def)

lemma adds_port_run: "adds_port port (replicate (Suc k) (nbctl_cmd R (pre @ [''lsp-add'', sw, port] @ post)))"
proof -
  have "\<exists>pre'. snd (nbctl_cmd R (pre @ [''lsp-add'', sw, port] @ post)) = pre' @ [''lsp-add'', sw, port] @ post"
    by (auto simp: nbctl_cmd_def nbctl_args_def)
  then show ?thesis unfolding adds_port_def by fastforce
qed

lemma yields_run_lsp_add:
  "args = pre @ [''lsp-add'', sw, port] @ post \<Longrightarrow> yields (\<lambda>r cs. adds_port port cs) (RunOVNNbctl H args)"
  using yields_mono [OF yields_RunOVNNbctl] adds_port_run by (metis (no_types, lifting))

text \<open>The functions in between only run commands.\<close>

abbreviation runs :: "(('w, 'z) gstate_scheme, 'a) go \<Rightarrow> bool" where
  "runs \<equiv> emits (\<lambda>_. True)"

lemma runs_generateMac [emits_intros]: "runs (generateMac H)"
  unfolding generateMac_def by (intro emits_intros)

lemma runs_FindLogicalSwitch [emits_intros]: "runs (FindLogicalSwitch H name)"
  unfolding FindLogicalSwitch_def by (intro emits_intros TrueI)

lemma runs_getGatewayFromSwitch [emits_intros]: "runs (getGatewayFromSwitch H sw)"
  unfolding getGatewayFromSwitch_def by (intro emits_intros TrueI) simp

lemma runs_polled [emits_intros]:
  "(\<And>t. emits P (g t)) \<Longrightarrow> (\<And>e. emits P (f e)) \<Longrightarrow> emits P t \<Longrightarrow> emits P (case p of Got x \<Rightarrow> g x | Failed e \<Rightarrow> f e | TimedOut \<Rightarrow> t)"
  by (cases p) simp_all

lemma runs_poll_addresses [emits_intros]: "runs (poll_addresses H q n)"
  by (induction n) (auto intro!: emits_intros simp del: ret_apply)

lemma runs_getNodeLogicalPortIPAddr [emits_intros]: "runs (getNodeLogicalPortIPAddr H pod)"
  unfolding getNodeLogicalPortIPAddr_def by (intro emits_intros)

lemma yields_addLogicalPortWithSwitch:
  "yields (\<lambda>out cs. out \<noteq> [] \<longrightarrow> adds_port port cs) (addLogicalPortWithSwitch H pod sw ip mac gw port)"
proof -
  have mac: "runs (if ip \<noteq> [] \<and> mac = [] then generateMac H else ret mac)" by (intro emits_intros)
  have static: "yields (\<lambda>r cs. adds_port port cs) (RunOVNNbctl H ([''--may-exist'', ''lsp-add'', sw, port, ''--'', ''lsp-set-addresses'', port, m @ '' '' @ ip, ''--'', ''--if-exists'', ''clear'', ''logical_switch_port'', port, ''dynamic_addresses'', ''--'', ''set'', ''logical_switch_port'', port] @ ids))" for m ids
    by (rule yields_run_lsp_add [of _ "[''--may-exist'']" sw port]) simp
  have dynamic: "yields (\<lambda>r cs. adds_port port cs) (RunOVNNbctl H ([''--wait=sb'', ''--'', ''--may-exist'', ''lsp-add'', sw, port, ''--'', ''lsp-set-addresses'', port, ''dynamic'', ''--'', ''set'', ''logical_switch_port'', port] @ ids))" for ids
    by (rule yields_run_lsp_add [of _ "[''--wait=sb'', ''--'', ''--may-exist'']" sw port]) simp
  show ?thesis
    unfolding addLogicalPortWithSwitch_def Let_def
  proof (rule yields_if)
    assume "HostNetwork pod"
    show "yields (\<lambda>out cs. out \<noteq> [] \<longrightarrow> adds_port port cs) (ret [])" by (rule yields_ret) simp
  qed (intro yields_bnd [OF yields_emits [OF mac, of "\<lambda>_ _. True"]] yields_bnd [OF yields_if [OF static dynamic]] yields_emits emits_intros,
      auto intro: adds_port_append)
qed

section \<open>The loop\<close>

definition bound :: "Pod \<Rightarrow> port_entry list \<Rightarrow> (string \<times> string list) list \<Rightarrow> bool" where
  "bound pod es cs \<longleftrightarrow> (\<forall>e\<in>set es. adds_port (iface_id (pod_Namespace pod) (pod_Name pod) (e_interface e)) cs)"

definition bind_inv :: "Pod \<Rightarrow> netInterface \<times> bool \<times> string \<Rightarrow> (string \<times> string list) list \<Rightarrow> bool" where
  "bind_inv pod = (\<lambda>(ns, d, str) cs. \<exists>es. str = text_so_far es \<and> (d \<longrightarrow> es \<noteq> []) \<and> bound pod es cs)"

lemma bound_snoc: "bound pod es cs \<Longrightarrow> adds_port (iface_id (pod_Namespace pod) (pod_Name pod) (e_interface e)) ds \<Longrightarrow> bound pod (es @ [e]) (cs @ ds)"
  by (auto simp: bound_def intro: adds_port_append)

lemma port_name: "i \<noteq> ''*'' \<Longrightarrow> iface_id (pod_Namespace pod) (pod_Name pod) i = port_prefix pod @ ''_'' @ i"
  by (simp add: iface_id_def port_prefix_def)

lemma port_name_default: "iface_id (pod_Namespace pod) (pod_Name pod) ''*'' = port_prefix pod"
  by (simp add: iface_id_def port_prefix_def)

lemma bind_inv_step:
  assumes "bind_inv pod (ns, d, str) cs" and "port_result out" and "out \<noteq> []"
    and "adds_port (iface_id (pod_Namespace pod) (pod_Name pod) i) ds"
  shows "bind_inv pod (ns', d', str @ butlast out @ '','' @ bq @ ''defaultGateway'' @ bq @ '':'' @ bq @ dg @ bq
           @ '','' @ bq @ ''interface'' @ bq @ '':'' @ bq @ i @ bq @ ''}'' @ '','') (cs @ ds)"
proof -
  from assms(1) obtain es where es: "str = text_so_far es" "bound pod es cs" by (auto simp: bind_inv_def)
  obtain e where e: "butlast out @ entry_tail e = entry_text e" "e_defaultGateway e = Some dg" "e_interface e = i"
    by (rule entry_of_result [OF assms(2,3)])
  have "str @ (butlast out @ entry_tail e) @ '','' = text_so_far (es @ [e])"
    unfolding e(1) es(1) by (rule text_so_far_snoc)
  moreover have "bound pod (es @ [e]) (cs @ ds)" using es(2) assms(4) e(3) by (intro bound_snoc) simp_all
  ultimately show ?thesis
    using e(2,3) by (auto simp: bind_inv_def entry_tail_def intro!: exI [of _ "es @ [e]"])
qed

lemma bind_inv_mono: "bind_inv pod a cs \<Longrightarrow> bind_inv pod a (cs @ ds)"
  by (auto simp: bind_inv_def bound_def intro!: adds_port_append)

lemmas port_made = yields_gives [OF gives_addLogicalPortWithSwitch yields_addLogicalPortWithSwitch]

lemma yields_entry:
  assumes "bind_inv pod (ns, d, str) cs" and "port = iface_id (pod_Namespace pod) (pod_Name pod) i"
  shows "yields (\<lambda>r ds. \<forall>a'. r = Inr a' \<longrightarrow> bind_inv pod a' (cs @ ds))
    (bnd (addLogicalPortWithSwitch H pod sw ip mac gw port) (\<lambda>out. if out = [] then ret (Inl ()) else
       let tmpString = butlast out @ '','' @ bq @ ''defaultGateway'' @ bq @ '':'' @ bq @ dg @ bq
           @ '','' @ bq @ ''interface'' @ bq @ '':'' @ bq @ i @ bq @ ''}'' in
       ret (Inr (ns', d', str @ tmpString @ '',''))))"
proof (rule yields_bnd [OF port_made])
  fix out ds
  assume out: "port_result out \<and> (out \<noteq> [] \<longrightarrow> adds_port port ds)"
  show "yields (\<lambda>r es. \<forall>a'. r = Inr a' \<longrightarrow> bind_inv pod a' (cs @ ds @ es)) (if out = [] then ret (Inl ()) else
       let tmpString = butlast out @ '','' @ bq @ ''defaultGateway'' @ bq @ '':'' @ bq @ dg @ bq
           @ '','' @ bq @ ''interface'' @ bq @ '':'' @ bq @ i @ bq @ ''}'' in
       ret (Inr (ns', d', str @ tmpString @ '','')))"
  proof (cases "out = []")
    case False
    with bind_inv_step [OF assms(1) _ False, of i ds ns' d' dg] out assms(2) show ?thesis
      by (auto intro!: yields_ret simp del: ret_apply simp: Let_def)
  qed (auto intro!: yields_ret simp del: ret_apply)
qed

lemma yields_add_port_step:
  assumes "bind_inv pod a cs" and "\<And>ns ns'. Decode net ns = (ns', None) \<Longrightarrow> Interface ns' \<noteq> ''*''"
  shows "yields (\<lambda>r ds. \<forall>a'. r = Inr a' \<longrightarrow> bind_inv pod a' (cs @ ds)) (add_port_step H Decode pod net a)"
proof (cases a)
  case (fields ns d str)
  obtain ns' err where dec: "Decode net ns = (ns', err)" by fastforce
  show ?thesis
  proof (cases "err = None")
    case True
    then have star: "Interface ns' \<noteq> ''*''" using assms(2) dec by simp
    have inv: "bind_inv pod (ns, d, str) (cs @ ds)" for ds using assms(1) unfolding fields by (rule bind_inv_mono)
    note entry = yields_entry [OF inv, unfolded append_assoc, unfolded Let_def]
    show ?thesis
      unfolding fields add_port_step_def prod.case dec Let_def
      by (intro yields_if yields_bnd [OF yields_emits [OF runs_FindLogicalSwitch, of "\<lambda>_ _. True"]] entry)
        (auto intro!: yields_ret simp: star port_name port_name_default simp del: ret_apply append_Cons)
  next
    case False
    then show ?thesis by (simp add: fields add_port_step_def dec yields_ret del: ret_apply)
  qed
qed

section \<open>The annotation names the ports\<close>

lemma yields_last_entry:
  assumes "bind_inv pod (ns, d, str) cs"
  shows "yields (\<lambda>r ds. \<forall>t. r = Some t \<longrightarrow> (\<exists>es. es \<noteq> [] \<and> t = text_so_far es \<and> bound pod es (cs @ ds)))
    (if \<not> d then bnd (addLogicalPortWithSwitch H pod Ovn4nfvDefaultNw [] [] [] (port_prefix pod)) (\<lambda>outStr.
        if outStr = [] then ret None
        else ret (Some (str @ butlast outStr @ '','' @ bq @ ''interface'' @ bq @ '':'' @ bq @ ''*'' @ bq @ ''}'' @ '','')))
     else ret (Some str))"
proof (rule yields_if)
  from assms obtain es where es: "str = text_so_far es" "d \<longrightarrow> es \<noteq> []" "bound pod es cs" by (auto simp: bind_inv_def)
  {
    assume "\<not> \<not> d"
    with es show "yields (\<lambda>r ds. \<forall>t. r = Some t \<longrightarrow> (\<exists>es. es \<noteq> [] \<and> t = text_so_far es \<and> bound pod es (cs @ ds))) (ret (Some str))"
      by (auto intro!: yields_ret)
  next
    show "yields (\<lambda>r ds. \<forall>t. r = Some t \<longrightarrow> (\<exists>es. es \<noteq> [] \<and> t = text_so_far es \<and> bound pod es (cs @ ds)))
      (bnd (addLogicalPortWithSwitch H pod Ovn4nfvDefaultNw [] [] [] (port_prefix pod)) (\<lambda>outStr.
        if outStr = [] then ret None
        else ret (Some (str @ butlast outStr @ '','' @ bq @ ''interface'' @ bq @ '':'' @ bq @ ''*'' @ bq @ ''}'' @ '',''))))"
    proof (rule yields_bnd [OF port_made])
      fix out ds
      assume out: "port_result out \<and> (out \<noteq> [] \<longrightarrow> adds_port (port_prefix pod) ds)"
      show "yields (\<lambda>r fs. \<forall>t. r = Some t \<longrightarrow> (\<exists>es. es \<noteq> [] \<and> t = text_so_far es \<and> bound pod es (cs @ ds @ fs)))
        (if out = [] then ret None
         else ret (Some (str @ butlast out @ '','' @ bq @ ''interface'' @ bq @ '':'' @ bq @ ''*'' @ bq @ ''}'' @ '','')))"
      proof (cases "out = []")
        case False
        obtain e where e: "butlast out @ entry_tail e = entry_text e" "e_defaultGateway e = None" "e_interface e = ''*''"
          by (rule entry_of_result [OF conjunct1 [OF out] False])
        have "str @ (butlast out @ entry_tail e) @ '','' = text_so_far (es @ [e])" unfolding e(1) es(1) by (rule text_so_far_snoc)
        moreover have "bound pod (es @ [e]) (cs @ ds)" using es(3) out False e(3) by (intro bound_snoc) (simp_all add: port_name_default)
        ultimately show ?thesis
          using False e(2,3) by (auto simp: entry_tail_def simp del: ret_apply intro!: yields_ret exI [of _ "es @ [e]"])
      qed (auto intro!: yields_ret simp del: ret_apply)
    qed
  }
qed

definition annotates :: "Pod \<Rightarrow> string \<times> string \<Rightarrow> (string \<times> string list) list \<Rightarrow> bool" where
  "annotates pod = (\<lambda>(key, val) cs. key = [] \<or> (\<exists>es. es \<noteq> [] \<and> val = annotation_text es \<and> bound pod es cs))"

lemma yields_close:
  fixes r :: "unit + netInterface \<times> bool \<times> string"
  assumes "\<forall>a. r = Inr a \<longrightarrow> bind_inv pod a cs"
  shows "yields (\<lambda>x ds. annotates pod x (cs @ ds)) (case r of Inl _ \<Rightarrow> ret ([], [])
     | Inr (ns, defaultInterface, ovnString) \<Rightarrow>
         bnd (if \<not> defaultInterface then
                bnd (addLogicalPortWithSwitch H pod Ovn4nfvDefaultNw [] [] [] (port_prefix pod)) (\<lambda>outStr.
                if outStr = [] then ret None
                else ret (Some (ovnString @ butlast outStr @ '','' @ bq @ ''interface'' @ bq @ '':'' @ bq @ ''*'' @ bq @ ''}'' @ '','')))
              else ret (Some ovnString)) (\<lambda>o'. case o' of
         None \<Rightarrow> ret ([], [])
       | Some ovnString \<Rightarrow> ret (Ovn4nfvAnnotationTag, butlast ovnString @ '']'')))"
proof (cases r)
  case (Inr a)
  obtain ns d str where a: "a = (ns, d, str)" by (cases a)
  from assms Inr a have inv: "bind_inv pod (ns, d, str) cs" by simp
  show ?thesis
    unfolding Inr a sum.case prod.case
    by (rule yields_bnd [OF yields_last_entry [OF inv]], auto intro!: yields_ret simp: annotates_def close_text [simplified]
        simp del: ret_apply append_Cons split: option.split, blast)
qed (auto intro!: yields_ret simp: annotates_def simp del: ret_apply)


text \<open>A pod with one interface on the default network, and OVN answering.\<close>

definition web_pod :: Pod where
  "web_pod = \<lparr>pod_Name = ''web'', pod_Namespace = ''default'', Annotations = Map.empty, HostNetwork = False, NodeName = ''node1'', ContainerIDs = []\<rparr>"

definition named_decode :: "string \<Rightarrow> netInterface \<Rightarrow> netInterface \<times> goerr option" where
  "named_decode i ns = (ns\<lparr>if_Name := Ovn4nfvDefaultNw, Interface := i, GWIPaddress := ''10.154.142.1''\<rparr>, None)"

definition switch_answers :: "string \<times> string list \<Rightarrow> string \<times> string \<times> goerr option" where
  "switch_answers c = (if ''dynamic_addresses'' \<in> set (snd c) then ([dquote] @ ''0a:00:00:00:00:3c 10.154.142.7'' @ [dquote], [], None)
     else if ''external_ids:gateway_ip'' \<in> set (snd c) then (''10.154.142.1/18'', [], None)
     else (Ovn4nfvDefaultNw, [], None))"

lemma named_ports_run:
  "\<exists>val s'. AddLogicalPorts (canned_host switch_answers) named_decode web_pod [''net0''] demo_state = (Returns (Ovn4nfvAnnotationTag, val), s')"
proof -
  have "(case fst (AddLogicalPorts (canned_host switch_answers) named_decode web_pod [''net0''] demo_state) of
      Returns (key, val) \<Rightarrow> key = Ovn4nfvAnnotationTag | _ \<Rightarrow> False)" by code_simp
  then show ?thesis
    by (cases "AddLogicalPorts (canned_host switch_answers) named_decode web_pod [''net0''] demo_state") (auto split: outcome.splits)
qed


section \<open>Generated hardware addresses\<close>

text \<open>
  C40. A generated hardware address is one: whatever the random numbers, \<open>generateMac\<close>
  returns the text of six bytes with the fixed prefix, which \<open>net.ParseMAC\<close>, as the CNI side
  calls it on the address of an interface, reads back as these bytes.
\<close>

theorem generateMac_parses:
  "\<exists>hw s'. generateMac H s = (Returns (MAC_String hw), s') \<and> ParseMAC (MAC_String hw) = Inl hw \<and> length hw = 6 \<and> take 3 hw = [0, 0, 0]"
proof -
  have printed: "''00:00:00:'' @ hex02 a @ '':'' @ hex02 b @ '':'' @ hex02 c = MAC_String [0, 0, 0, of_nat a, of_nat b, of_nat c]"
    if "a < 255" "b < 255" "c < 255" for a b c
    using that by (simp add: MAC_String_def Join_Cons take_bit_nat_eq_self unat_of_nat) (simp add: hex02_def hexdigit_def)
  have "\<exists>a b c s'. a < 255 \<and> b < 255 \<and> c < 255 \<and>
      generateMac H s = (Returns (''00:00:00:'' @ hex02 a @ '':'' @ hex02 b @ '':'' @ hex02 c), s')"
    by (simp add: generateMac_def Intn_def bnd_def ext_eval del: append_Cons) (metis mod_less_divisor zero_less_numeral)
  then obtain a b c s' where "a < 255" "b < 255" "c < 255"
    and "generateMac H s = (Returns (''00:00:00:'' @ hex02 a @ '':'' @ hex02 b @ '':'' @ hex02 c), s')" by blast
  with printed [of a b c] ParseMAC_printed [of "[0, 0, 0, of_nat a, of_nat b, of_nat c]"] show ?thesis by fastforce
qed

end
