(* ===== verification/CniShim.thy ===== *)
theory CniShim
  imports CniServer "HOL-Library.AList" "HOL-Library.List_Lexorder" "HOL-Library.Char_ord"
begin

text \<open>
  The CNI shim (\<open>internal/pkg/cnishim/cnishim.go\<close>): the plugin binary a container runtime
  calls, which hands its environment and its standard input to the CNI server of the node.

  The environment map is kept as an association list without repeated keys, because
  \<open>json.Marshal\<close> enumerates it. The HTTP client is an argument: given the socket and the
  body it returns an error, or the response with the error of reading its body. So are
  \<open>current.NewResult\<close> and \<open>types.PrintResult\<close> of the CNI library. The exchange with
  the server of the theory CniServer is put together at the end.
\<close>

section \<open>The request\<close>

type_synonym socket_path = string
type_synonym body_text = string
type_synonym env_list = "(string \<times> string) list"
type_synonym post_answer = "http_response \<times> goerr option + goerr"
type_synonym 's http_post = "socket_path \<Rightarrow> body_text \<Rightarrow> ('s, post_answer) go"

record Endpoint =
  cniServerSocketPath :: socket_path

definition CNIEndpoint :: "socket_path \<Rightarrow> Endpoint" where
  "CNIEndpoint path = \<lparr>cniServerSocketPath = (if length path = 0 then CNIServerSocketPath else path)\<rparr>"

record shim_request =
  shim_env :: env_list
  shim_config :: string

fun env_item :: "string \<Rightarrow> env_list \<Rightarrow> env_list" where
  "env_item item osEnvMap =
     (case Index item CHR ''='' of
        Some idx \<Rightarrow> if 0 < idx then AList.update (TrimSpace (take idx item)) (drop (idx + 1) item) osEnvMap else osEnvMap
      | None \<Rightarrow> osEnvMap)"

definition cniEndpointRequest :: "string list \<Rightarrow> string \<Rightarrow> shim_request" where
  "cniEndpointRequest environ stdin = \<lparr>shim_env = fold env_item environ [], shim_config = stdin\<rparr>"

text \<open>
  \<open>json.Marshal\<close> of the request: the keys of a map in the order of their bytes, a byte slice
  in base64, and no member for an empty value.
\<close>

definition object_text :: "(string \<times> string) list \<Rightarrow> string" where
  "object_text ms = ''{'' @ Join (map (\<lambda>(k, t). json_string k @ '':'' @ t) ms) '','' @ ''}''"

definition env_text :: "env_list \<Rightarrow> string" where
  "env_text env = object_text (map (\<lambda>(k, v). (k, json_string v)) (sort_key fst env))"

definition Marshal_request :: "shim_request \<Rightarrow> string" where
  "Marshal_request req = object_text
     ((if shim_env req = [] then [] else [(''env'', env_text (shim_env req))]) @
      (if shim_config req = [] then [] else [(''config'', json_string (b64_encode (shim_config req)))]))"

section \<open>The operations\<close>

definition sendCNIServerReq :: "'s http_post \<Rightarrow> Endpoint \<Rightarrow> shim_request \<Rightarrow> ('s, string \<times> goerr option) go" where
  "sendCNIServerReq Post ep req =
     bnd (Post (cniServerSocketPath ep) (Marshal_request req)) (\<lambda>a. case a of
       Inr e \<Rightarrow> ret ([], Some (Errorf (''Failed to send CNIServer request: '' @ Error e)))
     | Inl (reponse, err) \<Rightarrow>
         (case err of
            Some e \<Rightarrow> ret ([], Some (Errorf (''Failed to read the CNI Server reponse:'' @ Error e)))
          | None \<Rightarrow>
              if http_Status reponse \<noteq> 200 then
                ret ([], Some (Errorf (''CNI Server request is failed with reponse status '' @ Itoa (http_Status reponse) @
                  '' and reponse body '' @ http_Body reponse)))
              else ret (http_Body reponse, None)))"

definition shim_CmdAdd :: "'nc netconf_lib \<Rightarrow> 's http_post \<Rightarrow> (string \<Rightarrow> 'r + goerr) \<Rightarrow>
    ('r \<Rightarrow> 'nc option \<Rightarrow> ('s, goerr option) go) \<Rightarrow> Endpoint \<Rightarrow> string list \<Rightarrow> string \<Rightarrow> ('s, goerr option) go" where
  "shim_CmdAdd L Post NewResult PrintResult ep environ stdin =
     (case ConfigureNetConf (l_unmarshal L) (l_has_prev L) (l_parse_prev L) stdin of (conf, err) \<Rightarrow>
      if err \<noteq> None then ret (Some (Errorf ''invalid stdin args'')) else
      bnd (sendCNIServerReq Post ep (cniEndpointRequest environ stdin)) (\<lambda>(reponsebody, err).
      if err \<noteq> None then ret err else
      case NewResult reponsebody of
        Inr e \<Rightarrow> ret (Some (Errorf (''failed to unmarshall CNIServer Result reponse '' @ reponsebody @ '' - err:'' @ Error e)))
      | Inl result \<Rightarrow> PrintResult result conf))"

definition shim_CmdCheck :: "('s, goerr option) go" where
  "shim_CmdCheck = ret None"

definition shim_CmdDel :: "'s http_post \<Rightarrow> Endpoint \<Rightarrow> string list \<Rightarrow> string \<Rightarrow> ('s, goerr option) go" where
  "shim_CmdDel Post ep environ stdin =
     bnd (sendCNIServerReq Post ep (cniEndpointRequest environ stdin)) (\<lambda>(_, err). ret err)"

section \<open>The plugin's process\<close>

text \<open>
  \<open>main\<close> of \<open>cmd/ovn4nfvk8s-cni/ovn4nfvk8s-cni.go\<close>. Parsing the command line and
  the CNI skeleton, which picks one of the three commands by the environment and reports its
  error, are arguments. The result is the error printed, with its code: the errors of the flag
  library and of \<open>InitConfig\<close> are none of the CNI library's own, so the code is 100.
\<close>

type_synonym 's cni_cmd = "string list \<Rightarrow> string \<Rightarrow> ('s, goerr option) go"

definition plugin_action :: "('w, 'h) cfg_host_scheme \<Rightarrow> (('w, 'z) cfg_state_scheme, unit) go \<Rightarrow>
    (('w, 'z) cfg_state_scheme, goerr option) go" where
  "plugin_action H plugin_main =
     bnd (InitConfig H) (\<lambda>(_, err).
     if err \<noteq> None then ret err else
     bnd plugin_main (\<lambda>_. ret None))"

definition plugin_process :: "('w, 'h) cfg_host_scheme \<Rightarrow> (string list \<Rightarrow> config \<times> string + goerr) \<Rightarrow>
    (('w, 'z) cfg_state_scheme cni_cmd \<Rightarrow> ('w, 'z) cfg_state_scheme cni_cmd \<Rightarrow> ('w, 'z) cfg_state_scheme cni_cmd \<Rightarrow>
      (('w, 'z) cfg_state_scheme, unit) go) \<Rightarrow>
    'nc netconf_lib \<Rightarrow> ('w, 'z) cfg_state_scheme http_post \<Rightarrow> (string \<Rightarrow> 'r + goerr) \<Rightarrow>
    ('r \<Rightarrow> 'nc option \<Rightarrow> (('w, 'z) cfg_state_scheme, goerr option) go) \<Rightarrow> string list \<Rightarrow>
    (('w, 'z) cfg_state_scheme, (nat \<times> string) option) go" where
  "plugin_process H Parse PluginMain L Post NewResult PrintResult args =
     (let ep = CNIEndpoint [] in
      bnd (case Parse args of
             Inr e \<Rightarrow> ret (Some e)
           | Inl (cli, configFile) \<Rightarrow>
               bnd (modify (\<lambda>s. s\<lparr>cliConfig := cli, cli_config_file := configFile\<rparr>)) (\<lambda>_.
               plugin_action H (PluginMain (shim_CmdAdd L Post NewResult PrintResult ep) (\<lambda>_ _. shim_CmdCheck) (shim_CmdDel Post ep)))) (\<lambda>err.
      case err of
        Some e \<Rightarrow> ret (Some (100, Error e))
      | None \<Rightarrow> ret None))"

text \<open>
  Without a readable kubeconfig path the plugin does nothing but print an error: the commands
  are not called and nothing is posted, although none of them uses that path.
\<close>

lemma plugin_without_config:
  assumes "Parse args = Inl (cli, configFile)"
    and "InitConfig H (s\<lparr>cliConfig := cli, cli_config_file := configFile\<rparr>) = (Returns (path, Some e), t)"
  shows "plugin_process H Parse PluginMain L Post NewResult PrintResult args s = (Returns (Some (100, Error e)), t)"
  using assms by (simp add: plugin_process_def plugin_action_def Let_def bnd_def)

section \<open>Reading the request back\<close>

text \<open>A text is a value's, whatever follows it and with any fuel from \<open>n\<close> on.\<close>

definition reads :: "nat \<Rightarrow> string \<Rightarrow> json \<Rightarrow> bool" where
  "reads n t v \<longleftrightarrow> (\<forall>m r. n \<le> m \<longrightarrow> parse_value m (t @ r) = Some (v, r))"

lemma reads_mono: "reads n t v \<Longrightarrow> n \<le> m \<Longrightarrow> reads m t v"
  by (auto simp: reads_def)

lemma reads_string: "ascii s \<Longrightarrow> reads (Suc 0) (json_string s) (JStr s)"
  by (auto simp: reads_def json_string_def skip_ws_nonspace parse_json_string gr0_conv_Suc Suc_le_eq)

definition member_reads :: "nat \<Rightarrow> string \<times> string \<Rightarrow> string \<times> json \<Rightarrow> bool" where
  "member_reads n kt kv \<longleftrightarrow> fst kt = fst kv \<and> ascii (fst kv) \<and> reads n (snd kt) (snd kv)"

lemma parse_members_step:
  assumes "member_reads n (k, t) (k, v)" and "n \<le> m" and "\<not> is_json_space c"
  shows "parse_members (Suc m) (json_string k @ '':'' @ t @ c # r) =
    (if c = CHR ''}'' then Some ([(k, v)], r)
     else if c = CHR '','' then map_option (map_prod (Cons (k, v)) id) (parse_members m r) else None)"
proof -
  have "parse_value m (t @ c # r) = Some (v, c # r)" using assms by (simp add: member_reads_def reads_def)
  moreover have "parse_string (concat (map json_char k) @ dquote # '':'' @ t @ c # r) = Some (k, '':'' @ t @ c # r)"
    using assms(1) by (intro parse_json_string) (simp add: member_reads_def)
  ultimately show ?thesis using assms(3)
    by (subst parse_members.simps)
      (simp add: json_string_def skip_ws_nonspace del: parse_value.simps parse_members.simps split: option.split)
qed

lemma parse_members_object:
  assumes "list_all2 (member_reads n) kts kvs" and "kts \<noteq> []" and "n + length kts \<le> m"
  shows "parse_members m (Join (map (\<lambda>(k, t). json_string k @ '':'' @ t) kts) '','' @ CHR ''}'' # r) = Some (kvs, r)"
  using assms
proof (induction kts kvs arbitrary: m rule: list_all2_induct)
  case (Cons kt kts kv kvs)
  obtain k t v where kt: "kt = (k, t)" "kv = (k, v)" using Cons.hyps(1) by (cases kt; cases kv) (auto simp: member_reads_def)
  obtain m' where m: "m = Suc m'" "n \<le> m'" "n + length kts \<le> m'" using Cons.prems by (cases m) auto
  note step = parse_members_step [OF Cons.hyps(1) [unfolded kt] m(2)]
  show ?case
  proof (cases "kts = []")
    case True
    then show ?thesis using Cons.hyps(2) step [of "CHR ''}''" r] by (simp add: kt m del: parse_members.simps)
  next
    case False
    then show ?thesis using Cons.IH [OF False m(3)] step [of "CHR '',''"]
      by (simp add: kt m Join_Cons del: parse_members.simps)
  qed
qed simp

lemma object_starts: "kts \<noteq> [] \<Longrightarrow> \<exists>u. Join (map (\<lambda>(k, t). json_string k @ '':'' @ t) kts) '','' = dquote # u"
  by (cases kts; cases "tl kts = []") (auto simp: Join_Cons json_string_def)

lemma reads_object:
  assumes "list_all2 (member_reads n) kts kvs"
  shows "reads (Suc (n + length kts)) (object_text kts) (JObj kvs)"
  unfolding reads_def
proof (intro allI impI)
  fix m r
  assume "Suc (n + length kts) \<le> m"
  then obtain m' where m: "m = Suc m'" "n + length kts \<le> m'" by (cases m) auto
  show "parse_value m (object_text kts @ r) = Some (JObj kvs, r)"
  proof (cases "kts = []")
    case True
    then show ?thesis using assms by (simp add: m object_text_def skip_ws_nonspace dquote_def Join.simps)
  next
    case False
    have d: "CHR ''{'' \<noteq> dquote" "dquote \<noteq> CHR ''}''" by (simp_all add: dquote_def)
    from object_starts [OF False] obtain u where u: "Join (map (\<lambda>(k, t). json_string k @ '':'' @ t) kts) '','' = dquote # u" by blast
    from parse_members_object [OF assms False m(2), of r] d show ?thesis
      by (simp add: m object_text_def u [simplified] skip_ws_nonspace del: parse_members.simps)
  qed
qed


section \<open>The round trip\<close>

lemma list_all2_mapped: "(\<And>x. x \<in> set xs \<Longrightarrow> P (f x) (g x)) \<Longrightarrow> list_all2 P (map f xs) (map g xs)"
  by (simp add: list_all2_conv_all_nth)

lemma reads_env:
  assumes "\<forall>(k, v)\<in>set env. ascii k \<and> ascii v"
  shows "reads (length env + 2) (env_text env) (JObj (map (\<lambda>(k, v). (k, JStr v)) (sort_key fst env)))"
proof -
  have "list_all2 (member_reads (Suc 0)) (map (\<lambda>(k, v). (k, json_string v)) (sort_key fst env)) (map (\<lambda>(k, v). (k, JStr v)) (sort_key fst env))"
    using assms by (intro list_all2_mapped) (auto simp: member_reads_def reads_string)
  from reads_object [OF this] show ?thesis by (simp add: env_text_def)
qed

lemma env_map:
  assumes "distinct (map fst env)"
  shows "as_string_map (JObj (map (\<lambda>(k, v). (k, JStr v)) (sort_key fst env))) = Some (map_of env)"
proof -
  have "map_of (rev (sort_key fst env)) = map_of env"
    using assms by (subst map_of_inject_set) (auto simp: rev_map distinct_map)
  then show ?thesis by (auto simp: list_all_iff case_prod_beta rev_map comp_def)
qed

lemma ascii_names [simp]: "ascii ''env''" "ascii ''config''"
  by (simp_all add: ascii_def ord_def)

lemma Unmarshal_value_reads:
  assumes "reads n t v" and "n \<le> Suc (length t)"
  shows "Unmarshal_value t = Some v"
proof -
  have "parse_value (Suc (length t)) t = Some (v, [])" using assms unfolding reads_def by (metis append_Nil2)
  then show ?thesis by (simp add: Unmarshal_value_def skip_ws_def del: parse_value.simps)
qed

lemma length_Join: "length (Join xs sep) = sum_list (map length xs) + (length xs - 1) * length sep"
proof (induction xs)
  case (Cons x xs)
  then show ?case by (cases xs) (auto simp: Join_Cons)
qed simp

lemma object_text_length: "length kts + 2 \<le> length (object_text kts)"
proof -
  have "length kts \<le> sum_list (map length (map (\<lambda>(k, t). json_string k @ '':'' @ t) kts))"
    by (induction kts) auto
  then show ?thesis by (simp add: object_text_def length_Join)
qed

lemma env_text_length: "length env + 2 \<le> length (env_text env)"
  using object_text_length [of "map (\<lambda>(k, v). (k, json_string v)) (sort_key fst env)"] by (simp add: env_text_def)

lemma EqualFold_config_env [simp]: "\<not> EqualFold ''config'' ''env''"
  by code_simp

lemma Unmarshal_marshalled:
  assumes "distinct (map fst (shim_env req))" and "\<forall>(k, v)\<in>set (shim_env req). ascii k \<and> ascii v"
  shows "Unmarshal_request (Marshal_request req) = Some \<lparr>ArgEnv = map_of (shim_env req), NetConfig = shim_config req\<rparr>"
proof -
  let ?env = "shim_env req" and ?b = "b64_encode (shim_config req)"
  let ?ts = "(if ?env = [] then [] else [(''env'', env_text ?env)]) @
     (if shim_config req = [] then [] else [(''config'', json_string ?b)])"
  let ?vs = "(if ?env = [] then [] else [(''env'', JObj (map (\<lambda>(k, v). (k, JStr v)) (sort_key fst ?env)))]) @
     (if shim_config req = [] then [] else [(''config'', JStr ?b)])"
  have "list_all2 (member_reads (length ?env + 2)) ?ts ?vs"
    using reads_env [OF assms(2)] reads_mono [OF reads_string [of ?b], of "length ?env + 2"] by (auto simp: member_reads_def)
  from reads_object [OF this] have "reads (length ?env + 2 + length ?ts + 1) (Marshal_request req) (JObj ?vs)"
    by (simp add: Marshal_request_def)
  moreover have "length ?env + 2 + length ?ts + 1 \<le> Suc (length (Marshal_request req))"
    using env_text_length [of ?env] by (auto simp: Marshal_request_def object_text_def Join_Cons json_string_def)
  ultimately have "Unmarshal_value (Marshal_request req) = Some (JObj ?vs)" by (rule Unmarshal_value_reads)
  then show ?thesis
    using env_map [OF assms(1)] by (auto simp: Unmarshal_request_def request_field_def zero_request_def)
qed

text \<open>
  C9. The CNI server reads the shim's request back: for an environment of ASCII texts without
  repeated keys, and any bytes on the standard input, decoding what the shim has marshalled gives
  the environment as a map and the same bytes. The order of the keys, the escapes and the base64
  text of the configuration are lost on the way, as they should be.
\<close>

theorem request_roundtrip:
  assumes "distinct (map fst (shim_env req))" and "\<forall>(k, v)\<in>set (shim_env req). ascii k \<and> ascii v"
  shows "Unmarshal_request (Marshal_request req) = Some \<lparr>ArgEnv = map_of (shim_env req), NetConfig = shim_config req\<rparr>"
  using assms by (rule Unmarshal_marshalled)

theorem request_roundtrip_witness:
  "Unmarshal_request (Marshal_request \<lparr>shim_env = [(''CNI_NETNS'', ''/proc/<pid>/ns''), (''CNI_ARGS'', ''K8S_POD_NAME=web&'')], shim_config = ''{}''\<rparr>) =
    Some \<lparr>ArgEnv = map_of [(''CNI_NETNS'', ''/proc/<pid>/ns''), (''CNI_ARGS'', ''K8S_POD_NAME=web&'')], NetConfig = ''{}''\<rparr>"
  using request_roundtrip [of "\<lparr>shim_env = [(''CNI_NETNS'', ''/proc/<pid>/ns''), (''CNI_ARGS'', ''K8S_POD_NAME=web&'')], shim_config = ''{}''\<rparr>"]
  by (simp add: ascii_def ord_def)

section \<open>The shim and the server\<close>

text \<open>The HTTP client when the server of this node answers, and the body is read without an error.\<close>

definition served :: "'nc netconf_lib \<Rightarrow> ('nc CNIServerRequest \<Rightarrow> ('s, string \<times> goerr option) go) \<Rightarrow> 's http_post" where
  "served L requestFunc path text = bnd (handleCNIShimRequest L requestFunc text) (\<lambda>r. ret (Inl (r, None)))"

definition request_refused :: "string \<Rightarrow> goerr" where
  "request_refused msg = Errorf (''CNI Server request is failed with reponse status 400 and reponse body '' @ msg @ [CHR 0x0A])"

lemma env_item_keys: "distinct (map fst env) \<Longrightarrow> distinct (map fst (env_item item env))"
  by (simp add: distinct_update split: option.split)

lemma env_distinct: "distinct (map fst env) \<Longrightarrow> distinct (map fst (fold env_item environ env))"
  by (induction environ arbitrary: env) (simp_all add: env_item_keys del: env_item.simps)

lemma ascii_subset: "ascii s \<Longrightarrow> set t \<subseteq> set s \<Longrightarrow> ascii t"
  by (auto simp: ascii_def list_all_iff)

lemma set_env_update: "set (AList.update k v al) \<subseteq> insert (k, v) (set al)"
  by (induction al) auto

lemma set_TrimSpace: "set (TrimSpace s) \<subseteq> set s"
  by (auto simp: TrimSpace_def trim_left_def trim_right_def dest!: set_dropWhileD)

lemma env_item_ascii:
  assumes "ascii item" and "\<forall>(k, v)\<in>set env. ascii k \<and> ascii v"
  shows "\<forall>(k, v)\<in>set (env_item item env). ascii k \<and> ascii v"
proof -
  have "ascii (TrimSpace (take i item))" "ascii (drop (i + 1) item)" for i
    using ascii_subset [OF assms(1)] set_TrimSpace [of "take i item"] set_take_subset [of i item] set_drop_subset [of "i + 1" item] by blast+
  then have "\<forall>(k, v)\<in>insert (TrimSpace (take i item), drop (i + 1) item) (set env). ascii k \<and> ascii v" for i
    using assms(2) by simp
  then have "\<forall>(k, v)\<in>set (AList.update (TrimSpace (take i item)) (drop (i + 1) item) env). ascii k \<and> ascii v" for i
    using set_env_update [of "TrimSpace (take i item)" "drop (i + 1) item" env] by blast
  with assms(2) show ?thesis by (simp split: option.split)
qed

lemma env_ascii:
  "\<forall>item\<in>set environ. ascii item \<Longrightarrow> \<forall>(k, v)\<in>set env. ascii k \<and> ascii v \<Longrightarrow>
   \<forall>(k, v)\<in>set (fold env_item environ env). ascii k \<and> ascii v"
proof (induction environ arbitrary: env)
  case (Cons item environ)
  then show ?case using env_item_ascii [of item env] by (simp del: env_item.simps)
qed simp

text \<open>What the shim's call amounts to when the server answers it.\<close>

lemma exchange:
  assumes "\<forall>item\<in>set environ. ascii item"
  shows "sendCNIServerReq (served L requestFunc) ep (cniEndpointRequest environ stdin) =
    (case loadCNIRequestToCNIServer L \<lparr>ArgEnv = map_of (shim_env (cniEndpointRequest environ stdin)), NetConfig = stdin\<rparr> of
       Inr e \<Rightarrow> ret ([], Some (request_refused (Error e)))
     | Inl req \<Rightarrow> bnd (requestFunc req) (\<lambda>(result, err). case err of
         Some e \<Rightarrow> ret ([], Some (request_refused (Error e)))
       | None \<Rightarrow> ret (result, None)))"
proof -
  let ?req = "cniEndpointRequest environ stdin"
  have "Unmarshal_request (Marshal_request ?req) = Some \<lparr>ArgEnv = map_of (shim_env ?req), NetConfig = stdin\<rparr>"
    using Unmarshal_marshalled [of ?req] env_distinct [of "[]" environ] env_ascii [OF assms, of "[]"]
    by (simp add: cniEndpointRequest_def)
  then show ?thesis
    by (auto simp: sendCNIServerReq_def served_def handleCNIShimRequest_def http_Error_def request_refused_def bnd_assoc fun_eq_iff
        bnd_def Itoa.simps [of 400] Itoa.simps [of 40] Itoa.simps [of 4] hexdigit_def split: sum.split outcome.split option.split prod.split)
qed

text \<open>
  C15. The exchange is faithful. When the server of the node answers, the shim's call is the
  server's operation on the request the environment and the input stand for: the shim returns
  its result, or an error that carries the server's message, and a request the server cannot
  accept changes nothing.
\<close>

theorem shim_server_exchange:
  assumes "\<forall>item\<in>set environ. ascii item"
  shows "sendCNIServerReq (served L requestFunc) ep (cniEndpointRequest environ stdin) =
    (case loadCNIRequestToCNIServer L \<lparr>ArgEnv = map_of (shim_env (cniEndpointRequest environ stdin)), NetConfig = stdin\<rparr> of
       Inr e \<Rightarrow> ret ([], Some (request_refused (Error e)))
     | Inl req \<Rightarrow> bnd (requestFunc req) (\<lambda>(result, err). case err of
         Some e \<Rightarrow> ret ([], Some (request_refused (Error e)))
       | None \<Rightarrow> ret (result, None)))"
  using assms by (rule exchange)

definition demo_lib :: "unit netconf_lib" where
  "demo_lib = \<lparr>l_unmarshal = \<lambda>_. Inl (), l_has_prev = \<lambda>_. False, l_parse_prev = \<lambda>c. (c, None), l_json_error = \<lambda>_. ''json''\<rparr>"

definition demo_environ :: "string \<Rightarrow> string list" where
  "demo_environ cmd = [''CNI_COMMAND='' @ cmd, ''CNI_CONTAINERID=0123456789abcdef'', ''CNI_NETNS=/var/run/netns/a'', ''CNI_IFNAME=eth0'',
     ''CNI_ARGS=K8S_POD_NAMESPACE=default;K8S_POD_NAME=web'']"

lemma demo_environ_ascii: "list_all ascii (demo_environ ''DEL'')"
  by (simp add: demo_environ_def ascii_def ord_def)

definition demo_del_request :: "unit CNIServerRequest" where
  "demo_del_request = \<lparr>Command = ''DEL'', PodNamespace = ''default'', PodName = ''web'', SandboxID = ''0123456789abcdef'',
     Netns = ''/var/run/netns/a'', IfName = ''eth0'', CNIConf = Some ()\<rparr>"

lemma demo_loaded:
  "loadCNIRequestToCNIServer demo_lib \<lparr>ArgEnv = map_of (shim_env (cniEndpointRequest (demo_environ ''DEL'') ''{}'')), NetConfig = ''{}''\<rparr>
    = Inl demo_del_request"
  by code_simp

theorem shim_server_exchange_witness:
  "sendCNIServerReq (served demo_lib (\<lambda>req. ret (PodName req, None))) (CNIEndpoint []) (cniEndpointRequest (demo_environ ''DEL'') ''{}'') =
    ret (''web'', None)"
  using shim_server_exchange [of "demo_environ ''DEL''" demo_lib "\<lambda>req. ret (PodName req, None)" "CNIEndpoint []" "''{}''"]
    demo_environ_ascii by (simp add: list_all_iff demo_loaded demo_del_request_def del: ret_apply)

text \<open>
  C36. Deleting a pod's network, from the runtime's call to the bridge. If the environment makes
  a complete DEL request with a container identifier of at least 14 characters, and a port can
  always be removed or is already gone, then the shim's \<open>CmdDel\<close> succeeds and the CNI server
  has deleted the ports of the ten interface numbers, in order, and done nothing else.
\<close>

theorem shim_CmdDel_deletes:
  assumes "\<forall>item\<in>set environ. ascii item"
    and "loadCNIRequestToCNIServer L \<lparr>ArgEnv = map_of (shim_env (cniEndpointRequest environ stdin)), NetConfig = stdin\<rparr> = Inl req"
    and "Command req = ''DEL''" and "14 \<le> length (SandboxID req)" and "removable H"
  shows "\<exists>w. shim_CmdDel (served L (HandleCNIcommandRequest H B)) ep environ stdin s =
    (Returns None, s\<lparr>world := w, execlog := execlog s @ map (del_port (SandboxID req)) [0..<10]\<rparr>)"
proof -
  from cmdDel_returns [OF assms(4), of H s] assms(5) obtain w where
    "cmdDel H req s = (Returns ([], None), s\<lparr>world := w, execlog := execlog s @ map (del_port (SandboxID req)) [0..<10]\<rparr>)" by auto
  then show ?thesis
    using exchange [OF assms(1), of L "HandleCNIcommandRequest H B" ep stdin] assms(2,3)
    by (auto simp: shim_CmdDel_def HandleCNIcommandRequest_def bnd_def)
qed

theorem shim_CmdDel_deletes_witness:
  "\<exists>w. shim_CmdDel (served demo_lib (HandleCNIcommandRequest demo_cni_host demo_backoff)) (CNIEndpoint []) (demo_environ ''DEL'') ''{}'' demo_cni_state =
    (Returns None, demo_cni_state\<lparr>world := w, execlog := execlog demo_cni_state @ map (del_port ''0123456789abcdef'') [0..<10]\<rparr>)"
  using shim_CmdDel_deletes [OF _ demo_loaded, of demo_cni_host demo_backoff "CNIEndpoint []" demo_cni_state] demo_environ_ascii
  by (auto simp: list_all_iff demo_del_request_def removable_def)

end
