(* ===== verification/GoHeap.thy ===== *)
theory GoHeap
  imports Prelude
begin

text \<open>
  Memory for the functions whose correctness is about sharing: slices point to arrays, arrays are
  the cells of a store, and new arrays are taken from its end. The locale \<open>copying\<close> is what
  a deep copy promises: the copy has the value of the original, lives in new cells only, and
  leaves the old ones as they were. It is closed under pairs, structs, slices of plain values
  and slices of structs, the four ways the generated code puts copies together.
\<close>

section \<open>The store\<close>

record 'c mem =
  cells :: "nat \<rightharpoonup> 'c"
  brk :: nat

text \<open>A slice: the array, the offset of its first element, and its length. A nil slice is \<open>None\<close>.\<close>

record slice =
  ptr :: nat
  off :: nat
  len :: nat

definition extends :: "'c mem \<Rightarrow> 'c mem \<Rightarrow> bool" where
  "extends m m' \<longleftrightarrow> brk m \<le> brk m' \<and> (\<forall>a<brk m. cells m' a = cells m a)"

lemma extends_refl [simp]: "extends m m"
  by (simp add: extends_def)

lemma extends_trans: "extends m m' \<Longrightarrow> extends m' m'' \<Longrightarrow> extends m m''"
  by (auto simp: extends_def)

lemma extendsD: "extends m m' \<Longrightarrow> a < brk m \<Longrightarrow> cells m' a = cells m a"
  by (simp add: extends_def)

lemma extends_brk: "extends m m' \<Longrightarrow> brk m \<le> brk m'"
  by (simp add: extends_def)

definition same_on :: "nat set \<Rightarrow> 'c mem \<Rightarrow> 'c mem \<Rightarrow> bool" where
  "same_on A m m' \<longleftrightarrow> (\<forall>a\<in>A. cells m' a = cells m a)"

lemma same_on_Un: "same_on (A \<union> B) m m' \<longleftrightarrow> same_on A m m' \<and> same_on B m m'"
  by (auto simp: same_on_def)

lemma same_on_subset: "same_on B m m' \<Longrightarrow> A \<subseteq> B \<Longrightarrow> same_on A m m'"
  by (auto simp: same_on_def)

lemma extends_same_on: "extends m m' \<Longrightarrow> A \<subseteq> {..<brk m} \<Longrightarrow> same_on A m m'"
  by (auto simp: extends_def same_on_def)

section \<open>What a deep copy promises\<close>

text \<open>
  \<open>reach m x\<close> are the cells of \<open>x\<close>, \<open>val m x\<close> is its value, and \<open>ok m x\<close> says
  that its slices are within their arrays.
\<close>

locale copying =
  fixes reach :: "'c mem \<Rightarrow> 'a \<Rightarrow> nat set"
    and val :: "'c mem \<Rightarrow> 'a \<Rightarrow> 'v"
    and ok :: "'c mem \<Rightarrow> 'a \<Rightarrow> bool"
    and copy :: "'a \<Rightarrow> 'c mem \<Rightarrow> 'a \<times> 'c mem"
  assumes local: "same_on (reach m x) m m' \<Longrightarrow> reach m' x = reach m x \<and> val m' x = val m x"
    and ok_local: "ok m x \<Longrightarrow> same_on (reach m x) m m' \<Longrightarrow> brk m \<le> brk m' \<Longrightarrow> ok m' x"
    and allocated: "ok m x \<Longrightarrow> reach m x \<subseteq> {..<brk m}"
    and copied: "ok m x \<Longrightarrow> copy x m = (y, m') \<Longrightarrow>
      extends m m' \<and> ok m' y \<and> val m' y = val m x \<and> reach m' y \<subseteq> {brk m..<brk m'}"
begin

lemma survives: "ok m x \<Longrightarrow> extends m m' \<Longrightarrow> ok m' x \<and> val m' x = val m x \<and> reach m' x = reach m x"
  using local ok_local extends_same_on [OF _ allocated] extends_brk by metis

lemma disjoint:
  assumes "ok m x" and "copy x m = (y, m')"
  shows "reach m' x \<inter> reach m' y = {}"
proof -
  from copied [OF assms] have y: "reach m' y \<subseteq> {brk m..<brk m'}" and "extends m m'" by blast+
  then have "reach m' x \<subseteq> {..<brk m}" using survives [OF assms(1)] allocated [OF assms(1)] by blast
  with y show ?thesis by force
qed

text \<open>Whatever is then written to the cells of the one, the other does not change.\<close>

lemma copy_unaffected:
  assumes "ok m x" and "copy x m = (y, m')" and "same_on (- reach m' x) m' m''"
  shows "val m'' y = val m x"
proof -
  have "same_on (reach m' y) m' m''" using assms(3) disjoint [OF assms(1,2)] by (auto intro: same_on_subset)
  with local copied [OF assms(1,2)] show ?thesis by metis
qed

lemma original_unaffected:
  assumes "ok m x" and "copy x m = (y, m')" and "same_on (- reach m' y) m' m''"
  shows "val m'' x = val m x"
proof -
  have "same_on (reach m' x) m' m''" using assms(3) disjoint [OF assms(1,2)] by (auto intro: same_on_subset)
  with local survives [OF assms(1)] copied [OF assms(1,2)] show ?thesis by metis
qed

end

section \<open>Putting copies together\<close>

lemma copying_plain: "copying (\<lambda>_ _. {}) (\<lambda>_ x. x) (\<lambda>_ _. True) (\<lambda>x m. (x, m))"
  by unfold_locales auto

definition copy_pair :: "('a \<Rightarrow> 'c mem \<Rightarrow> 'a \<times> 'c mem) \<Rightarrow> ('b \<Rightarrow> 'c mem \<Rightarrow> 'b \<times> 'c mem) \<Rightarrow> 'a \<times> 'b \<Rightarrow> 'c mem \<Rightarrow> ('a \<times> 'b) \<times> 'c mem" where
  "copy_pair c d = (\<lambda>(x, y) m. case c x m of (x', m) \<Rightarrow> case d y m of (y', m) \<Rightarrow> ((x', y'), m))"

lemma copying_pair:
  assumes p: "copying r1 v1 k1 c1" and q: "copying r2 v2 k2 c2"
  shows "copying (\<lambda>m (x, y). r1 m x \<union> r2 m y) (\<lambda>m (x, y). (v1 m x, v2 m y)) (\<lambda>m (x, y). k1 m x \<and> k2 m y) (copy_pair c1 c2)"
proof (unfold_locales, goal_cases)
  case (1 m x m')
  then show ?case using copying.local [OF p] copying.local [OF q] by (auto simp: same_on_Un split: prod.splits)
next
  case (2 m x m')
  then show ?case using copying.ok_local [OF p] copying.ok_local [OF q] by (auto simp: same_on_Un split: prod.splits)
next
  case (3 m x)
  then show ?case using copying.allocated [OF p] copying.allocated [OF q] by (auto split: prod.splits)
next
  case (4 m x y m')
  obtain x1 x2 where x: "x = (x1, x2)" by fastforce
  from 4(2) obtain y1 n y2 where c: "c1 x1 m = (y1, n)" "c2 x2 n = (y2, m')" and y: "y = (y1, y2)"
    by (auto simp: x copy_pair_def split: prod.splits)
  from 4(1) have k: "k1 m x1" "k2 m x2" by (simp_all add: x)
  note c1 = copying.copied [OF p k(1) c(1)]
  then have x2: "k2 n x2 \<and> v2 n x2 = v2 m x2" using copying.survives [OF q k(2)] by blast
  then have c2: "extends n m' \<and> k2 m' y2 \<and> v2 m' y2 = v2 n x2 \<and> r2 m' y2 \<subseteq> {brk n..<brk m'}" using copying.copied [OF q _ c(2)] by blast
  then have y1: "k1 m' y1 \<and> v1 m' y1 = v1 n y1 \<and> r1 m' y1 = r1 n y1" using copying.survives [OF p] c1 by blast
  have "brk m \<le> brk n" "brk n \<le> brk m'" using c1 c2 by (auto dest: extends_brk)
  then have "r1 m' y1 \<union> r2 m' y2 \<subseteq> {brk m..<brk m'}" using c1 c2 y1 by force
  with c1 c2 x2 y1 show ?case by (auto simp: x y intro: extends_trans)
qed

text \<open>
  A struct: \<open>get\<close> picks the fields that are copied deeply, \<open>put\<close> writes their copies
  into a flat copy of the struct, and \<open>val_of\<close> makes the value of the struct from itself and
  the values of these fields.
\<close>

lemma copying_struct:
  assumes c: "copying r v k c" and get_put: "\<And>x y. get (put x y) = y" and val_put: "\<And>x y z. val_of (put x y) z = val_of x z"
  shows "copying (\<lambda>m x. r m (get x)) (\<lambda>m x. val_of x (v m (get x))) (\<lambda>m x. k m (get x)) (\<lambda>x m. case c (get x) m of (y, m) \<Rightarrow> (put x y, m))"
proof (unfold_locales, goal_cases)
  case (1 m x m')
  then show ?case using copying.local [OF c] by metis
next
  case (2 m x m')
  then show ?case using copying.ok_local [OF c] by metis
next
  case (3 m x)
  then show ?case using copying.allocated [OF c] by metis
next
  case (4 m x y m')
  then obtain z where z: "c (get x) m = (z, m')" "y = put x z" by (auto split: prod.splits)
  from copying.copied [OF c 4(1) z(1)] show ?case by (simp add: z(2) get_put val_put)
qed

section \<open>Lists and slices\<close>

fun copy_list :: "('a \<Rightarrow> 'c mem \<Rightarrow> 'a \<times> 'c mem) \<Rightarrow> 'a list \<Rightarrow> 'c mem \<Rightarrow> 'a list \<times> 'c mem" where
  "copy_list c [] m = ([], m)"
| "copy_list c (x # xs) m = (case c x m of (y, m) \<Rightarrow> case copy_list c xs m of (ys, m) \<Rightarrow> (y # ys, m))"

lemma length_copy_list: "copy_list c xs m = (ys, m') \<Longrightarrow> length ys = length xs"
  by (induction xs arbitrary: m ys) (auto split: prod.splits)

lemma copied_list:
  assumes c: "copying r v k c" and "list_all (k m) xs" and "copy_list c xs m = (ys, m')"
  shows "extends m m' \<and> list_all (k m') ys \<and> map (v m') ys = map (v m) xs \<and> (\<Union>y\<in>set ys. r m' y) \<subseteq> {brk m..<brk m'}"
  using assms(2,3)
proof (induction xs arbitrary: m ys)
  case (Cons x xs)
  from Cons.prems(2) obtain y n zs where y: "c x m = (y, n)" and zs: "copy_list c xs n = (zs, m')" and ys: "ys = y # zs"
    by (auto split: prod.splits)
  from Cons.prems(1) have x: "k m x" by simp
  note one = copying.copied [OF c x y]
  have rest: "list_all (k n) xs" "map (v n) xs = map (v m) xs"
    using Cons.prems(1) one copying.survives [OF c] by (auto simp: list_all_iff)
  note IH = Cons.IH [OF rest(1) zs]
  have "k m' y \<and> v m' y = v n y \<and> r m' y = r n y" using one IH copying.survives [OF c] by blast
  moreover have "brk m \<le> brk n" "brk n \<le> brk m'" using one IH by (auto dest: extends_brk)
  ultimately show ?case using one IH rest(2) by (auto simp: ys intro: extends_trans)
qed simp

text \<open>
  The arrays of one element type among the cells: \<open>mk\<close> makes a cell, \<open>sel\<close> reads it.
\<close>

definition elems :: "('c \<Rightarrow> 'a list option) \<Rightarrow> 'c mem \<Rightarrow> slice \<Rightarrow> 'a list" where
  "elems sel m s = (case Option.bind (cells m (ptr s)) sel of Some xs \<Rightarrow> take (len s) (drop (off s) xs) | None \<Rightarrow> [])"

definition in_array :: "('c \<Rightarrow> 'a list option) \<Rightarrow> 'c mem \<Rightarrow> slice \<Rightarrow> bool" where
  "in_array sel m s \<longleftrightarrow> ptr s < brk m \<and> (case Option.bind (cells m (ptr s)) sel of Some xs \<Rightarrow> off s + len s \<le> length xs | None \<Rightarrow> False)"

text \<open>
  The copy of a slice of structs, \<open>make\<close> and the loop over the elements: the new array is
  taken first and has its elements when all of them are copied.
\<close>

definition copy_items :: "('c \<Rightarrow> 'a list option) \<Rightarrow> ('a list \<Rightarrow> 'c) \<Rightarrow> ('a \<Rightarrow> 'c mem \<Rightarrow> 'a \<times> 'c mem) \<Rightarrow>
    slice option \<Rightarrow> 'c mem \<Rightarrow> slice option \<times> 'c mem" where
  "copy_items sel mk c s m = (case s of
     None \<Rightarrow> (None, m)
   | Some s \<Rightarrow>
       (case copy_list c (elems sel m s) (m\<lparr>brk := Suc (brk m)\<rparr>) of (ys, m') \<Rightarrow>
        (Some \<lparr>ptr = brk m, off = 0, len = length ys\<rparr>, m'\<lparr>cells := (cells m')(brk m \<mapsto> mk ys)\<rparr>)))"

text \<open>The copy of a slice of plain values, \<open>make\<close> and \<open>copy\<close>.\<close>

definition copy_slice :: "('c \<Rightarrow> 'a list option) \<Rightarrow> ('a list \<Rightarrow> 'c) \<Rightarrow> slice option \<Rightarrow> 'c mem \<Rightarrow> slice option \<times> 'c mem" where
  "copy_slice sel mk s m = (case s of
     None \<Rightarrow> (None, m)
   | Some s \<Rightarrow> (Some \<lparr>ptr = brk m, off = 0, len = length (elems sel m s)\<rparr>,
       m\<lparr>brk := Suc (brk m), cells := (cells m)(brk m \<mapsto> mk (elems sel m s))\<rparr>))"

lemma copy_list_plain: "copy_list (\<lambda>x m. (x, m)) xs m = (xs, m)"
  by (induction xs) simp_all

lemma copy_slice_items: "copy_slice sel mk = copy_items sel mk (\<lambda>x m. (x, m))"
  by (auto simp: fun_eq_iff copy_slice_def copy_items_def copy_list_plain split: option.splits)

definition slice_reach :: "('c \<Rightarrow> 'a list option) \<Rightarrow> ('c mem \<Rightarrow> 'a \<Rightarrow> nat set) \<Rightarrow> 'c mem \<Rightarrow> slice option \<Rightarrow> nat set" where
  "slice_reach sel r m s = (case s of None \<Rightarrow> {} | Some s \<Rightarrow> insert (ptr s) (\<Union>x\<in>set (elems sel m s). r m x))"

definition slice_val :: "('c \<Rightarrow> 'a list option) \<Rightarrow> ('c mem \<Rightarrow> 'a \<Rightarrow> 'v) \<Rightarrow> 'c mem \<Rightarrow> slice option \<Rightarrow> 'v list option" where
  "slice_val sel v m s = map_option (\<lambda>s. map (v m) (elems sel m s)) s"

definition slice_ok :: "('c \<Rightarrow> 'a list option) \<Rightarrow> ('c mem \<Rightarrow> 'a \<Rightarrow> bool) \<Rightarrow> 'c mem \<Rightarrow> slice option \<Rightarrow> bool" where
  "slice_ok sel k m s = (case s of None \<Rightarrow> True | Some s \<Rightarrow> in_array sel m s \<and> list_all (k m) (elems sel m s))"

lemmas slice_defs = slice_reach_def slice_val_def slice_ok_def

lemma same_elems: "cells m' (ptr s) = cells m (ptr s) \<Longrightarrow> elems sel m' s = elems sel m s"
  by (simp add: elems_def)

lemma copying_items:
  assumes c: "copying r v k c" and sel_mk: "\<And>xs. sel (mk xs) = Some xs"
  shows "copying (slice_reach sel r) (slice_val sel v) (slice_ok sel k) (copy_items sel mk c)"
proof (unfold_locales, goal_cases)
  case (1 m s m')
  show ?case
  proof (cases s)
    case (Some sl)
    with 1 have "elems sel m' sl = elems sel m sl" by (intro same_elems) (simp add: slice_reach_def same_on_def)
    moreover have "r m' x = r m x \<and> v m' x = v m x" if "x \<in> set (elems sel m sl)" for x
      using 1 that Some by (intro copying.local [OF c]) (auto simp: slice_reach_def elim!: same_on_subset)
    ultimately show ?thesis using Some by (auto simp: slice_defs)
  qed (simp add: slice_defs)
next
  case (2 m s m')
  show ?case
  proof (cases s)
    case (Some sl)
    with 2 have same: "cells m' (ptr sl) = cells m (ptr sl)" by (simp add: slice_reach_def same_on_def)
    moreover have "same_on (r m x) m m'" if "x \<in> set (elems sel m sl)" for x
      using 2 that Some by (auto simp: slice_reach_def elim!: same_on_subset)
    ultimately show ?thesis
      using 2 Some copying.ok_local [OF c] by (auto simp: slice_ok_def in_array_def list_all_iff same_elems [OF same])
  qed (simp add: slice_defs)
next
  case (3 m s)
  show ?case
  proof (cases s)
    case (Some sl)
    with 3 have "ptr sl < brk m" "list_all (k m) (elems sel m sl)" by (auto simp: slice_ok_def in_array_def)
    with Some copying.allocated [OF c] show ?thesis by (fastforce simp: slice_reach_def list_all_iff)
  qed (simp add: slice_defs)
next
  case (4 m s t m')
  show ?case
  proof (cases s)
    case None
    with 4 show ?thesis by (auto simp: copy_items_def slice_defs)
  next
    case (Some sl)
    let ?n = "m\<lparr>brk := Suc (brk m)\<rparr>"
    obtain ys n' where ys: "copy_list c (elems sel m sl) ?n = (ys, n')" by fastforce
    let ?t = "\<lparr>ptr = brk m, off = 0, len = length ys\<rparr>" and ?m = "n'\<lparr>cells := (cells n')(brk m \<mapsto> mk ys)\<rparr>"
    from 4(2) Some ys have t: "t = Some ?t" "m' = ?m" by (simp_all add: copy_items_def)
    have grow: "extends m ?n" by (simp add: extends_def)
    have "list_all (k ?n) (elems sel m sl)" "map (v ?n) (elems sel m sl) = map (v m) (elems sel m sl)"
      using 4(1) Some copying.survives [OF c _ grow] by (auto simp: slice_ok_def list_all_iff)
    with copied_list [OF c _ ys] have l: "extends ?n n'" "list_all (k n') ys" "map (v n') ys = map (v m) (elems sel m sl)"
      "(\<Union>y\<in>set ys. r n' y) \<subseteq> {Suc (brk m)..<brk n'}" by simp_all
    have keep: "same_on (r n' y) n' m'" if "y \<in> set ys" for y using l(4) that by (force simp: same_on_def t(2))
    then have loc: "r m' y = r n' y \<and> v m' y = v n' y \<and> k m' y" if "y \<in> set ys" for y
      using copying.local [OF c] copying.ok_local [OF c, of n' y m'] l(2) that by (auto simp: t(2) list_all_iff)
    have el: "elems sel m' ?t = ys" by (simp add: t(2) elems_def sel_mk)
    have "brk m < brk n'" "\<forall>a<brk m. cells n' a = cells m a" using l(1) by (auto simp: extends_def)
    then have "extends m m'" by (simp add: extends_def t(2))
    moreover have "slice_ok sel k m' t" using loc \<open>brk m < brk n'\<close> by (simp add: slice_ok_def t(1) el list_all_iff) (simp add: in_array_def t(2) sel_mk)
    moreover have "slice_val sel v m' t = slice_val sel v m s" using l(3) loc by (simp add: slice_val_def t(1) el Some cong: map_cong)
    moreover have "slice_reach sel r m' t = insert (brk m) (\<Union>y\<in>set ys. r n' y)" using loc by (auto simp: slice_reach_def t(1) el)
    then have "slice_reach sel r m' t \<subseteq> {brk m..<brk m'}" using l(4) \<open>brk m < brk n'\<close> unfolding t(2) by fastforce
    ultimately show ?thesis by blast
  qed
qed

lemma copying_slice:
  assumes "\<And>xs. sel (mk xs) = Some xs"
  shows "copying (slice_reach sel (\<lambda>_ _. {})) (slice_val sel (\<lambda>_ x. x)) (slice_ok sel (\<lambda>_ _. True)) (copy_slice sel mk)"
  unfolding copy_slice_items using assms by (intro copying_items copying_plain)

end
