(* ===== verification/DeepCopy.thy ===== *)
theory DeepCopy
  imports GoHeap ApiTypes
begin

text \<open>
  The deep copies of the custom resources (\<open>pkg/apis/k8s/v1alpha1/zz_generated.deepcopy.go\<close>)
  over the memory of the theory GoHeap: the structs as they lie in memory, with their slices,
  the copying functions, and the proof that each of them keeps the promise of a deep copy. The
  copies of \<open>ObjectMeta\<close> and \<open>ListMeta\<close> are code of the API machinery: they are
  arguments, and their promise is a hypothesis.
\<close>

section \<open>Structs in memory\<close>

record TypeMeta =
  tm_Kind :: string
  tm_APIVersion :: string

record DnsSpec_m =
  dnsm_Nameservers :: "slice option"
  dnsm_Domain :: string
  dnsm_Search :: "slice option"
  dnsm_Options :: "slice option"

record NetworkSpec_m =
  nwm_CniType :: string
  nwm_Ipv4Subnets :: "slice option"
  nwm_Ipv6Subnets :: "slice option"
  nwm_DNS :: DnsSpec_m
  nwm_Routes :: "slice option"

record VlanSpec_m =
  vlanm_VlanId :: string
  vlanm_VlanNodeSelector :: string
  vlanm_NodeLabelList :: "slice option"
  vlanm_ProviderInterfaceName :: string
  vlanm_LogicalInterfaceName :: string

record DirectSpec_m =
  dirm_DirectNodeSelector :: string
  dirm_NodeLabelList :: "slice option"
  dirm_ProviderInterfaceName :: string

record ProviderNetworkSpec_m =
  pnm_CniType :: string
  pnm_Ipv4Subnets :: "slice option"
  pnm_Ipv6Subnets :: "slice option"
  pnm_DNS :: DnsSpec_m
  pnm_Routes :: "slice option"
  pnm_ProviderNetType :: string
  pnm_Vlan :: VlanSpec_m
  pnm_Direct :: DirectSpec_m

record RouteSpec_m =
  rsm_LeftNetwork :: "slice option"
  rsm_RightNetwork :: "slice option"
  rsm_NetworkChain :: string
  rsm_Namespace :: string

record NetworkChainingSpec_m =
  ncm_ChainType :: string
  ncm_RoutingSpec :: RouteSpec_m

text \<open>The three resources have the same shape; the three status structs hold one string each.\<close>

record Status_m =
  st_State :: string

record ('m, 's) object_m =
  om_TypeMeta :: TypeMeta
  om_ObjectMeta :: 'm
  om_Spec :: 's
  om_Status :: Status_m

type_synonym 'm Network_m = "('m, NetworkSpec_m) object_m"
type_synonym 'm ProviderNetwork_m = "('m, ProviderNetworkSpec_m) object_m"
type_synonym 'm NetworkChaining_m = "('m, NetworkChainingSpec_m) object_m"

record 'l list_m =
  lm_TypeMeta :: TypeMeta
  lm_ListMeta :: 'l
  lm_Items :: "slice option"

text \<open>The cells: arrays by the type of their elements, and what the API machinery allocates.\<close>

datatype ('m, 'x) cell =
    Strings "string list"
  | Subnets "IpSubnet list"
  | Routes "Route list"
  | RoutingNetworks "RoutingNetwork list"
  | Networks "'m Network_m list"
  | ProviderNetworks "'m ProviderNetwork_m list"
  | NetworkChainings "'m NetworkChaining_m list"
  | Foreign 'x

fun sel_Strings :: "('m, 'x) cell \<Rightarrow> string list option" where
  "sel_Strings (Strings xs) = Some xs"
| "sel_Strings _ = None"

fun sel_Subnets :: "('m, 'x) cell \<Rightarrow> IpSubnet list option" where
  "sel_Subnets (Subnets xs) = Some xs"
| "sel_Subnets _ = None"

fun sel_Routes :: "('m, 'x) cell \<Rightarrow> Route list option" where
  "sel_Routes (Routes xs) = Some xs"
| "sel_Routes _ = None"

fun sel_RoutingNetworks :: "('m, 'x) cell \<Rightarrow> RoutingNetwork list option" where
  "sel_RoutingNetworks (RoutingNetworks xs) = Some xs"
| "sel_RoutingNetworks _ = None"

fun sel_Networks :: "('m, 'x) cell \<Rightarrow> 'm Network_m list option" where
  "sel_Networks (Networks xs) = Some xs"
| "sel_Networks _ = None"

fun sel_ProviderNetworks :: "('m, 'x) cell \<Rightarrow> 'm ProviderNetwork_m list option" where
  "sel_ProviderNetworks (ProviderNetworks xs) = Some xs"
| "sel_ProviderNetworks _ = None"

fun sel_NetworkChainings :: "('m, 'x) cell \<Rightarrow> 'm NetworkChaining_m list option" where
  "sel_NetworkChainings (NetworkChainings xs) = Some xs"
| "sel_NetworkChainings _ = None"

type_synonym ('m, 'x, 'a) copier = "'a \<Rightarrow> ('m, 'x) cell mem \<Rightarrow> 'a \<times> ('m, 'x) cell mem"

section \<open>The copying functions\<close>

text \<open>
  A \<open>DeepCopyInto\<close> gives the struct that \<open>out\<close> points to afterwards; what was there
  before is overwritten by the first assignment. A \<open>DeepCopy\<close> takes a pointer, nil or not,
  and gives a pointer to a new struct; a pointer is given by what it points to.
\<close>

definition deep_copy :: "('m, 'x, 'a) copier \<Rightarrow> ('m, 'x, 'a option) copier" where
  "deep_copy into p m = (case p of
     None \<Rightarrow> (None, m)
   | Some x \<Rightarrow> (case into x m of (y, m) \<Rightarrow> (Some y, m)))"

definition IpSubnet_DeepCopyInto :: "('m, 'x, IpSubnet) copier" where
  "IpSubnet_DeepCopyInto x m = (x, m)"

definition IpSubnet_DeepCopy :: "('m, 'x, IpSubnet option) copier" where
  "IpSubnet_DeepCopy = deep_copy IpSubnet_DeepCopyInto"

definition Route_DeepCopyInto :: "('m, 'x, Route) copier" where
  "Route_DeepCopyInto x m = (x, m)"

definition Route_DeepCopy :: "('m, 'x, Route option) copier" where
  "Route_DeepCopy = deep_copy Route_DeepCopyInto"

definition RoutingNetwork_DeepCopyInto :: "('m, 'x, RoutingNetwork) copier" where
  "RoutingNetwork_DeepCopyInto x m = (x, m)"

definition RoutingNetwork_DeepCopy :: "('m, 'x, RoutingNetwork option) copier" where
  "RoutingNetwork_DeepCopy = deep_copy RoutingNetwork_DeepCopyInto"

definition NetworkStatus_DeepCopyInto :: "('m, 'x, Status_m) copier" where
  "NetworkStatus_DeepCopyInto x m = (x, m)"

definition NetworkStatus_DeepCopy :: "('m, 'x, Status_m option) copier" where
  "NetworkStatus_DeepCopy = deep_copy NetworkStatus_DeepCopyInto"

definition ProviderNetworkStatus_DeepCopyInto :: "('m, 'x, Status_m) copier" where
  "ProviderNetworkStatus_DeepCopyInto x m = (x, m)"

definition ProviderNetworkStatus_DeepCopy :: "('m, 'x, Status_m option) copier" where
  "ProviderNetworkStatus_DeepCopy = deep_copy ProviderNetworkStatus_DeepCopyInto"

definition NetworkChainingStatus_DeepCopyInto :: "('m, 'x, Status_m) copier" where
  "NetworkChainingStatus_DeepCopyInto x m = (x, m)"

definition NetworkChainingStatus_DeepCopy :: "('m, 'x, Status_m option) copier" where
  "NetworkChainingStatus_DeepCopy = deep_copy NetworkChainingStatus_DeepCopyInto"

definition DirectSpec_DeepCopyInto :: "('m, 'x, DirectSpec_m) copier" where
  "DirectSpec_DeepCopyInto x m =
     (let (labels, m) = copy_slice sel_Strings Strings (dirm_NodeLabelList x) m in
      (x\<lparr>dirm_NodeLabelList := labels\<rparr>, m))"

definition DirectSpec_DeepCopy :: "('m, 'x, DirectSpec_m option) copier" where
  "DirectSpec_DeepCopy = deep_copy DirectSpec_DeepCopyInto"

definition VlanSpec_DeepCopyInto :: "('m, 'x, VlanSpec_m) copier" where
  "VlanSpec_DeepCopyInto x m =
     (let (labels, m) = copy_slice sel_Strings Strings (vlanm_NodeLabelList x) m in
      (x\<lparr>vlanm_NodeLabelList := labels\<rparr>, m))"

definition VlanSpec_DeepCopy :: "('m, 'x, VlanSpec_m option) copier" where
  "VlanSpec_DeepCopy = deep_copy VlanSpec_DeepCopyInto"

definition DnsSpec_DeepCopyInto :: "('m, 'x, DnsSpec_m) copier" where
  "DnsSpec_DeepCopyInto x m =
     (let (nameservers, m) = copy_slice sel_Strings Strings (dnsm_Nameservers x) m;
          (search, m) = copy_slice sel_Strings Strings (dnsm_Search x) m;
          (options, m) = copy_slice sel_Strings Strings (dnsm_Options x) m in
      (x\<lparr>dnsm_Nameservers := nameservers, dnsm_Search := search, dnsm_Options := options\<rparr>, m))"

definition DnsSpec_DeepCopy :: "('m, 'x, DnsSpec_m option) copier" where
  "DnsSpec_DeepCopy = deep_copy DnsSpec_DeepCopyInto"

definition NetworkSpec_DeepCopyInto :: "('m, 'x, NetworkSpec_m) copier" where
  "NetworkSpec_DeepCopyInto x m =
     (let (ipv4, m) = copy_slice sel_Subnets Subnets (nwm_Ipv4Subnets x) m;
          (ipv6, m) = copy_slice sel_Subnets Subnets (nwm_Ipv6Subnets x) m;
          (dns, m) = DnsSpec_DeepCopyInto (nwm_DNS x) m;
          (routes, m) = copy_slice sel_Routes Routes (nwm_Routes x) m in
      (x\<lparr>nwm_Ipv4Subnets := ipv4, nwm_Ipv6Subnets := ipv6, nwm_DNS := dns, nwm_Routes := routes\<rparr>, m))"

definition NetworkSpec_DeepCopy :: "('m, 'x, NetworkSpec_m option) copier" where
  "NetworkSpec_DeepCopy = deep_copy NetworkSpec_DeepCopyInto"

definition ProviderNetworkSpec_DeepCopyInto :: "('m, 'x, ProviderNetworkSpec_m) copier" where
  "ProviderNetworkSpec_DeepCopyInto x m =
     (let (ipv4, m) = copy_slice sel_Subnets Subnets (pnm_Ipv4Subnets x) m;
          (ipv6, m) = copy_slice sel_Subnets Subnets (pnm_Ipv6Subnets x) m;
          (dns, m) = DnsSpec_DeepCopyInto (pnm_DNS x) m;
          (routes, m) = copy_slice sel_Routes Routes (pnm_Routes x) m;
          (vlan, m) = VlanSpec_DeepCopyInto (pnm_Vlan x) m;
          (direct, m) = DirectSpec_DeepCopyInto (pnm_Direct x) m in
      (x\<lparr>pnm_Ipv4Subnets := ipv4, pnm_Ipv6Subnets := ipv6, pnm_DNS := dns, pnm_Routes := routes, pnm_Vlan := vlan, pnm_Direct := direct\<rparr>, m))"

definition ProviderNetworkSpec_DeepCopy :: "('m, 'x, ProviderNetworkSpec_m option) copier" where
  "ProviderNetworkSpec_DeepCopy = deep_copy ProviderNetworkSpec_DeepCopyInto"

definition RouteSpec_DeepCopyInto :: "('m, 'x, RouteSpec_m) copier" where
  "RouteSpec_DeepCopyInto x m =
     (let (left, m) = copy_slice sel_RoutingNetworks RoutingNetworks (rsm_LeftNetwork x) m;
          (right, m) = copy_slice sel_RoutingNetworks RoutingNetworks (rsm_RightNetwork x) m in
      (x\<lparr>rsm_LeftNetwork := left, rsm_RightNetwork := right\<rparr>, m))"

definition RouteSpec_DeepCopy :: "('m, 'x, RouteSpec_m option) copier" where
  "RouteSpec_DeepCopy = deep_copy RouteSpec_DeepCopyInto"

definition NetworkChainingSpec_DeepCopyInto :: "('m, 'x, NetworkChainingSpec_m) copier" where
  "NetworkChainingSpec_DeepCopyInto x m =
     (let (routing, m) = RouteSpec_DeepCopyInto (ncm_RoutingSpec x) m in
      (x\<lparr>ncm_RoutingSpec := routing\<rparr>, m))"

definition NetworkChainingSpec_DeepCopy :: "('m, 'x, NetworkChainingSpec_m option) copier" where
  "NetworkChainingSpec_DeepCopy = deep_copy NetworkChainingSpec_DeepCopyInto"

text \<open>The resources; \<open>meta\<close> is \<open>ObjectMeta.DeepCopyInto\<close>.\<close>

definition Network_DeepCopyInto :: "('m, 'x, 'm) copier \<Rightarrow> ('m, 'x, 'm Network_m) copier" where
  "Network_DeepCopyInto meta x m =
     (let (om, m) = meta (om_ObjectMeta x) m;
          (spec, m) = NetworkSpec_DeepCopyInto (om_Spec x) m in
      (x\<lparr>om_ObjectMeta := om, om_Spec := spec\<rparr>, m))"

definition Network_DeepCopy :: "('m, 'x, 'm) copier \<Rightarrow> ('m, 'x, 'm Network_m option) copier" where
  "Network_DeepCopy meta = deep_copy (Network_DeepCopyInto meta)"

definition ProviderNetwork_DeepCopyInto :: "('m, 'x, 'm) copier \<Rightarrow> ('m, 'x, 'm ProviderNetwork_m) copier" where
  "ProviderNetwork_DeepCopyInto meta x m =
     (let (om, m) = meta (om_ObjectMeta x) m;
          (spec, m) = ProviderNetworkSpec_DeepCopyInto (om_Spec x) m in
      (x\<lparr>om_ObjectMeta := om, om_Spec := spec\<rparr>, m))"

definition ProviderNetwork_DeepCopy :: "('m, 'x, 'm) copier \<Rightarrow> ('m, 'x, 'm ProviderNetwork_m option) copier" where
  "ProviderNetwork_DeepCopy meta = deep_copy (ProviderNetwork_DeepCopyInto meta)"

definition NetworkChaining_DeepCopyInto :: "('m, 'x, 'm) copier \<Rightarrow> ('m, 'x, 'm NetworkChaining_m) copier" where
  "NetworkChaining_DeepCopyInto meta x m =
     (let (om, m) = meta (om_ObjectMeta x) m;
          (spec, m) = NetworkChainingSpec_DeepCopyInto (om_Spec x) m in
      (x\<lparr>om_ObjectMeta := om, om_Spec := spec\<rparr>, m))"

definition NetworkChaining_DeepCopy :: "('m, 'x, 'm) copier \<Rightarrow> ('m, 'x, 'm NetworkChaining_m option) copier" where
  "NetworkChaining_DeepCopy meta = deep_copy (NetworkChaining_DeepCopyInto meta)"

text \<open>The lists; \<open>lmeta\<close> is \<open>ListMeta.DeepCopyInto\<close>.\<close>

definition NetworkList_DeepCopyInto :: "('m, 'x, 'l) copier \<Rightarrow> ('m, 'x, 'm) copier \<Rightarrow> ('m, 'x, 'l list_m) copier" where
  "NetworkList_DeepCopyInto lmeta meta x m =
     (let (lm, m) = lmeta (lm_ListMeta x) m;
          (items, m) = copy_items sel_Networks Networks (Network_DeepCopyInto meta) (lm_Items x) m in
      (x\<lparr>lm_ListMeta := lm, lm_Items := items\<rparr>, m))"

definition NetworkList_DeepCopy :: "('m, 'x, 'l) copier \<Rightarrow> ('m, 'x, 'm) copier \<Rightarrow> ('m, 'x, 'l list_m option) copier" where
  "NetworkList_DeepCopy lmeta meta = deep_copy (NetworkList_DeepCopyInto lmeta meta)"

definition ProviderNetworkList_DeepCopyInto :: "('m, 'x, 'l) copier \<Rightarrow> ('m, 'x, 'm) copier \<Rightarrow> ('m, 'x, 'l list_m) copier" where
  "ProviderNetworkList_DeepCopyInto lmeta meta x m =
     (let (lm, m) = lmeta (lm_ListMeta x) m;
          (items, m) = copy_items sel_ProviderNetworks ProviderNetworks (ProviderNetwork_DeepCopyInto meta) (lm_Items x) m in
      (x\<lparr>lm_ListMeta := lm, lm_Items := items\<rparr>, m))"

definition ProviderNetworkList_DeepCopy :: "('m, 'x, 'l) copier \<Rightarrow> ('m, 'x, 'm) copier \<Rightarrow> ('m, 'x, 'l list_m option) copier" where
  "ProviderNetworkList_DeepCopy lmeta meta = deep_copy (ProviderNetworkList_DeepCopyInto lmeta meta)"

definition NetworkChainingList_DeepCopyInto :: "('m, 'x, 'l) copier \<Rightarrow> ('m, 'x, 'm) copier \<Rightarrow> ('m, 'x, 'l list_m) copier" where
  "NetworkChainingList_DeepCopyInto lmeta meta x m =
     (let (lm, m) = lmeta (lm_ListMeta x) m;
          (items, m) = copy_items sel_NetworkChainings NetworkChainings (NetworkChaining_DeepCopyInto meta) (lm_Items x) m in
      (x\<lparr>lm_ListMeta := lm, lm_Items := items\<rparr>, m))"

definition NetworkChainingList_DeepCopy :: "('m, 'x, 'l) copier \<Rightarrow> ('m, 'x, 'm) copier \<Rightarrow> ('m, 'x, 'l list_m option) copier" where
  "NetworkChainingList_DeepCopy lmeta meta = deep_copy (NetworkChainingList_DeepCopyInto lmeta meta)"

text \<open>As \<open>runtime.Object\<close>: a nil pointer becomes a nil interface, not an interface that holds nil.\<close>

datatype ('m, 'l) runtime_object =
    NetworkObj "'m Network_m" | NetworkListObj "'l list_m"
  | ProviderNetworkObj "'m ProviderNetwork_m" | ProviderNetworkListObj "'l list_m"
  | NetworkChainingObj "'m NetworkChaining_m" | NetworkChainingListObj "'l list_m"

definition Network_DeepCopyObject :: "('m, 'x, 'm) copier \<Rightarrow> 'm Network_m option \<Rightarrow> ('m, 'x) cell mem \<Rightarrow>
    ('m, 'l) runtime_object option \<times> ('m, 'x) cell mem" where
  "Network_DeepCopyObject meta p m = (case Network_DeepCopy meta p m of (c, m) \<Rightarrow> (map_option NetworkObj c, m))"

definition NetworkList_DeepCopyObject :: "('m, 'x, 'l) copier \<Rightarrow> ('m, 'x, 'm) copier \<Rightarrow> 'l list_m option \<Rightarrow> ('m, 'x) cell mem \<Rightarrow>
    ('m, 'l) runtime_object option \<times> ('m, 'x) cell mem" where
  "NetworkList_DeepCopyObject lmeta meta p m = (case NetworkList_DeepCopy lmeta meta p m of (c, m) \<Rightarrow> (map_option NetworkListObj c, m))"

definition ProviderNetwork_DeepCopyObject :: "('m, 'x, 'm) copier \<Rightarrow> 'm ProviderNetwork_m option \<Rightarrow> ('m, 'x) cell mem \<Rightarrow>
    ('m, 'l) runtime_object option \<times> ('m, 'x) cell mem" where
  "ProviderNetwork_DeepCopyObject meta p m = (case ProviderNetwork_DeepCopy meta p m of (c, m) \<Rightarrow> (map_option ProviderNetworkObj c, m))"

definition ProviderNetworkList_DeepCopyObject :: "('m, 'x, 'l) copier \<Rightarrow> ('m, 'x, 'm) copier \<Rightarrow> 'l list_m option \<Rightarrow> ('m, 'x) cell mem \<Rightarrow>
    ('m, 'l) runtime_object option \<times> ('m, 'x) cell mem" where
  "ProviderNetworkList_DeepCopyObject lmeta meta p m = (case ProviderNetworkList_DeepCopy lmeta meta p m of (c, m) \<Rightarrow> (map_option ProviderNetworkListObj c, m))"

definition NetworkChaining_DeepCopyObject :: "('m, 'x, 'm) copier \<Rightarrow> 'm NetworkChaining_m option \<Rightarrow> ('m, 'x) cell mem \<Rightarrow>
    ('m, 'l) runtime_object option \<times> ('m, 'x) cell mem" where
  "NetworkChaining_DeepCopyObject meta p m = (case NetworkChaining_DeepCopy meta p m of (c, m) \<Rightarrow> (map_option NetworkChainingObj c, m))"

definition NetworkChainingList_DeepCopyObject :: "('m, 'x, 'l) copier \<Rightarrow> ('m, 'x, 'm) copier \<Rightarrow> 'l list_m option \<Rightarrow> ('m, 'x) cell mem \<Rightarrow>
    ('m, 'l) runtime_object option \<times> ('m, 'x) cell mem" where
  "NetworkChainingList_DeepCopyObject lmeta meta p m = (case NetworkChainingList_DeepCopy lmeta meta p m of (c, m) \<Rightarrow> (map_option NetworkChainingListObj c, m))"

section \<open>Values of structs in memory\<close>

text \<open>
  The value of a struct in memory is the record of the theory ApiTypes, for which a nil slice is
  an empty list.
\<close>

definition entries :: "'a list option \<Rightarrow> 'a list" where
  "entries v = (case v of None \<Rightarrow> [] | Some xs \<Rightarrow> xs)"

definition flat_reach :: "(('m, 'x) cell \<Rightarrow> 'a list option) \<Rightarrow> ('m, 'x) cell mem \<Rightarrow> slice option \<Rightarrow> nat set" where
  "flat_reach sel = slice_reach sel (\<lambda>_ _. {})"

definition flat_val :: "(('m, 'x) cell \<Rightarrow> 'a list option) \<Rightarrow> ('m, 'x) cell mem \<Rightarrow> slice option \<Rightarrow> 'a list option" where
  "flat_val sel = slice_val sel (\<lambda>_ x. x)"

definition flat_ok :: "(('m, 'x) cell \<Rightarrow> 'a list option) \<Rightarrow> ('m, 'x) cell mem \<Rightarrow> slice option \<Rightarrow> bool" where
  "flat_ok sel = slice_ok sel (\<lambda>_ _. True)"

lemma copying_flat:
  "(\<And>xs. sel (mk xs) = Some xs) \<Longrightarrow> copying (flat_reach sel) (flat_val sel) (flat_ok sel) (copy_slice sel mk)"
  unfolding flat_reach_def flat_val_def flat_ok_def by (rule copying_slice)

definition DirectSpec_reach :: "('m, 'x) cell mem \<Rightarrow> DirectSpec_m \<Rightarrow> nat set" where
  "DirectSpec_reach m x = flat_reach sel_Strings m (dirm_NodeLabelList x)"

definition DirectSpec_val :: "('m, 'x) cell mem \<Rightarrow> DirectSpec_m \<Rightarrow> DirectSpec" where
  "DirectSpec_val m x = \<lparr>DirectNodeSelector = dirm_DirectNodeSelector x,
     direct_NodeLabelList = entries (flat_val sel_Strings m (dirm_NodeLabelList x)), direct_ProviderInterfaceName = dirm_ProviderInterfaceName x\<rparr>"

definition DirectSpec_ok :: "('m, 'x) cell mem \<Rightarrow> DirectSpec_m \<Rightarrow> bool" where
  "DirectSpec_ok m x = flat_ok sel_Strings m (dirm_NodeLabelList x)"

lemma copying_DirectSpec: "copying DirectSpec_reach DirectSpec_val DirectSpec_ok DirectSpec_DeepCopyInto"
  using copying_struct [OF copying_flat [of sel_Strings Strings], where get = dirm_NodeLabelList and put = "\<lambda>x l. x\<lparr>dirm_NodeLabelList := l\<rparr>"
      and val_of = "\<lambda>x l. \<lparr>DirectNodeSelector = dirm_DirectNodeSelector x, direct_NodeLabelList = entries l,
        direct_ProviderInterfaceName = dirm_ProviderInterfaceName x\<rparr>"]
  by (simp add: DirectSpec_reach_def [abs_def] DirectSpec_val_def [abs_def] DirectSpec_ok_def [abs_def] DirectSpec_DeepCopyInto_def [abs_def])

definition VlanSpec_reach :: "('m, 'x) cell mem \<Rightarrow> VlanSpec_m \<Rightarrow> nat set" where
  "VlanSpec_reach m x = flat_reach sel_Strings m (vlanm_NodeLabelList x)"

definition VlanSpec_val :: "('m, 'x) cell mem \<Rightarrow> VlanSpec_m \<Rightarrow> VlanSpec" where
  "VlanSpec_val m x = \<lparr>VlanId = vlanm_VlanId x, VlanNodeSelector = vlanm_VlanNodeSelector x,
     vlan_NodeLabelList = entries (flat_val sel_Strings m (vlanm_NodeLabelList x)),
     vlan_ProviderInterfaceName = vlanm_ProviderInterfaceName x, LogicalInterfaceName = vlanm_LogicalInterfaceName x\<rparr>"

definition VlanSpec_ok :: "('m, 'x) cell mem \<Rightarrow> VlanSpec_m \<Rightarrow> bool" where
  "VlanSpec_ok m x = flat_ok sel_Strings m (vlanm_NodeLabelList x)"

lemma copying_VlanSpec: "copying VlanSpec_reach VlanSpec_val VlanSpec_ok VlanSpec_DeepCopyInto"
  using copying_struct [OF copying_flat [of sel_Strings Strings], where get = vlanm_NodeLabelList and put = "\<lambda>x l. x\<lparr>vlanm_NodeLabelList := l\<rparr>"
      and val_of = "\<lambda>x l. \<lparr>VlanId = vlanm_VlanId x, VlanNodeSelector = vlanm_VlanNodeSelector x, vlan_NodeLabelList = entries l,
        vlan_ProviderInterfaceName = vlanm_ProviderInterfaceName x, LogicalInterfaceName = vlanm_LogicalInterfaceName x\<rparr>"]
  by (simp add: VlanSpec_reach_def [abs_def] VlanSpec_val_def [abs_def] VlanSpec_ok_def [abs_def] VlanSpec_DeepCopyInto_def [abs_def])

definition DnsSpec_reach :: "('m, 'x) cell mem \<Rightarrow> DnsSpec_m \<Rightarrow> nat set" where
  "DnsSpec_reach m x = flat_reach sel_Strings m (dnsm_Nameservers x) \<union>
     (flat_reach sel_Strings m (dnsm_Search x) \<union> flat_reach sel_Strings m (dnsm_Options x))"

definition DnsSpec_val :: "('m, 'x) cell mem \<Rightarrow> DnsSpec_m \<Rightarrow> DnsSpec" where
  "DnsSpec_val m x = \<lparr>Nameservers = entries (flat_val sel_Strings m (dnsm_Nameservers x)), Domain = dnsm_Domain x,
     Search = entries (flat_val sel_Strings m (dnsm_Search x)), Options = entries (flat_val sel_Strings m (dnsm_Options x))\<rparr>"

definition DnsSpec_ok :: "('m, 'x) cell mem \<Rightarrow> DnsSpec_m \<Rightarrow> bool" where
  "DnsSpec_ok m x \<longleftrightarrow> flat_ok sel_Strings m (dnsm_Nameservers x) \<and>
     flat_ok sel_Strings m (dnsm_Search x) \<and> flat_ok sel_Strings m (dnsm_Options x)"

lemma copying_DnsSpec: "copying DnsSpec_reach DnsSpec_val DnsSpec_ok DnsSpec_DeepCopyInto"
  using copying_struct [OF copying_pair [OF copying_flat copying_pair [OF copying_flat copying_flat]],
      of sel_Strings Strings sel_Strings Strings sel_Strings Strings
        "\<lambda>x. (dnsm_Nameservers x, dnsm_Search x, dnsm_Options x)"
        "\<lambda>x (a, b, c). x\<lparr>dnsm_Nameservers := a, dnsm_Search := b, dnsm_Options := c\<rparr>"
        "\<lambda>x (a, b, c). \<lparr>Nameservers = entries a, Domain = dnsm_Domain x, Search = entries b, Options = entries c\<rparr>"]
  by (simp add: DnsSpec_reach_def [abs_def] DnsSpec_val_def [abs_def] DnsSpec_ok_def [abs_def] DnsSpec_DeepCopyInto_def [abs_def]
      copy_pair_def case_prod_unfold Let_def)

definition RouteSpec_reach :: "('m, 'x) cell mem \<Rightarrow> RouteSpec_m \<Rightarrow> nat set" where
  "RouteSpec_reach m x = flat_reach sel_RoutingNetworks m (rsm_LeftNetwork x) \<union> flat_reach sel_RoutingNetworks m (rsm_RightNetwork x)"

definition RouteSpec_val :: "('m, 'x) cell mem \<Rightarrow> RouteSpec_m \<Rightarrow> RouteSpec" where
  "RouteSpec_val m x = \<lparr>LeftNetwork = entries (flat_val sel_RoutingNetworks m (rsm_LeftNetwork x)),
     RightNetwork = entries (flat_val sel_RoutingNetworks m (rsm_RightNetwork x)), NetworkChain = rsm_NetworkChain x, rs_Namespace = rsm_Namespace x\<rparr>"

definition RouteSpec_ok :: "('m, 'x) cell mem \<Rightarrow> RouteSpec_m \<Rightarrow> bool" where
  "RouteSpec_ok m x \<longleftrightarrow> flat_ok sel_RoutingNetworks m (rsm_LeftNetwork x) \<and> flat_ok sel_RoutingNetworks m (rsm_RightNetwork x)"

lemma copying_RouteSpec: "copying RouteSpec_reach RouteSpec_val RouteSpec_ok RouteSpec_DeepCopyInto"
  using copying_struct [OF copying_pair [OF copying_flat copying_flat],
      of sel_RoutingNetworks RoutingNetworks sel_RoutingNetworks RoutingNetworks
        "\<lambda>x. (rsm_LeftNetwork x, rsm_RightNetwork x)" "\<lambda>x (a, b). x\<lparr>rsm_LeftNetwork := a, rsm_RightNetwork := b\<rparr>"
        "\<lambda>x (a, b). \<lparr>LeftNetwork = entries a, RightNetwork = entries b, NetworkChain = rsm_NetworkChain x, rs_Namespace = rsm_Namespace x\<rparr>"]
  by (simp add: RouteSpec_reach_def [abs_def] RouteSpec_val_def [abs_def] RouteSpec_ok_def [abs_def] RouteSpec_DeepCopyInto_def [abs_def]
      copy_pair_def case_prod_unfold Let_def)

definition NetworkChainingSpec_reach :: "('m, 'x) cell mem \<Rightarrow> NetworkChainingSpec_m \<Rightarrow> nat set" where
  "NetworkChainingSpec_reach m x = RouteSpec_reach m (ncm_RoutingSpec x)"

definition NetworkChainingSpec_val :: "('m, 'x) cell mem \<Rightarrow> NetworkChainingSpec_m \<Rightarrow> NetworkChainingSpec" where
  "NetworkChainingSpec_val m x = \<lparr>ChainType = ncm_ChainType x, RoutingSpec = RouteSpec_val m (ncm_RoutingSpec x)\<rparr>"

definition NetworkChainingSpec_ok :: "('m, 'x) cell mem \<Rightarrow> NetworkChainingSpec_m \<Rightarrow> bool" where
  "NetworkChainingSpec_ok m x = RouteSpec_ok m (ncm_RoutingSpec x)"

lemma copying_NetworkChainingSpec:
  "copying NetworkChainingSpec_reach NetworkChainingSpec_val NetworkChainingSpec_ok NetworkChainingSpec_DeepCopyInto"
  using copying_struct [OF copying_RouteSpec, of ncm_RoutingSpec "\<lambda>x r. x\<lparr>ncm_RoutingSpec := r\<rparr>"
      "\<lambda>x r. \<lparr>ChainType = ncm_ChainType x, RoutingSpec = r\<rparr>"]
  by (simp add: NetworkChainingSpec_reach_def [abs_def] NetworkChainingSpec_val_def [abs_def] NetworkChainingSpec_ok_def [abs_def]
      NetworkChainingSpec_DeepCopyInto_def [abs_def])

definition NetworkSpec_reach :: "('m, 'x) cell mem \<Rightarrow> NetworkSpec_m \<Rightarrow> nat set" where
  "NetworkSpec_reach m x = flat_reach sel_Subnets m (nwm_Ipv4Subnets x) \<union> (flat_reach sel_Subnets m (nwm_Ipv6Subnets x) \<union>
     (DnsSpec_reach m (nwm_DNS x) \<union> flat_reach sel_Routes m (nwm_Routes x)))"

definition NetworkSpec_val :: "('m, 'x) cell mem \<Rightarrow> NetworkSpec_m \<Rightarrow> NetworkSpec" where
  "NetworkSpec_val m x = \<lparr>nw_CniType = nwm_CniType x, nw_Ipv4Subnets = entries (flat_val sel_Subnets m (nwm_Ipv4Subnets x)),
     nw_Ipv6Subnets = entries (flat_val sel_Subnets m (nwm_Ipv6Subnets x)), nw_DNS = DnsSpec_val m (nwm_DNS x),
     nw_Routes = entries (flat_val sel_Routes m (nwm_Routes x))\<rparr>"

definition NetworkSpec_ok :: "('m, 'x) cell mem \<Rightarrow> NetworkSpec_m \<Rightarrow> bool" where
  "NetworkSpec_ok m x \<longleftrightarrow> flat_ok sel_Subnets m (nwm_Ipv4Subnets x) \<and> flat_ok sel_Subnets m (nwm_Ipv6Subnets x) \<and>
     DnsSpec_ok m (nwm_DNS x) \<and> flat_ok sel_Routes m (nwm_Routes x)"

lemma copying_NetworkSpec: "copying NetworkSpec_reach NetworkSpec_val NetworkSpec_ok NetworkSpec_DeepCopyInto"
  using copying_struct [OF copying_pair [OF copying_flat copying_pair [OF copying_flat copying_pair [OF copying_DnsSpec copying_flat]]],
      of sel_Subnets Subnets sel_Subnets Subnets sel_Routes Routes
        "\<lambda>x. (nwm_Ipv4Subnets x, nwm_Ipv6Subnets x, nwm_DNS x, nwm_Routes x)"
        "\<lambda>x (a, b, c, d). x\<lparr>nwm_Ipv4Subnets := a, nwm_Ipv6Subnets := b, nwm_DNS := c, nwm_Routes := d\<rparr>"
        "\<lambda>x (a, b, c, d). \<lparr>nw_CniType = nwm_CniType x, nw_Ipv4Subnets = entries a, nw_Ipv6Subnets = entries b, nw_DNS = c, nw_Routes = entries d\<rparr>"]
  by (simp add: NetworkSpec_reach_def [abs_def] NetworkSpec_val_def [abs_def] NetworkSpec_ok_def [abs_def] NetworkSpec_DeepCopyInto_def [abs_def]
      copy_pair_def case_prod_unfold Let_def)

definition ProviderNetworkSpec_reach :: "('m, 'x) cell mem \<Rightarrow> ProviderNetworkSpec_m \<Rightarrow> nat set" where
  "ProviderNetworkSpec_reach m x = flat_reach sel_Subnets m (pnm_Ipv4Subnets x) \<union> (flat_reach sel_Subnets m (pnm_Ipv6Subnets x) \<union>
     (DnsSpec_reach m (pnm_DNS x) \<union> (flat_reach sel_Routes m (pnm_Routes x) \<union>
     (VlanSpec_reach m (pnm_Vlan x) \<union> DirectSpec_reach m (pnm_Direct x)))))"

definition ProviderNetworkSpec_val :: "('m, 'x) cell mem \<Rightarrow> ProviderNetworkSpec_m \<Rightarrow> ProviderNetworkSpec" where
  "ProviderNetworkSpec_val m x = \<lparr>pn_CniType = pnm_CniType x, pn_Ipv4Subnets = entries (flat_val sel_Subnets m (pnm_Ipv4Subnets x)),
     pn_Ipv6Subnets = entries (flat_val sel_Subnets m (pnm_Ipv6Subnets x)), pn_DNS = DnsSpec_val m (pnm_DNS x),
     pn_Routes = entries (flat_val sel_Routes m (pnm_Routes x)), ProviderNetType = pnm_ProviderNetType x,
     Vlan = VlanSpec_val m (pnm_Vlan x), Direct = DirectSpec_val m (pnm_Direct x)\<rparr>"

definition ProviderNetworkSpec_ok :: "('m, 'x) cell mem \<Rightarrow> ProviderNetworkSpec_m \<Rightarrow> bool" where
  "ProviderNetworkSpec_ok m x \<longleftrightarrow> flat_ok sel_Subnets m (pnm_Ipv4Subnets x) \<and> flat_ok sel_Subnets m (pnm_Ipv6Subnets x) \<and>
     DnsSpec_ok m (pnm_DNS x) \<and> flat_ok sel_Routes m (pnm_Routes x) \<and> VlanSpec_ok m (pnm_Vlan x) \<and> DirectSpec_ok m (pnm_Direct x)"

lemma copying_ProviderNetworkSpec:
  "copying ProviderNetworkSpec_reach ProviderNetworkSpec_val ProviderNetworkSpec_ok ProviderNetworkSpec_DeepCopyInto"
  using copying_struct [OF copying_pair [OF copying_flat copying_pair [OF copying_flat copying_pair [OF copying_DnsSpec
        copying_pair [OF copying_flat copying_pair [OF copying_VlanSpec copying_DirectSpec]]]]],
      of sel_Subnets Subnets sel_Subnets Subnets sel_Routes Routes
        "\<lambda>x. (pnm_Ipv4Subnets x, pnm_Ipv6Subnets x, pnm_DNS x, pnm_Routes x, pnm_Vlan x, pnm_Direct x)"
        "\<lambda>x (a, b, c, d, e, f). x\<lparr>pnm_Ipv4Subnets := a, pnm_Ipv6Subnets := b, pnm_DNS := c, pnm_Routes := d, pnm_Vlan := e, pnm_Direct := f\<rparr>"
        "\<lambda>x (a, b, c, d, e, f). \<lparr>pn_CniType = pnm_CniType x, pn_Ipv4Subnets = entries a, pn_Ipv6Subnets = entries b, pn_DNS = c,
           pn_Routes = entries d, ProviderNetType = pnm_ProviderNetType x, Vlan = e, Direct = f\<rparr>"]
  by (simp add: ProviderNetworkSpec_reach_def [abs_def] ProviderNetworkSpec_val_def [abs_def] ProviderNetworkSpec_ok_def [abs_def]
      ProviderNetworkSpec_DeepCopyInto_def [abs_def] copy_pair_def case_prod_unfold Let_def)

section \<open>Resources and lists\<close>

definition object_reach :: "(('m, 'x) cell mem \<Rightarrow> 'm \<Rightarrow> nat set) \<Rightarrow> (('m, 'x) cell mem \<Rightarrow> 's \<Rightarrow> nat set) \<Rightarrow>
    ('m, 'x) cell mem \<Rightarrow> ('m, 's) object_m \<Rightarrow> nat set" where
  "object_reach mreach sreach m x = mreach m (om_ObjectMeta x) \<union> sreach m (om_Spec x)"

definition object_ok :: "(('m, 'x) cell mem \<Rightarrow> 'm \<Rightarrow> bool) \<Rightarrow> (('m, 'x) cell mem \<Rightarrow> 's \<Rightarrow> bool) \<Rightarrow>
    ('m, 'x) cell mem \<Rightarrow> ('m, 's) object_m \<Rightarrow> bool" where
  "object_ok mok sok m x \<longleftrightarrow> mok m (om_ObjectMeta x) \<and> sok m (om_Spec x)"

definition object_val :: "(('m, 'x) cell mem \<Rightarrow> 'm \<Rightarrow> 'mv) \<Rightarrow> (('m, 'x) cell mem \<Rightarrow> 's \<Rightarrow> 'sv) \<Rightarrow>
    ('m, 'x) cell mem \<Rightarrow> ('m, 's) object_m \<Rightarrow> TypeMeta \<times> 'mv \<times> 'sv \<times> string" where
  "object_val mval sval m x = (om_TypeMeta x, mval m (om_ObjectMeta x), sval m (om_Spec x), st_State (om_Status x))"

lemma copying_object:
  assumes "copying mreach mval mok meta" and "copying sreach sval sok scopy"
  shows "copying (object_reach mreach sreach) (object_val mval sval) (object_ok mok sok)
    (\<lambda>x m. let (om, m) = meta (om_ObjectMeta x) m; (spec, m) = scopy (om_Spec x) m in (x\<lparr>om_ObjectMeta := om, om_Spec := spec\<rparr>, m))"
  using copying_struct [OF copying_pair [OF assms], of "\<lambda>x. (om_ObjectMeta x, om_Spec x)"
      "\<lambda>x (a, b). x\<lparr>om_ObjectMeta := a, om_Spec := b\<rparr>" "\<lambda>x (a, b). (om_TypeMeta x, a, b, st_State (om_Status x))"]
  by (simp add: object_reach_def [abs_def] object_val_def [abs_def] object_ok_def [abs_def] copy_pair_def case_prod_unfold Let_def)

lemma copying_Network:
  "copying mreach mval mok meta \<Longrightarrow>
   copying (object_reach mreach NetworkSpec_reach) (object_val mval NetworkSpec_val) (object_ok mok NetworkSpec_ok) (Network_DeepCopyInto meta)"
  using copying_object [OF _ copying_NetworkSpec] by (simp add: Network_DeepCopyInto_def [abs_def])

lemma copying_ProviderNetwork:
  "copying mreach mval mok meta \<Longrightarrow>
   copying (object_reach mreach ProviderNetworkSpec_reach) (object_val mval ProviderNetworkSpec_val) (object_ok mok ProviderNetworkSpec_ok)
     (ProviderNetwork_DeepCopyInto meta)"
  using copying_object [OF _ copying_ProviderNetworkSpec] by (simp add: ProviderNetwork_DeepCopyInto_def [abs_def])

lemma copying_NetworkChaining:
  "copying mreach mval mok meta \<Longrightarrow>
   copying (object_reach mreach NetworkChainingSpec_reach) (object_val mval NetworkChainingSpec_val) (object_ok mok NetworkChainingSpec_ok)
     (NetworkChaining_DeepCopyInto meta)"
  using copying_object [OF _ copying_NetworkChainingSpec] by (simp add: NetworkChaining_DeepCopyInto_def [abs_def])

definition list_reach :: "(('m, 'x) cell mem \<Rightarrow> 'l \<Rightarrow> nat set) \<Rightarrow> (('m, 'x) cell \<Rightarrow> 'a list option) \<Rightarrow> (('m, 'x) cell mem \<Rightarrow> 'a \<Rightarrow> nat set) \<Rightarrow>
    ('m, 'x) cell mem \<Rightarrow> 'l list_m \<Rightarrow> nat set" where
  "list_reach lreach sel r m x = lreach m (lm_ListMeta x) \<union> slice_reach sel r m (lm_Items x)"

definition list_ok :: "(('m, 'x) cell mem \<Rightarrow> 'l \<Rightarrow> bool) \<Rightarrow> (('m, 'x) cell \<Rightarrow> 'a list option) \<Rightarrow> (('m, 'x) cell mem \<Rightarrow> 'a \<Rightarrow> bool) \<Rightarrow>
    ('m, 'x) cell mem \<Rightarrow> 'l list_m \<Rightarrow> bool" where
  "list_ok lok sel k m x \<longleftrightarrow> lok m (lm_ListMeta x) \<and> slice_ok sel k m (lm_Items x)"

definition list_val :: "(('m, 'x) cell mem \<Rightarrow> 'l \<Rightarrow> 'lv) \<Rightarrow> (('m, 'x) cell \<Rightarrow> 'a list option) \<Rightarrow> (('m, 'x) cell mem \<Rightarrow> 'a \<Rightarrow> 'v) \<Rightarrow>
    ('m, 'x) cell mem \<Rightarrow> 'l list_m \<Rightarrow> TypeMeta \<times> 'lv \<times> 'v list option" where
  "list_val lval sel v m x = (lm_TypeMeta x, lval m (lm_ListMeta x), slice_val sel v m (lm_Items x))"

lemma copying_list:
  assumes "copying lreach lval lok lmeta" and "copying r v k c" and "\<And>xs. sel (mk xs) = Some xs"
  shows "copying (list_reach lreach sel r) (list_val lval sel v) (list_ok lok sel k)
    (\<lambda>x m. let (lm, m) = lmeta (lm_ListMeta x) m; (items, m) = copy_items sel mk c (lm_Items x) m in (x\<lparr>lm_ListMeta := lm, lm_Items := items\<rparr>, m))"
  using copying_struct [OF copying_pair [OF assms(1) copying_items [OF assms(2), of sel mk]], of "\<lambda>x. (lm_ListMeta x, lm_Items x)"
      "\<lambda>x (a, b). x\<lparr>lm_ListMeta := a, lm_Items := b\<rparr>" "\<lambda>x (a, b). (lm_TypeMeta x, a, b)"] assms(3)
  by (simp add: list_reach_def [abs_def] list_val_def [abs_def] list_ok_def [abs_def] copy_pair_def case_prod_unfold Let_def)

lemma copying_NetworkList:
  "copying lreach lval lok lmeta \<Longrightarrow> copying mreach mval mok meta \<Longrightarrow>
   copying (list_reach lreach sel_Networks (object_reach mreach NetworkSpec_reach)) (list_val lval sel_Networks (object_val mval NetworkSpec_val))
     (list_ok lok sel_Networks (object_ok mok NetworkSpec_ok)) (NetworkList_DeepCopyInto lmeta meta)"
  using copying_list [OF _ copying_Network, of _ _ _ _ _ _ _ _ sel_Networks Networks] by (simp add: NetworkList_DeepCopyInto_def [abs_def])

lemma copying_ProviderNetworkList:
  "copying lreach lval lok lmeta \<Longrightarrow> copying mreach mval mok meta \<Longrightarrow>
   copying (list_reach lreach sel_ProviderNetworks (object_reach mreach ProviderNetworkSpec_reach))
     (list_val lval sel_ProviderNetworks (object_val mval ProviderNetworkSpec_val))
     (list_ok lok sel_ProviderNetworks (object_ok mok ProviderNetworkSpec_ok)) (ProviderNetworkList_DeepCopyInto lmeta meta)"
  using copying_list [OF _ copying_ProviderNetwork, of _ _ _ _ _ _ _ _ sel_ProviderNetworks ProviderNetworks]
  by (simp add: ProviderNetworkList_DeepCopyInto_def [abs_def])

lemma copying_NetworkChainingList:
  "copying lreach lval lok lmeta \<Longrightarrow> copying mreach mval mok meta \<Longrightarrow>
   copying (list_reach lreach sel_NetworkChainings (object_reach mreach NetworkChainingSpec_reach))
     (list_val lval sel_NetworkChainings (object_val mval NetworkChainingSpec_val))
     (list_ok lok sel_NetworkChainings (object_ok mok NetworkChainingSpec_ok)) (NetworkChainingList_DeepCopyInto lmeta meta)"
  using copying_list [OF _ copying_NetworkChaining, of _ _ _ _ _ _ _ _ sel_NetworkChainings NetworkChainings]
  by (simp add: NetworkChainingList_DeepCopyInto_def [abs_def])

text \<open>The promise, for the specifications, which need nothing of the API machinery.\<close>

interpretation nw_spec: copying NetworkSpec_reach NetworkSpec_val NetworkSpec_ok NetworkSpec_DeepCopyInto
  by (rule copying_NetworkSpec)

interpretation pn_spec: copying ProviderNetworkSpec_reach ProviderNetworkSpec_val ProviderNetworkSpec_ok ProviderNetworkSpec_DeepCopyInto
  by (rule copying_ProviderNetworkSpec)

interpretation nc_spec: copying NetworkChainingSpec_reach NetworkChainingSpec_val NetworkChainingSpec_ok NetworkChainingSpec_DeepCopyInto
  by (rule copying_NetworkChainingSpec)

text \<open>
  \<open>y\<close> in \<open>m'\<close> is a deep copy of \<open>x\<close> in \<open>m\<close>: it has its value, and it keeps it
  whatever is written to the cells of \<open>x\<close>, and the other way round.
\<close>

definition deep_copied :: "('c mem \<Rightarrow> 'a \<Rightarrow> nat set) \<Rightarrow> ('c mem \<Rightarrow> 'a \<Rightarrow> 'v) \<Rightarrow> 'c mem \<Rightarrow> 'a \<Rightarrow> 'c mem \<Rightarrow> 'a \<Rightarrow> bool" where
  "deep_copied reach val m x m' y \<longleftrightarrow> val m' y = val m x \<and>
     (\<forall>m''. same_on (- reach m' x) m' m'' \<longrightarrow> val m'' y = val m x) \<and>
     (\<forall>m''. same_on (- reach m' y) m' m'' \<longrightarrow> val m'' x = val m x)"

lemma copying_deep:
  assumes "copying reach val ok copy" and "ok m x" and "copy x m = (y, m')"
  shows "deep_copied reach val m x m' y"
  unfolding deep_copied_def
  using copying.copied [OF assms] copying.copy_unaffected [OF assms] copying.original_unaffected [OF assms] by blast

text \<open>
  C8. Deep copies share nothing. If the copies of the API machinery's metadata keep the promise
  of a deep copy, then so does the copy of a list of provider networks, with everything in it,
  specifications, labels, subnets, routes: the copy has the value of the original, and writing
  to the memory of either afterwards does not change the other.
\<close>

theorem ProviderNetworkList_deep_copied:
  assumes "copying lreach lval lok lmeta" and "copying mreach mval mok meta"
    and "list_ok lok sel_ProviderNetworks (object_ok mok ProviderNetworkSpec_ok) m x"
    and "ProviderNetworkList_DeepCopyInto lmeta meta x m = (y, m')"
  shows "deep_copied (list_reach lreach sel_ProviderNetworks (object_reach mreach ProviderNetworkSpec_reach))
    (list_val lval sel_ProviderNetworks (object_val mval ProviderNetworkSpec_val)) m x m' y"
  using copying_deep [OF copying_ProviderNetworkList [OF assms(1,2)] assms(3,4)] .

lemma Network_deep_copied:
  assumes "copying mreach mval mok meta" and "object_ok mok NetworkSpec_ok m x" and "Network_DeepCopy meta (Some x) m = (p, m')"
  shows "\<exists>y. p = Some y \<and> deep_copied (object_reach mreach NetworkSpec_reach) (object_val mval NetworkSpec_val) m x m' y"
  using assms(3) copying_deep [OF copying_Network [OF assms(1)] assms(2)]
  by (auto simp: Network_DeepCopy_def deep_copy_def split: prod.splits)

lemma DeepCopyObject_nil:
  "Network_DeepCopyObject meta None m = (None, m)" "NetworkList_DeepCopyObject lmeta meta None m = (None, m)"
  "ProviderNetwork_DeepCopyObject meta None m = (None, m)" "ProviderNetworkList_DeepCopyObject lmeta meta None m = (None, m)"
  "NetworkChaining_DeepCopyObject meta None m = (None, m)" "NetworkChainingList_DeepCopyObject lmeta meta None m = (None, m)"
  by (simp_all add: deep_copy_def Network_DeepCopyObject_def Network_DeepCopy_def NetworkList_DeepCopyObject_def NetworkList_DeepCopy_def
      ProviderNetwork_DeepCopyObject_def ProviderNetwork_DeepCopy_def ProviderNetworkList_DeepCopyObject_def ProviderNetworkList_DeepCopy_def
      NetworkChaining_DeepCopyObject_def NetworkChaining_DeepCopy_def NetworkChainingList_DeepCopyObject_def NetworkChainingList_DeepCopy_def)

section \<open>An example\<close>

text \<open>Metadata with a name and a slice of finalizers, and a list with one network and one label.\<close>

record meta_m =
  mm_Name :: string
  mm_Finalizers :: "slice option"

definition meta_copy :: "(meta_m, unit, meta_m) copier" where
  "meta_copy x m = (let (f, m) = copy_slice sel_Strings Strings (mm_Finalizers x) m in (x\<lparr>mm_Finalizers := f\<rparr>, m))"

definition meta_reach :: "(meta_m, unit) cell mem \<Rightarrow> meta_m \<Rightarrow> nat set" where
  "meta_reach m x = flat_reach sel_Strings m (mm_Finalizers x)"

definition meta_val :: "(meta_m, unit) cell mem \<Rightarrow> meta_m \<Rightarrow> string \<times> string list option" where
  "meta_val m x = (mm_Name x, flat_val sel_Strings m (mm_Finalizers x))"

definition meta_ok :: "(meta_m, unit) cell mem \<Rightarrow> meta_m \<Rightarrow> bool" where
  "meta_ok m x = flat_ok sel_Strings m (mm_Finalizers x)"

interpretation metas: copying meta_reach meta_val meta_ok meta_copy
  using copying_struct [OF copying_flat [of sel_Strings Strings], where get = mm_Finalizers and put = "\<lambda>x f. x\<lparr>mm_Finalizers := f\<rparr>"
      and val_of = "\<lambda>x f. (mm_Name x, f)"]
  by (simp add: meta_reach_def [abs_def] meta_val_def [abs_def] meta_ok_def [abs_def] meta_copy_def [abs_def])

definition demo_pn_m :: "meta_m ProviderNetwork_m" where
  "demo_pn_m = \<lparr>om_TypeMeta = \<lparr>tm_Kind = ''ProviderNetwork'', tm_APIVersion = ''v1alpha1''\<rparr>, om_ObjectMeta = \<lparr>mm_Name = ''lan'', mm_Finalizers = None\<rparr>,
     om_Spec = \<lparr>pnm_CniType = ''ovn4nfv'', pnm_Ipv4Subnets = None, pnm_Ipv6Subnets = None,
       pnm_DNS = \<lparr>dnsm_Nameservers = None, dnsm_Domain = [], dnsm_Search = None, dnsm_Options = None\<rparr>, pnm_Routes = None, pnm_ProviderNetType = ''VLAN'',
       pnm_Vlan = \<lparr>vlanm_VlanId = ''100'', vlanm_VlanNodeSelector = ''specific'', vlanm_NodeLabelList = Some \<lparr>ptr = 0, off = 0, len = 1\<rparr>,
         vlanm_ProviderInterfaceName = ''eth1'', vlanm_LogicalInterfaceName = []\<rparr>,
       pnm_Direct = \<lparr>dirm_DirectNodeSelector = [], dirm_NodeLabelList = None, dirm_ProviderInterfaceName = []\<rparr>\<rparr>, om_Status = \<lparr>st_State = []\<rparr>\<rparr>"

definition demo_pn_list :: "string list_m" where
  "demo_pn_list = \<lparr>lm_TypeMeta = \<lparr>tm_Kind = ''ProviderNetworkList'', tm_APIVersion = ''v1alpha1''\<rparr>, lm_ListMeta = ''1042'',
     lm_Items = Some \<lparr>ptr = 1, off = 0, len = 1\<rparr>\<rparr>"

definition demo_mem :: "(meta_m, unit) cell mem" where
  "demo_mem = \<lparr>cells = [0 \<mapsto> Strings [''zone=a''], 1 \<mapsto> ProviderNetworks [demo_pn_m]], brk = 2\<rparr>"

definition pn_list_val :: "(meta_m, unit) cell mem \<Rightarrow> string list_m \<Rightarrow>
    TypeMeta \<times> string \<times> (TypeMeta \<times> (string \<times> string list option) \<times> ProviderNetworkSpec \<times> string) list option" where
  "pn_list_val = list_val (\<lambda>_ x. x) sel_ProviderNetworks (object_val meta_val ProviderNetworkSpec_val)"

theorem ProviderNetworkList_deep_copied_witness:
  "let (y, m') = ProviderNetworkList_DeepCopyInto (\<lambda>x m. (x, m)) meta_copy demo_pn_list demo_mem in
     pn_list_val m' y = pn_list_val demo_mem demo_pn_list \<and>
     pn_list_val (m'\<lparr>cells := (cells m')(0 \<mapsto> Strings [''zone=b''])\<rparr>) y = pn_list_val demo_mem demo_pn_list"
proof -
  obtain y m' where c: "ProviderNetworkList_DeepCopyInto (\<lambda>x m. (x, m)) meta_copy demo_pn_list demo_mem = (y, m')" by fastforce
  let ?r = "list_reach (\<lambda>_ _. {}) sel_ProviderNetworks (object_reach meta_reach ProviderNetworkSpec_reach)"
  have ok: "list_ok (\<lambda>_ _. True) sel_ProviderNetworks (object_ok meta_ok ProviderNetworkSpec_ok) demo_mem demo_pn_list"
    by (simp add: list_ok_def object_ok_def meta_ok_def ProviderNetworkSpec_ok_def DnsSpec_ok_def VlanSpec_ok_def DirectSpec_ok_def flat_ok_def
        slice_ok_def in_array_def elems_def demo_mem_def demo_pn_list_def demo_pn_m_def)
  have "0 \<in> ?r demo_mem demo_pn_list"
    by (simp add: list_reach_def object_reach_def meta_reach_def ProviderNetworkSpec_reach_def VlanSpec_reach_def flat_reach_def
        slice_reach_def elems_def demo_mem_def demo_pn_list_def demo_pn_m_def)
  moreover have "?r m' demo_pn_list = ?r demo_mem demo_pn_list"
    using copying.survives [OF copying_ProviderNetworkList [OF copying_plain metas.copying_axioms] ok]
      copying.copied [OF copying_ProviderNetworkList [OF copying_plain metas.copying_axioms] ok c] by blast
  ultimately have "same_on (- ?r m' demo_pn_list) m' (m'\<lparr>cells := (cells m')(0 \<mapsto> Strings [''zone=b''])\<rparr>)" by (auto simp: same_on_def)
  then show ?thesis
    using ProviderNetworkList_deep_copied [OF copying_plain metas.copying_axioms ok c]
    by (simp add: c deep_copied_def pn_list_val_def)
qed

end
