(* ===== verification/ApiClient.thy ===== *)
theory ApiClient
  imports Subscription "HOL-Library.Word"
begin

text \<open>
  The typed clients of the three resources
  (\<open>pkg/generated/clientset/versioned/typed/k8s/v1alpha1\<close>): the request each method makes, over
  a REST client that is an argument; and what follows for the status of a provider network that
  the notification server wants to store.
\<close>

section \<open>Requests\<close>

text \<open>
  The options of a list: the timeout in seconds is an \<open>int64\<close>, as is a
  \<open>time.Duration\<close> in nanoseconds, so that the product wraps around.
\<close>

record list_options =
  lo_LabelSelector :: string
  lo_Watch :: bool
  lo_TimeoutSeconds :: "64 word option"

datatype params = Get_options string | List_options list_options

datatype ('a, 'd) rest_body = Object 'a | Delete_options 'd | Patch_data string string

record ('a, 'd) rest_request =
  rq_Verb :: string
  rq_Namespace :: string
  rq_Resource :: string
  rq_Name :: "string option"
  rq_SubResource :: "string list"
  rq_Params :: "params option"
  rq_Timeout :: "64 word option"
  rq_Body :: "('a, 'd) rest_body option"

definition new_request :: "string \<Rightarrow> string \<Rightarrow> string \<Rightarrow> ('a, 'd) rest_request" where
  "new_request verb ns resource = \<lparr>rq_Verb = verb, rq_Namespace = ns, rq_Resource = resource, rq_Name = None, rq_SubResource = [],
     rq_Params = None, rq_Timeout = None, rq_Body = None\<rparr>"

definition list_timeout :: "list_options \<Rightarrow> 64 word" where
  "list_timeout opts = (case lo_TimeoutSeconds opts of None \<Rightarrow> 0 | Some t \<Rightarrow> t * 1000000000)"

text \<open>The REST client: \<open>Do().Into(result)\<close> for an object and for a list, \<open>Do().Error()\<close>, and \<open>Watch()\<close>.\<close>

record ('w, 'a, 'l, 'd, 'i) rest_client =
  rc_Into :: "('a, 'd) rest_request \<Rightarrow> 'w \<Rightarrow> ('a \<times> goerr option) \<times> 'w"
  rc_IntoList :: "('a, 'd) rest_request \<Rightarrow> 'w \<Rightarrow> ('l \<times> goerr option) \<times> 'w"
  rc_Error :: "('a, 'd) rest_request \<Rightarrow> 'w \<Rightarrow> goerr option \<times> 'w"
  rc_Watch :: "('a, 'd) rest_request \<Rightarrow> 'w \<Rightarrow> ('i + goerr) \<times> 'w"

text \<open>A typed client: the REST client and the namespace.\<close>

record ('w, 'a, 'l, 'd, 'i) typed_client =
  tc_client :: "('w, 'a, 'l, 'd, 'i) rest_client"
  tc_ns :: string

section \<open>The methods\<close>

text \<open>
  The three generated files differ in nothing but the types and the name of the resource, so
  each method is written once, with the resource as an argument.
\<close>

definition typed_Get :: "string \<Rightarrow> ('w, 'a, 'l, 'd, 'i) typed_client \<Rightarrow> string \<Rightarrow> string \<Rightarrow> 'w \<Rightarrow> ('a \<times> goerr option) \<times> 'w" where
  "typed_Get resource c name options = rc_Into (tc_client c)
     ((new_request ''GET'' (tc_ns c) resource)\<lparr>rq_Name := Some name, rq_Params := Some (Get_options options)\<rparr>)"

definition list_request :: "string \<Rightarrow> string \<Rightarrow> list_options \<Rightarrow> ('a, 'd) rest_request" where
  "list_request resource ns opts = (new_request ''GET'' ns resource)\<lparr>rq_Params := Some (List_options opts), rq_Timeout := Some (list_timeout opts)\<rparr>"

definition typed_List :: "string \<Rightarrow> ('w, 'a, 'l, 'd, 'i) typed_client \<Rightarrow> list_options \<Rightarrow> 'w \<Rightarrow> ('l \<times> goerr option) \<times> 'w" where
  "typed_List resource c opts = rc_IntoList (tc_client c) (list_request resource (tc_ns c) opts)"

definition typed_Watch :: "string \<Rightarrow> ('w, 'a, 'l, 'd, 'i) typed_client \<Rightarrow> list_options \<Rightarrow> 'w \<Rightarrow> ('i + goerr) \<times> 'w" where
  "typed_Watch resource c opts = rc_Watch (tc_client c) (list_request resource (tc_ns c) (opts\<lparr>lo_Watch := True\<rparr>))"

definition typed_Create :: "string \<Rightarrow> ('w, 'a, 'l, 'd, 'i) typed_client \<Rightarrow> 'a \<Rightarrow> 'w \<Rightarrow> ('a \<times> goerr option) \<times> 'w" where
  "typed_Create resource c x = rc_Into (tc_client c) ((new_request ''POST'' (tc_ns c) resource)\<lparr>rq_Body := Some (Object x)\<rparr>)"

definition typed_Update :: "string \<Rightarrow> ('a \<Rightarrow> string) \<Rightarrow> ('w, 'a, 'l, 'd, 'i) typed_client \<Rightarrow> 'a \<Rightarrow> 'w \<Rightarrow> ('a \<times> goerr option) \<times> 'w" where
  "typed_Update resource name_of c x = rc_Into (tc_client c)
     ((new_request ''PUT'' (tc_ns c) resource)\<lparr>rq_Name := Some (name_of x), rq_Body := Some (Object x)\<rparr>)"

definition typed_UpdateStatus :: "string \<Rightarrow> ('a \<Rightarrow> string) \<Rightarrow> ('w, 'a, 'l, 'd, 'i) typed_client \<Rightarrow> 'a \<Rightarrow> 'w \<Rightarrow> ('a \<times> goerr option) \<times> 'w" where
  "typed_UpdateStatus resource name_of c x = rc_Into (tc_client c)
     ((new_request ''PUT'' (tc_ns c) resource)\<lparr>rq_Name := Some (name_of x), rq_SubResource := [''status''], rq_Body := Some (Object x)\<rparr>)"

definition typed_Delete :: "string \<Rightarrow> ('w, 'a, 'l, 'd, 'i) typed_client \<Rightarrow> string \<Rightarrow> 'd \<Rightarrow> 'w \<Rightarrow> goerr option \<times> 'w" where
  "typed_Delete resource c name options = rc_Error (tc_client c)
     ((new_request ''DELETE'' (tc_ns c) resource)\<lparr>rq_Name := Some name, rq_Body := Some (Delete_options options)\<rparr>)"

definition typed_DeleteCollection :: "string \<Rightarrow> ('w, 'a, 'l, 'd, 'i) typed_client \<Rightarrow> 'd \<Rightarrow> list_options \<Rightarrow> 'w \<Rightarrow> goerr option \<times> 'w" where
  "typed_DeleteCollection resource c options listOptions = rc_Error (tc_client c)
     ((new_request ''DELETE'' (tc_ns c) resource)\<lparr>rq_Params := Some (List_options listOptions), rq_Timeout := Some (list_timeout listOptions),
       rq_Body := Some (Delete_options options)\<rparr>)"

definition typed_Patch :: "string \<Rightarrow> ('w, 'a, 'l, 'd, 'i) typed_client \<Rightarrow> string \<Rightarrow> string \<Rightarrow> string \<Rightarrow> string list \<Rightarrow> 'w \<Rightarrow> ('a \<times> goerr option) \<times> 'w" where
  "typed_Patch resource c name pt data subresources = rc_Into (tc_client c)
     ((new_request ''PATCH'' (tc_ns c) resource)\<lparr>rq_SubResource := subresources, rq_Name := Some name, rq_Body := Some (Patch_data pt data)\<rparr>)"

text \<open>The client of \<open>Network\<close>.\<close>

definition networks_Get :: "('w, Network, 'l, 'd, 'i) typed_client \<Rightarrow> string \<Rightarrow> string \<Rightarrow> 'w \<Rightarrow> (Network \<times> goerr option) \<times> 'w" where
  "networks_Get = typed_Get ''networks''"

definition networks_List :: "('w, Network, 'l, 'd, 'i) typed_client \<Rightarrow> list_options \<Rightarrow> 'w \<Rightarrow> ('l \<times> goerr option) \<times> 'w" where
  "networks_List = typed_List ''networks''"

definition networks_Watch :: "('w, Network, 'l, 'd, 'i) typed_client \<Rightarrow> list_options \<Rightarrow> 'w \<Rightarrow> ('i + goerr) \<times> 'w" where
  "networks_Watch = typed_Watch ''networks''"

definition networks_Create :: "('w, Network, 'l, 'd, 'i) typed_client \<Rightarrow> Network \<Rightarrow> 'w \<Rightarrow> (Network \<times> goerr option) \<times> 'w" where
  "networks_Create = typed_Create ''networks''"

definition networks_Update :: "('w, Network, 'l, 'd, 'i) typed_client \<Rightarrow> Network \<Rightarrow> 'w \<Rightarrow> (Network \<times> goerr option) \<times> 'w" where
  "networks_Update = typed_Update ''networks'' (\<lambda>x. Name (nw_meta x))"

definition networks_UpdateStatus :: "('w, Network, 'l, 'd, 'i) typed_client \<Rightarrow> Network \<Rightarrow> 'w \<Rightarrow> (Network \<times> goerr option) \<times> 'w" where
  "networks_UpdateStatus = typed_UpdateStatus ''networks'' (\<lambda>x. Name (nw_meta x))"

definition networks_Delete :: "('w, Network, 'l, 'd, 'i) typed_client \<Rightarrow> string \<Rightarrow> 'd \<Rightarrow> 'w \<Rightarrow> goerr option \<times> 'w" where
  "networks_Delete = typed_Delete ''networks''"

definition networks_DeleteCollection :: "('w, Network, 'l, 'd, 'i) typed_client \<Rightarrow> 'd \<Rightarrow> list_options \<Rightarrow> 'w \<Rightarrow> goerr option \<times> 'w" where
  "networks_DeleteCollection = typed_DeleteCollection ''networks''"

definition networks_Patch :: "('w, Network, 'l, 'd, 'i) typed_client \<Rightarrow> string \<Rightarrow> string \<Rightarrow> string \<Rightarrow> string list \<Rightarrow> 'w \<Rightarrow> (Network \<times> goerr option) \<times> 'w" where
  "networks_Patch = typed_Patch ''networks''"

text \<open>The client of \<open>NetworkChaining\<close>.\<close>

definition networkChainings_Get :: "('w, NetworkChaining, 'l, 'd, 'i) typed_client \<Rightarrow> string \<Rightarrow> string \<Rightarrow> 'w \<Rightarrow> (NetworkChaining \<times> goerr option) \<times> 'w" where
  "networkChainings_Get = typed_Get ''networkchainings''"

definition networkChainings_List :: "('w, NetworkChaining, 'l, 'd, 'i) typed_client \<Rightarrow> list_options \<Rightarrow> 'w \<Rightarrow> ('l \<times> goerr option) \<times> 'w" where
  "networkChainings_List = typed_List ''networkchainings''"

definition networkChainings_Watch :: "('w, NetworkChaining, 'l, 'd, 'i) typed_client \<Rightarrow> list_options \<Rightarrow> 'w \<Rightarrow> ('i + goerr) \<times> 'w" where
  "networkChainings_Watch = typed_Watch ''networkchainings''"

definition networkChainings_Create :: "('w, NetworkChaining, 'l, 'd, 'i) typed_client \<Rightarrow> NetworkChaining \<Rightarrow> 'w \<Rightarrow> (NetworkChaining \<times> goerr option) \<times> 'w" where
  "networkChainings_Create = typed_Create ''networkchainings''"

definition networkChainings_Update :: "('w, NetworkChaining, 'l, 'd, 'i) typed_client \<Rightarrow> NetworkChaining \<Rightarrow> 'w \<Rightarrow> (NetworkChaining \<times> goerr option) \<times> 'w" where
  "networkChainings_Update = typed_Update ''networkchainings'' (\<lambda>x. Name (nc_meta x))"

definition networkChainings_UpdateStatus :: "('w, NetworkChaining, 'l, 'd, 'i) typed_client \<Rightarrow> NetworkChaining \<Rightarrow> 'w \<Rightarrow> (NetworkChaining \<times> goerr option) \<times> 'w" where
  "networkChainings_UpdateStatus = typed_UpdateStatus ''networkchainings'' (\<lambda>x. Name (nc_meta x))"

definition networkChainings_Delete :: "('w, NetworkChaining, 'l, 'd, 'i) typed_client \<Rightarrow> string \<Rightarrow> 'd \<Rightarrow> 'w \<Rightarrow> goerr option \<times> 'w" where
  "networkChainings_Delete = typed_Delete ''networkchainings''"

definition networkChainings_DeleteCollection :: "('w, NetworkChaining, 'l, 'd, 'i) typed_client \<Rightarrow> 'd \<Rightarrow> list_options \<Rightarrow> 'w \<Rightarrow> goerr option \<times> 'w" where
  "networkChainings_DeleteCollection = typed_DeleteCollection ''networkchainings''"

definition networkChainings_Patch :: "('w, NetworkChaining, 'l, 'd, 'i) typed_client \<Rightarrow> string \<Rightarrow> string \<Rightarrow> string \<Rightarrow> string list \<Rightarrow> 'w \<Rightarrow> (NetworkChaining \<times> goerr option) \<times> 'w" where
  "networkChainings_Patch = typed_Patch ''networkchainings''"

text \<open>The client of \<open>ProviderNetwork\<close>.\<close>

definition providerNetworks_Get :: "('w, ProviderNetwork, 'l, 'd, 'i) typed_client \<Rightarrow> string \<Rightarrow> string \<Rightarrow> 'w \<Rightarrow> (ProviderNetwork \<times> goerr option) \<times> 'w" where
  "providerNetworks_Get = typed_Get ''providernetworks''"

definition providerNetworks_List :: "('w, ProviderNetwork, 'l, 'd, 'i) typed_client \<Rightarrow> list_options \<Rightarrow> 'w \<Rightarrow> ('l \<times> goerr option) \<times> 'w" where
  "providerNetworks_List = typed_List ''providernetworks''"

definition providerNetworks_Watch :: "('w, ProviderNetwork, 'l, 'd, 'i) typed_client \<Rightarrow> list_options \<Rightarrow> 'w \<Rightarrow> ('i + goerr) \<times> 'w" where
  "providerNetworks_Watch = typed_Watch ''providernetworks''"

definition providerNetworks_Create :: "('w, ProviderNetwork, 'l, 'd, 'i) typed_client \<Rightarrow> ProviderNetwork \<Rightarrow> 'w \<Rightarrow> (ProviderNetwork \<times> goerr option) \<times> 'w" where
  "providerNetworks_Create = typed_Create ''providernetworks''"

definition providerNetworks_Update :: "('w, ProviderNetwork, 'l, 'd, 'i) typed_client \<Rightarrow> ProviderNetwork \<Rightarrow> 'w \<Rightarrow> (ProviderNetwork \<times> goerr option) \<times> 'w" where
  "providerNetworks_Update = typed_Update ''providernetworks'' (\<lambda>x. Name (pn_meta x))"

definition providerNetworks_UpdateStatus :: "('w, ProviderNetwork, 'l, 'd, 'i) typed_client \<Rightarrow> ProviderNetwork \<Rightarrow> 'w \<Rightarrow> (ProviderNetwork \<times> goerr option) \<times> 'w" where
  "providerNetworks_UpdateStatus = typed_UpdateStatus ''providernetworks'' (\<lambda>x. Name (pn_meta x))"

definition providerNetworks_Delete :: "('w, ProviderNetwork, 'l, 'd, 'i) typed_client \<Rightarrow> string \<Rightarrow> 'd \<Rightarrow> 'w \<Rightarrow> goerr option \<times> 'w" where
  "providerNetworks_Delete = typed_Delete ''providernetworks''"

definition providerNetworks_DeleteCollection :: "('w, ProviderNetwork, 'l, 'd, 'i) typed_client \<Rightarrow> 'd \<Rightarrow> list_options \<Rightarrow> 'w \<Rightarrow> goerr option \<times> 'w" where
  "providerNetworks_DeleteCollection = typed_DeleteCollection ''providernetworks''"

definition providerNetworks_Patch :: "('w, ProviderNetwork, 'l, 'd, 'i) typed_client \<Rightarrow> string \<Rightarrow> string \<Rightarrow> string \<Rightarrow> string list \<Rightarrow> 'w \<Rightarrow> (ProviderNetwork \<times> goerr option) \<times> 'w" where
  "providerNetworks_Patch = typed_Patch ''providernetworks''"

section \<open>Timeouts\<close>

text \<open>
  Up to 9223372036 seconds the timeout is the number of seconds in nanoseconds; one second more
  wraps around to a negative duration.
\<close>

lemma list_timeout_exact:
  assumes "lo_TimeoutSeconds opts = Some t" and "uint t \<le> 9223372036"
  shows "uint (list_timeout opts) = uint t * 1000000000"
proof -
  have "uint t * 1000000000 < 2 ^ 64" using assms(2) by simp
  moreover have "0 \<le> uint t * 1000000000" by simp
  ultimately show ?thesis using assms(1) by (simp add: list_timeout_def uint_word_ariths)
qed

lemma list_timeout_wraps: "sint (list_timeout \<lparr>lo_LabelSelector = l, lo_Watch = w, lo_TimeoutSeconds = Some 9223372037\<rparr>) < 0"
  by (simp add: list_timeout_def)

section \<open>The status of a provider network\<close>

text \<open>The calls of the notification server, made by the typed client of provider networks.\<close>

definition no_options :: list_options where
  "no_options = \<lparr>lo_LabelSelector = [], lo_Watch = False, lo_TimeoutSeconds = None\<rparr>"

definition with_client :: "('w, ProviderNetwork, ProviderNetwork list, 'd, 'i) rest_client \<Rightarrow> ('w, 'h) op_host_scheme \<Rightarrow> ('w, 'h) op_host_scheme" where
  "with_client rest H = H\<lparr>
     h_PnList := (\<lambda>ns. providerNetworks_List \<lparr>tc_client = rest, tc_ns = ns\<rparr> no_options),
     h_PnUpdate := (\<lambda>ns pn w. case providerNetworks_Update \<lparr>tc_client = rest, tc_ns = ns\<rparr> pn w of ((_, err), w') \<Rightarrow> (err, w'))\<rparr>"

text \<open>
  What the API server documents for a resource with a status subresource, as the definitions
  under \<open>deploy\<close> declare it: a PUT of the object itself stores everything but the status.
  \<open>stored\<close> is what the server has, by namespace and name.
\<close>

definition keeps_status :: "('w \<Rightarrow> string \<times> string \<rightharpoonup> ProviderNetwork) \<Rightarrow> ('w, ProviderNetwork, 'l, 'd, 'i) rest_client \<Rightarrow> bool" where
  "keeps_status stored rest \<longleftrightarrow> (\<forall>rq name x w r w'.
     rc_Into rest rq w = (r, w') \<and> rq_Verb rq = ''PUT'' \<and> rq_Resource rq = ''providernetworks'' \<and> rq_SubResource rq = [] \<and>
     rq_Name rq = Some name \<and> rq_Body rq = Some (Object x) \<longrightarrow>
     stored w' = (case (snd r, stored w (rq_Namespace rq, name)) of
       (None, Some old) \<Rightarrow> (stored w)((rq_Namespace rq, name) \<mapsto> x\<lparr>pn_State := pn_State old\<rparr>)
     | _ \<Rightarrow> stored w))"

text \<open>Sending on a stream and the order of a map have nothing to do with the API server.\<close>

definition apart :: "('w \<Rightarrow> 'v) \<Rightarrow> ('w, 'h) op_host_scheme \<Rightarrow> bool" where
  "apart stored H \<longleftrightarrow> (\<forall>w. stored (snd (h_Order H w)) = stored w) \<and> (\<forall>str m w. stored (snd (h_Send H str m w)) = stored w)"

lemma update_keeps:
  fixes rest :: "('w, ProviderNetwork, ProviderNetwork list, 'd, 'i) rest_client"
  assumes "keeps_status stored rest" and "stored (world s) (Namespace (pn_meta pn), Name (pn_meta pn)) = Some pn"
    and "updatePnStatus (with_client rest H) pn status s = (Returns err, t)"
  shows "stored (world t) = stored (world s) \<and> sent t = sent s \<and> notifServer t = notifServer s"
proof -
  let ?ns = "Namespace (pn_meta pn)" and ?n = "Name (pn_meta pn)" and ?x = "pn\<lparr>pn_State := status\<rparr>"
  let ?rq = "(new_request ''PUT'' ?ns ''providernetworks'')\<lparr>rq_Name := Some ?n, rq_Body := Some (Object ?x)\<rparr> :: (ProviderNetwork, 'd) rest_request"
  obtain r w' where rw: "rc_Into rest ?rq (world s) = (r, w')" by fastforce
  have t: "t = s\<lparr>world := w'\<rparr>"
    using assms(3) rw by (auto simp: updatePnStatus_def with_client_def providerNetworks_Update_def typed_Update_def ext_def split: prod.splits)
  have "stored w' = (case (snd r, stored (world s) (?ns, ?n)) of
       (None, Some old) \<Rightarrow> (stored (world s))((?ns, ?n) \<mapsto> ?x\<lparr>pn_State := pn_State old\<rparr>) | _ \<Rightarrow> stored (world s))"
    using assms(1) [unfolded keeps_status_def, rule_format, of ?rq "world s" r w' ?n ?x] rw
    by (simp add: new_request_def split: option.splits)
  also have "\<dots> = stored (world s)" using assms(2) by (auto simp: fun_upd_idem split: option.splits)
  finally show ?thesis by (simp add: t)
qed

lemma keeps_stored_ext: "(\<And>w. stored (snd (f w)) = stored w) \<Longrightarrow> keeps (\<lambda>s. stored (world s)) (ext f)"
  by (simp add: keeps_def ext_eval)

lemma any_keeps_stored:
  assumes "apart stored H"
  shows "keeps (\<lambda>s :: ('w, 'z) op_state_scheme. stored (world s)) (sendMsg H msg labels ''any'' nodeReq)"
proof -
  have one: "keeps (\<lambda>s :: ('w, 'z) op_state_scheme. stored (world s)) (send_any_step H msg x u)" for x u
    using assms unfolding send_any_step_def Send_def apart_def
    by (auto intro!: keeps_intros keeps_stored_ext split: prod.splits option.splits simp del: ret_apply)
  have order: "keeps (\<lambda>s :: ('w, 'z) op_state_scheme. stored (world s)) (map_range H cl)" for cl :: "(string \<times> client) list"
    using assms unfolding map_range_def apart_def by (intro keeps_intros keeps_stored_ext) blast
  show ?thesis
    unfolding sendMsg_def the_server_def finish_def by (simp del: ret_apply) (intro keeps_intros one order)
qed

lemma EqualFold_ANY: "EqualFold x ''ANY'' \<Longrightarrow> \<not> EqualFold x ''SPECIFIC'' \<and> \<not> EqualFold x ''ALL''"
proof -
  have "\<not> EqualFold ''ANY'' ''SPECIFIC''" "\<not> EqualFold ''ANY'' ''ALL''" by code_simp+
  then show "EqualFold x ''ANY'' \<Longrightarrow> ?thesis" by (simp add: EqualFold_def)
qed

text \<open>A VLAN network for any one node that the API server has and that is not marked as created.\<close>

definition unplaced :: "('w \<Rightarrow> string \<times> string \<rightharpoonup> ProviderNetwork) \<Rightarrow> 'w \<Rightarrow> ProviderNetwork \<Rightarrow> bool" where
  "unplaced stored w pn \<longleftrightarrow> stored w (Namespace (pn_meta pn), Name (pn_meta pn)) = Some pn \<and> pn_CniType (pn_Spec pn) = ''ovn4nfv'' \<and>
     ProviderNetType (pn_Spec pn) = ''VLAN'' \<and> EqualFold (VlanNodeSelector (Vlan (pn_Spec pn))) ''ANY'' \<and> pn_State pn \<noteq> Created"

lemma SendNotif_any:
  assumes "keeps_status stored rest" and "apart stored H" and "unplaced stored (world s) pn"
    and "notifServer s = Some srv" and "targets [] (clientList srv) \<noteq> []"
  shows "\<exists>err t str. SendNotif (with_client rest H) pn ''create'' nodeReq s = (Returns err, t) \<and> notifServer t = Some srv \<and>
    str \<in> set (targets [] (clientList srv)) \<and> sent t = sent s @ [(str, createVlanMsg pn)] \<and> stored (world t) = stored (world s)"
proof -
  let ?H = "with_client rest H" and ?m = "createVlanMsg pn"
  have "apart stored ?H" using assms(2) by (simp add: apart_def with_client_def)
  note keep = any_keeps_stored [OF this]
  from sendMsg_any_run [OF assms(4), of ?H ?m "[]" nodeReq] assms(5) obtain w err str where
    send: "sendMsg ?H ?m [] ''any'' nodeReq s = (Returns err, sent_after s w [(str, ?m)])" and str: "str \<in> set (targets [] (clientList srv))"
    by auto
  let ?t = "sent_after s w [(str, ?m)]"
  have t: "stored (world ?t) = stored (world s)" using keeps_eq [OF keep send] .
  have run: "SendNotif ?H pn ''create'' nodeReq s =
      (if err = None then bnd (updatePnStatus ?H pn Created) (\<lambda>_. ret err) else ret err) ?t"
    using assms(3) send by (simp add: SendNotif_def dispatch_def unplaced_def EqualFold_ANY)
  show ?thesis
  proof (cases err)
    case None
    obtain e u where u: "updatePnStatus ?H pn Created ?t = (Returns e, u)" by (metis updatePnStatus_def ext_eval)
    have "stored (world ?t) (Namespace (pn_meta pn), Name (pn_meta pn)) = Some pn" using assms(3) unfolding t by (simp add: unplaced_def)
    from update_keeps [OF assms(1) this u] t have "stored (world u) = stored (world s)" "sent u = sent ?t" "notifServer u = notifServer s" by simp_all
    moreover have "SendNotif ?H pn ''create'' nodeReq s = (Returns None, u)" using run u None by simp
    ultimately show ?thesis using str assms(4) by (auto simp: sent_after_def)
  next
    case (Some e)
    then have "SendNotif ?H pn ''create'' nodeReq s = (Returns err, ?t)" using run by simp
    with str t assms(4) show ?thesis by (auto simp: sent_after_def)
  qed
qed

text \<open>Announcing, \<open>k\<close> times, what the API server then has under a name.\<close>

primrec announce_stored :: "('w \<Rightarrow> string \<times> string \<rightharpoonup> ProviderNetwork) \<Rightarrow> ('w, 'h) op_host_scheme \<Rightarrow> string \<times> string \<Rightarrow> string \<Rightarrow> nat \<Rightarrow>
    (('w, 'z) op_state_scheme, unit) go" where
  "announce_stored stored H key nodeReq 0 = ret ()"
| "announce_stored stored H key nodeReq (Suc k) =
     bnd (gets (\<lambda>s. stored (world s) key)) (\<lambda>pn. case pn of
       None \<Rightarrow> ret ()
     | Some pn \<Rightarrow> bnd (SendNotif H pn ''create'' nodeReq) (\<lambda>_. announce_stored stored H key nodeReq k))"


text \<open>
  An example: an API server that is the map of what it stores, two nodes, and the VLAN network
  of the subscription's example, now for any one node.
\<close>

type_synonym pn_store = "string \<times> string \<rightharpoonup> ProviderNetwork"

definition store_rest :: "(pn_store, ProviderNetwork, ProviderNetwork list, unit, unit) rest_client" where
  "store_rest = \<lparr>
     rc_Into = (\<lambda>rq w. case (rq_Name rq, rq_Body rq) of
       (Some name, Some (Object x)) \<Rightarrow> (case w (rq_Namespace rq, name) of
         None \<Rightarrow> ((x, Some (StatusError 404 ''not found'')), w)
       | Some old \<Rightarrow>
           let y = (if rq_SubResource rq = [] then x\<lparr>pn_State := pn_State old\<rparr> else old\<lparr>pn_State := pn_State x\<rparr>)
           in ((y, None), w((rq_Namespace rq, name) \<mapsto> y)))
     | _ \<Rightarrow> ((lan_pn, Some (StatusError 405 ''not allowed'')), w)),
     rc_IntoList = (\<lambda>rq w. (([], Some (StatusError 405 ''not allowed'')), w)),
     rc_Error = (\<lambda>rq w. (Some (StatusError 405 ''not allowed''), w)),
     rc_Watch = (\<lambda>rq w. (Inl (), w))\<rparr>"

lemma store_rest_keeps_status: "keeps_status (\<lambda>w. w) store_rest"
  by (auto simp: keeps_status_def store_rest_def Let_def split: option.splits)

definition any_pn :: ProviderNetwork where
  "any_pn = lan_pn\<lparr>pn_Spec := (pn_Spec lan_pn)\<lparr>Vlan := (Vlan (pn_Spec lan_pn))\<lparr>VlanNodeSelector := ''any''\<rparr>\<rparr>\<rparr>"

definition store_host :: "pn_store op_host" where
  "store_host = chain_host.extend (host.extend (canned_host (\<lambda>_. ([], [], None)))
       (chain_host.fields (\<lambda>w. (None, w)) (\<lambda>w. (None, w)) (\<lambda>n l w. (([], None), w))))
     (op_host.fields (\<lambda>str m w. (None, w)) (\<lambda>n w. (([], None), w)) (\<lambda>n p w. (None, w))
        (\<lambda>l w. (Inl [], w)) (\<lambda>w. (None, w)) (\<lambda>w. (None, w)) (\<lambda>p w. (None, w)) (\<lambda>w. (None, w)))"

definition store_state :: "pn_store op_state" where
  "store_state = chain_state.extend (ovn_state.extend (gstate.extend \<lparr>world = [(''default'', ''lan'') \<mapsto> any_pn], execlog = []\<rparr>
     (ovn_state.fields None None None)) (chain_state.fields [])) (op_state.fields (Some demo_server) [])"

lemma store_apart: "apart (\<lambda>w. w) store_host"
  by (simp add: apart_def store_host_def canned_host_def host.defs chain_host.defs op_host.defs)

lemma store_state_simps:
  "world store_state = [(''default'', ''lan'') \<mapsto> any_pn]" "notifServer store_state = Some demo_server" "sent store_state = []"
  by (simp_all add: store_state_def chain_state.defs op_state.defs ovn_state.defs gstate.defs)

lemma any_pn_unplaced: "unplaced (\<lambda>w. w) (world store_state) any_pn"
proof -
  have "EqualFold ''any'' ''ANY''" by code_simp
  then show ?thesis by (simp add: unplaced_def store_state_simps any_pn_def lan_pn_def Created_def)
qed

lemma any_pn_key: "(Namespace (pn_meta any_pn), Name (pn_meta any_pn)) = (''default'', ''lan'')"
  by (simp add: any_pn_def lan_pn_def)


end
