(* ===== verification/Informers.thy ===== *)
theory Informers
  imports ApiClient "HOL-Library.Sublist"
begin

text \<open>
  The shared informers and the listers (\<open>pkg/generated/informers/externalversions\<close>,
  \<open>pkg/generated/listers\<close>): the factory that makes one informer for each type and starts it
  once, the requests its informers make, and the lookups in their caches. The cache, the informer's
  own loop and the errors of the API machinery are arguments.
\<close>

section \<open>Informers\<close>

text \<open>The dynamic types the factory's maps are keyed by.\<close>

datatype kind = Network_kind | NetworkChaining_kind | ProviderNetwork_kind

datatype objects = Networks_objs "Network list" | NetworkChainings_objs "NetworkChaining list" | ProviderNetworks_objs "ProviderNetwork list"

text \<open>The clientset: the one REST client, at the three types of result.\<close>

record ('w, 'd, 'i) clientset =
  cs_networks :: "('w, Network, Network list, 'd, 'i) rest_client"
  cs_networkchainings :: "('w, NetworkChaining, NetworkChaining list, 'd, 'i) rest_client"
  cs_providernetworks :: "('w, ProviderNetwork, ProviderNetwork list, 'd, 'i) rest_client"

definition newNetworks :: "('w, 'd, 'i) clientset \<Rightarrow> string \<Rightarrow> ('w, Network, Network list, 'd, 'i) typed_client" where
  "newNetworks c namespace = \<lparr>tc_client = cs_networks c, tc_ns = namespace\<rparr>"

definition newNetworkChainings :: "('w, 'd, 'i) clientset \<Rightarrow> string \<Rightarrow> ('w, NetworkChaining, NetworkChaining list, 'd, 'i) typed_client" where
  "newNetworkChainings c namespace = \<lparr>tc_client = cs_networkchainings c, tc_ns = namespace\<rparr>"

definition newProviderNetworks :: "('w, 'd, 'i) clientset \<Rightarrow> string \<Rightarrow> ('w, ProviderNetwork, ProviderNetwork list, 'd, 'i) typed_client" where
  "newProviderNetworks c namespace = \<lparr>tc_client = cs_providernetworks c, tc_ns = namespace\<rparr>"

text \<open>
  What \<open>cache.NewSharedIndexInformer\<close> is given. An informer is an object with an identity:
  the factory's state has a list of the informers made so far, and a pointer is a position in it.
\<close>

record ('w, 'i) informer =
  in_ListFunc :: "list_options \<Rightarrow> 'w \<Rightarrow> (objects \<times> goerr option) \<times> 'w"
  in_WatchFunc :: "list_options \<Rightarrow> 'w \<Rightarrow> ('i + goerr) \<times> 'w"
  in_type :: kind
  in_resync :: int
  in_indexers :: "string list"

type_synonym tweak = "(list_options \<Rightarrow> list_options) option"

definition tweaked :: "tweak \<Rightarrow> list_options \<Rightarrow> list_options" where
  "tweaked f options = (case f of None \<Rightarrow> options | Some g \<Rightarrow> g options)"

definition NewFilteredNetworkInformer :: "('w, 'd, 'i) clientset \<Rightarrow> string \<Rightarrow> int \<Rightarrow> string list \<Rightarrow> tweak \<Rightarrow> ('w, 'i) informer" where
  "NewFilteredNetworkInformer client namespace resyncPeriod indexers tweakListOptions = \<lparr>
     in_ListFunc = (\<lambda>options w. case networks_List (newNetworks client namespace) (tweaked tweakListOptions options) w of
       ((l, err), w') \<Rightarrow> ((Networks_objs l, err), w')),
     in_WatchFunc = (\<lambda>options. networks_Watch (newNetworks client namespace) (tweaked tweakListOptions options)),
     in_type = Network_kind, in_resync = resyncPeriod, in_indexers = indexers\<rparr>"

definition NewFilteredNetworkChainingInformer :: "('w, 'd, 'i) clientset \<Rightarrow> string \<Rightarrow> int \<Rightarrow> string list \<Rightarrow> tweak \<Rightarrow> ('w, 'i) informer" where
  "NewFilteredNetworkChainingInformer client namespace resyncPeriod indexers tweakListOptions = \<lparr>
     in_ListFunc = (\<lambda>options w. case networkChainings_List (newNetworkChainings client namespace) (tweaked tweakListOptions options) w of
       ((l, err), w') \<Rightarrow> ((NetworkChainings_objs l, err), w')),
     in_WatchFunc = (\<lambda>options. networkChainings_Watch (newNetworkChainings client namespace) (tweaked tweakListOptions options)),
     in_type = NetworkChaining_kind, in_resync = resyncPeriod, in_indexers = indexers\<rparr>"

definition NewFilteredProviderNetworkInformer :: "('w, 'd, 'i) clientset \<Rightarrow> string \<Rightarrow> int \<Rightarrow> string list \<Rightarrow> tweak \<Rightarrow> ('w, 'i) informer" where
  "NewFilteredProviderNetworkInformer client namespace resyncPeriod indexers tweakListOptions = \<lparr>
     in_ListFunc = (\<lambda>options w. case providerNetworks_List (newProviderNetworks client namespace) (tweaked tweakListOptions options) w of
       ((l, err), w') \<Rightarrow> ((ProviderNetworks_objs l, err), w')),
     in_WatchFunc = (\<lambda>options. providerNetworks_Watch (newProviderNetworks client namespace) (tweaked tweakListOptions options)),
     in_type = ProviderNetwork_kind, in_resync = resyncPeriod, in_indexers = indexers\<rparr>"

section \<open>The factory\<close>

record ('w, 'd, 'i) sharedInformerFactory =
  f_client :: "('w, 'd, 'i) clientset"
  f_namespace :: string
  f_tweakListOptions :: tweak
  f_defaultResync :: int
  f_customResync :: "kind \<rightharpoonup> int"
  f_informers :: "(kind \<times> nat) list"
  f_startedInformers :: "kind \<Rightarrow> bool"

text \<open>
  The factory, the informers made, and the goroutines started: which informer runs, with which
  stop channel. The mutex makes each operation one step.
\<close>

record ('w, 'd, 'i) fac_state =
  factory :: "('w, 'd, 'i) sharedInformerFactory"
  made :: "('w, 'i) informer list"
  runs :: "(nat \<times> nat) list"

definition WithCustomResyncConfig :: "(kind \<times> int) list \<Rightarrow> ('w, 'd, 'i) sharedInformerFactory \<Rightarrow> ('w, 'd, 'i) sharedInformerFactory" where
  "WithCustomResyncConfig resyncConfig f = f\<lparr>f_customResync := fold (\<lambda>(k, v) m. m(k \<mapsto> v)) resyncConfig (f_customResync f)\<rparr>"

definition WithTweakListOptions :: "tweak \<Rightarrow> ('w, 'd, 'i) sharedInformerFactory \<Rightarrow> ('w, 'd, 'i) sharedInformerFactory" where
  "WithTweakListOptions t f = f\<lparr>f_tweakListOptions := t\<rparr>"

definition WithNamespace :: "string \<Rightarrow> ('w, 'd, 'i) sharedInformerFactory \<Rightarrow> ('w, 'd, 'i) sharedInformerFactory" where
  "WithNamespace namespace f = f\<lparr>f_namespace := namespace\<rparr>"

datatype informer_option = Custom_resync "(kind \<times> int) list" | Tweak_list_options tweak | Only_namespace string

fun apply_option :: "informer_option \<Rightarrow> ('w, 'd, 'i) sharedInformerFactory \<Rightarrow> ('w, 'd, 'i) sharedInformerFactory" where
  "apply_option (Custom_resync rc) = WithCustomResyncConfig rc"
| "apply_option (Tweak_list_options t) = WithTweakListOptions t"
| "apply_option (Only_namespace ns) = WithNamespace ns"

definition NewSharedInformerFactoryWithOptions :: "('w, 'd, 'i) clientset \<Rightarrow> int \<Rightarrow> informer_option list \<Rightarrow> ('w, 'd, 'i) sharedInformerFactory" where
  "NewSharedInformerFactoryWithOptions client defaultResync options = fold apply_option options
     \<lparr>f_client = client, f_namespace = [], f_tweakListOptions = None, f_defaultResync = defaultResync, f_customResync = Map.empty,
      f_informers = [], f_startedInformers = (\<lambda>_. False)\<rparr>"

definition NewSharedInformerFactory :: "('w, 'd, 'i) clientset \<Rightarrow> int \<Rightarrow> ('w, 'd, 'i) sharedInformerFactory" where
  "NewSharedInformerFactory client defaultResync = NewSharedInformerFactoryWithOptions client defaultResync []"

definition NewFilteredSharedInformerFactory :: "('w, 'd, 'i) clientset \<Rightarrow> int \<Rightarrow> string \<Rightarrow> tweak \<Rightarrow> ('w, 'd, 'i) sharedInformerFactory" where
  "NewFilteredSharedInformerFactory client defaultResync namespace tweakListOptions =
     NewSharedInformerFactoryWithOptions client defaultResync [Only_namespace namespace, Tweak_list_options tweakListOptions]"

definition InformerFor :: "kind \<Rightarrow> (('w, 'd, 'i) clientset \<Rightarrow> int \<Rightarrow> ('w, 'i) informer) \<Rightarrow> (('w, 'd, 'i) fac_state, nat) go" where
  "InformerFor informerType newFunc =
     bnd (gets factory) (\<lambda>f. case map_of (f_informers f) informerType of
       Some informer \<Rightarrow> ret informer
     | None \<Rightarrow>
         let resyncPeriod = (case f_customResync f informerType of Some r \<Rightarrow> r | None \<Rightarrow> f_defaultResync f) in
         bnd (gets (\<lambda>s. length (made s))) (\<lambda>informer.
         bnd (modify (\<lambda>s. s\<lparr>made := made s @ [newFunc (f_client f) resyncPeriod],
           factory := f\<lparr>f_informers := AList.update informerType informer (f_informers f)\<rparr>\<rparr>)) (\<lambda>_.
         ret informer)))"

text \<open>
  \<open>range\<close> goes over a map in any order: \<open>cs\<close> are the choices.
\<close>

definition informers_Start :: "nat list \<Rightarrow> nat \<Rightarrow> (('w, 'd, 'i) fac_state, unit) go" where
  "informers_Start cs stopCh =
     bnd (gets factory) (\<lambda>f.
     bnd (for_range (permute cs (f_informers f)) () (\<lambda>(informerType, informer) _.
       bnd (gets (\<lambda>s. f_startedInformers (factory s) informerType)) (\<lambda>started.
       if started then ret (Inr ()) else
       bnd (modify (\<lambda>s. s\<lparr>runs := runs s @ [(informer, stopCh)]\<rparr>)) (\<lambda>_.
       bnd (modify (\<lambda>s. s\<lparr>factory := (factory s)\<lparr>f_startedInformers := (f_startedInformers (factory s))(informerType := True)\<rparr>\<rparr>)) (\<lambda>_.
       ret (Inr () :: unit + unit)))))) (\<lambda>_. ret ()))"

text \<open>\<open>sync\<close> is what \<open>cache.WaitForCacheSync\<close> answers for an informer.\<close>

definition WaitForCacheSync :: "(nat \<Rightarrow> bool) \<Rightarrow> nat list \<Rightarrow> (('w, 'd, 'i) fac_state, kind \<rightharpoonup> bool) go" where
  "WaitForCacheSync sync cs =
     bnd (gets factory) (\<lambda>f.
     let informers = filter (\<lambda>(informerType, informer). f_startedInformers f informerType) (f_informers f) in
     ret (map_of (map (\<lambda>(informType, informer). (informType, sync informer)) (permute cs informers))))"

text \<open>
  From the factory to an informer: the group, its version and the three kinds hand on the
  namespace and the tweak of the options.
\<close>

record scope =
  sc_namespace :: string
  sc_tweakListOptions :: tweak

definition K8s :: "('w, 'd, 'i) sharedInformerFactory \<Rightarrow> scope" where
  "K8s f = \<lparr>sc_namespace = f_namespace f, sc_tweakListOptions = f_tweakListOptions f\<rparr>"

definition V1alpha1 :: "scope \<Rightarrow> scope" where
  "V1alpha1 g = \<lparr>sc_namespace = sc_namespace g, sc_tweakListOptions = sc_tweakListOptions g\<rparr>"

definition networkInformer_defaultInformer :: "scope \<Rightarrow> ('w, 'd, 'i) clientset \<Rightarrow> int \<Rightarrow> ('w, 'i) informer" where
  "networkInformer_defaultInformer f client resyncPeriod =
     NewFilteredNetworkInformer client (sc_namespace f) resyncPeriod [''namespace''] (sc_tweakListOptions f)"

definition networkChainingInformer_defaultInformer :: "scope \<Rightarrow> ('w, 'd, 'i) clientset \<Rightarrow> int \<Rightarrow> ('w, 'i) informer" where
  "networkChainingInformer_defaultInformer f client resyncPeriod =
     NewFilteredNetworkChainingInformer client (sc_namespace f) resyncPeriod [''namespace''] (sc_tweakListOptions f)"

definition providerNetworkInformer_defaultInformer :: "scope \<Rightarrow> ('w, 'd, 'i) clientset \<Rightarrow> int \<Rightarrow> ('w, 'i) informer" where
  "providerNetworkInformer_defaultInformer f client resyncPeriod =
     NewFilteredProviderNetworkInformer client (sc_namespace f) resyncPeriod [''namespace''] (sc_tweakListOptions f)"

definition networkInformer_Informer :: "scope \<Rightarrow> (('w, 'd, 'i) fac_state, nat) go" where
  "networkInformer_Informer f = InformerFor Network_kind (networkInformer_defaultInformer f)"

definition networkChainingInformer_Informer :: "scope \<Rightarrow> (('w, 'd, 'i) fac_state, nat) go" where
  "networkChainingInformer_Informer f = InformerFor NetworkChaining_kind (networkChainingInformer_defaultInformer f)"

definition providerNetworkInformer_Informer :: "scope \<Rightarrow> (('w, 'd, 'i) fac_state, nat) go" where
  "providerNetworkInformer_Informer f = InformerFor ProviderNetwork_kind (providerNetworkInformer_defaultInformer f)"

text \<open>
  What the API machinery contributes: how a resource is printed, and the error of a missing one.
\<close>

type_synonym gvr = "string \<times> string \<times> string"

record machinery =
  am_String :: "gvr \<Rightarrow> string"
  am_NewNotFound :: "string \<times> string \<Rightarrow> string \<Rightarrow> goerr"

definition SchemeGroupVersion :: "string \<times> string" where
  "SchemeGroupVersion = (''k8s.plugin.opnfv.org'', ''v1alpha1'')"

definition WithResource :: "string \<Rightarrow> gvr" where
  "WithResource r = (fst SchemeGroupVersion, snd SchemeGroupVersion, r)"

definition Resource :: "string \<Rightarrow> string \<times> string" where
  "Resource r = (fst SchemeGroupVersion, r)"

text \<open>The generic informer: the group resource and the informer.\<close>

definition ForResource :: "machinery \<Rightarrow> gvr \<Rightarrow> (('w, 'd, 'i) fac_state, ((string \<times> string) \<times> nat) + goerr) go" where
  "ForResource M resource =
     bnd (gets factory) (\<lambda>f.
     let v = V1alpha1 (K8s f); gr = (fst resource, snd (snd resource)) in
     if resource = WithResource ''networks'' then bnd (networkInformer_Informer v) (\<lambda>i. ret (Inl (gr, i)))
     else if resource = WithResource ''networkchainings'' then bnd (networkChainingInformer_Informer v) (\<lambda>i. ret (Inl (gr, i)))
     else if resource = WithResource ''providernetworks'' then bnd (providerNetworkInformer_Informer v) (\<lambda>i. ret (Inl (gr, i)))
     else ret (Inr (Errorf (''no informer found for '' @ am_String M resource))))"

section \<open>Listers\<close>

text \<open>
  An informer's cache: what the callback of \<open>cache.ListAll\<close> and of
  \<open>cache.ListAllByNamespace\<close> is called with, and \<open>GetByKey\<close>. A cached object has a
  dynamic type; the listers' type assertions panic on another one.
\<close>

datatype cached = Cached_Network Network | Cached_NetworkChaining NetworkChaining | Cached_ProviderNetwork ProviderNetwork | Cached_other

record 'l indexer =
  ix_ListAll :: "'l \<Rightarrow> cached list \<times> goerr option"
  ix_ListAllByNamespace :: "string \<Rightarrow> 'l \<Rightarrow> cached list \<times> goerr option"
  ix_GetByKey :: "string \<Rightarrow> cached option \<times> goerr option"

fun as_Network :: "cached \<Rightarrow> Network option" where
  "as_Network (Cached_Network x) = Some x"
| "as_Network _ = None"

fun as_NetworkChaining :: "cached \<Rightarrow> NetworkChaining option" where
  "as_NetworkChaining (Cached_NetworkChaining x) = Some x"
| "as_NetworkChaining _ = None"

fun as_ProviderNetwork :: "cached \<Rightarrow> ProviderNetwork option" where
  "as_ProviderNetwork (Cached_ProviderNetwork x) = Some x"
| "as_ProviderNetwork _ = None"

definition assert_type :: "(cached \<Rightarrow> 'a option) \<Rightarrow> cached \<Rightarrow> ('s, 'a) go" where
  "assert_type as m = (case as m of Some x \<Rightarrow> ret x | None \<Rightarrow> panic ''interface conversion'')"

definition collect :: "(cached \<Rightarrow> 'a option) \<Rightarrow> cached list \<times> goerr option \<Rightarrow> ('s, 'a list \<times> goerr option) go" where
  "collect as r =
     bnd (for_range (fst r) [] (\<lambda>m xs. bnd (assert_type as m) (\<lambda>x. ret (Inr (xs @ [x]) :: 'a list + 'a list)))) (\<lambda>xs.
     ret (case xs of Inl xs \<Rightarrow> xs | Inr xs \<Rightarrow> xs, snd r))"

definition get_cached :: "machinery \<Rightarrow> string \<Rightarrow> (cached \<Rightarrow> 'a option) \<Rightarrow> 'l indexer \<Rightarrow> string \<Rightarrow> string \<Rightarrow> ('s, 'a + goerr) go" where
  "get_cached M resource as ix namespace name =
     (case ix_GetByKey ix (namespace @ ''/'' @ name) of
       (_, Some err) \<Rightarrow> ret (Inr err)
     | (None, None) \<Rightarrow> ret (Inr (am_NewNotFound M (Resource resource) name))
     | (Some obj, None) \<Rightarrow> bnd (assert_type as obj) (\<lambda>x. ret (Inl x)))"

definition networkLister_List :: "'l indexer \<Rightarrow> 'l \<Rightarrow> ('s, Network list \<times> goerr option) go" where
  "networkLister_List ix selector = collect as_Network (ix_ListAll ix selector)"

definition networkNamespaceLister_List :: "'l indexer \<Rightarrow> string \<Rightarrow> 'l \<Rightarrow> ('s, Network list \<times> goerr option) go" where
  "networkNamespaceLister_List ix namespace selector = collect as_Network (ix_ListAllByNamespace ix namespace selector)"

definition networkNamespaceLister_Get :: "machinery \<Rightarrow> 'l indexer \<Rightarrow> string \<Rightarrow> string \<Rightarrow> ('s, Network + goerr) go" where
  "networkNamespaceLister_Get M = get_cached M ''network'' as_Network"

definition networkChainingLister_List :: "'l indexer \<Rightarrow> 'l \<Rightarrow> ('s, NetworkChaining list \<times> goerr option) go" where
  "networkChainingLister_List ix selector = collect as_NetworkChaining (ix_ListAll ix selector)"

definition networkChainingNamespaceLister_List :: "'l indexer \<Rightarrow> string \<Rightarrow> 'l \<Rightarrow> ('s, NetworkChaining list \<times> goerr option) go" where
  "networkChainingNamespaceLister_List ix namespace selector = collect as_NetworkChaining (ix_ListAllByNamespace ix namespace selector)"

definition networkChainingNamespaceLister_Get :: "machinery \<Rightarrow> 'l indexer \<Rightarrow> string \<Rightarrow> string \<Rightarrow> ('s, NetworkChaining + goerr) go" where
  "networkChainingNamespaceLister_Get M = get_cached M ''networkchaining'' as_NetworkChaining"

definition providerNetworkLister_List :: "'l indexer \<Rightarrow> 'l \<Rightarrow> ('s, ProviderNetwork list \<times> goerr option) go" where
  "providerNetworkLister_List ix selector = collect as_ProviderNetwork (ix_ListAll ix selector)"

definition providerNetworkNamespaceLister_List :: "'l indexer \<Rightarrow> string \<Rightarrow> 'l \<Rightarrow> ('s, ProviderNetwork list \<times> goerr option) go" where
  "providerNetworkNamespaceLister_List ix namespace selector = collect as_ProviderNetwork (ix_ListAllByNamespace ix namespace selector)"

definition providerNetworkNamespaceLister_Get :: "machinery \<Rightarrow> 'l indexer \<Rightarrow> string \<Rightarrow> string \<Rightarrow> ('s, ProviderNetwork + goerr) go" where
  "providerNetworkNamespaceLister_Get M = get_cached M ''providernetwork'' as_ProviderNetwork"

section \<open>One informer for each type\<close>

text \<open>The calls a client makes, each one step under the factory's mutex.\<close>

datatype fac_call = Informer_call kind | ForResource_call gvr | Start_call "nat list" nat | Wait_call "nat list"

definition informer_of :: "kind \<Rightarrow> scope \<Rightarrow> ('w, 'd, 'i) clientset \<Rightarrow> int \<Rightarrow> ('w, 'i) informer" where
  "informer_of k = (case k of Network_kind \<Rightarrow> networkInformer_defaultInformer | NetworkChaining_kind \<Rightarrow> networkChainingInformer_defaultInformer
     | ProviderNetwork_kind \<Rightarrow> providerNetworkInformer_defaultInformer)"

definition get_informer :: "kind \<Rightarrow> (('w, 'd, 'i) fac_state, nat) go" where
  "get_informer k = bnd (gets factory) (\<lambda>f. let v = V1alpha1 (K8s f) in
     case k of Network_kind \<Rightarrow> networkInformer_Informer v | NetworkChaining_kind \<Rightarrow> networkChainingInformer_Informer v
     | ProviderNetwork_kind \<Rightarrow> providerNetworkInformer_Informer v)"

fun fac_step :: "machinery \<Rightarrow> (nat \<Rightarrow> bool) \<Rightarrow> fac_call \<Rightarrow> ('w, 'd, 'i) fac_state \<Rightarrow> ('w, 'd, 'i) fac_state" where
  "fac_step M sync (Informer_call k) s = snd (get_informer k s)"
| "fac_step M sync (ForResource_call r) s = snd (ForResource M r s)"
| "fac_step M sync (Start_call cs stopCh) s = snd (informers_Start cs stopCh s)"
| "fac_step M sync (Wait_call cs) s = snd (WaitForCacheSync sync cs s)"

definition fac_init :: "('w, 'd, 'i) clientset \<Rightarrow> int \<Rightarrow> informer_option list \<Rightarrow> ('w, 'd, 'i) fac_state" where
  "fac_init client defaultResync options = \<lparr>factory = NewSharedInformerFactoryWithOptions client defaultResync options, made = [], runs = []\<rparr>"

text \<open>
  The informer of a type, with the period the factory has for it. The factory's map has the
  informers in the order they were made, at most one of a type, and the running ones are those
  marked as started.
\<close>

definition resync_of :: "('w, 'd, 'i) sharedInformerFactory \<Rightarrow> kind \<Rightarrow> int" where
  "resync_of f k = (case f_customResync f k of Some r \<Rightarrow> r | None \<Rightarrow> f_defaultResync f)"

definition the_informer :: "('w, 'd, 'i) sharedInformerFactory \<Rightarrow> kind \<Rightarrow> ('w, 'i) informer" where
  "the_informer f k = informer_of k (K8s f) (f_client f) (resync_of f k)"

definition fac_ok :: "('w, 'd, 'i) fac_state \<Rightarrow> bool" where
  "fac_ok s \<longleftrightarrow> (let ks = map in_type (made s); f = factory s in
     distinct ks \<and> made s = map (the_informer f) ks \<and> f_informers f = zip ks [0..<length ks] \<and>
     (\<forall>k. f_startedInformers f k \<longrightarrow> k \<in> set ks) \<and> distinct (map fst (runs s)) \<and>
     fst ` set (runs s) = {p. p < length ks \<and> f_startedInformers f (ks ! p)})"

lemma in_type_informer_of [simp]: "in_type (informer_of k v c r) = k"
  by (cases k) (simp_all add: informer_of_def networkInformer_defaultInformer_def networkChainingInformer_defaultInformer_def
      providerNetworkInformer_defaultInformer_def NewFilteredNetworkInformer_def NewFilteredNetworkChainingInformer_def
      NewFilteredProviderNetworkInformer_def)

lemma V1alpha1_id [simp]: "V1alpha1 v = v"
  by (simp add: V1alpha1_def)

lemma get_informer_eq: "get_informer k s = InformerFor k (informer_of k (K8s (factory s))) s"
  by (cases k) (simp_all add: get_informer_def informer_of_def Let_def networkInformer_Informer_def networkChainingInformer_Informer_def
      providerNetworkInformer_Informer_def)

lemma map_of_positions: "distinct ks \<Longrightarrow> map_of (zip ks [0..<length ks]) k = Some p \<longleftrightarrow> p < length ks \<and> ks ! p = k"
  by (auto simp: in_set_zip nth_eq_iff_index_eq)

lemma update_new: "k \<notin> fst ` set al \<Longrightarrow> AList.update k v al = al @ [(k, v)]"
  by (induction al) auto

lemma InformerFor_known:
  assumes "fac_ok s" and "p < length (made s)" and "in_type (made s ! p) = k"
  shows "get_informer k s = (Returns p, s)"
proof -
  let ?ks = "map in_type (made s)"
  have "map_of (f_informers (factory s)) k = Some p"
    using assms map_of_positions [of ?ks k p] by (simp add: fac_ok_def Let_def)
  then show ?thesis by (simp add: get_informer_eq InformerFor_def)
qed

lemma the_informer_cong: "the_informer (f\<lparr>f_informers := is\<rparr>) = the_informer f" "the_informer (f\<lparr>f_startedInformers := st\<rparr>) = the_informer f"
  by (simp_all add: fun_eq_iff the_informer_def resync_of_def K8s_def cong: option.case_cong)

lemma InformerFor_new:
  assumes "fac_ok s" and "k \<notin> in_type ` set (made s)"
  defines "t \<equiv> s\<lparr>made := made s @ [the_informer (factory s) k],
    factory := (factory s)\<lparr>f_informers := f_informers (factory s) @ [(k, length (made s))]\<rparr>\<rparr>"
  shows "get_informer k s = (Returns (length (made s)), t)" and "fac_ok t"
proof -
  let ?ks = "map in_type (made s)"
  have "f_informers (factory s) = zip ?ks [0..<length ?ks]" using assms(1) by (simp add: fac_ok_def Let_def)
  then have new: "k \<notin> fst ` set (f_informers (factory s))" using assms(2) by (auto dest: set_zip_leftD)
  then have "map_of (f_informers (factory s)) k = None" by (simp add: map_of_eq_None_iff)
  with new show "get_informer k s = (Returns (length (made s)), t)"
    by (simp add: get_informer_eq InformerFor_def Let_def t_def update_new the_informer_def resync_of_def)
  have "in_type (the_informer (factory s) k) = k" by (simp add: the_informer_def)
  moreover have "\<not> f_startedInformers (factory s) k" using assms(1,2) by (auto simp: fac_ok_def Let_def)
  ultimately show "fac_ok t"
    using assms(1,2) by (auto simp: fac_ok_def Let_def t_def the_informer_cong nth_append less_Suc_eq)
qed

text \<open>Asking for an informer, or for a resource's: the invariant holds, and the answer is the informer of the type.\<close>

lemma get_informer_ok:
  assumes "fac_ok s"
  shows "\<exists>p t. get_informer k s = (Returns p, t) \<and> fac_ok t \<and> p < length (made t) \<and> made t ! p = the_informer (factory s) k \<and>
    runs t = runs s \<and> prefix (made s) (made t) \<and> the_informer (factory t) = the_informer (factory s)"
proof (cases "k \<in> in_type ` set (made s)")
  case True
  then obtain p where p: "p < length (made s)" "in_type (made s ! p) = k" by (auto simp: in_set_conv_nth)
  with assms have "made s ! p = the_informer (factory s) k"
    unfolding fac_ok_def Let_def by (metis length_map nth_map)
  with InformerFor_known [OF assms p] p assms show ?thesis by (intro exI [of _ p] exI [of _ s]) simp
next
  case False
  from InformerFor_new [OF assms this] show ?thesis
    by (intro exI conjI) (assumption, assumption, simp_all add: nth_append prefix_def the_informer_cong)
qed

lemma ForResource_ok:
  assumes "fac_ok s"
  shows "\<exists>r t. ForResource M g s = (Returns r, t) \<and> fac_ok t \<and> the_informer (factory t) = the_informer (factory s)"
proof -
  have one: "\<exists>p t. get_informer k s = (Returns p, t) \<and> fac_ok t \<and> the_informer (factory t) = the_informer (factory s)" for k using get_informer_ok [OF assms] by blast
  have kinds: "networkInformer_Informer (K8s (factory s)) s = get_informer Network_kind s"
    "networkChainingInformer_Informer (K8s (factory s)) s = get_informer NetworkChaining_kind s"
    "providerNetworkInformer_Informer (K8s (factory s)) s = get_informer ProviderNetwork_kind s"
    by (simp_all add: get_informer_def Let_def)
  show ?thesis
    using one [of Network_kind] one [of NetworkChaining_kind] one [of ProviderNetwork_kind] assms
    by (auto simp: ForResource_def Let_def bnd_def kinds)
qed

text \<open>Starting: every informer of the map that does not run yet is run, once.\<close>

lemma start_loop:
  assumes "distinct (map fst xs)"
  shows "for_range xs () (\<lambda>(informerType, informer) _.
       bnd (gets (\<lambda>s. f_startedInformers (factory s) informerType)) (\<lambda>started.
       if started then ret (Inr ()) else
       bnd (modify (\<lambda>s. s\<lparr>runs := runs s @ [(informer, stopCh)]\<rparr>)) (\<lambda>_.
       bnd (modify (\<lambda>s. s\<lparr>factory := (factory s)\<lparr>f_startedInformers := (f_startedInformers (factory s))(informerType := True)\<rparr>\<rparr>)) (\<lambda>_.
       ret (Inr () :: unit + unit))))) s =
    (Returns (Inr ()), s\<lparr>runs := runs s @ map (\<lambda>(k, p). (p, stopCh)) (filter (\<lambda>(k, p). \<not> f_startedInformers (factory s) k) xs),
       factory := (factory s)\<lparr>f_startedInformers := (\<lambda>k. f_startedInformers (factory s) k \<or> k \<in> fst ` set xs)\<rparr>\<rparr>)"
  using assms
proof (induction xs arbitrary: s)
  case (Cons x xs)
  obtain k p where x: "x = (k, p)" by fastforce
  show ?case
  proof (cases "f_startedInformers (factory s) k")
    case True
    then have "(\<lambda>j. f_startedInformers (factory s) j \<or> j \<in> fst ` set xs) = (\<lambda>j. f_startedInformers (factory s) j \<or> j \<in> fst ` set (x # xs))"
      by (auto simp: fun_eq_iff x)
    with Cons True show ?thesis by (simp add: x bnd_assoc)
  next
    case False
    let ?st = "(f_startedInformers (factory s))(k := True)"
    have "(\<lambda>j. ?st j \<or> j \<in> fst ` set xs) = (\<lambda>j. f_startedInformers (factory s) j \<or> j \<in> fst ` set (x # xs))"
      by (auto simp: fun_eq_iff x)
    moreover have "filter (\<lambda>(j, p). \<not> ?st j) xs = filter (\<lambda>(j, p). \<not> f_startedInformers (factory s) j) xs"
      using Cons.prems by (intro filter_cong) (auto simp: x image_iff)
    ultimately show ?thesis using Cons False by (simp add: x bnd_assoc)
  qed
qed simp

lemma distinct_map_permute: "distinct (map f xs) \<Longrightarrow> distinct (map f (permute cs xs))"
  by (metis mset_permute mset_map mset_eq_imp_distinct_iff)

lemma Start_ok:
  assumes "fac_ok s"
  shows "\<exists>t. informers_Start cs stopCh s = (Returns (), t) \<and> fac_ok t \<and> made t = made s \<and> fst ` set (runs t) = {..<length (made s)} \<and>
    the_informer (factory t) = the_informer (factory s)"
proof -
  let ?f = "factory s" and ?ks = "map in_type (made s)" and ?n = "length (made s)"
  let ?st = "f_startedInformers ?f" and ?xs = "permute cs (f_informers ?f)"
  have map: "f_informers ?f = zip ?ks [0..<?n]" and dist: "distinct ?ks" using assms by (simp_all add: fac_ok_def Let_def)
  have xs: "distinct (map fst ?xs)" "distinct (map snd ?xs)" using dist by (auto intro!: distinct_map_permute simp: map)
  have set_xs: "set ?xs = (\<lambda>p. (?ks ! p, p)) ` {..<?n}" by (force simp: map set_zip)
  let ?new = "filter (\<lambda>(k, p). \<not> ?st k) ?xs"
  let ?t = "s\<lparr>runs := runs s @ map (\<lambda>(k, p). (p, stopCh)) ?new,
       factory := ?f\<lparr>f_startedInformers := (\<lambda>k. ?st k \<or> k \<in> fst ` set ?xs)\<rparr>\<rparr>"
  have run: "informers_Start cs stopCh s = (Returns (), ?t)"
    using start_loop [OF xs(1), of stopCh s] by (simp add: informers_Start_def)
  have new: "snd ` set ?new = {p. p < ?n \<and> \<not> ?st (?ks ! p)}" unfolding set_filter set_xs by force
  have old: "fst ` set (runs s) = {p. p < ?n \<and> ?st (?ks ! p)}" using assms by (simp add: fac_ok_def Let_def)
  have fsts: "map fst (runs ?t) = map fst (runs s) @ map snd ?new" by (simp add: case_prod_unfold)
  have "fst ` set (runs ?t) = fst ` set (runs s) \<union> snd ` set ?new" by (metis fsts set_append list.set_map)
  then have all: "fst ` set (runs ?t) = {..<?n}" unfolding old new by auto
  have "distinct (map snd ?new)" using xs(2) by (rule distinct_map_filter)
  moreover have "distinct (map fst (runs s))" using assms by (simp add: fac_ok_def Let_def)
  ultimately have "distinct (map fst (runs ?t))" unfolding fsts distinct_append list.set_map old new by auto
  moreover have keys: "fst ` set ?xs = set ?ks" unfolding set_xs by (force simp: in_set_conv_nth)
  moreover have "?st k \<Longrightarrow> k \<in> set ?ks" for k using assms by (simp add: fac_ok_def Let_def)
  ultimately have "fac_ok ?t"
    using assms all unfolding fac_ok_def Let_def by (auto simp: the_informer_cong simp del: set_permute)
  with run all show ?thesis by (intro exI [of _ ?t]) (simp add: the_informer_cong)
qed

lemma fac_step_ok: "fac_ok s \<Longrightarrow> fac_ok (fac_step M sync c s) \<and> the_informer (factory (fac_step M sync c s)) = the_informer (factory s)"
proof (cases c)
  case (Informer_call k)
  assume "fac_ok s"
  from get_informer_ok [OF this, of k] Informer_call show ?thesis by auto
next
  case (ForResource_call r)
  assume "fac_ok s"
  from ForResource_ok [OF this, of M r] ForResource_call show ?thesis by auto
next
  case (Start_call cs stopCh)
  assume "fac_ok s"
  from Start_ok [OF this, of cs stopCh] Start_call show ?thesis by auto
qed (simp add: WaitForCacheSync_def Let_def)

lemma apply_option_fields:
  "f_informers (apply_option opt f) = f_informers f" "f_startedInformers (apply_option opt f) = f_startedInformers f"
  by (cases opt; simp add: WithCustomResyncConfig_def WithTweakListOptions_def WithNamespace_def)+

lemma options_fields:
  "f_informers (fold apply_option options f) = f_informers f" "f_startedInformers (fold apply_option options f) = f_startedInformers f"
  by (induction options arbitrary: f) (simp_all add: apply_option_fields)

lemma fac_init_ok: "fac_ok (fac_init client defaultResync options)"
  by (simp add: fac_ok_def fac_init_def NewSharedInformerFactoryWithOptions_def options_fields)

lemma fac_run_ok: "fac_ok s \<Longrightarrow> fac_ok (fold (fac_step M sync) calls s) \<and> the_informer (factory (fold (fac_step M sync) calls s)) = the_informer (factory s)"
  by (induction calls arbitrary: s) (simp_all add: fac_step_ok)

text \<open>
  C24. Informers are shared. Whatever calls a factory has seen, in whatever order, it has made at
  most one informer of each type, each with the namespace, the options and the resync period the
  factory was made with; no informer has been run twice; asking for the informer of a type
  answers with the one informer of that type; and after \<open>Start\<close> exactly the informers that
  were asked for run, each once.
\<close>

theorem informers_shared:
  assumes "s = fold (fac_step M sync) calls (fac_init client defaultResync options)"
    and "f = NewSharedInformerFactoryWithOptions client defaultResync options"
  shows "distinct (map in_type (made s)) \<and> made s = map (the_informer f) (map in_type (made s)) \<and>
    distinct (map fst (runs s)) \<and> fst ` set (runs s) \<subseteq> {..<length (made s)} \<and>
    (\<exists>p t. get_informer k s = (Returns p, t) \<and> p < length (made t) \<and> made t ! p = the_informer f k \<and> prefix (made s) (made t)) \<and>
    (\<exists>t. informers_Start cs stopCh s = (Returns (), t) \<and> made t = made s \<and> distinct (map fst (runs t)) \<and> fst ` set (runs t) = {..<length (made s)})"
proof -
  have ok: "fac_ok s" and f: "the_informer (factory s) = the_informer f"
    using fac_run_ok [OF fac_init_ok, of M sync calls client defaultResync options] by (simp_all add: assms fac_init_def)
  have start: "\<exists>t. informers_Start cs stopCh s = (Returns (), t) \<and> made t = made s \<and> distinct (map fst (runs t)) \<and> fst ` set (runs t) = {..<length (made s)}"
    using Start_ok [OF ok, of cs stopCh] by (auto simp: fac_ok_def Let_def)
  have "distinct (map in_type (made s))" "made s = map (the_informer f) (map in_type (made s))" "distinct (map fst (runs s))"
    "fst ` set (runs s) \<subseteq> {..<length (made s)}"
    using ok unfolding fac_ok_def Let_def f by auto
  with start get_informer_ok [OF ok, of k] show ?thesis unfolding f by blast
qed

text \<open>An example: the informer of networks asked for twice, that of provider networks once, and two starts.\<close>

definition quiet_rest :: "'a \<Rightarrow> (unit, 'a, 'b list, unit, unit) rest_client" where
  "quiet_rest x = \<lparr>rc_Into = (\<lambda>rq w. ((x, Some (StatusError 405 ''not allowed'')), w)), rc_IntoList = (\<lambda>rq w. (([], None), w)),
     rc_Error = (\<lambda>rq w. (None, w)), rc_Watch = (\<lambda>rq w. (Inl (), w))\<rparr>"

definition quiet_clientset :: "(unit, unit, unit) clientset" where
  "quiet_clientset = \<lparr>cs_networks = quiet_rest demo_network, cs_networkchainings = quiet_rest demo_chaining, cs_providernetworks = quiet_rest lan_pn\<rparr>"

definition quiet_machinery :: machinery where
  "quiet_machinery = \<lparr>am_String = (\<lambda>(g, v, r). g @ ''/'' @ v @ '', Resource='' @ r), am_NewNotFound = (\<lambda>_ n. StatusError 404 n)\<rparr>"

definition demo_calls :: "fac_call list" where
  "demo_calls = [Informer_call Network_kind, Start_call [] 0, ForResource_call (WithResource ''networks''),
     Informer_call ProviderNetwork_kind, Start_call [1] 0]"

definition demo_run :: "(unit, unit, unit) fac_state" where
  "demo_run = fold (fac_step quiet_machinery (\<lambda>_. True)) demo_calls (fac_init quiet_clientset 60 [Only_namespace ''default''])"

lemma demo_run_made: "map in_type (made demo_run) = [Network_kind, ProviderNetwork_kind]"
  by code_simp

theorem informers_shared_witness:
  "distinct (map fst (runs demo_run)) \<and> fst ` set (runs demo_run) \<subseteq> {0, 1} \<and>
    (\<exists>t. informers_Start [] 0 demo_run = (Returns (), t) \<and> distinct (map fst (runs t)) \<and> fst ` set (runs t) = {0, 1})"
proof -
  have "length (made demo_run) = 2" using arg_cong [OF demo_run_made, of length] by simp
  then have "{..<length (made demo_run)} = {0, 1}" by auto
  with informers_shared [OF demo_run_def refl, of Network_kind "[]" 0] show ?thesis by auto
qed

section \<open>Looking up in a cache\<close>

text \<open>
  The cache of an informer is keyed by \<open>cache.MetaNamespaceKeyFunc\<close>: the namespace, a slash
  and the name, or the name alone without a namespace.
\<close>

definition meta_key :: "string \<Rightarrow> string \<Rightarrow> string" where
  "meta_key namespace name = (if namespace = [] then name else namespace @ ''/'' @ name)"

text \<open>
  In such a cache of networks the lister of a namespace finds the network of that name, and answers
  not found if there is none; for the empty namespace it looks for a key that starts with a slash,
  and finds no object whose name has none.
\<close>

lemma key_inject:
  assumes "CHR ''/'' \<notin> set n" and "CHR ''/'' \<notin> set ns" and "CHR ''/'' \<notin> set n'" and "CHR ''/'' \<notin> set ns'"
  shows "ns' @ ''/'' @ n' = meta_key ns n \<longleftrightarrow> ns \<noteq> [] \<and> ns' = ns \<and> n' = n"
  using assms by (auto simp: meta_key_def append_Cons_eq_iff)

lemma network_lookup:
  assumes "\<And>key. ix_GetByKey ix key = (map_option Cached_Network (map_of (map (\<lambda>x. (meta_key (Namespace (nw_meta x)) (Name (nw_meta x)), x)) xs) key), None)"
    and "\<And>x. x \<in> set xs \<Longrightarrow> CHR ''/'' \<notin> set (Namespace (nw_meta x)) \<and> CHR ''/'' \<notin> set (Name (nw_meta x))"
    and "CHR ''/'' \<notin> set namespace" and "CHR ''/'' \<notin> set name"
  shows "networkNamespaceLister_Get M ix namespace name s = (Returns
    (case find (\<lambda>x. namespace \<noteq> [] \<and> Namespace (nw_meta x) = namespace \<and> Name (nw_meta x) = name) xs of
       Some x \<Rightarrow> Inl x | None \<Rightarrow> Inr (am_NewNotFound M (Resource ''network'') name)), s)"
proof -
  have "map_of (map (\<lambda>x. (meta_key (Namespace (nw_meta x)) (Name (nw_meta x)), x)) xs) (namespace @ ''/'' @ name) =
    find (\<lambda>x. namespace \<noteq> [] \<and> Namespace (nw_meta x) = namespace \<and> Name (nw_meta x) = name) xs"
    using assms(2)
  proof (induction xs)
    case (Cons x xs)
    have "namespace @ ''/'' @ name = meta_key (Namespace (nw_meta x)) (Name (nw_meta x)) \<longleftrightarrow>
      namespace \<noteq> [] \<and> Namespace (nw_meta x) = namespace \<and> Name (nw_meta x) = name"
      using Cons.prems [of x] assms(3,4) key_inject [of "Name (nw_meta x)" "Namespace (nw_meta x)" name namespace] by auto
    with Cons show ?case by auto
  qed simp
  with assms(1) show ?thesis
    by (simp add: networkNamespaceLister_Get_def get_cached_def assert_type_def split: option.splits)
qed

end
