(* ===== verification/Spec2Isabelle.thy ===== *)
theory Spec2Isabelle
  imports AgentProcess Controllers OperatorProcess PodController PortBinding CniShim DeepCopy Informers
begin

text \<open>
  A verification of the OVN network plugin for Kubernetes (ovn4nfv-k8s-plugin).

  \<^bold>\<open>The program.\<close> An operator (cmd/nfn-operator) watches pods and three custom resources:
  networks, provider networks and network chains. It drives OVN with the command line tools
  ovn-nbctl and ovs-vsctl, annotates pods with the addresses of their logical ports, and notifies
  the nodes over gRPC. An agent on every node (cmd/nfn-agent) handles these messages: VLAN links,
  provider bridges and routes in containers. It also runs the CNI server (internal/pkg/cniserver),
  which a small CNI plugin (internal/pkg/cnishim) calls for the container runtime, and which waits
  for the annotation of a pod and builds the pod's interfaces
  (cmd/ovn4nfvk8s-cni/app/helper_linux.go).

  \<^bold>\<open>How the code is modelled.\<close> Go functions with effects are in the monad \<open>('s, 'a) go\<close> of
  the theory Prelude: state passing with the three outcomes of returning, panicking and blocking
  for ever. Go errors are the datatype \<open>goerr\<close>, a nil error is \<open>None\<close>. The state is a
  record that extends \<open>gstate\<close>: the state of the environment (\<open>world\<close>) and the log of the
  commands run (\<open>execlog\<close>). Everything outside the sources (command line tools, netlink,
  iptables, gRPC, the API server, the operating system, the JSON text of CNI results) is a field
  of a host record or an argument, a function on the world about which nothing is assumed unless
  a theorem says so. Global variables of the Go code are fields of the state. Iteration over a Go
  map is over an association list in an order the environment chooses. Logging is left out, and
  so is the exact wording of library errors.

  \<^bold>\<open>The theories\<close>, in the order they build on each other:

  \<^item> Prelude: the monad, its weakest preconditions (\<open>wpe\<close>), and the judgements \<open>emits\<close>
    (which commands may be run), \<open>keeps\<close> (what is left alone) and \<open>total_run\<close>.
  \<^item> GoStrings, GoNet, GoSha1, GoJson, GoBase64: what the sources use of the Go standard library:
    strings, addresses and networks as bytes, SHA-1 on words, the JSON grammar with its decoding
    rules, and base64. Printing and parsing are proved inverse where the code relies on it.
  \<^item> OvnExec (internal/pkg/ovn/utils.go): the helper with the tools' paths, the bounded retry, and
    the judgement \<open>yields\<close>, which relates the result of a call to the commands it has run.
  \<^item> ApiTypes (pkg/apis/k8s/v1alpha1, pkg/utils): the custom resources and the finalizer helpers,
    with the locale \<open>finalizer_list\<close>.
  \<^item> OvnCommon (internal/pkg/ovn/common.go): VLAN links, provider bridges and the bridge mapping
    text, address arithmetic, the cluster router, logical switches.
  \<^item> Config (internal/pkg/config/config.go): the configuration, its merge and precedence,
    the table of command line flags.
  \<^item> OvnController (internal/pkg/ovn/ovn.go): networks, provider networks, ports of nodes and pods,
    the gateway cache.
  \<^item> NetIface (internal/pkg/network): default gateway, host network, iptables rules.
  \<^item> Proto (internal/pkg/nfnNotify/proto): messages and their nil-safe getters.
  \<^item> Chaining (internal/pkg/utils/chain.go): the routes of a service chain and their installation.
  \<^item> Notify (internal/pkg/nfnNotify/server.go, internal/pkg/node): subscription and sending.
  \<^item> Subscription: what a node gets when it subscribes.
  \<^item> CniApp (ovn4nfvk8s-cni/app/helper_linux.go): interfaces of a pod and of the node.
  \<^item> Agent (cmd/nfn-agent): the message handlers, the store and the reconciliation of a node.
  \<^item> AgentProcess (main of cmd/nfn-agent): the set-up, and the process as a step relation in which
    the thread that waits for a signal, the thread that receives and the stream interleave.
  \<^item> Controllers (pkg/controller/network, providernetwork, networkchaining): the three
    reconcilers; the finalizer protocol they share is the locale \<open>finalized\<close>, interpreted for
    each of them.
  \<^item> PodPorts, PodController (pkg/controller/pod): the annotation and the reconciler of pods.
  \<^item> Kube (internal/pkg/kube), CniServer (internal/pkg/cniserver), CniShim (internal/pkg/cnishim
    and main of cmd/ovn4nfvk8s-cni).
  \<^item> PortBinding: the logical ports of the operator against the interfaces of the CNI side.
  \<^item> OperatorProcess (main of cmd/nfn-operator, pkg/controller, pkg/apis): the registration of types
    and controllers and the start of the operator, over the locale \<open>boot_frame\<close>.
  \<^item> GoHeap, DeepCopy (zz_generated.deepcopy.go): slices in a memory, the locale \<open>copying\<close> with
    what a deep copy promises, the composition of copies, and the generated copies of every type.
  \<^item> ApiClient (pkg/generated/clientset/versioned/typed): the request each method of the three
    typed clients makes.
  \<^item> Informers (pkg/generated/informers, pkg/generated/listers): the factory of shared informers,
    what each of them lists and watches, and lookups in their caches.
  \<^item> This theory: the annotation, the provider network messages, the subscription of a node and
    the routes of a chain from end to end.

  \<^bold>\<open>What is shown.\<close> Functional correctness: the routes of a chain, the gateway text and its
  cache, the bridge mapping as a map in every iteration order, who gets a notification, the host's
  network, the precedence of settings, the result of a CNI call. Safety: creating a network runs a
  prefix of one script and reports success only after all of it; at most one patch per reconciled
  pod; a deleted network is undone before its finalizer goes; every annotated interface has its
  logical port; the commands in a container are those of the routes computed for it; an operator
  whose main reaches the manager has registered every type and every controller; a copied list of
  provider networks shares no memory with its original, so that no write to one is seen in the
  other. Invariants: the iptables rules, the agent's store at every moment of the process, that
  after a subscription it has the networks meant for its node, and that a factory makes at most one
  informer of a type and runs it once. Refinement: the agent against an abstract store, the shim and the server against the server's operation.
  Round trips: request, annotation, arguments. Bounds and termination: retries, interface names,
  addresses, the end of the agent's process after its stream. Error behaviour: where a failure is
  kept, and where the code loses it, uses a server before it is there, or stores a status that the
  API server drops.

  \<^bold>\<open>Fuel and bounds.\<close> The retry of ovn-nbctl is recursion on the number of attempts left (200 in
  the code), polling on its counter (30), the wait for an annotation on the 14 steps of the
  back-off, an argument. The JSON parser recurses on fuel; the length of the text plus one is given
  and, by the reading lemmas, enough for every text the program prints. The agent's receive loop
  runs for ever: it is on fuel, and \<open>Blocks\<close> stands for still running; its properties are
  stated over finite runs as an inductive relation.

  \<^bold>\<open>Not modelled\<close>: the construction of the clientset from a REST configuration, the fake clients
  and other test doubles, and the OpenAPI tables, which are data or only hand on to the libraries;
  the wire format of protobuf; the parsing of the command line. Texts are byte strings, and the JSON round trips are stated for ASCII. The interleaving of goroutines is
  explored where the code hands something over: the agent's two threads, and the operator's
  manager against its notification server. Elsewhere a handler runs to its end before the next, as
  each of them does on its own connection or stream, and a shared informer factory takes one call
  at a time, as its mutex makes it.
\<close>

section \<open>From the operator's annotation to the CNI server\<close>

lemma tags_agree: "ovn4nfvAnnotationTag = Ovn4nfvAnnotationTag"
  by (simp add: ovn4nfvAnnotationTag_def Ovn4nfvAnnotationTag_def)

lemma plain_tag: "plain Ovn4nfvAnnotationTag"
  by (simp add: Ovn4nfvAnnotationTag_def plain_char_def dquote_def bslash_def)

lemma parse_annotation:
  assumes "list_all entry_plain es"
  shows "parseOvnNetworkObject (arr_text (map entry_members es)) = Inl (map entry_map es)"
  using annotation_maps [OF assms] by (simp add: parseOvnNetworkObject_def arr_text_def)

text \<open>
  C4. The CNI server finds what the operator wrote. Suppose the API server keeps pods, merges
  accepted annotation patches and answers queries. If the operator has set the annotation for a
  list of entries on a pod, then \<open>cmdAdd\<close> for that pod, in the world the patch has left, goes
  on with annotations whose interface list decodes into exactly these entries, in order.
\<close>

theorem annotation_delivered:
  assumes "merges_annotations pods (p_Patch r)" and "answers_pods pods (h_GetPod H)" and "retries B pause"
    and "pods (world s) (pod_Namespace pod, pod_Name pod) = Some cur" and "list_all entry_plain es"
    and "setPodAnnotation r pod Ovn4nfvAnnotationTag (annotation_text es) s = (Returns None, s')"
    and "PodNamespace cr = pod_Namespace pod" and "PodName cr = pod_Name pod"
    and "pod_Namespace pod \<noteq> []" and "pod_Name pod \<noteq> []" and "world c = world s'"
  shows "\<exists>w a t. cmdAdd H B cr c = add_from_annotation H cr (c\<lparr>world := w, annotation := a\<rparr>) \<and>
    a ovn4nfvAnnotationTag = Some t \<and> parseOvnNetworkObject t = Inl (map entry_map es)"
proof -
  let ?t = "arr_text (map entry_members es)"
  have "p_Patch r pod (annotation_patch Ovn4nfvAnnotationTag (escq ?t)) (world s) = (None, world s')"
    using assms(6) by (auto simp: setPodAnnotation_def Let_def annotation_text_escq [OF assms(5)] bnd_def ext_def split: prod.splits if_splits)
  from patched_pod [OF assms(1,4) plain_tag quotable_annotation [OF assms(5)] this]
  have "pods (world c) (PodNamespace cr, PodName cr) = Some (cur\<lparr>Annotations := (Annotations cur)(Ovn4nfvAnnotationTag \<mapsto> ?t)\<rparr>)"
    using assms(7,8,11) by simp
  with assms(2) have "appears H pause (PodNamespace cr) (PodName cr) 0 (world c) ((Annotations cur)(Ovn4nfvAnnotationTag \<mapsto> ?t))"
    by (fastforce simp: answers_pods_def tags_agree)
  from cmdAdd_goes_on [OF assms(3) _ _ this] assms(7-10) obtain w where
    "cmdAdd H B cr c = add_from_annotation H cr (c\<lparr>world := w, annotation := (Annotations cur)(Ovn4nfvAnnotationTag \<mapsto> ?t)\<rparr>)" by auto
  then show ?thesis using parse_annotation [OF assms(5)] by (fastforce simp: tags_agree)
qed

text \<open>
  An API server for the demonstration host, whose world is a list of rules: one rule per
  annotation set on the one pod there is.
\<close>

definition noted_pods :: "IPTablesRule list pod_store" where
  "noted_pods w k = (if k = (''default'', ''web'')
     then Some (api_pod\<lparr>Annotations := map_of (rev (map (\<lambda>r. (chain r, concat (rulespec r))) w))\<rparr>) else None)"

definition noted_patch :: "Pod \<Rightarrow> string \<Rightarrow> IPTablesRule list \<Rightarrow> goerr option \<times> IPTablesRule list" where
  "noted_patch pod b w =
     (case Unmarshal_value b of
        Some (JObj [(m, JObj [(a, JObj [(key, JStr t)])])]) \<Rightarrow> (None, w @ [\<lparr>table = ''annotation'', chain = key, rulespec = [t]\<rparr>])
      | _ \<Rightarrow> (Some (StatusError 422 ''unsupported patch''), w))"

lemma noted_merges: "merges_annotations noted_pods noted_patch"
  by (auto simp: merges_annotations_def noted_pods_def noted_patch_def)

definition noted_client :: "IPTablesRule list pclient" where
  "noted_client = \<lparr>p_Get = (\<lambda>req w. (Inl api_pod, w)), p_Patch = noted_patch\<rparr>"

abbreviation noted_host :: "IPTablesRule list cni_host" where
  "noted_host \<equiv> demo_cni_host\<lparr>h_GetPod := (\<lambda>ns name w. (case noted_pods w (ns, name) of Some pod \<Rightarrow> Inl pod | None \<Rightarrow> Inr (StatusError 404 ''not found''), w))\<rparr>"

lemma noted_answers: "answers_pods noted_pods (h_GetPod noted_host)"
  by (auto simp: answers_pods_def)

definition noted_state :: "IPTablesRule list \<Rightarrow> (Pod \<times> string) list \<Rightarrow> IPTablesRule list pod_state" where
  "noted_state w ps = \<lparr>world = w, execlog = [], runner = None, ovnConf = None, ovnCtl = None, chainRoutingInfo = [], notifServer = None,
     sent = [], patches = ps\<rparr>"

lemma demo_entry_plain: "list_all entry_plain [demo_entry]"
  by (simp add: demo_entry_def entry_plain_def plain_char_def dquote_def bslash_def)

abbreviation noted_rule :: IPTablesRule where
  "noted_rule \<equiv> \<lparr>table = ''annotation'', chain = Ovn4nfvAnnotationTag, rulespec = [arr_text (map entry_members [demo_entry])]\<rparr>"

lemma noted_set:
  "setPodAnnotation noted_client api_pod Ovn4nfvAnnotationTag (annotation_text [demo_entry]) (noted_state [] []) =
    (Returns None, noted_state [noted_rule] [(api_pod, annotation_patch Ovn4nfvAnnotationTag (annotation_text [demo_entry]))])"
  using annotation_patch_parses [OF plain_tag quotable_annotation [OF demo_entry_plain]]
  by (simp add: setPodAnnotation_def noted_client_def noted_patch_def noted_state_def annotation_text_escq [OF demo_entry_plain] ext_def bnd_def
      del: list.map)

theorem annotation_delivered_witness:
  "\<exists>w a t. cmdAdd noted_host demo_backoff demo_request (demo_cni_state\<lparr>world := [noted_rule]\<rparr>) =
      add_from_annotation noted_host demo_request (demo_cni_state\<lparr>world := w, annotation := a\<rparr>) \<and>
    a ovn4nfvAnnotationTag = Some t \<and> parseOvnNetworkObject t = Inl [entry_map demo_entry]"
  using annotation_delivered [of noted_pods noted_client noted_host demo_backoff "\<lambda>w. ((), w)" "noted_state [] []" api_pod
      "api_pod" "[demo_entry]" _ demo_request "demo_cni_state\<lparr>world := [noted_rule]\<rparr>", OF _ noted_answers _ _ demo_entry_plain noted_set]
    noted_merges
  by (simp add: noted_client_def retries_def noted_pods_def noted_state_def api_pod_def demo_request_def)

section \<open>From the operator's messages to the agent\<close>

text \<open>
  What a provider network means for a node, by its specification: the VLAN link and the bridge
  on it, or the bridge on the provider interface.
\<close>

definition bridge_on :: "('w, 'h) host_scheme \<Rightarrow> ProviderNetwork \<Rightarrow> string \<Rightarrow> (('w, 'z) ovn_state_scheme, unit) go" where
  "bridge_on H pn intf = bnd (CreatePnBridge H (''nw_'' @ Name (pn_meta pn)) (''br-'' @ Name (pn_meta pn)) intf) (\<lambda>_. ret ())"

definition vlan_link :: "ProviderNetwork \<Rightarrow> string" where
  "vlan_link pn = (let ln = LogicalInterfaceName (Vlan (pn_Spec pn)) in
     if ln = [] then Name (pn_meta pn) @ ''.'' @ VlanId (Vlan (pn_Spec pn)) else ln)"

definition set_up_vlan :: "('w, 'h) host_scheme \<Rightarrow> ProviderNetwork \<Rightarrow> (('w, 'z) ovn_state_scheme, unit) go" where
  "set_up_vlan H pn =
     bnd (CreateVlan H (VlanId (Vlan (pn_Spec pn))) (vlan_ProviderInterfaceName (Vlan (pn_Spec pn))) (vlan_link pn)) (\<lambda>err.
     if err \<noteq> None then ret () else bridge_on H pn (vlan_link pn))"

definition tear_down_vlan :: "('w, 'h) host_scheme \<Rightarrow> ProviderNetwork \<Rightarrow> (('w, 'z) ovn_state_scheme, unit) go" where
  "tear_down_vlan H pn =
     bnd (DeleteVlan H (vlan_link pn)) (\<lambda>_.
     bnd (DeletePnBridge H (''nw_'' @ Name (pn_meta pn)) (''br-'' @ Name (pn_meta pn))) (\<lambda>_. ret ()))"

lemma ret_err: "(if err \<noteq> None then ret err else ret None) = ret err"
  by simp

lemma bnd_if_distrib: "bnd (if b then m else n) f = (if b then bnd m f else bnd n f)"
  by simp

lemmas message_defs = handleNotif_def createVlanMsg_def createDirectMsg_def deleteVlanMsg_def getter_defs handle_create_def handle_remove_def
  createVlanProvidernetwork_def createDirectProvidernetwork_def deleteVlanProvidernetwork_def bnd_assoc ret_err bnd_if_distrib

lemma set_up_vlan_message: "inSync s \<Longrightarrow> handleNotif H (createVlanMsg pn) s = set_up_vlan H pn s"
  by (simp add: message_defs set_up_vlan_def bridge_on_def vlan_link_def Let_def del: append_Cons ret_apply not_None_eq cong: if_cong)

lemma set_up_direct_message:
  "inSync s \<Longrightarrow> handleNotif H (createDirectMsg pn) s = bridge_on H pn (direct_ProviderInterfaceName (Direct (pn_Spec pn))) s"
  by (simp add: message_defs bridge_on_def Let_def del: append_Cons ret_apply not_None_eq cong: if_cong)

lemma tear_down_vlan_message:
  "inSync s \<Longrightarrow> handleNotif H (deleteVlanMsg pn) s =
    (if LogicalInterfaceName (Vlan (pn_Spec pn)) = [] then ret () else tear_down_vlan H pn) s"
  by (simp add: message_defs tear_down_vlan_def vlan_link_def Let_def del: append_Cons ret_apply not_None_eq cong: if_cong)



section \<open>What an agent knows when it reconciles\<close>

lemma create_of_create_msg: "create_of (create_msg pn) \<noteq> None \<and> pc_GetProviderNwName (the (create_of (create_msg pn))) = Name (pn_meta pn) \<and>
    \<not> is_insync (create_msg pn)"
  by (simp add: create_of_def is_insync_def ovn4nfv_payload_def create_msg_def createVlanMsg_def createDirectMsg_def getter_defs)

lemma announced_store:
  assumes "agent_run A a0 (map create_msg pns) a" and "\<not> inSync a0" and "pnCreateStore a0 = []"
  shows "\<not> inSync a \<and> map pc_GetProviderNwName (pnCreateStore a) = map (\<lambda>pn. Name (pn_meta pn)) pns"
proof -
  have "\<not> list_ex is_insync (map create_msg pns)" using create_of_create_msg by (auto simp: list_ex_iff)
  moreover have "map pc_GetProviderNwName (List.map_filter create_of (map create_msg pns)) = map (\<lambda>pn. Name (pn_meta pn)) pns"
  proof (induction pns)
    case (Cons pn pns)
    then show ?case using create_of_create_msg [of pn] by (auto simp: map_filter_simps)
  qed (simp add: map_filter_simps)
  ultimately show ?thesis using agent_run_view [OF assms] by (simp add: store_view_def)
qed

text \<open>
  C6. The agent knows its networks when it reconciles. A node subscribes under the conditions of
  the subscription theorem and its agent, started out of sync with an empty store, handles what
  the operator has sent to its stream before the in-sync message, which is the last. Then the
  agent is still out of sync, and its store has exactly the networks meant for the node, by name
  and in the order of the API server's list.
\<close>

theorem agent_learns_networks:
  assumes "GetNodeName sc = n" and "n \<noteq> []" and "node_AddNodeLogicalPorts H n s = (Returns (ip, mac, None), t)"
    and "notifServer s = Some srv" and "distinct (map fst (clientList srv))"
    and "h_PnList H ''default'' (world t) = ((items, None), w)" and "list_all placed items" and "lists_nodes H nodes"
    and "\<not> inSync a0" and "pnCreateStore a0 = []"
  shows "\<exists>u ms. Subscribe H sc (Some str) s = (Blocks, u) \<and> sent u = sent s @ map (Pair str) (ms @ [inSyncMsg ip mac]) \<and>
    (\<forall>a. agent_run A a0 ms a \<longrightarrow> \<not> inSync a \<and>
      map pc_GetProviderNwName (pnCreateStore a) = map (\<lambda>pn. Name (pn_meta pn)) (filter (meant_for nodes n) items))"
proof -
  let ?ms = "map create_msg (filter (meant_for nodes n) items)"
  from Subscribe_sends [OF assms(1-8), of str] obtain u where "Subscribe H sc (Some str) s = (Blocks, u)"
    "sent u = sent s @ map (Pair str) (?ms @ [inSyncMsg ip mac])" by (auto simp: comp_def)
  with announced_store [OF _ assms(9,10)] show ?thesis by blast
qed

theorem agent_learns_networks_witness:
  "\<exists>u a. Subscribe echo_host (Some \<lparr>sc_NodeName = ''node1''\<rparr>) (Some 7) ready_op_state = (Blocks, u) \<and>
    sent u = [(7, createVlanMsg lan_pn), (7, inSyncMsg ''b/c/c'' ''a'')] \<and>
    agent_run demo_agent_host demo_agent_state [createVlanMsg lan_pn] a \<and> \<not> inSync a \<and> map pc_GetProviderNwName (pnCreateStore a) = [''lan'']"
proof -
  obtain t where t: "node_AddNodeLogicalPorts echo_host ''node1'' ready_op_state = (Returns (''b/c/c'', ''a'', None), t)"
    using echo_ports [OF ready_op_state_simps(1,2)] by blast
  note subscribe = echo_host_simps(4) _ t ready_op_state_simps(3) echo_host_simps(3,1) echo_networks(1) echo_host_simps(2)
  have init: "\<not> inSync demo_agent_state" "pnCreateStore demo_agent_state = []"
    by (simp_all add: demo_agent_state_def ovn_state.defs gstate.defs agent_state.defs)
  have msg: "create_msg lan_pn = createVlanMsg lan_pn" "Name (pn_meta lan_pn) = ''lan''" by (simp_all add: create_msg_def lan_pn_def)
  from agent_learns_networks [OF subscribe init, of 7 demo_agent_host] obtain u ms where
    u: "Subscribe echo_host (Some \<lparr>sc_NodeName = ''node1''\<rparr>) (Some 7) ready_op_state = (Blocks, u)"
      "sent u = map (Pair 7) (ms @ [inSyncMsg ''b/c/c'' ''a''])"
    and a: "\<And>a. agent_run demo_agent_host demo_agent_state ms a \<Longrightarrow> \<not> inSync a \<and> map pc_GetProviderNwName (pnCreateStore a) = [''lan'']"
    unfolding echo_networks(2) by (auto simp: msg)
  from Subscribe_sends [OF subscribe, of 7] u have ms: "ms = [createVlanMsg lan_pn]" unfolding echo_networks(2) by (auto simp: msg map_eq_append_conv)
  have "\<exists>a. handleNotif demo_agent_host (createVlanMsg lan_pn) demo_agent_state = (Returns (), a)"
    unfolding handleNotif_def createVlanMsg_def by (simp add: getter_defs handle_create_stores init)
  then obtain a where "agent_run demo_agent_host demo_agent_state ([] @ [createVlanMsg lan_pn]) a" using agent_run.intros by blast
  with u a ms show ?thesis by auto
qed

section \<open>From a computed route to the commands in the container\<close>

lemma silent_GetPidForContainer: "emits (\<lambda>_. False) (GetPidForContainer H cid)"
  unfolding GetPidForContainer_def by (intro emits_intros)

lemma route_message:
  assumes "GetPidForContainer H (ri_Id r) s = (Returns (pid, None), t)"
    and "ContainerAddRoute H pid (map route_data (LeftNetworkRoute r # RightNetworkRoute r # DynamicNetworkRoutes r)) t = (Returns err, s')"
  shows "handleNotif H (route_msg r) s = (Returns (), s')"
  using assms by (simp add: handleNotif_def route_msg_def getter_defs handle_route_def)


definition hop_info :: RoutingInfo where
  "hop_info = zero_RoutingInfo\<lparr>ri_Id := ''c1'', ri_Node := ''node1'', LeftNetworkRoute := \<lparr>Dst = ''172.30.10.0/24'', GW = ''172.30.11.2''\<rparr>,
     RightNetworkRoute := \<lparr>Dst = ''0.0.0.0'', GW = ''172.30.12.2''\<rparr>\<rparr>"

lemma demo_agent_host_simps [simp]:
  "h_GetNS demo_agent_host p w = ((0, None), w)" "h_NsEnter demo_agent_host n w = (None, w)" "h_NsLeave demo_agent_host n w = ((), w)"
  "h_NsClose demo_agent_host n w = ((), w)" "h_NewEnvClient demo_agent_host w = (None, w)" "h_ContainerInspect demo_agent_host cid w = (Inl 42, w)"
  "h_RouteList demo_agent_host w = (([demo_route], None), w)" "h_InterfaceByIndex demo_agent_host i w = ((Some i, None), w)"
  "h_AddrList demo_agent_host i w = (([demo_addr], None), w)" "h_exec demo_agent_host c w = (([], [], None), w)"
  by (simp_all add: demo_agent_host_def demo_net_host_def ipt_host_def canned_host_def host.defs net_host.defs agent_host.defs)

lemma demo_gateways:
  "GetHostNetwork demo_agent_host s = (Returns (dotted (map2 (AND) [10, 0, 2, 15] (CIDRMask 24 4)) @ ''/'' @ Itoa 24, None), s\<lparr>world := world s\<rparr>)"
  "GetDefaultGateway demo_agent_host s = (Returns (dotted [10, 0, 2, 2], None), s\<lparr>world := world s\<rparr>)"
proof -
  show "GetHostNetwork demo_agent_host s = (Returns (dotted (map2 (AND) [10, 0, 2, 15] (CIDRMask 24 4)) @ ''/'' @ Itoa 24, None), s\<lparr>world := world s\<rparr>)"
    by (rule GetHostNetwork_run [OF _ _ _ _ _ pick_demo_addr, where routes = "[demo_route]" and r = demo_route
          and i = 2 and ?w1.0 = "world s" and ?w2.0 = "world s"]) (simp_all, simp_all add: demo_route_def is_default_route_def)
  show "GetDefaultGateway demo_agent_host s = (Returns (dotted [10, 0, 2, 2], None), s\<lparr>world := world s\<rparr>)"
    by (simp add: GetDefaultGateway_def ext_eval demo_route_def is_default_route_def To4_length IP_String_4)
qed

lemma demo_install:
  assumes "runner s \<noteq> None"
  shows "\<exists>s'. ContainerAddRoute demo_agent_host 42 (map route_data [LeftNetworkRoute hop_info, RightNetworkRoute hop_info]) s = (Returns None, s')"
proof -
  from assms obtain R where R: "runner s = Some R" by blast
  show ?thesis
    by (simp add: ContainerAddRoute_def add_routes_in_ns_def NetNS_Do_def add_route_step_def demo_gateways bnd_def ext_eval R
        RunIP_eval [where out = "[]" and se = "[]" and err = None] route_data_def)
qed


end
